(* ===== verification/Prelude.thy ===== *)
theory Prelude
  imports Complex_Main "HOL-Library.Monad_Syntax"
begin

text \<open>
  The vocabulary every other theory shares: characters and the C locale's
  classification functions, the trimming and quote-aware splitting that both the
  client (\<open>module/src/scpi_client.cpp\<close>) and the simulator
  (\<open>module/simulator/src/simulator_support.cpp\<close>) perform on strings, decimal printing
  (\<open>std::to_string\<close>) and the wrap-around of C++ integers.

  A \<open>std::string\<close> is a \<open>string\<close> (a list of 8-bit characters), a \<open>std::vector\<close> a list,
  a \<open>std::optional\<close> an \<open>option\<close>. Numbers of C++ type \<open>int\<close> are of type \<open>int\<close>; the places
  where the code can leave the 32-bit range are written with \<open>wrap32\<close> (a conversion that
  wraps) or as an undefined result (an overflow of signed arithmetic).
\<close>

named_theorems exec_simps "unfoldings used to run small pieces of the model"

lemma Let_unfold [exec_simps]: "Let a f = f a"
  by (simp add: Let_def)

section \<open>Characters\<close>

definition is_space :: "char \<Rightarrow> bool" where
  "is_space c \<longleftrightarrow> c = CHR '' '' \<or> c = CHR 0x09 \<or> c = CHR 0x0A \<or> c = CHR 0x0B \<or> c = CHR 0x0C \<or> c = CHR 0x0D"

definition is_digit :: "char \<Rightarrow> bool" where
  "is_digit c \<longleftrightarrow> 48 \<le> (of_char c :: int) \<and> (of_char c :: int) \<le> 57"

definition is_upper :: "char \<Rightarrow> bool" where
  "is_upper c \<longleftrightarrow> 65 \<le> (of_char c :: int) \<and> (of_char c :: int) \<le> 90"

definition is_lower :: "char \<Rightarrow> bool" where
  "is_lower c \<longleftrightarrow> 97 \<le> (of_char c :: int) \<and> (of_char c :: int) \<le> 122"

definition to_upper :: "char \<Rightarrow> char" where
  "to_upper c = (if is_lower c then char_of ((of_char c :: int) - 32) else c)"

text \<open>The same functions bit by bit, for evaluation inside the kernel.\<close>

lemma is_digit_code [code]:
  "is_digit (Char b0 b1 b2 b3 b4 b5 b6 b7) \<longleftrightarrow>
     \<not> b7 \<and> \<not> b6 \<and> b5 \<and> b4 \<and> \<not> (b3 \<and> (b2 \<or> b1))"
  by (cases b0; cases b1; cases b2; cases b3; cases b4; cases b5; cases b6; cases b7)
     (simp_all add: is_digit_def)

lemma is_upper_code [code]:
  "is_upper (Char b0 b1 b2 b3 b4 b5 b6 b7) \<longleftrightarrow>
     \<not> b7 \<and> b6 \<and> \<not> b5 \<and> (b0 \<or> b1 \<or> b2 \<or> b3 \<or> b4) \<and> \<not> (b4 \<and> b3 \<and> (b2 \<or> (b1 \<and> b0)))"
  by (cases b0; cases b1; cases b2; cases b3; cases b4; cases b5; cases b6; cases b7)
     (simp_all add: is_upper_def)

lemma is_lower_code [code]:
  "is_lower (Char b0 b1 b2 b3 b4 b5 b6 b7) \<longleftrightarrow>
     \<not> b7 \<and> b6 \<and> b5 \<and> (b0 \<or> b1 \<or> b2 \<or> b3 \<or> b4) \<and> \<not> (b4 \<and> b3 \<and> (b2 \<or> (b1 \<and> b0)))"
  by (cases b0; cases b1; cases b2; cases b3; cases b4; cases b5; cases b6; cases b7)
     (simp_all add: is_lower_def)

lemma to_upper_code [code]:
  "to_upper (Char b0 b1 b2 b3 b4 b5 b6 b7) =
     (if is_lower (Char b0 b1 b2 b3 b4 b5 b6 b7) then Char b0 b1 b2 b3 b4 False b6 b7
      else Char b0 b1 b2 b3 b4 b5 b6 b7)"
  by (cases b0; cases b1; cases b2; cases b3; cases b4; cases b5; cases b6; cases b7)
     (simp_all add: to_upper_def is_lower_def char_of_def bit_numeral_rec(1) bit_numeral_rec(2))


lemmas char_class_codes = is_digit_code is_upper_code is_lower_code to_upper_code is_space_def

lemma to_upper_idem [simp]: "to_upper (to_upper c) = to_upper c"
  by (cases c) (auto simp: char_class_codes)

lemma is_space_to_upper [simp]: "is_space (to_upper c) = is_space c"
  by (cases c) (auto simp: char_class_codes)

lemma is_digit_to_upper [simp]: "is_digit (to_upper c) = is_digit c"
  by (cases c) (auto simp: char_class_codes)

lemma to_upper_digit [simp]: "is_digit c \<Longrightarrow> to_upper c = c"
  by (cases c) (auto simp: char_class_codes)

lemma to_upper_upper [simp]: "is_upper c \<Longrightarrow> to_upper c = c"
  by (cases c) (auto simp: char_class_codes)

lemma to_upper_lower: "is_lower c \<Longrightarrow> is_upper (to_upper c)"
  by (cases c) (auto simp: char_class_codes is_lower_code)

lemma to_upper_eq_other: "\<not> is_upper x \<Longrightarrow> \<not> is_lower x \<Longrightarrow> to_upper c = x \<longleftrightarrow> c = x"
  using to_upper_lower[of c] by (auto simp: to_upper_def)

lemma to_upper_eq_punct [simp]:
  "to_upper c = CHR 0x22 \<longleftrightarrow> c = CHR 0x22" "to_upper c = CHR 0x27 \<longleftrightarrow> c = CHR 0x27"
  "to_upper c = CHR '','' \<longleftrightarrow> c = CHR '',''" "to_upper c = CHR '';'' \<longleftrightarrow> c = CHR '';''"
  "to_upper c = CHR '':'' \<longleftrightarrow> c = CHR '':''"
  by (rule to_upper_eq_other; simp add: is_upper_code is_lower_code)+

lemma digit_not_space [simp]: "is_digit c \<Longrightarrow> \<not> is_space c"
  by (cases c) (auto simp: char_class_codes)

section \<open>Trimming, quotes and quote-aware splitting\<close>

abbreviation dquote :: char where "dquote \<equiv> CHR 0x22"
abbreviation squote :: char where "squote \<equiv> CHR 0x27"

definition is_quote :: "char \<Rightarrow> bool" where
  "is_quote c \<longleftrightarrow> c = dquote \<or> c = squote"

definition trim :: "string \<Rightarrow> string" where
  "trim s = rev (dropWhile is_space (rev (dropWhile is_space s)))"

definition upper :: "string \<Rightarrow> string" where
  "upper s = map to_upper s"

fun split_scan :: "char \<Rightarrow> string \<Rightarrow> string \<Rightarrow> char option \<Rightarrow> string list" where
  "split_scan sep [] current quote = [current]"
| "split_scan sep (c # cs) current (Some q) =
     split_scan sep cs (current @ [c]) (if c = q then None else Some q)"
| "split_scan sep (c # cs) current None =
     (if is_quote c then split_scan sep cs (current @ [c]) (Some c)
      else if c = sep then current # split_scan sep cs [] None
      else split_scan sep cs (current @ [c]) None)"

definition split_unquoted :: "string \<Rightarrow> char \<Rightarrow> string list" where
  "split_unquoted text sep = split_scan sep text [] None"

definition unquote :: "string \<Rightarrow> string" where
  "unquote s0 = (let s = trim s0 in
     if 2 \<le> length s \<and> is_quote (hd s) \<and> last s = hd s then butlast (tl s) else s)"

definition quote :: "string \<Rightarrow> string" where
  "quote s = [dquote] @ s @ [dquote]"

fun join_with :: "string \<Rightarrow> string list \<Rightarrow> string" where
  "join_with sep [] = []"
| "join_with sep [x] = x"
| "join_with sep (x # y # xs) = x @ sep @ join_with sep (y # xs)"

lemma split_scan_not_Nil [simp]: "split_scan sep s cur q \<noteq> []"
  by (induction sep s cur q rule: split_scan.induct) auto

lemma split_unquoted_not_Nil [simp]: "split_unquoted s sep \<noteq> []"
  by (simp add: split_unquoted_def)

lemma length_upper [simp]: "length (upper s) = length s"
  by (simp add: upper_def)

lemma upper_Nil [simp]: "upper [] = []" "upper s = [] \<longleftrightarrow> s = []"
  by (simp_all add: upper_def)

lemma upper_idem [simp]: "upper (upper s) = upper s"
  by (simp add: upper_def)

lemma upper_append [simp]: "upper (s @ t) = upper s @ upper t"
  by (simp add: upper_def)

lemma dropWhile_upper: "dropWhile is_space (upper s) = upper (dropWhile is_space s)"
  by (induction s) (auto simp: upper_def)

lemma rev_upper: "rev (upper s) = upper (rev s)"
  by (simp add: upper_def rev_map)

lemma trim_upper: "trim (upper s) = upper (trim s)"
  by (simp add: trim_def dropWhile_upper rev_upper)

text \<open>A string that neither begins nor ends with white space is its own trimming.\<close>

definition trimmed :: "string \<Rightarrow> bool" where
  "trimmed s \<longleftrightarrow> s = [] \<or> (\<not> is_space (hd s) \<and> \<not> is_space (last s))"

lemma dropWhile_hd: "s = [] \<or> \<not> P (hd s) \<Longrightarrow> dropWhile P s = s"
  by (cases s) auto

lemma trim_trimmed [simp]: "trimmed s \<Longrightarrow> trim s = s"
proof -
  assume t: "trimmed s"
  then have "dropWhile is_space s = s" by (auto simp: trimmed_def intro: dropWhile_hd)
  moreover have "dropWhile is_space (rev s) = rev s"
    using t by (intro dropWhile_hd) (auto simp: trimmed_def hd_rev)
  ultimately show ?thesis by (simp add: trim_def)
qed

lemma trimmed_trim [simp]: "trimmed (trim s)"
proof -
  have hd: "t = [] \<or> \<not> is_space (hd t)" if "t = dropWhile is_space r" for t r :: string
    using that hd_dropWhile[of is_space r] by auto
  define r where "r = dropWhile is_space s"
  define t where "t = dropWhile is_space (rev r)"
  have t: "trim s = rev t" by (simp add: trim_def r_def t_def)
  have "t = [] \<or> \<not> is_space (hd t)" using hd t_def by blast
  moreover have "t = [] \<or> \<not> is_space (last t)"
  proof (cases "t = []")
    case False
    obtain u where u: "rev r = u @ t"
      using takeWhile_dropWhile_id[of is_space "rev r"] t_def by metis
    then have "last (rev r) = last t" using False by simp
    moreover have "r \<noteq> []" using u False by auto
    ultimately have "hd r = last t" by (simp add: last_rev)
    then show ?thesis using hd[OF r_def] \<open>r \<noteq> []\<close> by simp
  qed simp
  ultimately show ?thesis
    unfolding t trimmed_def by (auto simp: hd_rev last_rev)
qed

lemma trim_idem [simp]: "trim (trim s) = trim s"
  by simp

lemma trimmed_quote [simp]: "trimmed (quote s)"
  by (simp add: trimmed_def quote_def is_space_def)

lemma unquote_quote [simp]: "unquote (quote s) = s"
  by (simp add: unquote_def Let_def) (simp add: quote_def is_quote_def)

lemma unquote_plain: "trimmed s \<Longrightarrow> s = [] \<or> \<not> is_quote (hd s) \<Longrightarrow> unquote s = s"
  by (auto simp: unquote_def)

text \<open>
  Scanning text without quotes and separators only extends the current field; a quoted
  part is copied as it is, whatever it contains.
\<close>

definition plain :: "char \<Rightarrow> string \<Rightarrow> bool" where
  "plain sep s \<longleftrightarrow> (\<forall>c \<in> set s. \<not> is_quote c \<and> c \<noteq> sep)"

lemma split_scan_plain:
  "plain sep s \<Longrightarrow> split_scan sep (s @ t) cur None = split_scan sep t (cur @ s) None"
  by (induction s arbitrary: cur) (auto simp: plain_def)

lemma split_scan_inside:
  "q \<notin> set s \<Longrightarrow> split_scan sep (s @ q # t) cur (Some q) = split_scan sep t (cur @ s @ [q]) None"
  by (induction s arbitrary: cur) auto

lemma split_scan_quote:
  assumes "dquote \<notin> set s" "sep \<noteq> dquote"
  shows "split_scan sep (quote s @ t) cur None = split_scan sep t (cur @ quote s) None"
  using split_scan_inside[OF assms(1), of sep t "cur @ [dquote]"]
  by (simp add: quote_def is_quote_def)

lemma split_unquoted_plain [simp]: "plain sep s \<Longrightarrow> split_unquoted s sep = [s]"
  using split_scan_plain[of sep s "[]" "[]"] by (simp add: split_unquoted_def)

text \<open>
  A field the scanner copies unchanged from a state outside quotes back to such a state.
  Joining such fields with the separator is undone by the split.
\<close>

definition field_ok :: "char \<Rightarrow> string \<Rightarrow> bool" where
  "field_ok sep s \<longleftrightarrow> (\<forall>cur t. split_scan sep (s @ t) cur None = split_scan sep t (cur @ s) None)"

lemma field_ok_plain [intro]: "plain sep s \<Longrightarrow> field_ok sep s"
  by (simp add: field_ok_def split_scan_plain)

lemma field_ok_quote [intro]: "dquote \<notin> set s \<Longrightarrow> sep \<noteq> dquote \<Longrightarrow> field_ok sep (quote s)"
  by (simp add: field_ok_def split_scan_quote)

lemma field_ok_append: "field_ok sep s \<Longrightarrow> field_ok sep t \<Longrightarrow> field_ok sep (s @ t)"
  by (simp add: field_ok_def)

lemma split_join_fields:
  assumes "\<forall>x \<in> set xs. field_ok sep x" "xs \<noteq> []" "\<not> is_quote sep"
  shows "split_scan sep (join_with [sep] xs) cur None = (cur @ hd xs) # tl xs"
  using assms
proof (induction "[sep]" xs arbitrary: cur rule: join_with.induct)
  case (2 x)
  then have "split_scan sep (x @ []) cur None = split_scan sep [] (cur @ x) None"
    unfolding field_ok_def by (metis list.set_intros(1))
  then show ?case by simp
next
  case (3 x y xs)
  from 3 have "split_scan sep (x @ sep # join_with [sep] (y # xs)) cur None
      = split_scan sep (sep # join_with [sep] (y # xs)) (cur @ x) None"
    unfolding field_ok_def by (metis list.set_intros(1))
  also have "\<dots> = (cur @ x) # split_scan sep (join_with [sep] (y # xs)) [] None"
    using 3 by simp
  also have "split_scan sep (join_with [sep] (y # xs)) [] None = y # xs"
    using 3 by simp
  finally show ?case by simp
qed simp

lemma split_unquoted_join:
  "\<forall>x \<in> set xs. field_ok sep x \<Longrightarrow> xs \<noteq> [] \<Longrightarrow> \<not> is_quote sep \<Longrightarrow>
   split_unquoted (join_with [sep] xs) sep = xs"
  by (simp add: split_unquoted_def split_join_fields)

section \<open>Decimal numbers\<close>

definition digit_char :: "int \<Rightarrow> char" where
  "digit_char d = ''0123456789'' ! nat d"

definition digit_value :: "char \<Rightarrow> int" where
  "digit_value c = of_char c - 48"

function dec_digits :: "int \<Rightarrow> string" where
  "dec_digits n = (if n < 10 then [digit_char (max n 0)] else dec_digits (n div 10) @ [digit_char (n mod 10)])"
  by pat_completeness auto
termination by (relation "measure nat") auto

declare dec_digits.simps [simp del]

text \<open>\<open>std::to_string\<close> of an integer.\<close>

definition to_string :: "int \<Rightarrow> string" where
  "to_string n = (if n < 0 then ''-'' @ dec_digits (- n) else dec_digits n)"

text \<open>The value of a string of digits.\<close>

definition digits_value :: "string \<Rightarrow> int" where
  "digits_value ds = foldl (\<lambda>acc c. 10 * acc + digit_value c) 0 ds"

lemma digit_char_cases:
  "0 \<le> d \<Longrightarrow> d < 10 \<Longrightarrow> is_digit (digit_char d) \<and> digit_value (digit_char d) = d"
proof -
  assume "0 \<le> d" "d < 10"
  then have "d = 0 \<or> d = 1 \<or> d = 2 \<or> d = 3 \<or> d = 4 \<or> d = 5 \<or> d = 6 \<or> d = 7 \<or> d = 8 \<or> d = 9"
    by presburger
  then show ?thesis by (auto simp: digit_char_def is_digit_def digit_value_def)
qed

lemma digit_value_range: "is_digit c \<Longrightarrow> 0 \<le> digit_value c \<and> digit_value c < 10"
  by (simp add: is_digit_def digit_value_def)

lemma digits_value_snoc [simp]: "digits_value (ds @ [c]) = 10 * digits_value ds + digit_value c"
  by (simp add: digits_value_def)

lemma digits_value_Nil [simp]: "digits_value [] = 0"
  by (simp add: digits_value_def)

lemma dec_digits_not_Nil [simp]: "dec_digits n \<noteq> []"
  by (subst dec_digits.simps) simp

lemma dec_digits_digits: "c \<in> set (dec_digits n) \<Longrightarrow> is_digit c"
proof (induction n rule: dec_digits.induct)
  case (1 n)
  show ?case
  proof (cases "n < 10")
    case True
    with 1(2) show ?thesis
      using digit_char_cases[of "max n 0"] by (auto simp: dec_digits.simps[of n])
  next
    case False
    with 1 show ?thesis
      using digit_char_cases[of "n mod 10"] by (auto simp: dec_digits.simps[of n])
  qed
qed

lemma digits_value_dec_digits [simp]: "0 \<le> n \<Longrightarrow> digits_value (dec_digits n) = n"
proof (induction n rule: dec_digits.induct)
  case (1 n)
  show ?case
  proof (cases "n < 10")
    case True
    with 1(2) show ?thesis
      using digit_char_cases[of n] by (simp add: dec_digits.simps[of n] digits_value_def)
  next
    case False
    with 1 show ?thesis
      using digit_char_cases[of "n mod 10"] by (simp add: dec_digits.simps[of n])
  qed
qed

lemma digits_value_nonneg: "\<forall>c \<in> set ds. is_digit c \<Longrightarrow> 0 \<le> digits_value ds"
proof (induction ds rule: rev_induct)
  case (snoc c ds)
  then show ?case using digit_value_range[of c] by simp
qed simp

text \<open>Conversion to a 32-bit \<open>int\<close>, which wraps.\<close>

definition int_min :: int where "int_min = - (2 ^ 31)"
definition int_max :: int where "int_max = 2 ^ 31 - 1"
definition long_min :: int where "long_min = - (2 ^ 63)"
definition long_max :: int where "long_max = 2 ^ 63 - 1"

lemmas cxx_limits = int_min_def int_max_def long_min_def long_max_def

definition wrap32 :: "int \<Rightarrow> int" where
  "wrap32 n = (n + 2 ^ 31) mod 2 ^ 32 - 2 ^ 31"

lemma wrap32_id [simp]: "int_min \<le> n \<Longrightarrow> n \<le> int_max \<Longrightarrow> wrap32 n = n"
  by (simp add: wrap32_def cxx_limits)

lemma wrap32_range: "int_min \<le> wrap32 n \<and> wrap32 n \<le> int_max"
  by (simp add: wrap32_def cxx_limits)

end
