(* ===== verification/Binary64.thy ===== *)
theory Binary64
  imports Prelude "HOL-Library.Log_Nat"
begin

text \<open>
  The C++ type \<open>double\<close> as the code uses it: IEEE 754 binary64 with round to nearest,
  ties to even. A finite value carries its sign, significand and exponent
  (\<open>Fin s m e\<close> is \<open>(-1)^s * m * 2^e\<close>), so negative zero is a value of its own; the sign
  and payload of a NaN are not distinguished. Every operation computes the exact result
  as a fraction of integers and rounds once (\<open>make_double\<close>), as the standard defines.

  Conversions to integers are those of the code's target, a 64-bit Linux: \<open>std::lround\<close>
  yields a 64-bit \<open>long\<close>, and gives \<open>LONG_MIN\<close> where the standard leaves the value
  unspecified; a cast to an integer type outside its range is undefined (\<open>None\<close>).
  The trigonometric functions of \<open><cmath>\<close> are not correctly rounded and stay parameters
  (the record \<open>libm\<close>).
\<close>

section \<open>Representation and rounding\<close>

datatype double = NaN | Inf bool | Fin bool int int

definition ipow :: "int \<Rightarrow> int \<Rightarrow> int" where
  "ipow b k = b ^ nat k"

lemma ipow_code [code]: "ipow b k = (if k \<le> 0 then 1 else b * ipow b (k - 1))"
  by (simp add: ipow_def nat_diff_distrib' power_eq_if)

lemma ipow_nonpos [simp]: "k \<le> 0 \<Longrightarrow> ipow b k = 1"
  by (simp add: ipow_def)

lemma ipow_pos [simp]: "0 < b \<Longrightarrow> 0 < ipow b k"
  by (simp add: ipow_def)

lemma ipow_add: "0 \<le> i \<Longrightarrow> 0 \<le> j \<Longrightarrow> ipow b (i + j) = ipow b i * ipow b j"
  by (simp add: ipow_def nat_add_distrib power_add)

fun numer :: "double \<Rightarrow> int" where
  "numer (Fin s m e) = (if s then - m else m) * ipow 2 e"
| "numer _ = 0"

fun denom :: "double \<Rightarrow> int" where
  "denom (Fin s m e) = ipow 2 (- e)"
| "denom _ = 1"

fun is_nan :: "double \<Rightarrow> bool" where
  "is_nan NaN = True"
| "is_nan _ = False"

fun is_finite :: "double \<Rightarrow> bool" where
  "is_finite (Fin s m e) = True"
| "is_finite _ = False"

fun sign_bit :: "double \<Rightarrow> bool" where
  "sign_bit (Fin s m e) = s"
| "sign_bit (Inf s) = s"
| "sign_bit NaN = False"

lemma denom_pos [simp]: "0 < denom x"
  by (cases x) auto

definition round_half_even :: "int \<Rightarrow> int \<Rightarrow> int" where
  "round_half_even p q = (let d = p div q; r = p mod q in
     if 2 * r < q \<or> (2 * r = q \<and> d mod 2 = 0) then d else d + 1)"

text \<open>The greatest \<open>k\<close> with \<open>2^k \<le> p / q\<close>, for positive \<open>p\<close> and \<open>q\<close>.\<close>

definition ilog2 :: "int \<Rightarrow> int \<Rightarrow> int" where
  "ilog2 p q = (let k = bitlen p - bitlen q in
     if q * ipow 2 k \<le> p * ipow 2 (- k) then k else k - 1)"

definition make_double :: "bool \<Rightarrow> int \<Rightarrow> int \<Rightarrow> double" where
  "make_double s p q =
     (if p = 0 then Fin s 0 0 else
      let e = max (ilog2 p q - 52) (- 1074);
          m = round_half_even (p * ipow 2 (- e)) (q * ipow 2 e);
          m' = (if m = 9007199254740992 then 4503599627370496 else m);
          e' = (if m = 9007199254740992 then e + 1 else e)
      in if m' = 0 then Fin s 0 0 else if 971 < e' then Inf s else Fin s m' e')"

text \<open>A literal of the source: the double nearest to the fraction \<open>p / q\<close>.\<close>

definition lit :: "int \<Rightarrow> int \<Rightarrow> double" where
  "lit p q = make_double (p < 0) \<bar>p\<bar> q"

definition double_of_int :: "int \<Rightarrow> double" where
  "double_of_int n = lit n 1"

section \<open>Arithmetic\<close>

fun dneg :: "double \<Rightarrow> double" where
  "dneg NaN = NaN"
| "dneg (Inf s) = Inf (\<not> s)"
| "dneg (Fin s m e) = Fin (\<not> s) m e"

fun dabs :: "double \<Rightarrow> double" where
  "dabs NaN = NaN"
| "dabs (Inf s) = Inf False"
| "dabs (Fin s m e) = Fin False m e"

fun dadd :: "double \<Rightarrow> double \<Rightarrow> double" where
  "dadd NaN y = NaN"
| "dadd x NaN = NaN"
| "dadd (Inf s) (Inf t) = (if s = t then Inf s else NaN)"
| "dadd (Inf s) y = Inf s"
| "dadd x (Inf t) = Inf t"
| "dadd x y =
     (let p = numer x * denom y + numer y * denom x; q = denom x * denom y in
      if p = 0 then Fin (sign_bit x \<and> sign_bit y) 0 0 else make_double (p < 0) \<bar>p\<bar> q)"

definition dsub :: "double \<Rightarrow> double \<Rightarrow> double" where
  "dsub x y = dadd x (dneg y)"

fun dmul :: "double \<Rightarrow> double \<Rightarrow> double" where
  "dmul NaN y = NaN"
| "dmul x NaN = NaN"
| "dmul (Inf s) y = (case y of Fin t m e \<Rightarrow> if m = 0 then NaN else Inf (s \<noteq> t)
      | _ \<Rightarrow> Inf (s \<noteq> sign_bit y))"
| "dmul x (Inf t) = (case x of Fin s m e \<Rightarrow> if m = 0 then NaN else Inf (s \<noteq> t)
      | _ \<Rightarrow> Inf (sign_bit x \<noteq> t))"
| "dmul x y = make_double (sign_bit x \<noteq> sign_bit y) \<bar>numer x * numer y\<bar> (denom x * denom y)"

fun ddiv :: "double \<Rightarrow> double \<Rightarrow> double" where
  "ddiv NaN y = NaN"
| "ddiv x NaN = NaN"
| "ddiv (Inf s) (Inf t) = NaN"
| "ddiv (Inf s) y = Inf (s \<noteq> sign_bit y)"
| "ddiv x (Inf t) = Fin (sign_bit x \<noteq> t) 0 0"
| "ddiv x y =
     (if numer y = 0 then (if numer x = 0 then NaN else Inf (sign_bit x \<noteq> sign_bit y))
      else make_double (sign_bit x \<noteq> sign_bit y) (\<bar>numer x\<bar> * denom y) (denom x * \<bar>numer y\<bar>))"

fun dlt :: "double \<Rightarrow> double \<Rightarrow> bool" where
  "dlt NaN y = False"
| "dlt x NaN = False"
| "dlt (Inf s) (Inf t) = (s \<and> \<not> t)"
| "dlt (Inf s) y = s"
| "dlt x (Inf t) = (\<not> t)"
| "dlt x y = (numer x * denom y < numer y * denom x)"

fun deq :: "double \<Rightarrow> double \<Rightarrow> bool" where
  "deq NaN y = False"
| "deq x NaN = False"
| "deq (Inf s) (Inf t) = (s = t)"
| "deq (Inf s) y = False"
| "deq x (Inf t) = False"
| "deq x y = (numer x * denom y = numer y * denom x)"

definition dle :: "double \<Rightarrow> double \<Rightarrow> bool" where
  "dle x y \<longleftrightarrow> dlt x y \<or> deq x y"

text \<open>\<open>std::max\<close>, \<open>std::min\<close> and \<open>std::clamp\<close>, which are defined by a single comparison.\<close>

definition dmax :: "double \<Rightarrow> double \<Rightarrow> double" where
  "dmax a b = (if dlt a b then b else a)"

definition dmin :: "double \<Rightarrow> double \<Rightarrow> double" where
  "dmin a b = (if dlt b a then b else a)"

definition dclamp :: "double \<Rightarrow> double \<Rightarrow> double \<Rightarrow> double" where
  "dclamp v lo hi = (if dlt v lo then lo else if dlt hi v then hi else v)"

definition dzero :: double where
  "dzero = Fin False 0 0"

fun dceil :: "double \<Rightarrow> double" where
  "dceil (Fin s m e) = (let x = Fin s m e in
     make_double s \<bar>- ((- numer x) div denom x)\<bar> 1)"
| "dceil x = x"

text \<open>
  The square root is correctly rounded: the integer root is taken with at least two bits
  more than a significand has, and a non-zero remainder is kept as a sticky bit.
\<close>

function isqrt_bits :: "int \<Rightarrow> int \<Rightarrow> int \<Rightarrow> int" where
  "isqrt_bits n r b =
     (if b \<le> 0 then r
      else isqrt_bits n (if (r + b) * (r + b) \<le> n then r + b else r) (b div 2))"
  by pat_completeness auto
termination by (relation "measure (\<lambda>(n, r, b). nat b)") auto

declare isqrt_bits.simps [simp del]

definition isqrt :: "int \<Rightarrow> int" where
  "isqrt n = isqrt_bits n 0 (ipow 2 ((bitlen n + 1) div 2))"

fun dsqrt :: "double \<Rightarrow> double" where
  "dsqrt NaN = NaN"
| "dsqrt (Inf s) = (if s then NaN else Inf False)"
| "dsqrt (Fin s m e) =
     (if m = 0 then Fin s 0 0 else if s then NaN else
      let p = numer (Fin s m e); q = denom (Fin s m e);
          j = max 0 (56 - ilog2 p q div 2);
          r = isqrt (p * ipow 4 j div q)
      in make_double False (2 * r + (if r * r * q = p * ipow 4 j then 0 else 1)) (ipow 2 (j + 1)))"

section \<open>Conversions to integers\<close>

definition lround :: "double \<Rightarrow> int" where
  "lround x = (case x of
     Fin s m e \<Rightarrow>
       (let r = (2 * \<bar>numer x\<bar> + denom x) div (2 * denom x); v = (if s then - r else r) in
        if long_min \<le> v \<and> v \<le> long_max then v else long_min)
   | _ \<Rightarrow> long_min)"

text \<open>\<open>static_cast<int>(std::lround(x))\<close>.\<close>

definition lround_int :: "double \<Rightarrow> int" where
  "lround_int x = wrap32 (lround x)"

definition truncate_to :: "int \<Rightarrow> int \<Rightarrow> double \<Rightarrow> int option" where
  "truncate_to lo hi x = (case x of
     Fin s m e \<Rightarrow>
       (let r = \<bar>numer x\<bar> div denom x; v = (if numer x < 0 then - r else r) in
        if lo \<le> v \<and> v \<le> hi then Some v else None)
   | _ \<Rightarrow> None)"

text \<open>\<open>static_cast<int>\<close> and \<open>static_cast<long long>\<close>.\<close>

definition cast_int :: "double \<Rightarrow> int option" where
  "cast_int x = truncate_to int_min int_max x"

definition cast_long_long :: "double \<Rightarrow> int option" where
  "cast_long_long x = truncate_to long_min long_max x"

section \<open>The trigonometric functions\<close>

record libm =
  cos_fn :: "double \<Rightarrow> double"
  sin_fn :: "double \<Rightarrow> double"
  acos_fn :: "double \<Rightarrow> double"


section \<open>Exactness on integers\<close>

text \<open>
  The binary (and decimal) exponent of a fraction is determined by the powers around it;
  \<open>b powi k\<close> is the rational power with an integer exponent.
\<close>

lemma ipow_powi:
  assumes "0 < b"
  shows "(of_int (ipow b k) :: rat) / of_int (ipow b (- k)) = of_int b powi k"
proof (cases "0 \<le> k")
  case True
  then show ?thesis by (simp add: ipow_def power_int_def)
next
  case False
  then show ?thesis by (simp add: ipow_def power_int_def field_simps)
qed

lemma scaled_le_iff:
  assumes "0 < b" "0 < q"
  shows "q * ipow b k \<le> p * ipow b (- k) \<longleftrightarrow> (of_int b :: rat) powi k \<le> of_int p / of_int q"
proof -
  have pos: "(0::rat) < of_int (ipow b (- k))" "(0::rat) < of_int q"
    using assms by simp_all
  have "q * ipow b k \<le> p * ipow b (- k)
      \<longleftrightarrow> (of_int q * of_int (ipow b k) :: rat) \<le> of_int p * of_int (ipow b (- k))"
    by (simp only: flip: of_int_mult) (simp only: of_int_le_iff)
  also have "\<dots> \<longleftrightarrow> (of_int (ipow b k) :: rat) / of_int (ipow b (- k)) \<le> of_int p / of_int q"
    using pos by (simp add: field_simps)
  finally show ?thesis
    using ipow_powi[OF assms(1), of k] by simp
qed

lemma powi_unique:
  fixes r b :: rat
  assumes "1 < b" "b powi i \<le> r" "r < b powi (i + 1)" "b powi j \<le> r" "r < b powi (j + 1)"
  shows "i = j"
proof -
  have mono: "b powi m \<le> b powi n" if "m \<le> n" for m n
    using that assms(1) by (intro power_int_increasing) simp_all
  have "\<not> j + 1 \<le> i" "\<not> i + 1 \<le> j"
    using mono[of "j + 1" i] mono[of "i + 1" j] assms by linarith+
  then show ?thesis by simp
qed

lemma bracket_exponent:
  fixes p q lp lq b :: int
  assumes b: "1 < b" and p: "0 < p" and q: "0 < q"
    and lp: "b ^ nat (lp - 1) \<le> p" "p < b ^ nat lp" "0 < lp"
    and lq: "b ^ nat (lq - 1) \<le> q" "q < b ^ nat lq" "0 < lq"
  defines "k \<equiv> lp - lq"
  defines "X \<equiv> (if q * ipow b k \<le> p * ipow b (- k) then k else k - 1)"
  shows "of_int b powi X \<le> (of_int p / of_int q :: rat)"
    and "(of_int p / of_int q :: rat) < of_int b powi (X + 1)"
proof -
  have b0: "(of_int b :: rat) \<noteq> 0" "(0::rat) < of_int b" using b by simp_all
  have P: "(of_int b :: rat) powi (lp - 1) \<le> of_int p" "(of_int p :: rat) < of_int b powi lp"
    using lp by (simp_all add: power_int_def flip: of_int_power)
  have Q: "(of_int b :: rat) powi (lq - 1) \<le> of_int q" "(of_int q :: rat) < of_int b powi lq"
    using lq by (simp_all add: power_int_def flip: of_int_power)
  have q0: "(0::rat) < of_int q" using q by simp
  have lower: "(of_int b :: rat) powi (k - 1) \<le> of_int p / of_int q"
  proof -
    have "(of_int b :: rat) powi (k - 1) * of_int q \<le> of_int b powi (k - 1) * of_int b powi lq"
      using Q(2) b0 by (intro mult_left_mono) simp_all
    also have "\<dots> = of_int b powi (lp - 1)"
      using b0 by (simp add: k_def flip: power_int_add)
    also have "\<dots> \<le> of_int p" by (rule P)
    finally show ?thesis using q0 by (simp add: field_simps)
  qed
  have upper: "(of_int p / of_int q :: rat) < of_int b powi (k + 1)"
  proof -
    have "(of_int p :: rat) < of_int b powi (k + 1) * of_int b powi (lq - 1)"
      using P(2) b0 by (simp add: k_def flip: power_int_add)
    also have "\<dots> \<le> of_int b powi (k + 1) * of_int q"
      using Q(1) b0 by (intro mult_left_mono) simp_all
    finally show ?thesis using q0 by (simp add: field_simps)
  qed
  have split: "q * ipow b k \<le> p * ipow b (- k) \<longleftrightarrow> (of_int b :: rat) powi k \<le> of_int p / of_int q"
    using b q by (intro scaled_le_iff) simp_all
  show "of_int b powi X \<le> (of_int p / of_int q :: rat)"
    using split lower by (simp add: X_def)
  show "(of_int p / of_int q :: rat) < of_int b powi (X + 1)"
    using split upper by (simp add: X_def)
qed

lemma bitlen_brackets: "0 < p \<Longrightarrow> (2::int) ^ nat (bitlen p - 1) \<le> p \<and> p < 2 ^ nat (bitlen p) \<and> 0 < bitlen p"
  using bitlen_bounds[of p] bitlen_eq_zero_iff[of p] bitlen_nonneg[of p] by linarith

lemma ilog2_bounds:
  assumes "0 < p" "0 < q"
  shows "2 powi ilog2 p q \<le> (of_int p / of_int q :: rat)"
    and "(of_int p / of_int q :: rat) < 2 powi (ilog2 p q + 1)"
  using bracket_exponent[of 2 p q "bitlen p" "bitlen q"] assms
    bitlen_brackets[of p] bitlen_brackets[of q]
  by (simp_all add: ilog2_def Let_def)

lemma ilog2_unique:
  assumes "0 < p" "0 < q" "2 powi k \<le> (of_int p / of_int q :: rat)" "(of_int p / of_int q :: rat) < 2 powi (k + 1)"
  shows "ilog2 p q = k"
  using powi_unique[of 2 "ilog2 p q" "of_int p / of_int q" k] ilog2_bounds[OF assms(1,2)] assms(3,4)
  by simp

lemma round_half_even_exact [simp]: "0 < q \<Longrightarrow> round_half_even (d * q) q = d"
  by (simp add: round_half_even_def Let_def)

lemma round_half_even_1 [simp]: "round_half_even d 1 = d"
  by (simp add: round_half_even_def Let_def)

lemma ilog2_integer:
  assumes "0 < n" "n < 2 ^ 53"
  shows "0 \<le> ilog2 n 1 \<and> ilog2 n 1 \<le> 52 \<and> n < 2 ^ nat (ilog2 n 1 + 1)"
proof -
  note B = ilog2_bounds[OF assms(1), of 1, simplified]
  have "\<not> ilog2 n 1 < 0"
  proof
    assume "ilog2 n 1 < 0"
    then have "(2::rat) powi (ilog2 n 1 + 1) \<le> 2 powi 0"
      by (intro power_int_increasing) simp_all
    with B(2) assms(1) show False by simp
  qed
  moreover have "\<not> 53 \<le> ilog2 n 1"
  proof
    assume "53 \<le> ilog2 n 1"
    then have "(2::rat) powi 53 \<le> 2 powi ilog2 n 1"
      by (intro power_int_increasing) simp_all
    with B(1) have "(2 ^ 53 :: rat) \<le> of_int n" by simp
    then have "(2 ^ 53 :: int) \<le> n" by (metis of_int_le_iff of_int_numeral of_int_power)
    with assms(2) show False by simp
  qed
  moreover have "n < 2 ^ nat (ilog2 n 1 + 1)"
  proof -
    have "0 \<le> ilog2 n 1 + 1" using calculation(1) by simp
    with B(2) have "(of_int n :: rat) < of_int (2 ^ nat (ilog2 n 1 + 1))"
      by (simp add: power_int_def)
    then show ?thesis by (simp only: of_int_less_iff)
  qed
  ultimately show ?thesis by linarith
qed

text \<open>An integer below \<open>2^53\<close> is represented exactly.\<close>

lemma make_double_integer:
  assumes "0 < n" "n < 2 ^ 53"
  shows "make_double s n 1 = Fin s (n * ipow 2 (52 - ilog2 n 1)) (ilog2 n 1 - 52)"
proof -
  define e where "e = ilog2 n 1 - 52"
  from ilog2_integer[OF assms] have e: "- 52 \<le> e" "e \<le> 0" and up: "n < 2 ^ nat (e + 53)"
    by (simp_all add: e_def add.commute)
  have "n * ipow 2 (- e) < 2 ^ nat (e + 53) * ipow 2 (- e)"
    using up by simp
  also have "\<dots> = 2 ^ 53"
    using e by (simp add: ipow_def flip: power_add nat_add_distrib)
  finally have lt: "n * ipow 2 (- e) \<noteq> 9007199254740992" by simp
  have pos: "n * ipow 2 (- e) \<noteq> 0"
    using assms(1) ipow_pos[of 2 "- e"] by (metis less_irrefl mult_pos_pos zero_less_numeral)
  show ?thesis
    using assms(1) e lt pos
    by (simp add: make_double_def Let_def flip: e_def) (simp add: e_def)
qed

lemma double_of_int_exact:
  assumes "\<bar>n\<bar> < 2 ^ 53"
  obtains m e where "double_of_int n = Fin (n < 0) m e" "e \<le> 0" "m = \<bar>n\<bar> * ipow 2 (- e)"
proof (cases "n = 0")
  case True
  then show ?thesis using that[of 0 0] by (simp add: double_of_int_def lit_def make_double_def)
next
  case False
  then have "0 < \<bar>n\<bar>" by simp
  from make_double_integer[OF this assms] ilog2_integer[OF this assms]
  show ?thesis
    by (intro that[of "\<bar>n\<bar> * ipow 2 (52 - ilog2 \<bar>n\<bar> 1)" "ilog2 \<bar>n\<bar> 1 - 52"])
       (simp_all add: double_of_int_def lit_def)
qed

lemma numer_double_of_int:
  assumes "\<bar>n\<bar> < 2 ^ 53"
  shows "numer (double_of_int n) = n * denom (double_of_int n)"
    and "is_finite (double_of_int n)"
proof -
  obtain m e where "double_of_int n = Fin (n < 0) m e" "e \<le> 0" "m = \<bar>n\<bar> * ipow 2 (- e)"
    using double_of_int_exact[OF assms] .
  then show "numer (double_of_int n) = n * denom (double_of_int n)"
    and "is_finite (double_of_int n)"
    by (simp_all add: abs_if)
qed

lemma sign_double_of_int:
  "\<bar>n\<bar> < 2 ^ 53 \<Longrightarrow> sign_bit (double_of_int n) \<longleftrightarrow> n < 0"
  by (rule double_of_int_exact[of n]) auto

text \<open>Comparison of finite values is comparison of their rational values.\<close>

definition dval :: "double \<Rightarrow> rat" where
  "dval x = of_int (numer x) / of_int (denom x)"

lemma dval_double_of_int [simp]: "\<bar>n\<bar> < 2 ^ 53 \<Longrightarrow> dval (double_of_int n) = of_int n"
  using denom_pos[of "double_of_int n"] by (simp add: dval_def numer_double_of_int del: denom_pos)

lemma frac_less_iff:
  "0 < (b::int) \<Longrightarrow> 0 < d \<Longrightarrow> (of_int a / of_int b :: rat) < of_int c / of_int d \<longleftrightarrow> a * d < c * b"
  by (simp add: divide_less_eq less_divide_eq field_simps flip: of_int_mult)

lemma frac_eq_iff:
  "0 < (b::int) \<Longrightarrow> 0 < d \<Longrightarrow> (of_int a / of_int b :: rat) = of_int c / of_int d \<longleftrightarrow> a * d = c * b"
  by (simp add: frac_eq_eq flip: of_int_mult)

lemma dlt_finite: "is_finite x \<Longrightarrow> is_finite y \<Longrightarrow> dlt x y \<longleftrightarrow> dval x < dval y"
  by (cases x; cases y) (simp_all add: dval_def frac_less_iff del: numer.simps denom.simps)

lemma deq_finite: "is_finite x \<Longrightarrow> is_finite y \<Longrightarrow> deq x y \<longleftrightarrow> dval x = dval y"
  by (cases x; cases y) (simp_all add: dval_def frac_eq_iff del: numer.simps denom.simps)

lemma dle_finite: "is_finite x \<Longrightarrow> is_finite y \<Longrightarrow> dle x y \<longleftrightarrow> dval x \<le> dval y"
  by (auto simp: dle_def dlt_finite deq_finite)

lemma dlt_NaN [simp]: "\<not> dlt NaN y" "\<not> dlt x NaN"
  by (simp, cases x) auto

lemma deq_NaN [simp]: "\<not> deq NaN y" "\<not> deq x NaN"
  by (simp, cases x) auto

lemma lround_double_of_int:
  assumes "\<bar>n\<bar> < 2 ^ 53"
  shows "lround (double_of_int n) = n"
proof -
  obtain m e where d: "double_of_int n = Fin (n < 0) m e" "e \<le> 0" "m = \<bar>n\<bar> * ipow 2 (- e)"
    using double_of_int_exact[OF assms] .
  define w where "w = ipow 2 (- e)"
  have w: "0 < w" by (simp add: w_def)
  have "(2 * (\<bar>n\<bar> * w) + w) div (2 * w) = ((2 * \<bar>n\<bar> + 1) * w) div (2 * w)"
    by (simp add: algebra_simps)
  also have "\<dots> = (2 * \<bar>n\<bar> + 1) div 2"
    using w by (simp add: mult.commute)
  also have "\<dots> = \<bar>n\<bar>" by simp
  finally have r: "(2 * (\<bar>n\<bar> * w) + w) div (2 * w) = \<bar>n\<bar>" .
  have a: "\<bar>(if n < 0 then - (\<bar>n\<bar> * w) else \<bar>n\<bar> * w)\<bar> = \<bar>n\<bar> * w"
    using w by (simp add: abs_mult)
  show ?thesis
    using assms d(2) r a
    by (auto simp: lround_def d(1,3) cxx_limits Let_def abs_if simp flip: w_def split: if_splits)
qed

lemma lround_int_double_of_int [simp]:
  "int_min \<le> n \<Longrightarrow> n \<le> int_max \<Longrightarrow> lround_int (double_of_int n) = n"
  by (simp add: lround_int_def lround_double_of_int cxx_limits abs_if)

lemma dlt_trans: "dlt x y \<Longrightarrow> dlt y z \<Longrightarrow> dlt x z"
  using dlt_finite [of x y] dlt_finite [of y z] dlt_finite [of x z]
  by (cases x; cases y; cases z) (auto simp del: dlt.simps(7) split: if_splits)

lemma lit_int: "lit n 1 = double_of_int n"
  by (simp add: double_of_int_def)

lemma finite_double_of_int [simp]: "\<bar>n\<bar> < 2 ^ 53 \<Longrightarrow> is_finite (double_of_int n)"
  by (rule double_of_int_exact [of n]) auto

text \<open>A conversion keeps integral bounds that the value respects.\<close>

lemma truncate_range:
  assumes "truncate_to a b v = Some r" "\<not> dlt v (lit lo 1)" "\<not> dlt (lit hi 1) v"
    and "0 \<le> lo" "lo < 2 ^ 53" "0 \<le> hi" "hi < 2 ^ 53"
  shows "lo \<le> r \<and> r \<le> hi"
proof -
  have fin: "is_finite v" using assms(1) by (cases v) (auto simp: truncate_to_def)
  have "of_int lo \<le> dval v" "dval v \<le> of_int hi"
    using assms fin by (auto simp: dlt_finite lit_int)
  then have lo: "lo * denom v \<le> numer v" and hi: "numer v \<le> hi * denom v"
    using denom_pos [of v]
    by (simp_all add: dval_def le_divide_eq divide_le_eq flip: of_int_mult)
  have pos: "0 \<le> numer v" using lo assms(4) denom_pos [of v]
    by (meson dual_order.trans less_imp_le mult_nonneg_nonneg)
  have "r = numer v div denom v"
    using assms(1) pos by (cases v) (auto simp: truncate_to_def Let_def split: if_splits)
  moreover have "lo \<le> numer v div denom v" "numer v div denom v \<le> hi"
    using lo hi denom_pos [of v] less_imp_neq [OF denom_pos [of v]] zdiv_mono1 [of "lo * denom v" "numer v" "denom v"]
      zdiv_mono1 [of "numer v" "hi * denom v" "denom v"]
    by (simp_all del: denom_pos)
  ultimately show ?thesis by simp
qed

end
