(* ===== verification/Number_Text.thy ===== *)
theory Number_Text
  imports Binary64
begin

text \<open>
  The conversions between numbers and text the code takes from the C library:
  \<open>strtod\<close>, \<open>strtol\<close> and \<open>atoi\<close> on the way in, \<open>snprintf\<close> with \<open>%.9g\<close> and \<open>%+.*E\<close> on
  the way out, all in the C locale and with the exact, correctly rounded results of the
  GNU C library. \<open>strtod\<close> and \<open>strtol\<close> return the unread rest of the text with the value,
  or \<open>None\<close> where they convert nothing (the code's test \<open>end == text.c_str()\<close>).
\<close>

section \<open>From text to numbers\<close>

text \<open>\<open>std::string::c_str\<close> as a C function reads it: up to the first NUL.\<close>

definition c_str :: "string \<Rightarrow> string" where
  "c_str s = takeWhile (\<lambda>c. c \<noteq> CHR 0x00) s"

definition strip_sign :: "string \<Rightarrow> bool \<times> string" where
  "strip_sign s = (case s of [] \<Rightarrow> (False, [])
     | c # cs \<Rightarrow> if c = CHR ''-'' then (True, cs) else if c = CHR ''+'' then (False, cs) else (False, s))"

definition prefix_ci :: "string \<Rightarrow> string \<Rightarrow> bool" where
  "prefix_ci p s \<longleftrightarrow> upper (take (length p) s) = p"

definition is_hex_digit :: "char \<Rightarrow> bool" where
  "is_hex_digit c \<longleftrightarrow> c \<in> set ''0123456789abcdefABCDEF''"

definition hex_value :: "char \<Rightarrow> int" where
  "hex_value c = (if is_digit c then digit_value c else of_char (to_upper c) - 55)"

definition hex_digits_value :: "string \<Rightarrow> int" where
  "hex_digits_value ds = foldl (\<lambda>acc c. 16 * acc + hex_value c) 0 ds"

text \<open>An optional exponent part, introduced by \<open>e\<close> (decimal) or \<open>p\<close> (hexadecimal).\<close>

definition read_exponent :: "char \<Rightarrow> string \<Rightarrow> int \<times> string" where
  "read_exponent mark s = (case s of [] \<Rightarrow> (0, s)
     | c # cs \<Rightarrow> if to_upper c \<noteq> mark then (0, s) else
         (let (neg, t) = strip_sign cs; ds = takeWhile is_digit t in
          if ds = [] then (0, s)
          else (if neg then - digits_value ds else digits_value ds, dropWhile is_digit t)))"

text \<open>The integer and fraction digits of a number, and what follows them.\<close>

definition read_mantissa :: "(char \<Rightarrow> bool) \<Rightarrow> string \<Rightarrow> string \<times> string \<times> string" where
  "read_mantissa dig s = (let ip = takeWhile dig s; r = dropWhile dig s in
     case r of [] \<Rightarrow> (ip, [], [])
     | c # r' \<Rightarrow> if c = CHR ''.'' then (ip, takeWhile dig r', dropWhile dig r') else (ip, [], r))"

definition scale :: "int \<Rightarrow> bool \<Rightarrow> int \<Rightarrow> int \<Rightarrow> double" where
  "scale b neg d k = make_double neg (d * ipow b k) (ipow b (- k))"

definition read_decimal :: "bool \<Rightarrow> string \<Rightarrow> (double \<times> string) option" where
  "read_decimal neg s = (let (ip, fp, r) = read_mantissa is_digit s in
     if ip = [] \<and> fp = [] then None
     else let (ex, rest) = read_exponent (CHR ''E'') r in
       Some (scale 10 neg (digits_value (ip @ fp)) (ex - int (length fp)), rest))"

definition read_hex :: "bool \<Rightarrow> string \<Rightarrow> (double \<times> string) option" where
  "read_hex neg s = (let (ip, fp, r) = read_mantissa is_hex_digit s in
     if ip = [] \<and> fp = [] then None
     else let (ex, rest) = read_exponent (CHR ''P'') r in
       Some (scale 2 neg (hex_digits_value (ip @ fp)) (ex - 4 * int (length fp)), rest))"

text \<open>The optional \<open>(n-char-sequence)\<close> after \<open>NAN\<close>.\<close>

definition nan_rest :: "string \<Rightarrow> string" where
  "nan_rest s = (case s of [] \<Rightarrow> []
     | c # cs \<Rightarrow> if c \<noteq> CHR ''('' then s else
         (let r = dropWhile (\<lambda>c. is_digit c \<or> is_upper c \<or> is_lower c \<or> c = CHR ''_'') cs in
          case r of [] \<Rightarrow> s | d # ds \<Rightarrow> if d = CHR '')'' then ds else s))"

definition strtod :: "string \<Rightarrow> (double \<times> string) option" where
  "strtod s = (let (neg, t) = strip_sign (dropWhile is_space (c_str s)) in
     if prefix_ci ''INFINITY'' t then Some (Inf neg, drop 8 t)
     else if prefix_ci ''INF'' t then Some (Inf neg, drop 3 t)
     else if prefix_ci ''NAN'' t then Some (NaN, nan_rest (drop 3 t))
     else if prefix_ci ''0X'' t then
       (case read_hex neg (drop 2 t) of Some r \<Rightarrow> Some r | None \<Rightarrow> read_decimal neg t)
     else read_decimal neg t)"

definition strtol :: "string \<Rightarrow> int option" where
  "strtol s = (let (neg, t) = strip_sign (dropWhile is_space (c_str s)); ds = takeWhile is_digit t;
       v = (if neg then - digits_value ds else digits_value ds) in
     if ds = [] then None else Some (max long_min (min long_max v)))"

definition atoi :: "string \<Rightarrow> int" where
  "atoi s = (case strtol s of None \<Rightarrow> 0 | Some v \<Rightarrow> wrap32 v)"

section \<open>From numbers to text\<close>

text \<open>The greatest \<open>k\<close> with \<open>10^k \<le> p / q\<close>, for positive \<open>p\<close> and \<open>q\<close>.\<close>

definition ilog10 :: "int \<Rightarrow> int \<Rightarrow> int" where
  "ilog10 p q = (let k = int (length (dec_digits p)) - int (length (dec_digits q)) in
     if q * ipow 10 k \<le> p * ipow 10 (- k) then k else k - 1)"

text \<open>The \<open>n\<close> significant decimal digits of \<open>p / q\<close> and their exponent.\<close>

definition sci_digits :: "int \<Rightarrow> int \<Rightarrow> int \<Rightarrow> int \<times> int" where
  "sci_digits n p q = (let x = ilog10 p q;
       d = round_half_even (p * ipow 10 (n - 1 - x)) (q * ipow 10 (x - n + 1)) in
     if d = ipow 10 n then (ipow 10 (n - 1), x + 1) else (d, x))"

definition exponent_text :: "char \<Rightarrow> int \<Rightarrow> string" where
  "exponent_text mark x = [mark, if x < 0 then CHR ''-'' else CHR ''+''] @
     (if \<bar>x\<bar> < 10 then ''0'' else []) @ dec_digits \<bar>x\<bar>"

definition with_point :: "string \<Rightarrow> string \<Rightarrow> string" where
  "with_point ip fp = (if fp = [] then ip else ip @ ''.'' @ fp)"

text \<open>\<open>%+.*E\<close> with precision \<open>k\<close>.\<close>

definition format_E :: "int \<Rightarrow> double \<Rightarrow> string" where
  "format_E k x = (case x of
     NaN \<Rightarrow> ''+NAN''
   | Inf s \<Rightarrow> (if s then ''-INF'' else ''+INF'')
   | Fin s m e \<Rightarrow> (if s then ''-'' else ''+'') @
       (if m = 0 then with_point ''0'' (replicate (nat k) (CHR ''0'')) @ exponent_text (CHR ''E'') 0
        else let (d, ex) = sci_digits (k + 1) \<bar>numer x\<bar> (denom x); ds = dec_digits d in
          with_point (take 1 ds) (drop 1 ds) @ exponent_text (CHR ''E'') ex))"

definition strip_zeros :: "string \<Rightarrow> string" where
  "strip_zeros s = rev (dropWhile (\<lambda>c. c = CHR ''0'') (rev s))"

text \<open>\<open>%.9g\<close>.\<close>

definition format_g9 :: "double \<Rightarrow> string" where
  "format_g9 x = (case x of
     NaN \<Rightarrow> ''nan''
   | Inf s \<Rightarrow> (if s then ''-inf'' else ''inf'')
   | Fin s m e \<Rightarrow> (if s then ''-'' else []) @
       (if m = 0 then ''0''
        else let (d, ex) = sci_digits 9 \<bar>numer x\<bar> (denom x); ds = dec_digits d in
          if - 4 \<le> ex \<and> ex < 9 then
            (if 0 \<le> ex then with_point (take (nat (ex + 1)) ds) (strip_zeros (drop (nat (ex + 1)) ds))
             else with_point ''0'' (strip_zeros (replicate (nat (- ex - 1)) (CHR ''0'') @ ds)))
          else with_point (take 1 ds) (strip_zeros (drop 1 ds)) @ exponent_text (CHR ''e'') ex))"

text \<open>\<open>snprintf\<close> into the code's buffers of 64 bytes: at most 63 characters survive.\<close>

definition snprintf64 :: "string \<Rightarrow> string" where
  "snprintf64 s = take 63 s"

section \<open>Integers in text\<close>

lemma digit_not_special: "is_digit c \<Longrightarrow> c \<noteq> CHR 0x00 \<and> c \<noteq> CHR ''-'' \<and> c \<noteq> CHR ''+'' \<and> c \<noteq> CHR ''.''
    \<and> c \<noteq> CHR ''I'' \<and> c \<noteq> CHR ''N'' \<and> c \<noteq> CHR ''X'' \<and> c \<noteq> CHR ''x'' \<and> c \<noteq> CHR ''*'' \<and> c \<noteq> CHR ''?''
    \<and> c \<noteq> CHR 0x22 \<and> c \<noteq> CHR 0x27 \<and> c \<noteq> CHR '','' \<and> c \<noteq> CHR '';'' \<and> c \<noteq> CHR '':''"
  by (auto simp: is_digit_code)

lemma to_string_chars: "c \<in> set (to_string n) \<Longrightarrow> is_digit c \<or> c = CHR ''-''"
  using dec_digits_digits by (auto simp: to_string_def split: if_splits)

lemma to_string_not_Nil [simp]: "to_string n \<noteq> []"
  by (simp add: to_string_def)

lemma c_str_to_string [simp]: "c_str (to_string n) = to_string n"
  unfolding c_str_def takeWhile_eq_all_conv
  using to_string_chars[of _ n] digit_not_special by fastforce

lemma trimmed_to_string [simp]: "trimmed (to_string n)"
proof -
  have "\<not> is_space c" if "c \<in> set (to_string n)" for c
    using to_string_chars[OF that] by (auto simp: is_space_def dest: digit_not_space)
  then show ?thesis by (simp add: trimmed_def)
qed

lemma plain_to_string: "sep \<noteq> CHR ''-'' \<Longrightarrow> \<not> is_digit sep \<Longrightarrow> plain sep (to_string n)"
  using to_string_chars[of _ n] digit_not_special by (fastforce simp: plain_def is_quote_def)

lemma dropWhile_space_to_string [simp]: "dropWhile is_space (to_string n) = to_string n"
  using trimmed_to_string[of n] by (auto simp: trimmed_def intro: dropWhile_hd)

lemma hd_dec_digits: "is_digit (hd (dec_digits n))"
  by (rule dec_digits_digits[OF hd_in_set]) simp

lemma strip_sign_to_string [simp]: "strip_sign (to_string n) = (n < 0, dec_digits \<bar>n\<bar>)"
proof -
  obtain c cs where "dec_digits n = c # cs" using dec_digits_not_Nil[of n] by (cases "dec_digits n") auto
  then show ?thesis
    using hd_dec_digits[of n] digit_not_special[of c] by (auto simp: to_string_def strip_sign_def)
qed

lemma takeWhile_dec_digits [simp]: "takeWhile is_digit (dec_digits n) = dec_digits n"
  using dec_digits_digits by (simp add: takeWhile_eq_all_conv)

lemma dropWhile_dec_digits [simp]: "dropWhile is_digit (dec_digits n) = []"
  using dec_digits_digits by (simp add: dropWhile_eq_Nil_conv)

lemma strtol_to_string [simp]:
  "strtol (to_string n) = Some (max long_min (min long_max n))"
  by (simp add: strtol_def Let_def abs_if)

lemma not_prefix_ci:
  assumes "is_digit (hd s)" "s \<noteq> []" "p \<noteq> []" "\<not> is_digit (hd p)"
  shows "\<not> prefix_ci p s"
  using assms by (cases s; cases p) (auto simp: prefix_ci_def upper_def)

lemma not_prefix_0X: "\<forall>c \<in> set s. is_digit c \<Longrightarrow> \<not> prefix_ci ''0X'' s"
proof
  assume d: "\<forall>c \<in> set s. is_digit c" and "prefix_ci ''0X'' s"
  then have u: "upper (take 2 s) = ''0X''" by (simp add: prefix_ci_def numeral_2_eq_2)
  then have "length (take 2 s) = 2" by (metis length_upper list.size(3,4) One_nat_def Suc_1 add.right_neutral add_Suc_right)
  then obtain a b t where "s = a # b # t"
    by (cases s; cases "tl s") auto
  with u d show False using digit_not_special[of b] by (auto simp: upper_def)
qed

lemma strtod_to_string:
  assumes "\<bar>n\<bar> < 2 ^ 53"
  shows "strtod (to_string n) = Some (double_of_int n, [])"
proof -
  have nd: "\<not> is_digit (CHR ''I'')" "\<not> is_digit (CHR ''N'')" by (simp_all add: is_digit_code)
  have np: "\<not> prefix_ci ''INFINITY'' (dec_digits k)" "\<not> prefix_ci ''INF'' (dec_digits k)"
    "\<not> prefix_ci ''NAN'' (dec_digits k)" "\<not> prefix_ci ''0X'' (dec_digits k)" for k
    using not_prefix_ci[OF hd_dec_digits dec_digits_not_Nil] nd not_prefix_0X[of "dec_digits k"]
      dec_digits_digits[of _ k] by simp_all
  show ?thesis
    by (simp add: strtod_def np read_decimal_def read_mantissa_def read_exponent_def Let_def
        scale_def double_of_int_def lit_def)
qed


section \<open>Integers printed with \<open>%.9g\<close>\<close>

lemma dec_digits_brackets:
  assumes "0 < n"
  shows "10 ^ (length (dec_digits n) - 1) \<le> n \<and> n < 10 ^ length (dec_digits n)"
  using assms
proof (induction n rule: dec_digits.induct)
  case (1 n)
  show ?case
  proof (cases "n < 10")
    case True
    with 1(2) show ?thesis by (simp add: dec_digits.simps[of n])
  next
    case False
    define l where "l = length (dec_digits (n div 10))"
    have l: "0 < l" by (simp add: l_def)
    from False 1(1) 1(2) have IH: "10 ^ (l - 1) \<le> n div 10" "n div 10 < 10 ^ l"
      unfolding l_def by auto
    define t where "t = (10::int) ^ (l - 1)"
    have t: "(10::int) ^ l = 10 * t" using l by (cases l) (auto simp: t_def)
    have "length (dec_digits n) = Suc l"
      using False by (simp add: dec_digits.simps[of n] l_def)
    moreover have "10 * t \<le> n \<and> n < 10 * (10 * t)"
      using IH unfolding t t_def[symmetric] by linarith
    ultimately show ?thesis by (simp add: t)
  qed
qed

lemma dec_digits_times10: "0 < n \<Longrightarrow> dec_digits (n * 10) = dec_digits n @ ''0''"
  by (subst dec_digits.simps) (simp add: digit_char_def)

lemma dec_digits_times_pow: "0 < n \<Longrightarrow> dec_digits (n * 10 ^ k) = dec_digits n @ replicate k (CHR ''0'')"
proof (induction k)
  case (Suc k)
  have "dec_digits (n * 10 ^ Suc k) = dec_digits (n * 10 ^ k * 10)" by (simp add: ac_simps)
  also have "\<dots> = dec_digits n @ replicate k (CHR ''0'') @ ''0''"
    using Suc by (subst dec_digits_times10) simp_all
  finally show ?case by (simp flip: replicate_append_same)
qed simp

lemma ilog10_bounds:
  assumes "0 < p" "0 < q"
  shows "10 powi ilog10 p q \<le> (of_int p / of_int q :: rat)"
    and "(of_int p / of_int q :: rat) < 10 powi (ilog10 p q + 1)"
proof -
  have B: "(10::int) ^ nat (int (length (dec_digits n)) - 1) \<le> n \<and>
      n < 10 ^ nat (int (length (dec_digits n))) \<and> 0 < int (length (dec_digits n))" if "0 < n" for n
  proof -
    have "nat (int k - 1) = k - 1" for k by simp
    then show ?thesis using dec_digits_brackets[OF that] by (simp only: nat_int) simp
  qed
  show "10 powi ilog10 p q \<le> (of_int p / of_int q :: rat)"
    and "(of_int p / of_int q :: rat) < 10 powi (ilog10 p q + 1)"
    using bracket_exponent[of 10 p q "int (length (dec_digits p))" "int (length (dec_digits q))"]
      assms B[OF assms(1)] B[OF assms(2)]
    by (simp_all add: ilog10_def Let_def)
qed

lemma ilog10_integer:
  assumes "0 < n" "0 < d"
  shows "ilog10 (n * d) d = int (length (dec_digits n)) - 1"
proof -
  define l where "l = length (dec_digits n)"
  have l: "0 < l" by (simp add: l_def)
  have n: "10 ^ (l - 1) \<le> n" "n < 10 ^ l" using dec_digits_brackets[OF assms(1)] by (auto simp: l_def)
  have eq: "(of_int (n * d) / of_int d :: rat) = of_int n" using assms(2) by simp
  have "(of_int (10 ^ (l - 1)) :: rat) \<le> of_int n" "(of_int n :: rat) < of_int (10 ^ l)"
    using n by (simp_all only: of_int_le_iff of_int_less_iff)
  then have "(10 :: rat) ^ (l - 1) \<le> of_int n" "(of_int n :: rat) < 10 ^ l" by simp_all
  then have "(10 :: rat) powi (int l - 1) \<le> of_int n" "(of_int n :: rat) < 10 powi (int l - 1 + 1)"
    using l by (simp_all add: power_int_def nat_diff_distrib)
  then show ?thesis
    using powi_unique[of 10 "ilog10 (n * d) d" "of_int n" "int l - 1"] ilog10_bounds[of "n * d" d]
      assms eq by (simp add: l_def)
qed

lemma sci_digits_integer:
  assumes "0 < n" "n < 10 ^ 9" "0 < d"
  shows "sci_digits 9 (n * d) d =
     (n * 10 ^ (9 - length (dec_digits n)), int (length (dec_digits n)) - 1)"
proof -
  define l where "l = length (dec_digits n)"
  have B: "10 ^ (l - 1) \<le> n \<and> n < 10 ^ l" using dec_digits_brackets[OF assms(1)] by (simp add: l_def)
  have l: "0 < l" by (simp add: l_def)
  have l9: "l \<le> 9"
  proof (rule ccontr)
    assume "\<not> l \<le> 9"
    then have "(10::int) ^ 9 \<le> 10 ^ (l - 1)" by (intro power_increasing) auto
    with B assms(2) show False by simp
  qed
  have x: "ilog10 (n * d) d = int l - 1" using ilog10_integer[OF assms(1,3)] by (simp add: l_def)
  have e1: "ipow 10 (9 - 1 - (int l - 1)) = 10 ^ (9 - l)"
    using l l9 by (simp add: ipow_def nat_diff_distrib)
  have e2: "ipow 10 (int l - 1 - 9 + 1) = 1"
    using l9 by simp
  have r: "round_half_even (n * d * 10 ^ (9 - l)) (d * 1) = n * 10 ^ (9 - l)"
    using round_half_even_exact[of d "n * 10 ^ (9 - l)"] assms(3) by (simp add: ac_simps)
  have "n * 10 ^ (9 - l) < 10 ^ l * 10 ^ (9 - l)" using B by simp
  also have "\<dots> = (10::int) ^ 9" using l9 by (simp flip: power_add)
  finally have "n * 10 ^ (9 - l) \<noteq> ipow 10 9" by (simp add: ipow_def)
  then show ?thesis
    by (simp only: sci_digits_def Let_def x e1 e2 r if_False flip: l_def)
qed

lemma strip_zeros_replicate [simp]: "strip_zeros (replicate k (CHR ''0'')) = []"
  by (simp add: strip_zeros_def)

lemma to_string_abs: "to_string n = (if n < 0 then ''-'' else []) @ dec_digits \<bar>n\<bar>"
  by (simp add: to_string_def)

lemma format_g9_int:
  assumes "\<bar>n\<bar> < 10 ^ 9"
  shows "format_g9 (double_of_int n) = to_string n"
proof (cases "n = 0")
  case True
  have "double_of_int 0 = Fin False 0 0" by (simp add: double_of_int_def lit_def make_double_def)
  moreover have "to_string 0 = ''0''"
    by (simp add: to_string_def dec_digits.simps[of 0] digit_char_def)
  ultimately show ?thesis using True by (simp add: format_g9_def)
next
  case False
  have b: "\<bar>n\<bar> < 2 ^ 53" using assms by simp
  obtain m e where d: "double_of_int n = Fin (n < 0) m e" "e \<le> 0" "m = \<bar>n\<bar> * ipow 2 (- e)"
    using double_of_int_exact[OF b] .
  define w where "w = ipow 2 (- e)"
  have w: "0 < w" by (simp add: w_def)
  have dm: "m = \<bar>n\<bar> * w" using d(3) by (simp add: w_def)
  define l where "l = length (dec_digits \<bar>n\<bar>)"
  have l: "0 < l" by (simp add: l_def)
  have num: "\<bar>numer (Fin (n < 0) m e)\<bar> = \<bar>n\<bar> * w" "denom (Fin (n < 0) m e) = w"
    using d(2) w by (simp_all add: dm abs_mult flip: w_def)
  have sci: "sci_digits 9 (\<bar>n\<bar> * w) w = (\<bar>n\<bar> * 10 ^ (9 - l), int l - 1)"
    using sci_digits_integer[of "\<bar>n\<bar>" w] assms False w by (simp add: l_def)
  have ds: "dec_digits (\<bar>n\<bar> * 10 ^ (9 - l)) = dec_digits \<bar>n\<bar> @ replicate (9 - l) (CHR ''0'')"
    using False by (simp add: dec_digits_times_pow)
  have l9: "l \<le> 9"
  proof (rule ccontr)
    assume "\<not> l \<le> 9"
    then have "(10::int) ^ 9 \<le> 10 ^ (l - 1)" by (intro power_increasing) auto
    moreover have "10 ^ (l - 1) \<le> \<bar>n\<bar>" using dec_digits_brackets[of "\<bar>n\<bar>"] False by (simp add: l_def)
    ultimately show False using assms by simp
  qed
  have "m \<noteq> 0" using False w by (simp add: dm)
  then show ?thesis
    using l l9
    by (simp add: format_g9_def d(1) num sci ds Let_def with_point_def l_def[symmetric]
        to_string_abs del: numer.simps denom.simps)
qed

end
