(* ===== verification/Types.thy ===== *)
theory Types
  imports Number_Text
begin

text \<open>
  The shared data types of the library, from \<open>module/include/fluke/norma/types.hpp\<close>: the
  enumerations that mirror the instrument's character data, the value types and the bit flags.

  Constructors keep the source's names; where two enumerations share an enumerator, the
  constructors carry a prefix (\<open>KeyOff\<close> is \<open>KeyLock::Off\<close>).
\<close>

section \<open>Constants\<close>

definition kMinAperture :: double where "kMinAperture = lit 15 1000"
definition kMaxAperture :: double where "kMaxAperture = lit 3600 1"
definition kMaxInputChannel :: int where "kMaxInputChannel = 12"
definition kMaxPhase :: int where "kMaxPhase = 6"

text \<open>\<open>kScpiNan\<close> is 9.91e37, and the threshold is that times 0.999.\<close>

definition kScpiNan :: double where "kScpiNan = lit (991 * 10 ^ 35) 1"
definition kScpiNanThreshold :: double where "kScpiNanThreshold = dmul kScpiNan (lit 999 1000)"

section \<open>Enumerations\<close>

datatype coupling = AC | DC
datatype shunt = Internal | External
datatype wiring_system = ThreeWattmeter | TwoWattmeter
datatype slope = Positive | Negative
datatype level_unit = Absolute | Percent
datatype data_format = Ascii | Integer | Real
datatype byte_order = Normal | Swapped
datatype key_lock = KeyOff | KeyOn | KeyRemote
datatype transform_mode = Fft | Dft | Std
datatype harmonic_grouping = Component | Harmonic | HGroup | HSGroup | ISGroup | SGroup
datatype power_correction = Star | Delta
datatype integral_start_source = StartCommand | StartTime | StartManual
datatype integral_stop_source = StopCommand | StopTime | StopManual | StopTimeInterval
datatype sweep_block = Block1 | Block2
datatype status_register = Operation | Questionable | QuestionableVoltage | QuestionableCurrent
datatype register_part = Condition | Event | Enable | PositiveTransition | NegativeTransition

section \<open>Value types\<close>

record identification =
  manufacturer :: string
  model :: string
  serial_number :: string
  firmware_version :: string

record scpi_error_info =
  code :: int
  message :: string

record data_format_setting =
  fmt_format :: data_format
  fmt_length :: int

record date =
  date_year :: int
  date_month :: int
  date_day :: int

record time =
  time_hours :: int
  time_minutes :: int
  time_seconds :: int

record reading =
  reading_values :: "double list"
  reading_status :: "int list"

section \<open>Bit flags\<close>

definition kNormal :: int where "kNormal = 0"
definition kUnderrange :: int where "kUnderrange = 1"
definition kOverrange :: int where "kOverrange = 2"
definition kUndefined :: int where "kUndefined = 8"
definition kNotAvailable :: int where "kNotAvailable = 16"
definition kPowerFactorCapacitive :: int where "kPowerFactorCapacitive = 128"

definition kErrorQueueNotEmpty :: int where "kErrorQueueNotEmpty = 4"
definition kQuestionableSummary :: int where "kQuestionableSummary = 8"
definition kMessageAvailable :: int where "kMessageAvailable = 16"
definition kEventStatusSummary :: int where "kEventStatusSummary = 32"
definition kMasterStatusSummary :: int where "kMasterStatusSummary = 64"

definition kRanging :: int where "kRanging = 4"
definition kSweeping :: int where "kSweeping = 8"
definition kSynchronized :: int where "kSynchronized = 256"
definition kSyncAvailable :: int where "kSyncAvailable = 512"
definition kAveraging :: int where "kAveraging = 1024"

definition kVoltageSummary :: int where "kVoltageSummary = 1"
definition kCurrentSummary :: int where "kCurrentSummary = 2"
definition kFrequency :: int where "kFrequency = 32"

definition kWaitingForTrigger :: int where "kWaitingForTrigger = 32"
definition kCalculating :: int where "kCalculating = 4096"

definition kOverrangeMask :: int where "kOverrangeMask = 0x003F"
definition kUnderrangeMask :: int where "kUnderrangeMask = 0x3F00"

definition overrange_bit :: "int \<Rightarrow> int" where "overrange_bit i = 2 ^ nat i"
definition underrange_bit :: "int \<Rightarrow> int" where "underrange_bit i = 2 ^ nat (i + 8)"

definition kVersionString :: string where "kVersionString = ''0.1.0''"

text \<open>\<open>Reading::is_valid\<close>: none of the bits that say a value cannot be trusted.\<close>

unbundle bit_operations_syntax

definition kInvalidMask :: int where "kInvalidMask = kUnderrange OR kOverrange OR kUndefined OR kNotAvailable"

definition reading_is_valid :: "reading \<Rightarrow> nat \<Rightarrow> bool" where
  "reading_is_valid r i \<longleftrightarrow> i < length (reading_status r) \<and> reading_status r ! i AND kInvalidMask = 0"

end
