(* ===== verification/Cxx_Errors.thy ===== *)
theory Cxx_Errors
  imports Types
begin

text \<open>
  The exceptions of the library (\<open>module/include/fluke/norma/error.hpp\<close>) as values, and
  the shape of the code that may throw them. A pure function that may throw returns
  \<open>cxx_error + 'a\<close>. An operation of an object is an \<open>io\<close>: it takes the object's state and
  gives \<open>None\<close> where C++ gives no behaviour at all, and otherwise the state it leaves
  together with either the exception thrown or the value returned. What was done before an
  exception stays done.
\<close>

section \<open>The exceptions\<close>

datatype cxx_error =
    ConnectionError string
  | TimeoutError string
  | ProtocolError string
  | ScpiError "scpi_error_info list"
  | InvalidArgument string

definition no_error_info :: scpi_error_info where
  "no_error_info = \<lparr>code = 0, message = []\<rparr>"

text \<open>The two constructors of \<open>ScpiError\<close>; an empty queue leaves a default entry.\<close>

definition scpi_error_one :: "int \<Rightarrow> string \<Rightarrow> cxx_error" where
  "scpi_error_one c m = ScpiError [\<lparr>code = c, message = m\<rparr>]"

definition scpi_error :: "scpi_error_info list \<Rightarrow> cxx_error" where
  "scpi_error es = ScpiError (if es = [] then [no_error_info] else es)"

definition scpi_error_format :: "int \<Rightarrow> string \<Rightarrow> nat \<Rightarrow> string" where
  "scpi_error_format c m count = ''SCPI error '' @ to_string c @ '': '' @ m @
     (if 1 < count then '' (and '' @ to_string (int count - 1) @ '' more in the queue)'' else [])"

text \<open>\<open>code()\<close> and \<open>message()\<close> describe the oldest entry.\<close>

definition scpi_error_code :: "scpi_error_info list \<Rightarrow> int" where
  "scpi_error_code es = code (hd es)"

definition scpi_error_message :: "scpi_error_info list \<Rightarrow> string" where
  "scpi_error_message es = message (hd es)"

section \<open>Results\<close>

definition try_result :: "cxx_error + 'a \<Rightarrow> ('a \<Rightarrow> cxx_error + 'b) \<Rightarrow> cxx_error + 'b" where
  "try_result r f = (case r of Inl e \<Rightarrow> Inl e | Inr a \<Rightarrow> f a)"

definition map_result :: "('a \<Rightarrow> 'b) \<Rightarrow> cxx_error + 'a \<Rightarrow> cxx_error + 'b" where
  "map_result f r = (case r of Inl e \<Rightarrow> Inl e | Inr a \<Rightarrow> Inr (f a))"

text \<open>A loop that appends one result after the other; the first exception leaves it.\<close>

fun collect :: "('a \<Rightarrow> cxx_error + 'b) \<Rightarrow> 'a list \<Rightarrow> cxx_error + 'b list" where
  "collect f [] = Inr []"
| "collect f (x # xs) = try_result (f x) (\<lambda>y. map_result (Cons y) (collect f xs))"

lemma result_simps [simp]:
  "try_result (Inl e) f = Inl e" "try_result (Inr a) f = f a"
  "map_result g (Inl e) = Inl e" "map_result g (Inr a) = Inr (g a)"
  by (simp_all add: try_result_def map_result_def)

lemma map_result_Inr_iff [simp]: "map_result f r = Inr b \<longleftrightarrow> (\<exists>a. r = Inr a \<and> b = f a)"
  by (cases r) auto

lemma collect_Inr_iff: "collect f xs = Inr ys \<longleftrightarrow> list_all2 (\<lambda>x y. f x = Inr y) xs ys"
proof (induction xs arbitrary: ys)
  case (Cons x xs)
  then show ?case
    by (cases "f x") (auto simp: list_all2_Cons1)
qed auto

lemma collect_map: "(\<And>x. x \<in> set xs \<Longrightarrow> f x = Inr (g x)) \<Longrightarrow> collect f xs = Inr (map g xs)"
  by (induction xs) auto

section \<open>Operations\<close>

type_synonym ('s, 'a) io = "'s \<Rightarrow> ('s \<times> (cxx_error + 'a)) option"

definition ret :: "'a \<Rightarrow> ('s, 'a) io" where
  "ret a s = Some (s, Inr a)"

definition throw :: "cxx_error \<Rightarrow> ('s, 'a) io" where
  "throw e s = Some (s, Inl e)"

definition and_then :: "('s, 'a) io \<Rightarrow> ('a \<Rightarrow> ('s, 'b) io) \<Rightarrow> ('s, 'b) io" where
  "and_then m f s = (case m s of None \<Rightarrow> None
     | Some (t, Inl e) \<Rightarrow> Some (t, Inl e)
     | Some (t, Inr a) \<Rightarrow> f a t)"

text \<open>A pure function applied to what an operation returned, and a guard before one.\<close>

definition parsed :: "('a \<Rightarrow> cxx_error + 'b) \<Rightarrow> ('s, 'a) io \<Rightarrow> ('s, 'b) io" where
  "parsed f m s = (case m s of None \<Rightarrow> None | Some (t, r) \<Rightarrow> Some (t, try_result r f))"

definition require :: "bool \<Rightarrow> cxx_error \<Rightarrow> ('s, 'a) io \<Rightarrow> ('s, 'a) io" where
  "require ok e m = (if ok then m else throw e)"

text \<open>An operation of a member object, run on the object that holds it.\<close>

definition on_member :: "('s \<Rightarrow> 't) \<Rightarrow> ('t \<Rightarrow> 's \<Rightarrow> 's) \<Rightarrow> ('t, 'a) io \<Rightarrow> ('s, 'a) io" where
  "on_member rd wr m s = (case m (rd s) of None \<Rightarrow> None | Some (t, r) \<Rightarrow> Some (wr t s, r))"

named_theorems io_simps "how operations run"

lemma ret_run [io_simps]: "ret a s = Some (s, Inr a)"
  by (simp add: ret_def)

lemma throw_run [io_simps]: "throw e s = Some (s, Inl e)"
  by (simp add: throw_def)

lemma and_then_run [io_simps]:
  "m s = None \<Longrightarrow> and_then m f s = None"
  "m s = Some (t, Inl e) \<Longrightarrow> and_then m f s = Some (t, Inl e)"
  "m s = Some (t, Inr a) \<Longrightarrow> and_then m f s = f a t"
  by (simp_all add: and_then_def)

lemma parsed_run [io_simps]:
  "m s = None \<Longrightarrow> parsed f m s = None"
  "m s = Some (t, r) \<Longrightarrow> parsed f m s = Some (t, try_result r f)"
  by (simp_all add: parsed_def)

lemma require_run [io_simps]:
  "ok \<Longrightarrow> require ok e m = m" "\<not> ok \<Longrightarrow> require ok e m s = Some (s, Inl e)"
  by (simp_all add: require_def throw_run)

lemma and_then_ret: "and_then (ret a) f = f a" "and_then m ret = m"
  by (auto simp: fun_eq_iff and_then_def ret_def split: option.splits sum.splits)

lemma and_then_assoc: "and_then (and_then m f) g = and_then m (\<lambda>a. and_then (f a) g)"
  by (auto simp: fun_eq_iff and_then_def split: option.splits sum.splits)

lemma and_then_Some_iff:
  "and_then m f s = Some (u, r) \<longleftrightarrow>
     (\<exists>e. m s = Some (u, Inl e) \<and> r = Inl e) \<or> (\<exists>t a. m s = Some (t, Inr a) \<and> f a t = Some (u, r))"
  by (auto simp: and_then_def split: option.splits sum.splits)

end
