(* ===== verification/Scpi_Text.thy ===== *)
theory Scpi_Text
  imports Cxx_Errors
begin

text \<open>
  The formatting and parsing helpers of \<open>ScpiClient\<close> (the static members and the anonymous
  namespace of \<open>module/src/scpi_client.cpp\<close>): how the client writes parameters and reads
  responses. \<open>trim\<close>, \<open>quote\<close>, \<open>unquote\<close> and the scan that does not split inside quotes are
  the ones of the prelude; the client's splitter also trims the fields, and a blank line has
  none.
\<close>

section \<open>Fields of a line\<close>

definition split_fields :: "string \<Rightarrow> char \<Rightarrow> string list" where
  "split_fields line separator =
     (if trim line = [] then [] else map trim (split_unquoted line separator))"

definition split_csv :: "string \<Rightarrow> string list" where
  "split_csv line = split_fields line (CHR '','')"

definition split_semicolons :: "string \<Rightarrow> string list" where
  "split_semicolons line = split_fields line (CHR '';'')"

definition client_quote_join :: "string list \<Rightarrow> string" where
  "client_quote_join vs = join_with '','' (map quote vs)"

definition client_join :: "string list \<Rightarrow> string" where
  "client_join vs = join_with '','' vs"

definition client_upper :: "string \<Rightarrow> string" where
  "client_upper s = upper (trim s)"

definition has_line_terminator :: "string \<Rightarrow> bool" where
  "has_line_terminator command \<longleftrightarrow> CHR 0x0A \<in> set command \<or> CHR 0x0D \<in> set command"

section \<open>Reading values\<close>

definition to_double :: "string \<Rightarrow> cxx_error + double" where
  "to_double field = (let txt = trim field in
     if txt = [] then Inl (ProtocolError ''expected numeric value, got empty field'')
     else case strtod txt of
       None \<Rightarrow> Inl (ProtocolError (''expected numeric value, got '' @ quote txt))
     | Some (value, _) \<Rightarrow> Inr (if dle kScpiNanThreshold (dabs value) then NaN else value))"

definition to_int :: "string \<Rightarrow> cxx_error + int" where
  "to_int field = (let txt = trim field in
     case strtol txt of
       None \<Rightarrow> Inl (ProtocolError (''expected integer response, got '' @ quote txt))
     | Some value \<Rightarrow> Inr (wrap32 value))"

definition to_bool :: "string \<Rightarrow> cxx_error + bool" where
  "to_bool field = (let txt = client_upper field in
     if txt = ''ON'' \<or> txt = ''TRUE'' then Inr True
     else if txt = ''OFF'' \<or> txt = ''FALSE'' then Inr False
     else map_result (\<lambda>n. n \<noteq> 0) (to_int field))"

definition parse_values :: "string \<Rightarrow> cxx_error + double list" where
  "parse_values line = collect to_double (split_csv line)"

definition read_strings :: "string \<Rightarrow> string list" where
  "read_strings line = map unquote (split_csv line)"

section \<open>Reading errors\<close>

text \<open>\<open>static_cast<int>(strtol(field))\<close>, or nothing when no digit was read.\<close>

definition error_code_of :: "string \<Rightarrow> int option" where
  "error_code_of field = map_option wrap32 (strtol field)"

definition parse_error :: "string \<Rightarrow> cxx_error + scpi_error_info" where
  "parse_error line = (case split_csv line of
     [] \<Rightarrow> Inl (ProtocolError ''empty response to SYST:ERR?'')
   | field # rest \<Rightarrow>
       (case error_code_of field of
         None \<Rightarrow> Inl (ProtocolError (''malformed SYST:ERR? response: '' @ quote line))
       | Some c \<Rightarrow> Inr \<lparr>code = c, message = (case rest of [] \<Rightarrow> [] | m # _ \<Rightarrow> unquote m)\<rparr>))"

text \<open>The loop of \<open>parse_errors\<close> over the fields, two at a time; an odd last one is left over.\<close>

fun error_pairs :: "string \<Rightarrow> string list \<Rightarrow> cxx_error + scpi_error_info list" where
  "error_pairs line (c # m # rest) =
     (case error_code_of c of
       None \<Rightarrow> Inl (ProtocolError (''malformed SYST:ERR:ALL? response: '' @ quote line))
     | Some n \<Rightarrow>
         if n = 0 then error_pairs line rest
         else map_result (Cons \<lparr>code = n, message = unquote m\<rparr>) (error_pairs line rest))"
| "error_pairs line fs = Inr []"

definition parse_errors :: "string \<Rightarrow> cxx_error + scpi_error_info list" where
  "parse_errors line = (let fs = split_csv line in
     try_result (error_pairs line fs) (\<lambda>es.
       if es = [] \<and> odd (length fs)
       then Inl (ProtocolError (''malformed SYST:ERR:ALL? response: '' @ quote line))
       else Inr es))"

section \<open>Writing values\<close>

definition format_double :: "double \<Rightarrow> string" where
  "format_double value = snprintf64 (format_g9 value)"

definition client_format_bool :: "bool \<Rightarrow> string" where
  "client_format_bool value = (if value then ''ON'' else ''OFF'')"

section \<open>Facts about them\<close>

lemma plain_digits_comma: "plain (CHR '','') (to_string n)"
  by (rule plain_to_string) (simp_all add: is_digit_code)

lemma to_int_to_string:
  "int_min \<le> n \<Longrightarrow> n \<le> int_max \<Longrightarrow> to_int (to_string n) = Inr n"
  by (simp add: to_int_def cxx_limits)

lemma trim_Nil_iff: "trim s = [] \<longleftrightarrow> (\<forall>c \<in> set s. is_space c)"
proof
  assume "trim s = []"
  then have all: "\<forall>c \<in> set (dropWhile is_space s). is_space c"
    by (simp add: trim_def dropWhile_eq_Nil_conv)
  then have "dropWhile is_space s = []"
    using hd_dropWhile [of is_space s] hd_in_set by blast
  then show "\<forall>c \<in> set s. is_space c" by (simp add: dropWhile_eq_Nil_conv)
qed (auto simp: trim_def dropWhile_eq_Nil_conv dest: set_dropWhileD)

text \<open>Joining trimmed fields the scanner leaves alone, and splitting again.\<close>

lemma split_fields_join:
  assumes "\<forall>x \<in> set xs. field_ok sep x \<and> trimmed x" "xs \<noteq> []" "\<not> is_quote sep" "trim (join_with [sep] xs) \<noteq> []"
  shows "split_fields (join_with [sep] xs) sep = xs"
proof -
  have "split_unquoted (join_with [sep] xs) sep = xs"
    using assms by (intro split_unquoted_join) auto
  then show ?thesis using assms(1,4) by (simp add: split_fields_def map_idI)
qed

lemma trim_join_not_Nil:
  assumes "trim x \<noteq> []" shows "trim (join_with [sep] (x # xs)) \<noteq> []"
  using assms by (cases xs) (auto simp: trim_Nil_iff)

text \<open>The answer of the simulator to \<open>SYST:ERR?\<close>, as the client sees it.\<close>

lemma trim_number: "trim (to_string n @ s) \<noteq> []"
proof -
  have "trim (to_string n) \<noteq> []" by simp
  then show ?thesis by (auto simp: trim_Nil_iff simp del: trim_trimmed)
qed

lemma error_code_to_string [simp]:
  "int_min \<le> n \<Longrightarrow> n \<le> int_max \<Longrightarrow> error_code_of (to_string n) = Some n"
  by (simp add: error_code_of_def cxx_limits)

lemma split_csv_after_number:
  "\<exists>x xs. split_csv (to_string n @ CHR '','' # s) = to_string n # x # xs"
proof -
  have "split_unquoted (to_string n @ CHR '','' # s) (CHR '','') = to_string n # split_unquoted s (CHR '','')"
    using split_scan_plain [OF plain_digits_comma, of n "CHR '','' # s" "[]"]
    by (simp add: split_unquoted_def is_quote_def)
  then have "split_csv (to_string n @ CHR '','' # s) = to_string n # map trim (split_unquoted s (CHR '',''))"
    using trim_number [of n "CHR '','' # s"] by (simp add: split_csv_def split_fields_def)
  then show ?thesis by (cases "split_unquoted s (CHR '','')") simp_all
qed

lemma split_csv_pairs:
  assumes "\<forall>e \<in> set es. dquote \<notin> set (message e)" "es \<noteq> []"
  shows "split_csv (join_with '','' (map (\<lambda>e. to_string (code e) @ '','' @ quote (message e)) es)) =
    concat (map (\<lambda>e. [to_string (code e), quote (message e)]) es)"
proof -
  let ?fs = "\<lambda>es. concat (map (\<lambda>e. [to_string (code e), quote (message e)]) es)"
  have join: "join_with '','' (map (\<lambda>e. to_string (code e) @ '','' @ quote (message e)) es) = join_with '','' (?fs es)"
    by (induction es rule: induct_list012) simp_all
  have "field_ok (CHR '','') x \<and> trimmed x" if "x \<in> set (?fs es)" for x
    using that assms(1) by (auto intro: field_ok_plain plain_digits_comma field_ok_quote)
  moreover have "?fs es \<noteq> []" "\<not> is_quote (CHR '','')" using assms(2) by (simp_all add: is_quote_def)
  moreover have "trim (join_with '','' (?fs es)) \<noteq> []"
    using assms(2) by (cases es) (simp_all add: trim_number)
  ultimately show ?thesis
    unfolding join split_csv_def by (intro split_fields_join) blast+
qed

end
