(* ===== verification/Transport.thy ===== *)
theory Transport
  imports Scpi_Text
begin

text \<open>
  The \<open>Transport\<close> interface (\<open>module/include/fluke/norma/transport.hpp\<close>): an abstract class
  is the record of its virtual functions over the type of the object's state, so the client
  is written once against any of them. Timeouts are milliseconds.

  \<open>line_transport\<close> is the contract the client relies on: a ready transport hands every
  command line to the device behind it, in order, and returns the device's answers one per
  read, in order, each exactly once; with no answer outstanding a read times out. \<open>serve\<close>
  is what the device does with one line. After such a timeout a transport may be unusable
  (TCP closes the socket); one that is ready again is a \<open>lasting_transport\<close>.
\<close>

abbreviation line_feed :: char where "line_feed \<equiv> CHR 0x0A"
abbreviation carriage_return :: char where "carriage_return \<equiv> CHR 0x0D"

record 't transport =
  t_open :: "('t, unit) io"
  t_close :: "('t, unit) io"
  t_is_open :: "'t \<Rightarrow> bool"
  t_write :: "string \<Rightarrow> int \<Rightarrow> ('t, unit) io"
  t_read_line :: "int \<Rightarrow> ('t, string) io"
  t_description :: "'t \<Rightarrow> string"

definition answer_list :: "string option \<Rightarrow> string list" where
  "answer_list r = (case r of None \<Rightarrow> [] | Some a \<Rightarrow> [a])"

lemma answer_list_simps [simp]: "answer_list None = []" "answer_list (Some a) = [a]"
  by (simp_all add: answer_list_def)

section \<open>Lines in a stream of bytes\<close>

text \<open>The complete lines of a text, and what is left of it.\<close>

fun take_lines :: "string \<Rightarrow> string list \<times> string" where
  "take_lines [] = ([], [])"
| "take_lines (c # cs) = (case take_lines cs of (ls, rest) \<Rightarrow>
     if c = line_feed then ([] # ls, rest)
     else case ls of [] \<Rightarrow> ([], c # rest) | l # ls' \<Rightarrow> ((c # l) # ls', rest))"

text \<open>The length of the first line of a text that has one, with its line feed.\<close>

definition line_length :: "string \<Rightarrow> nat" where
  "line_length s = length (takeWhile (\<lambda>c. c \<noteq> line_feed) s) + 1"

text \<open>\<open>while (!line.empty() && (line.back() == '\n' || line.back() == '\r')) line.pop_back();\<close>\<close>

definition strip_terminators :: "string \<Rightarrow> string" where
  "strip_terminators l = rev (dropWhile (\<lambda>c. c = line_feed \<or> c = carriage_return) (rev l))"

lemma take_lines_one: "line_feed \<notin> set l \<Longrightarrow> take_lines (l @ [line_feed]) = ([l], [])"
  by (induction l) auto

text \<open>Taking a text in two parts is the same as taking it at once.\<close>

lemma take_lines_append:
  "take_lines (u @ v) = (case take_lines u of (ls, rest) \<Rightarrow>
     case take_lines (rest @ v) of (ms, rest') \<Rightarrow> (ls @ ms, rest'))"
proof (induction u)
  case (Cons c u)
  then show ?case
    by (auto split: prod.splits list.splits)
qed simp

lemma take_lines_rest: "line_feed \<notin> set (snd (take_lines s))"
  by (induction s) (auto split: prod.splits list.splits)

lemma take_lines_none: "line_feed \<notin> set s \<Longrightarrow> take_lines s = ([], s)"
  by (induction s) auto

lemma take_lines_lines: "l \<in> set (fst (take_lines s)) \<Longrightarrow> line_feed \<notin> set l \<and> set l \<subseteq> set s"
  by (induction s arbitrary: l) (fastforce split: prod.splits list.splits if_splits)+

text \<open>The first line, and the text behind it.\<close>

lemma take_lines_first:
  assumes "line_feed \<in> set s"
  shows "take_lines s = (take (line_length s - 1) s # fst (take_lines (drop (line_length s) s)),
      snd (take_lines (drop (line_length s) s)))"
    and "take (line_length s) s = take (line_length s - 1) s @ [line_feed]"
proof -
  obtain u v where s: "s = u @ line_feed # v" "line_feed \<notin> set u" using assms by (metis split_list_first)
  have t: "takeWhile (\<lambda>c. c \<noteq> line_feed) s = u"
    unfolding s(1) using s(2) by (subst takeWhile_append2) auto
  have "take_lines s = (u # fst (take_lines v), snd (take_lines v))"
    using take_lines_append [of "u @ [line_feed]" v] take_lines_one [OF s(2)] by (simp add: s(1) split: prod.splits)
  then show "take_lines s = (take (line_length s - 1) s # fst (take_lines (drop (line_length s) s)),
      snd (take_lines (drop (line_length s) s)))"
    unfolding line_length_def t by (simp add: s(1))
  show "take (line_length s) s = take (line_length s - 1) s @ [line_feed]"
    unfolding line_length_def t by (simp add: s(1))
qed

lemma line_length_bounds: "line_feed \<in> set s \<Longrightarrow> 0 < line_length s \<and> line_length s \<le> length s"
proof -
  assume "line_feed \<in> set s"
  from take_lines_first(2) [OF this] have "length (take (line_length s) s) = length (take (line_length s - 1) s) + 1" by simp
  then show ?thesis by (auto simp: line_length_def)
qed

lemma line_length_append: "line_feed \<in> set s \<Longrightarrow> line_length (s @ t) = line_length s"
  by (simp add: line_length_def)

lemma take_lines_has_line: "fst (take_lines s) \<noteq> [] \<longleftrightarrow> line_feed \<in> set s"
  using take_lines_first(1) [of s] take_lines_none [of s] by (cases "line_feed \<in> set s") auto

lemma strip_terminators_id: "\<not> has_line_terminator l \<Longrightarrow> strip_terminators (l @ [line_feed]) = l"
proof -
  assume "\<not> has_line_terminator l"
  then have "dropWhile (\<lambda>c. c = line_feed \<or> c = carriage_return) (rev l) = rev l"
    unfolding dropWhile_eq_self_iff has_line_terminator_def by (metis hd_rev last_in_set rev_is_Nil_conv)
  then show ?thesis by (simp add: strip_terminators_def)
qed

section \<open>The contract\<close>

text \<open>A device serves several lines, one after the other.\<close>

fun serve_all :: "(string \<Rightarrow> 'd \<Rightarrow> ('d \<times> string option) option) \<Rightarrow> string list \<Rightarrow> 'd \<Rightarrow> ('d \<times> string option list) option" where
  "serve_all serve [] d = Some (d, [])"
| "serve_all serve (l # ls) d =
     (case serve l d of
       None \<Rightarrow> None
     | Some (d', r) \<Rightarrow> map_option (\<lambda>(d'', rs). (d'', r # rs)) (serve_all serve ls d'))"

locale line_transport =
  fixes tr :: "'t transport"
    and ready :: "'t \<Rightarrow> bool"
    and unread :: "'t \<Rightarrow> string list"
    and device :: "'t \<Rightarrow> 'd"
    and serve :: "string \<Rightarrow> 'd \<Rightarrow> ('d \<times> string option) option"
  assumes write_served: "ready t \<Longrightarrow> \<not> has_line_terminator l \<Longrightarrow> serve l (device t) = Some (d, r) \<Longrightarrow>
      \<exists>u. t_write tr (l @ [line_feed]) tm t = Some (u, Inr ()) \<and> ready u \<and> device u = d \<and>
          unread u = unread t @ answer_list r"
    and read_answer: "ready t \<Longrightarrow> unread t = a # as \<Longrightarrow>
      \<exists>u. t_read_line tr tm t = Some (u, Inr a) \<and> ready u \<and> device u = device t \<and> unread u = as"
    and read_nothing: "ready t \<Longrightarrow> unread t = [] \<Longrightarrow>
      \<exists>u m. t_read_line tr tm t = Some (u, Inl (TimeoutError m)) \<and> device u = device t"

locale lasting_transport = line_transport +
  assumes still_ready: "ready t \<Longrightarrow> unread t = [] \<Longrightarrow> t_read_line tr tm t = Some (u, Inl e) \<Longrightarrow>
      ready u \<and> unread u = []"

end
