(* ===== verification/Scpi_Client.thy ===== *)
theory Scpi_Client
  imports Transport
begin

text \<open>
  The SCPI client (\<open>ScpiClient\<close> in \<open>module/src/scpi_client.cpp\<close>) over an arbitrary
  transport. Its state is the default timeout and the transport's own state; the mutex that
  makes each operation atomic has no counterpart, an operation is one step here.

  The second part proves, once for every transport that keeps the \<open>line_transport\<close>
  contract, what the client's operations do: in step, a query returns the answer to its own
  line; one unread answer puts every later query one answer behind; the error queue is
  drained completely, within the 64 reads the client allows itself.
\<close>

section \<open>The client\<close>

record 't client =
  default_timeout :: int
  link :: 't

definition kMaxErrorQueueDrain :: nat where "kMaxErrorQueueDrain = 64"

definition on_link :: "('t, 'a) io \<Rightarrow> ('t client, 'a) io" where
  "on_link m = on_member link (\<lambda>t c. c\<lparr>link := t\<rparr>) m"

definition client_open :: "'t transport \<Rightarrow> ('t client, unit) io" where
  "client_open tr = on_link (t_open tr)"

definition client_close :: "'t transport \<Rightarrow> ('t client, unit) io" where
  "client_close tr = on_link (t_close tr)"

definition client_is_open :: "'t transport \<Rightarrow> 't client \<Rightarrow> bool" where
  "client_is_open tr c = t_is_open tr (link c)"

definition terminator_text :: string where
  "terminator_text = ''SCPI command must be a single line (it contains a carriage return or line '' @
     ''feed); use separate calls, or a '' @ [squote] @ '';'' @ [squote] @ ''-separated command line''"

definition write_line :: "'t transport \<Rightarrow> string \<Rightarrow> int \<Rightarrow> ('t client, unit) io" where
  "write_line tr command timeout =
     require (\<not> has_line_terminator command) (InvalidArgument terminator_text)
       (on_link (t_write tr (command @ [line_feed]) timeout))"

definition send :: "'t transport \<Rightarrow> string \<Rightarrow> ('t client, unit) io" where
  "send tr command c = write_line tr command (default_timeout c) c"

definition query_within :: "'t transport \<Rightarrow> string \<Rightarrow> int \<Rightarrow> ('t client, string) io" where
  "query_within tr command timeout =
     and_then (write_line tr command timeout) (\<lambda>_. on_link (t_read_line tr timeout))"

definition query_line :: "'t transport \<Rightarrow> string \<Rightarrow> ('t client, string) io" where
  "query_line tr command c = query_within tr command (default_timeout c) c"

definition query_value :: "'t transport \<Rightarrow> string \<Rightarrow> ('t client, double) io" where
  "query_value tr command = parsed to_double (query_line tr command)"

definition query_values :: "'t transport \<Rightarrow> string \<Rightarrow> ('t client, double list) io" where
  "query_values tr command = parsed parse_values (query_line tr command)"

definition query_int :: "'t transport \<Rightarrow> string \<Rightarrow> ('t client, int) io" where
  "query_int tr command = parsed to_int (query_line tr command)"

definition query_bool :: "'t transport \<Rightarrow> string \<Rightarrow> ('t client, bool) io" where
  "query_bool tr command = parsed to_bool (query_line tr command)"

definition query_strings :: "'t transport \<Rightarrow> string \<Rightarrow> ('t client, string list) io" where
  "query_strings tr command = parsed (\<lambda>line. Inr (read_strings line)) (query_line tr command)"

text \<open>The loop of \<open>read_all_errors\<close>: \<open>n\<close> reads are left, \<open>es\<close> are the errors so far.\<close>

definition not_draining_text :: string where
  "not_draining_text = ''SYST:ERR? still reported errors after '' @ to_string (int kMaxErrorQueueDrain) @
     '' reads; the error queue is not draining''"

fun drain_errors :: "'t transport \<Rightarrow> nat \<Rightarrow> scpi_error_info list \<Rightarrow> ('t client, scpi_error_info list) io" where
  "drain_errors tr 0 es = throw (ProtocolError not_draining_text)"
| "drain_errors tr (Suc n) es =
     and_then (parsed parse_error (query_line tr ''SYST:ERR?''))
       (\<lambda>entry. if code entry = 0 then ret es else drain_errors tr n (es @ [entry]))"

definition read_all_errors :: "'t transport \<Rightarrow> ('t client, scpi_error_info list) io" where
  "read_all_errors tr = drain_errors tr kMaxErrorQueueDrain []"

definition throw_if_error :: "'t transport \<Rightarrow> ('t client, unit) io" where
  "throw_if_error tr = and_then (read_all_errors tr) (\<lambda>es. if es \<noteq> [] then throw (scpi_error es) else ret ())"

definition set_default_timeout :: "int \<Rightarrow> ('t client, unit) io" where
  "set_default_timeout timeout c = Some (c\<lparr>default_timeout := timeout\<rparr>, Inr ())"

text \<open>Several queries, one after the other.\<close>

fun ask_all :: "'t transport \<Rightarrow> string list \<Rightarrow> ('t client, string list) io" where
  "ask_all tr [] = ret []"
| "ask_all tr (l # ls) = and_then (query_line tr l) (\<lambda>a. and_then (ask_all tr ls) (\<lambda>as. ret (a # as)))"

section \<open>Over any line transport\<close>

lemma on_link_run [io_simps]:
  "m (link c) = Some (t, r) \<Longrightarrow> on_link m c = Some (c\<lparr>link := t\<rparr>, r)"
  "m (link c) = None \<Longrightarrow> on_link m c = None"
  by (simp_all add: on_link_def on_member_def)

text \<open>A command with a line terminator never reaches the transport.\<close>

lemma terminator_rejected:
  "has_line_terminator l \<Longrightarrow> write_line tr l tm c = Some (c, Inl (InvalidArgument terminator_text))"
  by (simp add: write_line_def io_simps)

context line_transport
begin

lemma write_line_served:
  assumes "ready (link c)" "\<not> has_line_terminator l" "serve l (device (link c)) = Some (d, r)"
  shows "\<exists>u. write_line tr l tm c = Some (c\<lparr>link := u\<rparr>, Inr ()) \<and> ready u \<and> device u = d \<and>
    unread u = unread (link c) @ answer_list r"
  using write_served [OF assms, of tm] assms(2) by (auto simp: write_line_def io_simps)

lemma send_served:
  assumes "ready (link c)" "\<not> has_line_terminator l" "serve l (device (link c)) = Some (d, r)"
  shows "\<exists>u. send tr l c = Some (c\<lparr>link := u\<rparr>, Inr ()) \<and> ready u \<and> device u = d \<and>
    unread u = unread (link c) @ answer_list r"
  using write_line_served [OF assms] by (simp add: send_def)

text \<open>The answers not yet read come first, whatever is asked.\<close>

lemma query_order:
  assumes "ready (link c)" "\<not> has_line_terminator l" "serve l (device (link c)) = Some (d, r)"
    and "unread (link c) @ answer_list r = a # as"
  shows "\<exists>u. query_line tr l c = Some (c\<lparr>link := u\<rparr>, Inr a) \<and> ready u \<and> device u = d \<and> unread u = as"
proof -
  obtain u where u: "write_line tr l (default_timeout c) c = Some (c\<lparr>link := u\<rparr>, Inr ())"
      "ready u" "device u = d" "unread u = a # as"
    using write_line_served [OF assms(1-3)] assms(4) by metis
  obtain v where "t_read_line tr (default_timeout c) u = Some (v, Inr a)"
      "ready v" "device v = device u" "unread v = as"
    using read_answer [OF u(2,4)] by metis
  then show ?thesis
    using u by (intro exI [of _ v]) (simp add: query_line_def query_within_def io_simps)
qed

lemma query_in_step:
  assumes "ready (link c)" "unread (link c) = []" "\<not> has_line_terminator l"
    and "serve l (device (link c)) = Some (d, Some a)"
  shows "\<exists>u. query_line tr l c = Some (c\<lparr>link := u\<rparr>, Inr a) \<and> ready u \<and> device u = d \<and> unread u = []"
  using query_order [OF assms(1,3,4)] assms(2) by simp

lemma query_behind:
  assumes "ready (link c)" "unread (link c) = stale # as" "\<not> has_line_terminator l"
    and "serve l (device (link c)) = Some (d, Some a)"
  shows "\<exists>u. query_line tr l c = Some (c\<lparr>link := u\<rparr>, Inr stale) \<and> ready u \<and> device u = d \<and> unread u = as @ [a]"
  using query_order [OF assms(1,3,4)] assms(2) by simp

lemma query_unanswered:
  assumes "ready (link c)" "unread (link c) = []" "\<not> has_line_terminator l"
    and "serve l (device (link c)) = Some (d, None)"
  shows "\<exists>u m. query_line tr l c = Some (c\<lparr>link := u\<rparr>, Inl (TimeoutError m)) \<and> device u = d"
proof -
  obtain u where u: "write_line tr l (default_timeout c) c = Some (c\<lparr>link := u\<rparr>, Inr ())"
      "ready u" "device u = d" "unread u = []"
    using write_line_served [OF assms(1,3,4)] assms(2) by auto
  obtain v m where "t_read_line tr (default_timeout c) u = Some (v, Inl (TimeoutError m))" "device v = device u"
    using read_nothing [OF u(2,4)] by metis
  then show ?thesis
    using u by (intro exI [of _ v] exI [of _ m]) (simp add: query_line_def query_within_def io_simps)
qed

text \<open>Answers come in order, the unread ones before the new ones.\<close>

lemma ask_all_in_order:
  assumes "ready (link c)" "\<forall>l \<in> set ls. \<not> has_line_terminator l"
    and "serve_all serve ls (device (link c)) = Some (d', map Some as)"
  shows "\<exists>u. ask_all tr ls c = Some (c\<lparr>link := u\<rparr>, Inr (take (length ls) (unread (link c) @ as))) \<and>
    unread u = drop (length ls) (unread (link c) @ as) \<and> device u = d' \<and> ready u"
  using assms
proof (induction ls arbitrary: c as)
  case Nil
  then show ?case by (intro exI [of _ "link c"]) (simp add: ret_run)
next
  case (Cons l ls)
  obtain d r rs where d: "serve l (device (link c)) = Some (d, r)" "serve_all serve ls d = Some (d', rs)" "map Some as = r # rs"
    using Cons.prems(3) by (auto split: option.splits)
  then obtain a as' where as: "as = a # as'" "r = Some a" "rs = map Some as'" by (cases as) auto
  obtain x xs where x: "unread (link c) @ [a] = x # xs" by (cases "unread (link c) @ [a]") auto
  obtain u where u: "query_line tr l c = Some (c\<lparr>link := u\<rparr>, Inr x)" "ready u" "device u = d" "unread u = xs"
    using query_order [OF Cons.prems(1) _ d(1), of x xs] Cons.prems(2) x as(2) by auto
  have split: "unread (link c) @ as = x # xs @ as'"
    using x as(1) by (metis append.assoc append_Cons append_Nil)
  obtain v where "ask_all tr ls (c\<lparr>link := u\<rparr>) = Some (c\<lparr>link := v\<rparr>, Inr (take (length ls) (xs @ as')))"
      "unread v = drop (length ls) (xs @ as')" "device v = d'" "ready v"
    using Cons.IH [of "c\<lparr>link := u\<rparr>" as'] u d(2) as(3) Cons.prems(2) by auto
  then show ?case
    using u(1) unfolding split by (intro exI [of _ v]) (simp add: io_simps)
qed

end

section \<open>Draining the error queue\<close>

text \<open>An entry as it arrives: the code always, the message unless it holds a double quote.\<close>

definition arrives_as :: "scpi_error_info \<Rightarrow> scpi_error_info \<Rightarrow> bool" where
  "arrives_as e e' \<longleftrightarrow> code e' = code e \<and> (dquote \<notin> set (message e) \<longrightarrow> e' = e)"

definition readable :: "scpi_error_info \<Rightarrow> bool" where
  "readable e \<longleftrightarrow> code e \<noteq> 0 \<and> int_min \<le> code e \<and> code e \<le> int_max"

definition entry_text :: "int \<Rightarrow> string \<Rightarrow> string" where
  "entry_text c m = to_string c @ '','' @ quote m"

lemma parse_error_entry:
  assumes "int_min \<le> c" "c \<le> int_max"
  shows "\<exists>m'. parse_error (entry_text c m) = Inr \<lparr>code = c, message = m'\<rparr> \<and> (dquote \<notin> set m \<longrightarrow> m' = m)"
proof -
  obtain x xs where f: "split_csv (entry_text c m) = to_string c # x # xs"
    using split_csv_after_number [of c "quote m"] by (auto simp: entry_text_def)
  have "x = quote m" if "dquote \<notin> set m"
    using split_csv_pairs [of "[\<lparr>code = c, message = m\<rparr>]"] that f by (simp add: entry_text_def)
  then show ?thesis using assms f by (auto simp: parse_error_def)
qed

text \<open>
  A device with an error queue: \<open>SYST:ERR?\<close> answers and removes the oldest entry, or answers
  code 0 and leaves the device as it is but for what \<open>rest\<close> does not show.
\<close>

locale error_device = line_transport tr ready unread device serve
  for tr :: "'t transport" and ready unread and device :: "'t \<Rightarrow> 'd" and serve +
  fixes queue :: "'d \<Rightarrow> scpi_error_info list"
    and rest :: "'d \<Rightarrow> 'r"
  assumes serve_error: "queue d = e # es \<Longrightarrow>
      \<exists>d'. serve ''SYST:ERR?'' d = Some (d', Some (entry_text (code e) (message e))) \<and> queue d' = es \<and> rest d' = rest d"
    and serve_no_error: "queue d = [] \<Longrightarrow>
      \<exists>d' m. serve ''SYST:ERR?'' d = Some (d', Some (entry_text 0 m)) \<and> queue d' = [] \<and> rest d' = rest d"
begin

lemma error_query_single: "\<not> has_line_terminator ''SYST:ERR?''"
  by (simp add: has_line_terminator_def)

lemma query_entry:
  assumes "ready (link c)" "unread (link c) = []" "int_min \<le> n" "n \<le> int_max"
    and "serve ''SYST:ERR?'' (device (link c)) = Some (d, Some (entry_text n m))"
  shows "\<exists>u m'. parsed parse_error (query_line tr ''SYST:ERR?'') c = Some (c\<lparr>link := u\<rparr>, Inr \<lparr>code = n, message = m'\<rparr>) \<and>
    ready u \<and> device u = d \<and> unread u = [] \<and> (dquote \<notin> set m \<longrightarrow> m' = m)"
proof -
  obtain u where "query_line tr ''SYST:ERR?'' c = Some (c\<lparr>link := u\<rparr>, Inr (entry_text n m))"
      "ready u" "device u = d" "unread u = []"
    using query_in_step [OF assms(1,2) error_query_single assms(5)] by metis
  moreover obtain m' where "parse_error (entry_text n m) = Inr \<lparr>code = n, message = m'\<rparr>" "dquote \<notin> set m \<longrightarrow> m' = m"
    using parse_error_entry [OF assms(3,4)] by metis
  ultimately show ?thesis by (intro exI [of _ u] exI [of _ m']) (simp add: io_simps)
qed

lemma drain_errors_complete:
  assumes "ready (link c)" "unread (link c) = []" "queue (device (link c)) = es" "list_all readable es" "length es < n"
  shows "\<exists>u es'. drain_errors tr n acc c = Some (c\<lparr>link := u\<rparr>, Inr (acc @ es')) \<and> list_all2 arrives_as es es' \<and>
    ready u \<and> unread u = [] \<and> queue (device u) = [] \<and> rest (device u) = rest (device (link c))"
  using assms
proof (induction es arbitrary: c n acc)
  case Nil
  then obtain k where n: "n = Suc k" by (cases n) auto
  obtain d m where "serve ''SYST:ERR?'' (device (link c)) = Some (d, Some (entry_text 0 m))"
      "queue d = []" "rest d = rest (device (link c))"
    using serve_no_error [OF Nil(3)] by metis
  then show ?case
    using query_entry [OF Nil(1,2), of 0] by (fastforce simp: n cxx_limits io_simps)
next
  case (Cons e es)
  then obtain k where n: "n = Suc k" by (cases n) auto
  obtain d where d: "serve ''SYST:ERR?'' (device (link c)) = Some (d, Some (entry_text (code e) (message e)))"
      "queue d = es" "rest d = rest (device (link c))"
    using serve_error [OF Cons.prems(3)] by metis
  then obtain u m where u: "parsed parse_error (query_line tr ''SYST:ERR?'') c = Some (c\<lparr>link := u\<rparr>, Inr \<lparr>code = code e, message = m\<rparr>)"
      "ready u" "device u = d" "unread u = []" "dquote \<notin> set (message e) \<longrightarrow> m = message e"
    using query_entry [OF Cons.prems(1,2) _ _ d(1)] Cons.prems(4) by (auto simp: readable_def)
  obtain v es' where v: "drain_errors tr k (acc @ [\<lparr>code = code e, message = m\<rparr>]) (c\<lparr>link := u\<rparr>) =
      Some (c\<lparr>link := v\<rparr>, Inr (acc @ [\<lparr>code = code e, message = m\<rparr>] @ es'))" "list_all2 arrives_as es es'"
      "ready v" "unread v = []" "queue (device v) = []" "rest (device v) = rest d"
    using Cons.IH [of "c\<lparr>link := u\<rparr>" k "acc @ [\<lparr>code = code e, message = m\<rparr>]"] Cons.prems n u d by auto
  have "arrives_as e \<lparr>code = code e, message = m\<rparr>" using u(5) by (auto simp: arrives_as_def)
  then show ?case
    using u(1) v d(3) Cons.prems(4)
    by (intro exI [of _ v] exI [of _ "\<lparr>code = code e, message = m\<rparr> # es'"])
      (simp add: n io_simps readable_def)
qed

text \<open>A queue that does not fit the reads is reported as a protocol error, never as empty.\<close>

lemma drain_errors_bound:
  assumes "ready (link c)" "unread (link c) = []" "queue (device (link c)) = es" "list_all readable es" "n \<le> length es"
  shows "\<exists>u. drain_errors tr n acc c = Some (c\<lparr>link := u\<rparr>, Inl (ProtocolError not_draining_text)) \<and>
    queue (device u) = drop n es \<and> ready u \<and> unread u = []"
  using assms
proof (induction n arbitrary: c es acc)
  case 0
  then show ?case by (intro exI [of _ "link c"]) (simp add: throw_run)
next
  case (Suc n)
  then obtain e es' where es: "es = e # es'" by (cases es) auto
  obtain d where d: "serve ''SYST:ERR?'' (device (link c)) = Some (d, Some (entry_text (code e) (message e)))" "queue d = es'"
    using serve_error Suc.prems(3) es by metis
  then obtain u m where u: "parsed parse_error (query_line tr ''SYST:ERR?'') c = Some (c\<lparr>link := u\<rparr>, Inr \<lparr>code = code e, message = m\<rparr>)"
      "ready u" "device u = d" "unread u = []"
    using query_entry [OF Suc.prems(1,2) _ _ d(1)] Suc.prems(4) es by (auto simp: readable_def)
  then show ?case
    using Suc.IH [of "c\<lparr>link := u\<rparr>" es' "acc @ [\<lparr>code = code e, message = m\<rparr>]"] Suc.prems es d
    by (auto simp: io_simps readable_def)
qed

lemma throw_if_error_reports:
  assumes "ready (link c)" "unread (link c) = []" "list_all readable (queue (device (link c)))"
    and "length (queue (device (link c))) < kMaxErrorQueueDrain"
  shows "\<exists>u es'. throw_if_error tr c = Some (c\<lparr>link := u\<rparr>, if es' = [] then Inr () else Inl (ScpiError es')) \<and>
    list_all2 arrives_as (queue (device (link c))) es' \<and>
    ready u \<and> unread u = [] \<and> queue (device u) = [] \<and> rest (device u) = rest (device (link c))"
proof -
  obtain u es' where "read_all_errors tr c = Some (c\<lparr>link := u\<rparr>, Inr es')" "list_all2 arrives_as (queue (device (link c))) es'"
      "ready u" "unread u = []" "queue (device u) = []" "rest (device u) = rest (device (link c))"
    using drain_errors_complete [OF assms(1,2) refl assms(3,4), of "[]"] by (auto simp: read_all_errors_def)
  then show ?thesis
    by (intro exI [of _ u] exI [of _ es']) (auto simp: throw_if_error_def io_simps scpi_error_def)
qed

end

end
