(* ===== verification/Sim_State.thy ===== *)
theory Sim_State
  imports Types
begin

unbundle bit_operations_syntax

text \<open>
  What the simulated instrument is and remembers, from
  \<open>module/simulator/include/fluke/norma/simulator/norma_simulator.hpp\<close>: the signal it
  sees, its fixed options, its whole mutable state (\<open>SimulatorState\<close>) and the simulator
  object that holds them. A \<open>std::array\<close> is a list of the array's length, the error
  queue (\<open>std::deque\<close>) a list with the oldest entry first.
\<close>

section \<open>Signal and options\<close>

record phase_signal =
  voltage_rms :: double
  current_rms :: double
  phase_shift_deg :: double
  voltage_dc :: double
  current_dc :: double
  voltage_thd :: double
  current_thd :: double

definition default_phase_signal :: phase_signal where
  "default_phase_signal = \<lparr>voltage_rms = lit 230 1, current_rms = lit 1 1, phase_shift_deg = dzero,
     voltage_dc = dzero, current_dc = dzero, voltage_thd = dzero, current_thd = dzero\<rparr>"

record simulated_signal =
  present :: bool
  frequency :: double
  phases :: "phase_signal list"

definition default_signal :: simulated_signal where
  "default_signal = \<lparr>present = True, frequency = lit 50 1, phases = replicate 6 default_phase_signal\<rparr>"

record simulator_options =
  identification :: identification
  scpi_version :: string
  options_response :: string
  channels :: int
  voltage_ranges :: "double list"
  current_ranges :: "double list"

definition default_options :: simulator_options where
  "default_options = \<lparr>
     identification = \<lparr>manufacturer = ''Fluke'', model = ''NORMA5000'',
                       serial_number = ''KN34512BA'', firmware_version = ''01.05''\<rparr>,
     scpi_version = ''1999.0'',
     options_response = ''PP54,PI1'',
     channels = kMaxInputChannel,
     voltage_ranges = [lit 3 10, lit 1 1, lit 3 1, lit 10 1, lit 30 1, lit 100 1, lit 300 1, lit 1000 1],
     current_ranges = [lit 3 100, lit 1 10, lit 3 10, lit 1 1, lit 3 1, lit 10 1]\<rparr>"

section \<open>State\<close>

record channel_config =
  ch_range :: double
  ch_autorange :: bool
  ch_scale :: double

definition default_channel_config :: channel_config where
  "default_channel_config = \<lparr>ch_range = lit 1000 1, ch_autorange = True, ch_scale = lit 1 1\<rparr>"

record sweep_config =
  sweep_enabled :: bool
  sweep_time :: double
  sweep_offset_time :: double
  sweep_count :: int
  sweep_sparsing :: int
  sweep_functions :: "string list"

definition default_sweep_config :: sweep_config where
  "default_sweep_config = \<lparr>sweep_enabled = False, sweep_time = lit 1 1, sweep_offset_time = dzero,
     sweep_count = 1, sweep_sparsing = 1, sweep_functions = []\<rparr>"

record register_state =
  event :: int
  enable :: int
  ptransition :: int
  ntransition :: int
  previous_condition :: int

definition default_register_state :: register_state where
  "default_register_state = \<lparr>event = 0, enable = 0, ptransition = 65535, ntransition = 0,
     previous_condition = 0\<rparr>"

record simulator_state =
  wiring_system :: wiring_system
  coupling :: "coupling list"
  shunt :: "shunt list"
  gain :: "double list"
  filter_on :: "bool list"
  filter_frequency :: double
  voltage :: "channel_config list"
  current :: "channel_config list"
  aperture :: double
  sampling_frequency :: double
  sync_enabled :: bool
  sync_source :: string
  sync_level :: double
  sync_level_unit :: level_unit
  sync_slope :: slope
  sync_filter :: bool
  sync_filter_frequency :: double
  sync_timeout :: double
  meas_functions :: "string list"
  concurrent :: bool
  continuous :: bool
  initiated :: bool
  trigger_start_source :: string
  trigger_stop_source :: string
  trigger_start_level :: double
  trigger_stop_level :: double
  trigger_start_slope :: slope
  trigger_stop_slope :: slope
  data_format :: data_format_setting
  status_format :: data_format_setting
  byte_order :: byte_order
  transpose_on :: bool
  harmonic_order :: int
  transform_mode :: transform_mode
  transform_functions :: "string list"
  transform_start :: double
  transform_stop :: double
  transform_cycles :: int
  transform_grouping :: harmonic_grouping
  integral_enabled :: bool
  integral_running :: bool
  integral_auto_clear :: bool
  integral_functions :: "string list"
  integral_start_source :: integral_start_source
  integral_stop_source :: integral_stop_source
  integral_stop_interval :: double
  power_correction :: power_correction
  efficiency_input :: string
  efficiency_output :: string
  sweep :: "sweep_config list"
  display_enabled :: bool
  display_functions :: "string list"
  output_enabled :: bool
  key_lock :: key_lock
  date :: date
  time_of_day :: time
  gpib_address :: int
  serial_baud :: int
  language :: string
  timer_seconds :: double
  event_status :: int
  event_status_enable :: int
  service_request_enable :: int
  operation :: register_state
  questionable :: register_state
  questionable_voltage :: register_state
  questionable_current :: register_state
  errors :: "scpi_error_info list"
  saved_setups :: "bool list"


text \<open>The member initialisers of \<open>SimulatorState\<close>; an array with \<open>{}\<close> is value-initialised.\<close>

definition initial_state :: simulator_state where
  "initial_state = \<lparr>
     wiring_system = ThreeWattmeter,
     coupling = replicate 13 AC, shunt = replicate 13 Internal, gain = replicate 13 dzero,
     filter_on = replicate 13 False, filter_frequency = lit 300000 1,
     voltage = replicate 7 default_channel_config, current = replicate 7 default_channel_config,
     aperture = lit 1 10, sampling_frequency = lit 100000 1,
     sync_enabled = True, sync_source = ''VOLT1'', sync_level = dzero, sync_level_unit = Percent,
     sync_slope = Positive, sync_filter = False, sync_filter_frequency = lit 1000 1,
     sync_timeout = lit 1 1,
     meas_functions = [], concurrent = True, continuous = True, initiated = False,
     trigger_start_source = ''IMM'', trigger_stop_source = ''IMM'',
     trigger_start_level = dzero, trigger_stop_level = dzero,
     trigger_start_slope = Positive, trigger_stop_slope = Positive,
     data_format = \<lparr>fmt_format = Ascii, fmt_length = 6\<rparr>,
     status_format = \<lparr>fmt_format = Ascii, fmt_length = 16\<rparr>,
     byte_order = Normal, transpose_on = False,
     harmonic_order = 1, transform_mode = Fft, transform_functions = [],
     transform_start = dzero, transform_stop = lit 5000 1, transform_cycles = 10,
     transform_grouping = Component,
     integral_enabled = False, integral_running = False, integral_auto_clear = True,
     integral_functions = [], integral_start_source = StartCommand,
     integral_stop_source = StopCommand, integral_stop_interval = lit 60 1,
     power_correction = Star, efficiency_input = [], efficiency_output = [],
     sweep = replicate 3 default_sweep_config,
     display_enabled = True, display_functions = [], output_enabled = False,
     key_lock = KeyOff,
     date = \<lparr>date_year = 2026, date_month = 1, date_day = 1\<rparr>,
     time_of_day = \<lparr>time_hours = 12, time_minutes = 0, time_seconds = 0\<rparr>,
     gpib_address = 5, serial_baud = 115200, language = ''DEFault'', timer_seconds = dzero,
     event_status = 0, event_status_enable = 0, service_request_enable = 0,
     operation = default_register_state, questionable = default_register_state,
     questionable_voltage = default_register_state, questionable_current = default_register_state,
     errors = [], saved_setups = replicate 25 False\<rparr>"

text \<open>The simulator object: its private members.\<close>

record simulator =
  opts :: simulator_options
  st :: simulator_state
  signal :: simulated_signal
  handled_lines :: int

definition set_st :: "(simulator_state \<Rightarrow> simulator_state) \<Rightarrow> simulator \<Rightarrow> simulator" where
  "set_st f s = s\<lparr>st := f (st s)\<rparr>"

section \<open>Error codes\<close>

definition kMissingParameter :: int where "kMissingParameter = - 109"
definition kUndefinedHeader :: int where "kUndefinedHeader = - 113"
definition kExecutionError :: int where "kExecutionError = - 200"
definition kSettingsConflict :: int where "kSettingsConflict = - 221"
definition kDataOutOfRange :: int where "kDataOutOfRange = - 222"
definition kIllegalParameterValue :: int where "kIllegalParameterValue = - 224"
definition kQueueOverflow :: int where "kQueueOverflow = - 350"

lemmas error_codes = kMissingParameter_def kUndefinedHeader_def kExecutionError_def
  kSettingsConflict_def kDataOutOfRange_def kIllegalParameterValue_def kQueueOverflow_def

section \<open>Reset, status and errors\<close>

text \<open>\<open>*RST\<close>: everything returns to its default, only the error queue survives.\<close>

definition reset :: "simulator \<Rightarrow> simulator" where
  "reset s = s\<lparr>st := initial_state\<lparr>
     coupling := replicate 13 DC, shunt := replicate 13 Internal,
     gain := replicate 13 (lit 1 1), filter_on := replicate 13 True,
     voltage := replicate 7 \<lparr>ch_range = last (voltage_ranges (opts s)), ch_autorange = True, ch_scale = lit 1 1\<rparr>,
     current := replicate 7 \<lparr>ch_range = last (current_ranges (opts s)), ch_autorange = True, ch_scale = lit 1 1\<rparr>,
     errors := errors (st s)\<rparr>\<rparr>"

text \<open>The constructor.\<close>

definition new_simulator :: "simulator_options \<Rightarrow> simulator" where
  "new_simulator options =
     reset \<lparr>opts = options, st = initial_state, signal = default_signal, handled_lines = 0\<rparr>"

definition clear_status :: "simulator \<Rightarrow> simulator" where
  "clear_status s = set_st (\<lambda>x. x\<lparr>
     errors := [], event_status := 0,
     operation := (operation x)\<lparr>event := 0\<rparr>,
     questionable := (questionable x)\<lparr>event := 0\<rparr>,
     questionable_voltage := (questionable_voltage x)\<lparr>event := 0\<rparr>,
     questionable_current := (questionable_current x)\<lparr>event := 0\<rparr>\<rparr>) s"

definition push_error :: "int \<Rightarrow> string \<Rightarrow> simulator \<Rightarrow> simulator" where
  "push_error c msg s =
     (if 32 \<le> length (errors (st s))
      then set_st (\<lambda>x. x\<lparr>errors := butlast (errors x) @ [\<lparr>code = kQueueOverflow, message = ''Queue overflow''\<rparr>]\<rparr>) s
      else set_st (\<lambda>x. x\<lparr>errors := errors x @ [\<lparr>code = c, message = msg\<rparr>],
                         event_status := event_status x OR 32\<rparr>) s)"

end
