(* ===== verification/Sim_Support.thy ===== *)
theory Sim_Support
  imports Sim_State
begin

text \<open>
  The string, formatting and parameter helpers of
  \<open>module/simulator/src/simulator_support.cpp\<close> and the types of
  \<open>simulator_internal.hpp\<close>: the tokens of a header, the parsed command, and \<open>Access\<close>, the
  plumbing through which every handler reads and writes one setting.

  A handler's \<open>Access\<close> holds references to the simulator and to the command, so it is a
  pair of them here (\<open>access\<close>), passed through and returned updated. A C++ reference
  parameter (\<open>double& field\<close>) is an in-out value: the operation takes the field's value and
  returns the new one; \<open>on_field\<close> binds it to a field of the state. Queuing an error only
  touches the error queue and the event status register, which no handler passes by
  reference, so copying in and out is what the reference does.
\<close>

section \<open>Spellings and numbers\<close>

definition short_form :: "string \<Rightarrow> string" where
  "short_form mnemonic = takeWhile (\<lambda>c. is_upper c \<or> is_digit c) mnemonic"

definition mnemonic_matches :: "string \<Rightarrow> string \<Rightarrow> bool" where
  "mnemonic_matches tok mnemonic \<longleftrightarrow> tok = short_form mnemonic \<or> tok = upper mnemonic"

definition format_setting :: "double \<Rightarrow> string" where
  "format_setting value = map (\<lambda>c. if c = CHR ''e'' then CHR ''E'' else c) (snprintf64 (format_g9 value))"

definition format_bool :: "bool \<Rightarrow> string" where
  "format_bool value = (if value then ''1'' else ''0'')"

definition quote_join :: "string list \<Rightarrow> string" where
  "quote_join values = join_with '','' (map quote values)"

definition join_values :: "double list \<Rightarrow> string" where
  "join_values values = join_with '','' (map format_setting values)"

text \<open>Both parsers return \<open>None\<close> where the source returns \<open>false\<close> and leaves \<open>out\<close> alone.\<close>

definition parse_number :: "string \<Rightarrow> double option" where
  "parse_number txt =
     (if txt = [] then None
      else case strtod txt of
        None \<Rightarrow> None
      | Some (value, rest) \<Rightarrow> if trim rest \<noteq> [] then None else Some value)"

definition parse_boolean :: "string \<Rightarrow> bool option" where
  "parse_boolean txt = (let value = upper (trim txt) in
     if value = ''ON'' then Some True
     else if value = ''OFF'' then Some False
     else case parse_number txt of
       Some number \<Rightarrow> Some (\<not> deq number dzero)
     | None \<Rightarrow> None)"

section \<open>Tokens and commands\<close>

record token =
  tok_text :: string
  tok_suffix :: int
  tok_has_suffix :: bool

text \<open>
  The trailing digits of a node are its suffix, unless nothing precedes them. (A NUL inside
  them would end the text \<open>atoi\<close> reads, but a digit is no NUL.)
\<close>

definition make_token :: "string \<Rightarrow> token" where
  "make_token node = (let txt = upper (trim node);
       digits = rev (takeWhile is_digit (rev txt)); stem = rev (dropWhile is_digit (rev txt)) in
     if digits \<noteq> [] \<and> stem \<noteq> []
     then \<lparr>tok_text = stem, tok_suffix = atoi digits, tok_has_suffix = True\<rparr>
     else \<lparr>tok_text = txt, tok_suffix = 0, tok_has_suffix = False\<rparr>)"

record command =
  tokens :: "token list"
  key :: string
  suffixes :: "int list"
  query :: bool
  args :: "string list"
  response :: "string option"
  failed :: bool

definition empty_command :: command where
  "empty_command = \<lparr>tokens = [], key = [], suffixes = [], query = False, args = [],
     response = None, failed = False\<rparr>"

text \<open>\<open>Command::suffix()\<close>, \<open>aggregate_suffix()\<close> and \<open>argument(i)\<close>; the first two with their default index.\<close>

definition command_suffix :: "command \<Rightarrow> int" where
  "command_suffix c = (case suffixes c of [] \<Rightarrow> 1 | n # _ \<Rightarrow> if n = 0 then 1 else n)"

definition aggregate_suffix :: "command \<Rightarrow> int" where
  "aggregate_suffix c = (case suffixes c of [] \<Rightarrow> 0 | n # _ \<Rightarrow> n)"

definition argument :: "command \<Rightarrow> nat \<Rightarrow> string option" where
  "argument c i = (if length (args c) \<le> i \<or> args c ! i = [] then None else Some (unquote (args c ! i)))"

section \<open>Access\<close>

type_synonym access = "simulator \<times> command"

definition respond :: "string \<Rightarrow> access \<Rightarrow> access" where
  "respond txt a = (case a of (s, c) \<Rightarrow> (s, c\<lparr>response := Some txt\<rparr>))"

definition fail :: "int \<Rightarrow> string \<Rightarrow> access \<Rightarrow> access" where
  "fail err msg a = (case a of (s, c) \<Rightarrow> (push_error err msg s, c\<lparr>failed := True\<rparr>))"

definition parameter :: "access \<Rightarrow> access \<times> string option" where
  "parameter a = (case argument (snd a) 0 of
     None \<Rightarrow> (fail kMissingParameter ''Missing parameter'' a, None)
   | Some value \<Rightarrow> (a, Some value))"

definition number :: "double \<Rightarrow> double \<Rightarrow> double \<Rightarrow> access \<Rightarrow> double \<times> access" where
  "number lo hi field a =
     (if query (snd a) then (field, respond (format_setting field) a)
      else case parameter a of
        (a', None) \<Rightarrow> (field, a')
      | (a', Some txt) \<Rightarrow>
          (case parse_number txt of
            None \<Rightarrow> (field, fail kIllegalParameterValue (''Illegal parameter value;'' @ txt) a')
          | Some value \<Rightarrow>
              if dlt value lo \<or> dlt hi value
              then (field, fail kDataOutOfRange (''Data out of range;'' @ txt) a')
              else (value, a')))"

definition integer :: "int \<Rightarrow> int \<Rightarrow> int \<Rightarrow> access \<Rightarrow> int \<times> access" where
  "integer lo hi field a =
     (if query (snd a) then (field, respond (to_string field) a)
      else case parameter a of
        (a', None) \<Rightarrow> (field, a')
      | (a', Some txt) \<Rightarrow>
          (case parse_number txt of
            None \<Rightarrow> (field, fail kIllegalParameterValue (''Illegal parameter value;'' @ txt) a')
          | Some value \<Rightarrow>
              let rounded = lround_int value in
              if rounded < lo \<or> hi < rounded
              then (field, fail kDataOutOfRange (''Data out of range;'' @ txt) a')
              else (rounded, a')))"

definition boolean :: "bool \<Rightarrow> access \<Rightarrow> bool \<times> access" where
  "boolean field a =
     (if query (snd a) then (field, respond (format_bool field) a)
      else case parameter a of
        (a', None) \<Rightarrow> (field, a')
      | (a', Some txt) \<Rightarrow>
          (case parse_boolean txt of
            None \<Rightarrow> (field, fail kIllegalParameterValue (''Illegal parameter value;'' @ txt) a')
          | Some value \<Rightarrow> (value, a')))"

text \<open>The loop over the arguments: \<open>Inl\<close> is the offending argument, already trimmed.\<close>

fun scan_function_list :: "string list \<Rightarrow> string + string list" where
  "scan_function_list [] = Inr []"
| "scan_function_list (x # xs) = (let raw = trim x in
     if length raw < 2 \<or> \<not> is_quote (hd raw) then Inl raw
     else case scan_function_list xs of
       Inl bad \<Rightarrow> Inl bad
     | Inr fs \<Rightarrow> Inr (upper (unquote raw) # fs))"

definition read_function_list :: "access \<Rightarrow> access \<times> string list option" where
  "read_function_list a =
     (if args (snd a) = [] then (fail kMissingParameter ''Missing parameter'' a, None)
      else case scan_function_list (args (snd a)) of
        Inl raw \<Rightarrow> (fail kIllegalParameterValue (''Illegal parameter value;'' @ raw) a, None)
      | Inr fs \<Rightarrow> (a, Some fs))"

definition function_list :: "string list \<Rightarrow> access \<Rightarrow> string list \<times> access" where
  "function_list field a =
     (if query (snd a) then (field, respond (quote_join field) a)
      else case read_function_list a of
        (a', None) \<Rightarrow> (field, a')
      | (a', Some fs) \<Rightarrow> (fs, a'))"

text \<open>
  \<open>if (!access.query_only()) return true;\<close> and its counterpart: the rest of the branch is
  the continuation.
\<close>

definition query_only :: "(access \<Rightarrow> access) \<Rightarrow> access \<Rightarrow> access" where
  "query_only k a =
     (if query (snd a) then k a
      else fail kUndefinedHeader (''Undefined header;'' @ key (snd a)) a)"

definition command_only :: "(access \<Rightarrow> access) \<Rightarrow> access \<Rightarrow> access" where
  "command_only k a =
     (if query (snd a) then fail kUndefinedHeader (''Undefined header;'' @ key (snd a) @ ''?'') a
      else k a)"

text \<open>\<open>auto text = access.parameter(); if (!text) return true;\<close>\<close>

definition with_parameter :: "(string \<Rightarrow> access \<Rightarrow> access) \<Rightarrow> access \<Rightarrow> access" where
  "with_parameter k a = (case parameter a of
     (a', None) \<Rightarrow> a'
   | (a', Some txt) \<Rightarrow> k txt a')"

definition find_spelling :: "string \<Rightarrow> ('e \<times> string list) list \<Rightarrow> 'e option" where
  "find_spelling wanted spellings =
     map_option fst (find (\<lambda>(v, names). \<exists>n \<in> set names. wanted = upper n) spellings)"

definition keyword :: "('e \<times> string list) list \<Rightarrow> 'e \<Rightarrow> access \<Rightarrow> 'e \<times> access" where
  "keyword spellings field a =
     (if query (snd a) then
        (field, respond (case map_of spellings field of Some names \<Rightarrow> hd names | None \<Rightarrow> []) a)
      else case parameter a of
        (a', None) \<Rightarrow> (field, a')
      | (a', Some txt) \<Rightarrow>
          (case find_spelling (upper txt) spellings of
            Some v \<Rightarrow> (v, a')
          | None \<Rightarrow> (field, fail kIllegalParameterValue (''Illegal parameter value;'' @ txt) a')))"

text \<open>
  Binding a reference parameter to a field: \<open>rd\<close> selects it, \<open>upd\<close> is its record update.
\<close>

definition on_field ::
  "(simulator_state \<Rightarrow> 'v) \<Rightarrow> (('v \<Rightarrow> 'v) \<Rightarrow> simulator_state \<Rightarrow> simulator_state) \<Rightarrow>
   ('v \<Rightarrow> access \<Rightarrow> 'v \<times> access) \<Rightarrow> access \<Rightarrow> access" where
  "on_field rd upd f a = (case f (rd (st (fst a))) a of
     (v, (s, c)) \<Rightarrow> (set_st (upd (\<lambda>_. v)) s, c))"

text \<open>A direct assignment to the state.\<close>

definition assign :: "(simulator_state \<Rightarrow> simulator_state) \<Rightarrow> access \<Rightarrow> access" where
  "assign f a = (case a of (s, c) \<Rightarrow> (set_st f s, c))"

end
