(* ===== verification/Sim_Specs.thy ===== *)
theory Sim_Specs
  imports Sim_Support
begin

text \<open>
  The command table of \<open>module/simulator/src/norma_simulator.cpp\<close> and the matcher that
  selects an entry for a received header: a pattern is compiled into nodes (the mnemonics
  it accepts, whether it may be omitted, whether it may carry a suffix), and the header's
  tokens are matched against the nodes with backtracking over the optional ones.
\<close>

section \<open>Patterns\<close>

record pattern_node =
  mnemonics :: "string list"
  optional :: bool
  suffixed :: bool

text \<open>The loop over the alternatives of a node: a trailing \<open>#\<close> marks the whole node.\<close>

fun add_alternatives :: "string list \<Rightarrow> pattern_node \<Rightarrow> pattern_node" where
  "add_alternatives [] n = n"
| "add_alternatives (a # as) n =
     (if a \<noteq> [] \<and> last a = CHR ''#''
      then add_alternatives as (n\<lparr>suffixed := True, mnemonics := mnemonics n @ [butlast a]\<rparr>)
      else add_alternatives as (n\<lparr>mnemonics := mnemonics n @ [a]\<rparr>))"

definition compile_node :: "string \<Rightarrow> pattern_node" where
  "compile_node raw = (let node = trim raw;
       bracketed = (node \<noteq> [] \<and> hd node = CHR ''['' \<and> last node = CHR '']'');
       body = (if bracketed then take (length node - 2) (drop 1 node) else node) in
     add_alternatives (split_unquoted body (CHR ''|''))
       \<lparr>mnemonics = [], optional = bracketed, suffixed = False\<rparr>)"

definition compile_pattern :: "string \<Rightarrow> pattern_node list" where
  "compile_pattern pattern = map compile_node (split_unquoted pattern (CHR '':''))"

definition node_accepts :: "pattern_node \<Rightarrow> token \<Rightarrow> bool" where
  "node_accepts node tk \<longleftrightarrow>
     \<not> (tok_has_suffix tk \<and> \<not> suffixed node) \<and>
     list_ex (mnemonic_matches (tok_text tk)) (mnemonics node)"

text \<open>
  \<open>match_pattern\<close>: the positions \<open>pi\<close> and \<open>ti\<close> of the source are the remaining nodes and
  tokens here, and the out-parameter \<open>suffixes\<close>, restored on backtracking, is the result.
\<close>

fun match_pattern :: "pattern_node list \<Rightarrow> token list \<Rightarrow> int list \<Rightarrow> int list option" where
  "match_pattern [] toks sfx = (if toks = [] then Some sfx else None)"
| "match_pattern (node # ps) toks sfx =
     (let present = (case toks of
          [] \<Rightarrow> None
        | t # ts \<Rightarrow> if node_accepts node t
            then match_pattern ps ts (if suffixed node then sfx @ [tok_suffix t] else sfx)
            else None)
      in case present of
        Some r \<Rightarrow> Some r
      | None \<Rightarrow> if optional node then match_pattern ps toks sfx else None)"

section \<open>The command table\<close>

definition command_specs :: "(string \<times> string) list" where
  "command_specs = [
     (''ABOR'', ''ABORt''),
     (''ROUT:SYST'', ''ROUTe:SYSTem''),
     (''INP#:COUP'', ''INPut#:COUPling''),
     (''INP#:GAIN'', ''INPut#:GAIN''),
     (''INP#:FILT:FREQ'', ''INPut#:FILTer:[LPASs]:FREQuency''),
     (''INP#:FILT:STAT'', ''INPut#:FILTer:[STATe]''),
     (''INP#:SHUN'', ''INPut#:SHUNt''),
     (''VOLT#:RANG:LIST'', ''[SENSe]:VOLTage#:[AC|DC]:RANGe:[UPPer]:LIST''),
     (''VOLT#:RANG:AUTO'', ''[SENSe]:VOLTage#:[AC|DC]:RANGe:[UPPer]:AUTO''),
     (''VOLT#:RANG'', ''[SENSe]:VOLTage#:[AC|DC]:RANGe:[UPPer]''),
     (''VOLT#:SCAL'', ''[SENSe]:VOLTage#:[AC|DC]:SCALe''),
     (''CURR#:RANG:LIST'', ''[SENSe]:CURRent#:[AC|DC]:RANGe:[UPPer]:LIST''),
     (''CURR#:RANG:AUTO'', ''[SENSe]:CURRent#:[AC|DC]:RANGe:[UPPer]:AUTO''),
     (''CURR#:RANG'', ''[SENSe]:CURRent#:[AC|DC]:RANGe:[UPPer]''),
     (''CURR#:SCAL'', ''[SENSe]:CURRent#:[AC|DC]:SCALe''),
     (''APER'', ''[SENSe]:[VOLTage#|CURRent#|POWer#]:[AC|DC]:APERture''),
     (''SWE:FREQ'', ''[SENSe]:SWEep:FREQuency''),
     (''FUNC:OFF:ALL'', ''[SENSe]:FUNCtion:OFF:ALL''),
     (''FUNC:CONC'', ''[SENSe]:FUNCtion:CONCurrent''),
     (''FUNC:COUN'', ''[SENSe]:FUNCtion:[ON]:COUNt''),
     (''FUNC:ALL'', ''[SENSe]:FUNCtion:[ON]:ALL''),
     (''FUNC'', ''[SENSe]:FUNCtion:[ON]''),
     (''DATA:STAT'', ''[SENSe]:DATA:STATus''),
     (''DATA'', ''[SENSe]:DATA''),
     (''SWE#:OFFS:POINTS'', ''[SENSe]:SWEep#:OFFSet:POINTS''),
     (''SWE#:OFFS:TIME'', ''[SENSe]:SWEep#:OFFSet:TIME''),
     (''SWE#:POINTS'', ''[SENSe]:SWEep#:POINTS''),
     (''SWE#:TIME'', ''[SENSe]:SWEep#:TIME''),
     (''SWE#:COUN'', ''[SENSe]:SWEep#:COUNt''),
     (''SWE#:SFAC'', ''[SENSe]:SWEep#:SFACtor''),
     (''SWE#:FUNC'', ''[SENSe]:SWEep#:FUNCtion''),
     (''SWE#:STAT'', ''[SENSe]:SWEep#:[STATe]''),
     (''SYNC:STAT'', ''SYNC:STATe''),
     (''SYNC:LEV:UNIT'', ''SYNC:LEVel:UNIT''),
     (''SYNC:TIM'', ''SYNC:TIMeout''),
     (''SYNC:LEV'', ''SYNC:[SOURce|VOLTage#|CURRent#]:LEVel''),
     (''SYNC:SLOP'', ''SYNC:[SOURce|VOLTage#|CURRent#]:SLOPe''),
     (''SYNC:FILT:FREQ'', ''SYNC:[SOURce|VOLTage#|CURRent#]:FILTer:[LPASs]:FREQuency''),
     (''SYNC:FILT:STAT'', ''SYNC:[SOURce|VOLTage#|CURRent#]:FILTer:[LPASs]:[STATe]''),
     (''SYNC:SOUR'', ''SYNC:[SOURce]''),
     (''INIT:CONT'', ''INITiate:CONTinuous''),
     (''INIT:SEQ#'', ''INITiate:[IMMediate]:SEQuence#''),
     (''INIT:NAME'', ''INITiate:[IMMediate]:NAME''),
     (''INIT'', ''INITiate:[IMMediate]''),
     (''TRIG:STAR:SOUR'', ''TRIGger:STARt:SOURce''),
     (''TRIG:STAR:TIME'', ''TRIGger:STARt:TIME''),
     (''TRIG:STAR:LEV'', ''TRIGger:STARt:LEVel''),
     (''TRIG:STAR:SLOP'', ''TRIGger:STARt:SLOPe''),
     (''TRIG:STOP:SOUR'', ''TRIGger:STOP:SOURce''),
     (''TRIG:STOP:TIME'', ''TRIGger:STOP:TIME''),
     (''TRIG:STOP:LEV'', ''TRIGger:STOP:LEVel''),
     (''TRIG:STOP:SLOP'', ''TRIGger:STOP:SLOPe''),
     (''CALC:TRAN:FREQ:MODE'', ''CALCulate:TRANsform:FREQuency:MODE''),
     (''CALC:TRAN:FREQ:FUNC'', ''CALCulate:TRANsform:FREQuency:FUNCtion''),
     (''CALC:TRAN:FREQ:STAR'', ''CALCulate:TRANsform:FREQuency:STARt''),
     (''CALC:TRAN:FREQ:STOP'', ''CALCulate:TRANsform:FREQuency:STOP''),
     (''CALC:TRAN:FREQ:CYCL'', ''CALCulate:TRANsform:FREQuency:CYCLes''),
     (''CALC:TRAN:FREQ:GRO'', ''CALCulate:TRANsform:FREQuency:GROuping''),
     (''CALC:TRAN:FREQ:STAT'', ''CALCulate:TRANsform:FREQuency:[STATe]''),
     (''CALC:DATA:PRE'', ''CALCulate:DATA:PREamble''),
     (''CALC:DATA:THD'', ''CALCulate:DATA:THD''),
     (''CALC:DATA'', ''CALCulate:DATA''),
     (''CALC:INT:CLE:AUTO'', ''CALCulate:INTegral:CLEar:AUTO''),
     (''CALC:INT:CLE'', ''CALCulate:INTegral:CLEar:[IMMediate]''),
     (''CALC:INT:FUNC'', ''CALCulate:INTegral:FUNCtion''),
     (''CALC:INT:STAR:SOUR'', ''CALCulate:INTegral:STARt:SOURce''),
     (''CALC:INT:STAR:TIME'', ''CALCulate:INTegral:STARt:TIME''),
     (''CALC:INT:STAR'', ''CALCulate:INTegral:STARt:[IMMediate]''),
     (''CALC:INT:STOP:SOUR'', ''CALCulate:INTegral:STOP:SOURce''),
     (''CALC:INT:STOP:TIME'', ''CALCulate:INTegral:STOP:TIME''),
     (''CALC:INT:STOP:TINT'', ''CALCulate:INTegral:STOP:TINTerval''),
     (''CALC:INT:STOP'', ''CALCulate:INTegral:STOP:[IMMediate]''),
     (''CALC:INT:STAT'', ''CALCulate:INTegral:[STATe]''),
     (''CALC:HARM:ORD'', ''CALCulate:HARMonic:ORDer''),
     (''CALC:POW:CORR'', ''CALCulate:POWer:CORRected''),
     (''CALC:POW#:EFF:REF'', ''CALCulate:POWer#:EFFiciency:REFerence''),
     (''TRAC:PRE'', ''TRACe:[DATA]:PREamble''),
     (''TRAC:STAT'', ''TRACe:[DATA]:STATus''),
     (''TRAC:FREE'', ''TRACe:FREE''),
     (''TRAC:CAT:LEN'', ''TRACe:CATalog:LENgth''),
     (''TRAC:DEL:ALL'', ''TRACe:DELete:ALL''),
     (''TRAC'', ''TRACe:[DATA]''),
     (''FORM:STAT'', ''FORMat:[DATA]:STATus''),
     (''FORM:BORD'', ''FORMat:BORDer''),
     (''FORM:TRAN'', ''FORMat:TRANspose''),
     (''FORM'', ''FORMat:[DATA]''),
     (''DISP:USER:FUNC'', ''DISPlay:USER:FUNCtion''),
     (''DISP:STAT'', ''DISPlay:[WINDow]:[STATe]''),
     (''OUTP#:STAT'', ''OUTPut#:[STATe]''),
     (''SYST:COMM:GPIB:ADDR'', ''SYSTem:COMMunicate:GPIB:[SELF]:ADDRess''),
     (''SYST:COMM:SER:BAUD'', ''SYSTem:COMMunicate:SERial:BAUD''),
     (''SYST:DATE'', ''SYSTem:DATE''),
     (''SYST:TIME'', ''SYSTem:TIME''),
     (''SYST:ERR:ALL'', ''SYSTem:ERRor:ALL''),
     (''SYST:ERR'', ''SYSTem:ERRor:[NEXT]''),
     (''SYST:KLOC'', ''SYSTem:KLOCk''),
     (''SYST:LANG'', ''SYSTem:LANGuage''),
     (''SYST:VERS'', ''SYSTem:VERSion''),
     (''STAT:OPER:COND'', ''STATus:OPERation:CONDition''),
     (''STAT:OPER:ENAB'', ''STATus:OPERation:ENABle''),
     (''STAT:OPER:PTR'', ''STATus:OPERation:PTRansition''),
     (''STAT:OPER:NTR'', ''STATus:OPERation:NTRansition''),
     (''STAT:OPER:EVEN'', ''STATus:OPERation:[EVENt]''),
     (''STAT:QUES:VOLT:COND'', ''STATus:QUEStionable:VOLTage:CONDition''),
     (''STAT:QUES:VOLT:ENAB'', ''STATus:QUEStionable:VOLTage:ENABle''),
     (''STAT:QUES:VOLT:PTR'', ''STATus:QUEStionable:VOLTage:PTRansition''),
     (''STAT:QUES:VOLT:NTR'', ''STATus:QUEStionable:VOLTage:NTRansition''),
     (''STAT:QUES:VOLT:EVEN'', ''STATus:QUEStionable:VOLTage:[EVENt]''),
     (''STAT:QUES:CURR:COND'', ''STATus:QUEStionable:CURRent:CONDition''),
     (''STAT:QUES:CURR:ENAB'', ''STATus:QUEStionable:CURRent:ENABle''),
     (''STAT:QUES:CURR:PTR'', ''STATus:QUEStionable:CURRent:PTRansition''),
     (''STAT:QUES:CURR:NTR'', ''STATus:QUEStionable:CURRent:NTRansition''),
     (''STAT:QUES:CURR:EVEN'', ''STATus:QUEStionable:CURRent:[EVENt]''),
     (''STAT:QUES:COND'', ''STATus:QUEStionable:CONDition''),
     (''STAT:QUES:ENAB'', ''STATus:QUEStionable:ENABle''),
     (''STAT:QUES:PTR'', ''STATus:QUEStionable:PTRansition''),
     (''STAT:QUES:NTR'', ''STATus:QUEStionable:NTRansition''),
     (''STAT:QUES:EVEN'', ''STATus:QUEStionable:[EVENt]''),
     (''TIM:RES:AUTO'', ''TIMer:RESet:AUTO''),
     (''TIM:RES:TIME'', ''TIMer:RESet:TIME''),
     (''TIM:RES'', ''TIMer:RESet'')]"

definition compiled_specs :: "(string \<times> pattern_node list) list" where
  "compiled_specs = map (\<lambda>(k, p). (k, compile_pattern p)) command_specs"

text \<open>The loop over the table: the first pattern that matches wins.\<close>

fun find_spec :: "(string \<times> pattern_node list) list \<Rightarrow> token list \<Rightarrow> (string \<times> int list) option" where
  "find_spec [] toks = None"
| "find_spec ((k, pattern) # specs) toks =
     (case match_pattern pattern toks [] of
        Some sfx \<Rightarrow> Some (k, sfx)
      | None \<Rightarrow> find_spec specs toks)"

definition lookup_spec :: "token list \<Rightarrow> (string \<times> int list) option" where
  "lookup_spec toks = find_spec compiled_specs toks"

end
