(* ===== verification/Sim_Measure.thy ===== *)
theory Sim_Measure
  imports Sim_Support
begin

unbundle bit_operations_syntax

text \<open>
  The signal model of \<open>module/simulator/src/simulator_measurement.cpp\<close>: what one
  \<open><function>\<close> measures and with which status bits, the \<open>DATA?\<close> response, the live
  conditions of the status registers and the latching of their events.

  \<open>measure\<close> (\<open>measure_fn\<close> here) is recursive: the efficiency of a system measures its two reference functions,
  which may be any function the client named, an efficiency included. It is a
  \<open>partial_function\<close>, and \<open>None\<close> is a recursion that does not end.
\<close>

section \<open>Function names\<close>

record function_name =
  quantity :: string
  fn_suffix :: int
  fn_tail :: "string list"

definition split_function :: "string \<Rightarrow> function_name" where
  "split_function function = (let nodes = split_unquoted function (CHR '':''); head = make_token (hd nodes) in
     \<lparr>quantity = tok_text head, fn_suffix = tok_suffix head, fn_tail = map (\<lambda>n. upper (trim n)) (tl nodes)\<rparr>)"

definition tail_is :: "string list \<Rightarrow> string list \<Rightarrow> bool" where
  "tail_is tail expected \<longleftrightarrow> length tail = length expected \<and> list_all2 mnemonic_matches tail expected"

definition ends_with :: "string list \<Rightarrow> string list \<Rightarrow> bool" where
  "ends_with tail any \<longleftrightarrow> tail \<noteq> [] \<and> list_ex (mnemonic_matches (last tail)) any"

definition aggregated_phases :: "int \<Rightarrow> int list" where
  "aggregated_phases suffix =
     (if 1 \<le> suffix \<and> suffix \<le> kMaxPhase then [suffix]
      else if suffix = 0 then [1, 2, 3]
      else if suffix = 460 then [4, 5, 6]
      else [])"

section \<open>Values\<close>

record simulated_measurement =
  m_value :: double
  m_status :: int

definition unavailable :: simulated_measurement where
  "unavailable = \<lparr>m_value = NaN, m_status = kNotAvailable\<rparr>"

definition undefined_measurement :: simulated_measurement where
  "undefined_measurement = \<lparr>m_value = NaN, m_status = kUndefined\<rparr>"

definition format_value :: "simulator_state \<Rightarrow> double \<Rightarrow> string" where
  "format_value x value =
     (if is_nan value then snprintf64 (format_E 5 kScpiNan)
      else let len = fmt_length (data_format x) in
        if 0 < len then snprintf64 (format_E (len - 1) value)
        else snprintf64 (format_E 5 value))"

definition trace_points :: "simulator_state \<Rightarrow> int option" where
  "trace_points x =
     (let sw = (if sweep_enabled (sweep x ! 1) then sweep x ! 1 else sweep x ! 2) in
      if \<not> sweep_enabled (sweep x ! 1) \<and> \<not> sweep_enabled (sweep x ! 2) then Some 0
      else map_option (\<lambda>points. min points 4096)
        (cast_int (ddiv (sweep_time sw) (dmax (aperture x) kMinAperture))))"

text \<open>The sums over the requested phases, accumulated in the order of the loop.\<close>

record phase_sums =
  sum_voltage_rms :: double
  sum_current_rms :: double
  sum_voltage_dc :: double
  sum_current_dc :: double
  sum_active :: double
  sum_apparent :: double
  sum_reactive :: double
  sum_voltage_thd :: double
  sum_current_thd :: double
  worst_phase_shift :: double

definition zero_sums :: phase_sums where
  "zero_sums = \<lparr>sum_voltage_rms = dzero, sum_current_rms = dzero, sum_voltage_dc = dzero,
     sum_current_dc = dzero, sum_active = dzero, sum_apparent = dzero, sum_reactive = dzero,
     sum_voltage_thd = dzero, sum_current_thd = dzero, worst_phase_shift = dzero\<rparr>"

definition pi_literal :: double where
  "pi_literal = lit 314159265358979323846 (10 ^ 20)"

definition add_phase :: "libm \<Rightarrow> phase_signal \<Rightarrow> phase_sums \<Rightarrow> phase_sums" where
  "add_phase lm s acc = (let
       radians = ddiv (dmul (phase_shift_deg s) pi_literal) (lit 180 1);
       ui = dmul (voltage_rms s) (current_rms s) in
     acc\<lparr>sum_voltage_rms := dadd (sum_voltage_rms acc) (voltage_rms s),
         sum_current_rms := dadd (sum_current_rms acc) (current_rms s),
         sum_voltage_dc := dadd (sum_voltage_dc acc) (voltage_dc s),
         sum_current_dc := dadd (sum_current_dc acc) (current_dc s),
         sum_apparent := dadd (sum_apparent acc) ui,
         sum_active := dadd (sum_active acc) (dmul ui (cos_fn lm radians)),
         sum_reactive := dadd (sum_reactive acc) (dmul ui (sin_fn lm radians)),
         sum_voltage_thd := dadd (sum_voltage_thd acc) (voltage_thd s),
         sum_current_thd := dadd (sum_current_thd acc) (current_thd s),
         worst_phase_shift :=
           (if dlt (dabs (worst_phase_shift acc)) (dabs (phase_shift_deg s))
            then phase_shift_deg s else worst_phase_shift acc)\<rparr>)"

definition sum_phases :: "libm \<Rightarrow> simulated_signal \<Rightarrow> int list \<Rightarrow> phase_sums" where
  "sum_phases lm sg ps = foldl (\<lambda>acc p. add_phase lm (phases sg ! nat (p - 1)) acc) zero_sums ps"

text \<open>The trailing accumulator and harmonic nodes, peeled off the name in this order.\<close>

datatype accumulator = AccNone | AccPositive | AccNegative | AccBoth

definition peel_accumulator :: "string list \<Rightarrow> accumulator \<times> string list" where
  "peel_accumulator tail =
     (if tail = [] then (AccNone, tail)
      else if mnemonic_matches (last tail) ''IPOSitive'' then (AccPositive, butlast tail)
      else if mnemonic_matches (last tail) ''INEGative'' then (AccNegative, butlast tail)
      else if mnemonic_matches (last tail) ''INTegral'' then (AccBoth, butlast tail)
      else (AccNone, tail))"

definition peel_harmonic :: "int \<Rightarrow> string list \<Rightarrow> double \<times> string list" where
  "peel_harmonic order_setting tail =
     (if tail \<noteq> [] \<and> mnemonic_matches (last tail) ''HAR''
      then (let order = double_of_int (max order_setting 1) in (ddiv (lit 1 1) (dmul order order), butlast tail))
      else (lit 1 1, tail))"

text \<open>
  The value of one quantity, before the harmonic factor: not provided, a value with the
  status bits set so far, or the ratio of the two efficiency references.
\<close>

datatype quantity_value = NotProvided | Quantity double int | EfficiencyRatio

definition crest :: double where "crest = lit 141421356237 (10 ^ 11)"

definition voltage_quantity :: "double \<Rightarrow> double \<Rightarrow> double \<Rightarrow> double \<Rightarrow> double \<Rightarrow> string list \<Rightarrow> quantity_value" where
  "voltage_quantity mean count dc thd scl tail =
     (if tail = [] \<or> tail_is tail [''DC''] then Quantity (dmul mean scl) 0
      else if tail_is tail [''AC''] then
        (let d = ddiv dc count; ac_squared = dsub (dmul mean mean) (dmul d d) in
         Quantity (dmul (dsqrt (dmax ac_squared dzero)) scl) 0)
      else if tail_is tail [''MEAN''] then Quantity (dmul (ddiv dc count) scl) 0
      else if tail_is tail [''RMEAN''] \<or> tail_is tail [''RMCORR''] then
        Quantity (dmul (dmul mean (lit 900316316 (10 ^ 9))) scl) 0
      else if tail_is tail [''THD''] then Quantity (ddiv thd count) 0
      else if tail_is tail [''CFACtor''] then Quantity crest 0
      else if tail_is tail [''FFACtor''] then Quantity (lit 111072073454 (10 ^ 11)) 0
      else if tail_is tail [''PTP''] then Quantity (dmul (dmul (dmul (lit 2 1) crest) mean) scl) 0
      else if tail_is tail [''PHIGh''] \<or> tail_is tail [''PHIGH''] then Quantity (dmul (dmul crest mean) scl) 0
      else if tail_is tail [''PLOW''] then Quantity (dmul (dmul (dneg crest) mean) scl) 0
      else if tail_is tail [''PHASe''] then Quantity dzero 0
      else NotProvided)"

definition current_quantity ::
  "double \<Rightarrow> double \<Rightarrow> double \<Rightarrow> double \<Rightarrow> double \<Rightarrow> double \<Rightarrow> string list \<Rightarrow> quantity_value" where
  "current_quantity mean count dc thd scl worst tail =
     (if tail = [] \<or> tail_is tail [''DC''] then Quantity (dmul mean scl) 0
      else if tail_is tail [''AC''] then
        (let d = ddiv dc count; ac_squared = dsub (dmul mean mean) (dmul d d) in
         Quantity (dmul (dsqrt (dmax ac_squared dzero)) scl) 0)
      else if tail_is tail [''MEAN''] then Quantity (dmul (ddiv dc count) scl) 0
      else if tail_is tail [''RMEAN''] \<or> tail_is tail [''RMCORR''] then
        Quantity (dmul (dmul mean (lit 900316316 (10 ^ 9))) scl) 0
      else if tail_is tail [''THD''] then Quantity (ddiv thd count) 0
      else if tail_is tail [''CFACtor''] then Quantity crest 0
      else if tail_is tail [''FFACtor''] then Quantity (lit 111072073454 (10 ^ 11)) 0
      else if tail_is tail [''PTP''] then Quantity (dmul (dmul (dmul (lit 2 1) crest) mean) scl) 0
      else if tail_is tail [''PHIGH''] then Quantity (dmul (dmul crest mean) scl) 0
      else if tail_is tail [''PLOW''] then Quantity (dmul (dmul (dneg crest) mean) scl) 0
      else if tail_is tail [''PHASe''] then Quantity worst 0
      else NotProvided)"

definition power_quantity :: "simulator_state \<Rightarrow> phase_sums \<Rightarrow> double \<Rightarrow> string list \<Rightarrow> quantity_value" where
  "power_quantity x sm scl tail =
     (if tail = [] \<or> tail_is tail [''ACTive''] then Quantity (dmul (sum_active sm) scl) 0
      else if tail_is tail [''APParent''] then Quantity (dmul (sum_apparent sm) scl) 0
      else if tail_is tail [''REACtive''] then Quantity (dmul (sum_reactive sm) scl) 0
      else if tail_is tail [''FACTor''] then
        Quantity (if \<not> deq (sum_apparent sm) dzero then ddiv (sum_active sm) (sum_apparent sm) else NaN)
          (if dlt (worst_phase_shift sm) dzero then kPowerFactorCapacitive else 0)
      else if tail_is tail [''CORRected''] then Quantity (dmul (sum_active sm) scl) 0
      else if tail_is tail [''EFFiciency''] then
        (if efficiency_input x = [] \<or> efficiency_output x = [] then NotProvided else EfficiencyRatio)
      else NotProvided)"

definition impedance_of :: "double \<Rightarrow> double \<Rightarrow> double" where
  "impedance_of mean_voltage mean_current =
     (if \<not> deq mean_current dzero then ddiv mean_voltage mean_current else NaN)"

definition power_factor_of :: "phase_sums \<Rightarrow> double" where
  "power_factor_of sm =
     (if \<not> deq (sum_apparent sm) dzero then ddiv (sum_active sm) (sum_apparent sm) else lit 1 1)"

definition phase_quantity :: "libm \<Rightarrow> phase_sums \<Rightarrow> quantity_value" where
  "phase_quantity lm sm =
     (let value = ddiv (dmul (acos_fn lm (dclamp (power_factor_of sm) (lit (- 1) 1) (lit 1 1))) (lit 180 1)) pi_literal
      in Quantity (if dlt (worst_phase_shift sm) dzero then dneg value else value) 0)"

definition resistance_quantity :: "phase_sums \<Rightarrow> double \<Rightarrow> double \<Rightarrow> string list \<Rightarrow> quantity_value" where
  "resistance_quantity sm mean_voltage mean_current tail =
     (let impedance = impedance_of mean_voltage mean_current; pf = power_factor_of sm in
      if tail_is tail [''SERial''] then Quantity (dmul impedance pf) 0
      else if tail_is tail [''PARallel''] then
        Quantity (if \<not> deq pf dzero then ddiv impedance pf else NaN) 0
      else NotProvided)"

definition reactance_quantity :: "phase_sums \<Rightarrow> double \<Rightarrow> double \<Rightarrow> string list \<Rightarrow> quantity_value" where
  "reactance_quantity sm mean_voltage mean_current tail =
     (let impedance = impedance_of mean_voltage mean_current; pf = power_factor_of sm;
          sine = dsqrt (dmax (dsub (lit 1 1) (dmul pf pf)) dzero) in
      if tail_is tail [''SERial''] then Quantity (dmul impedance sine) 0
      else if tail_is tail [''PARallel''] then
        Quantity (if \<not> deq sine dzero then ddiv impedance sine else NaN) 0
      else NotProvided)"

text \<open>What the chain of quantities selects, and whether the range status applies.\<close>

datatype input_kind = VoltageInput | CurrentInput | DerivedInput

definition input_kind_of :: "string \<Rightarrow> input_kind" where
  "input_kind_of q =
     (if mnemonic_matches q ''VOLTage'' then VoltageInput
      else if mnemonic_matches q ''CURRent'' then CurrentInput
      else DerivedInput)"

definition evaluate_quantity ::
  "libm \<Rightarrow> simulator_state \<Rightarrow> phase_sums \<Rightarrow> int list \<Rightarrow> string \<Rightarrow> string list \<Rightarrow> quantity_value" where
  "evaluate_quantity lm x sm ps q tail =
     (let count = double_of_int (int (length ps));
          mean_voltage = ddiv (sum_voltage_rms sm) count;
          mean_current = ddiv (sum_current_rms sm) count;
          voltage_scale = ch_scale (voltage x ! nat (hd ps));
          current_scale = ch_scale (current x ! nat (hd ps)) in
      if mnemonic_matches q ''VOLTage'' then
        voltage_quantity mean_voltage count (sum_voltage_dc sm) (sum_voltage_thd sm) voltage_scale tail
      else if mnemonic_matches q ''CURRent'' then
        current_quantity mean_current count (sum_current_dc sm) (sum_current_thd sm) current_scale
          (worst_phase_shift sm) tail
      else if mnemonic_matches q ''POWer'' then
        power_quantity x sm (dmul voltage_scale current_scale) tail
      else if mnemonic_matches q ''PHASe'' \<and> tail = [] then phase_quantity lm sm
      else if mnemonic_matches q ''IMPedance'' \<and> (tail = [] \<or> tail_is tail [''APParent'']) then
        Quantity (impedance_of mean_voltage mean_current) 0
      else if mnemonic_matches q ''RESistance'' then
        resistance_quantity sm mean_voltage mean_current tail
      else if mnemonic_matches q ''REACTance'' then
        reactance_quantity sm mean_voltage mean_current tail
      else NotProvided)"

text \<open>Comparing a raw input with the range in use.\<close>

definition range_status :: "channel_config \<Rightarrow> double \<Rightarrow> int" where
  "range_status config raw =
     (if ch_autorange config then 0
      else if dlt (ch_range config) raw then kOverrange
      else if dlt raw (dmul (ch_range config) (lit 5 100)) then kUnderrange
      else 0)"

definition apply_accumulator :: "accumulator \<Rightarrow> double \<Rightarrow> double" where
  "apply_accumulator acc value = (case acc of
     AccPositive \<Rightarrow> dmax value dzero
   | AccNegative \<Rightarrow> dmin value dzero
   | _ \<Rightarrow> value)"

text \<open>The end of \<open>measure\<close>: harmonic factor, accumulator, and the status bits.\<close>

definition finish_measurement ::
  "simulator_state \<Rightarrow> phase_sums \<Rightarrow> int list \<Rightarrow> string \<Rightarrow> double \<Rightarrow> accumulator \<Rightarrow> double \<Rightarrow> int \<Rightarrow> simulated_measurement" where
  "finish_measurement x sm ps q factor acc raw_value status =
     (let value = apply_accumulator acc (dmul raw_value factor);
          count = double_of_int (int (length ps)) in
      if is_nan value then \<lparr>m_value = value, m_status = status OR kUndefined\<rparr>
      else \<lparr>m_value = value, m_status = status OR (case input_kind_of q of
          VoltageInput \<Rightarrow> range_status (voltage x ! nat (hd ps)) (ddiv (sum_voltage_rms sm) count)
        | CurrentInput \<Rightarrow> range_status (current x ! nat (hd ps)) (ddiv (sum_current_rms sm) count)
        | DerivedInput \<Rightarrow> 0)\<rparr>)"

text \<open>
  The early returns of \<open>measure\<close>: a result, or \<open>None\<close> when the function is one that is
  computed from the phases.
\<close>

definition time_measurement :: "simulator_state \<Rightarrow> simulated_signal \<Rightarrow> bool \<Rightarrow> string list \<Rightarrow> simulated_measurement" where
  "time_measurement x sg synchronized tail =
     (if tail = [] then
        \<lparr>m_value = (if synchronized \<and> dlt dzero (frequency sg)
            then (let period = ddiv (lit 1 1) (frequency sg) in dmul (dceil (ddiv (aperture x) period)) period)
            else aperture x), m_status = kNormal\<rparr>
      else if tail_is tail [''RELative''] then \<lparr>m_value = timer_seconds x, m_status = kNormal\<rparr>
      else unavailable)"

definition measure_early :: "simulator_state \<Rightarrow> simulated_signal \<Rightarrow> function_name \<Rightarrow> simulated_measurement option" where
  "measure_early x sg parsed =
     (let synchronized = present sg \<and> sync_enabled x; tail = fn_tail parsed in
      if ends_with tail [''MINimum'', ''MAXimum''] then Some unavailable
      else if ends_with tail [''IPOSitive'', ''INEGative'', ''INTegral''] \<and> \<not> integral_enabled x
      then Some unavailable
      else if \<not> (continuous x \<or> initiated x) then Some undefined_measurement
      else if mnemonic_matches (quantity parsed) ''FREQuency'' \<and> tail = [] then
        Some (if synchronized then \<lparr>m_value = frequency sg, m_status = kNormal\<rparr> else undefined_measurement)
      else if mnemonic_matches (quantity parsed) ''TIME'' then Some (time_measurement x sg synchronized tail)
      else if aggregated_phases (fn_suffix parsed) = [] then Some unavailable
      else if \<not> synchronized then Some undefined_measurement
      else None)"

partial_function (option) measure_fn ::
  "libm \<Rightarrow> simulator_state \<Rightarrow> simulated_signal \<Rightarrow> string \<Rightarrow> simulated_measurement option" where
  "measure_fn lm x sg function =
     (let parsed = split_function function in
      case measure_early x sg parsed of
        Some result \<Rightarrow> Some result
      | None \<Rightarrow>
         (let ps = aggregated_phases (fn_suffix parsed);
              sm = sum_phases lm sg ps;
              (acc, tail1) = peel_accumulator (fn_tail parsed);
              (factor, tail) = peel_harmonic (harmonic_order x) tail1 in
          case evaluate_quantity lm x sm ps (quantity parsed) tail of
            NotProvided \<Rightarrow> Some unavailable
          | Quantity value status \<Rightarrow>
              Some (finish_measurement x sm ps (quantity parsed) factor acc value status)
          | EfficiencyRatio \<Rightarrow>
              Option.bind (measure_fn lm x sg (efficiency_input x)) (\<lambda>i.
              Option.bind (measure_fn lm x sg (efficiency_output x)) (\<lambda>o'.
                Some (finish_measurement x sm ps (quantity parsed) factor acc
                  (if \<not> deq (m_value i) dzero then ddiv (m_value o') (m_value i) else NaN) 0)))))"

declare measure_fn.simps [code]

fun measure_all :: "libm \<Rightarrow> simulator_state \<Rightarrow> simulated_signal \<Rightarrow> string list \<Rightarrow> simulated_measurement list option" where
  "measure_all lm x sg [] = Some []"
| "measure_all lm x sg (f # fs) =
     (case measure_fn lm x sg f of None \<Rightarrow> None
      | Some m \<Rightarrow> map_option (\<lambda>ms. m # ms) (measure_all lm x sg fs))"

text \<open>
  \<open>measurement_response\<close>; in the binary formats the payload is eight NUL bytes per function.
\<close>

definition measurement_response ::
  "libm \<Rightarrow> simulator_state \<Rightarrow> simulated_signal \<Rightarrow> string list \<Rightarrow> bool \<Rightarrow> string option" where
  "measurement_response lm x sg fs with_status =
     (if fs = [] then Some []
      else if fmt_format (data_format x) \<noteq> Ascii then
        (let len = to_string (int (length fs * 8)) in
         Some (''#'' @ to_string (int (length len)) @ len @ replicate (length fs * 8) (CHR 0x00)))
      else map_option (\<lambda>ms.
          join_with '','' (map (\<lambda>m. format_value x (m_value m)) ms) @
          (if with_status then concat (map (\<lambda>m. '','' @ to_string (m_status m)) ms) else []))
        (measure_all lm x sg fs))"

section \<open>Status registers\<close>

fun register_of :: "status_register \<Rightarrow> simulator_state \<Rightarrow> register_state" where
  "register_of Questionable x = questionable x"
| "register_of QuestionableVoltage x = questionable_voltage x"
| "register_of QuestionableCurrent x = questionable_current x"
| "register_of Operation x = operation x"

fun register_update ::
  "status_register \<Rightarrow> (register_state \<Rightarrow> register_state) \<Rightarrow> simulator_state \<Rightarrow> simulator_state" where
  "register_update Questionable f x = questionable_update f x"
| "register_update QuestionableVoltage f x = questionable_voltage_update f x"
| "register_update QuestionableCurrent f x = questionable_current_update f x"
| "register_update Operation f x = operation_update f x"

text \<open>The loop over the phases of one per-channel register.\<close>

fun channel_bits_from :: "int \<Rightarrow> channel_config list \<Rightarrow> double list \<Rightarrow> int" where
  "channel_bits_from i (config # configs) (raw # raws) =
     (if ch_autorange config then 0
      else if dlt (ch_range config) raw then overrange_bit i
      else if dlt raw (dmul (ch_range config) (lit 5 100)) then underrange_bit i
      else 0) OR channel_bits_from (i + 1) configs raws"
| "channel_bits_from i _ _ = 0"

definition channel_bits :: "simulator_state \<Rightarrow> simulated_signal \<Rightarrow> bool \<Rightarrow> int" where
  "channel_bits x sg is_voltage =
     (if is_voltage then channel_bits_from 0 (tl (voltage x)) (map voltage_rms (phases sg))
      else channel_bits_from 0 (tl (current x)) (map current_rms (phases sg)))"

fun condition :: "simulator_state \<Rightarrow> simulated_signal \<Rightarrow> status_register \<Rightarrow> int" where
  "condition x sg Operation =
     (if present sg \<and> sync_enabled x then kSynchronized OR kSyncAvailable else 0) OR
     (if continuous x \<or> initiated x then kAveraging else 0) OR
     (if sweep_enabled (sweep x ! 1) \<or> sweep_enabled (sweep x ! 2) then kSweeping else 0)"
| "condition x sg QuestionableVoltage = channel_bits x sg True"
| "condition x sg QuestionableCurrent = channel_bits x sg False"
| "condition x sg Questionable =
     (if \<not> (present sg \<and> sync_enabled x) then kFrequency else 0) OR
     (if channel_bits x sg True \<noteq> 0 then kVoltageSummary else 0) OR
     (if channel_bits x sg False \<noteq> 0 then kCurrentSummary else 0)"

text \<open>\<open>latch_event\<close> returns the event part and updates the register.\<close>

definition latch_event :: "status_register \<Rightarrow> simulator \<Rightarrow> int \<times> simulator" where
  "latch_event reg s = (let
       r = register_of reg (st s);
       now = condition (st s) (signal s) reg;
       rose = now AND NOT (previous_condition r);
       fell = NOT now AND previous_condition r;
       ev = event r OR ((rose AND ptransition r) OR (fell AND ntransition r)) in
     (ev, set_st (register_update reg (\<lambda>r. r\<lparr>event := ev, previous_condition := now\<rparr>)) s))"

end
