(* ===== verification/Sim_Handlers.thy ===== *)
theory Sim_Handlers
  imports Sim_Measure
begin

unbundle bit_operations_syntax

text \<open>
  The per-subsystem command handlers of
  \<open>module/simulator/src/simulator_handlers.cpp\<close>, in the order of the file. A handler
  recognises the command keys of its subsystem: it declines a key that is not its own
  (\<open>return false\<close>, always before it has changed anything), it is done with the simulator and
  the command it leaves, or the C++ has no defined behaviour (a floating value converted to
  an integer type that cannot hold it, a recursion that does not end).
\<close>

datatype outcome = Declined | Done access | Undefined

section \<open>References into the state\<close>

text \<open>An element of an array member, as the pair of a read and an update function.\<close>

definition element_update ::
  "(('v list \<Rightarrow> 'v list) \<Rightarrow> simulator_state \<Rightarrow> simulator_state) \<Rightarrow> nat \<Rightarrow>
   ('v \<Rightarrow> 'v) \<Rightarrow> simulator_state \<Rightarrow> simulator_state" where
  "element_update upd i f x = upd (\<lambda>vs. vs[i := f (vs ! i)]) x"

text \<open>\<open>auto& config = is_voltage ? state_.voltage[phase] : state_.current[phase];\<close>\<close>

definition channel_of :: "bool \<Rightarrow> nat \<Rightarrow> simulator_state \<Rightarrow> channel_config" where
  "channel_of is_voltage phase x = (if is_voltage then voltage x ! phase else current x ! phase)"

definition channel_update ::
  "bool \<Rightarrow> nat \<Rightarrow> (channel_config \<Rightarrow> channel_config) \<Rightarrow> simulator_state \<Rightarrow> simulator_state" where
  "channel_update is_voltage phase f x =
     (if is_voltage then element_update voltage_update phase f x
      else element_update current_update phase f x)"

definition sweep_of :: "nat \<Rightarrow> simulator_state \<Rightarrow> sweep_config" where
  "sweep_of block x = sweep x ! block"

definition sweep_at :: "nat \<Rightarrow> (sweep_config \<Rightarrow> sweep_config) \<Rightarrow> simulator_state \<Rightarrow> simulator_state" where
  "sweep_at block f x = element_update sweep_update block f x"

text \<open>\<open>key.compare(0, n, prefix) == 0\<close>\<close>

definition key_starts :: "string \<Rightarrow> string \<Rightarrow> bool" where
  "key_starts prefix k \<longleftrightarrow> take (length prefix) k = prefix"

section \<open>IEEE 488.2 common commands\<close>

definition status_byte :: "simulator \<Rightarrow> int \<times> simulator" where
  "status_byte s = (let
       b0 = (if errors (st s) \<noteq> [] then kErrorQueueNotEmpty else 0);
       (ev, s1) = latch_event Questionable s;
       b1 = (if ev AND enable (questionable (st s1)) \<noteq> 0 then b0 OR kQuestionableSummary else b0);
       b2 = (if event_status (st s1) AND event_status_enable (st s1) \<noteq> 0 then b1 OR kEventStatusSummary else b1);
       b3 = (if b2 AND service_request_enable (st s1) \<noteq> 0 then b2 OR kMasterStatusSummary else b2)
     in (b3, s1))"

definition save_setup :: "access \<Rightarrow> access" where
  "save_setup a = (case integer 10 24 0 a of (slot, (s, c)) \<Rightarrow>
     if failed c then (s, c)
     else assign (saved_setups_update (\<lambda>v. v[nat slot := True])) (s, c))"

definition recall_setup :: "access \<Rightarrow> access" where
  "recall_setup a = (case integer 1 24 0 a of (slot, (s, c)) \<Rightarrow>
     if \<not> failed c \<and> 2 < slot \<and> slot < 10
     then fail kDataOutOfRange ''Data out of range;*RCL'' (s, c) else (s, c))"

definition handle_common :: "access \<Rightarrow> outcome" where
  "handle_common a = (let k = key (snd a); x = st (fst a); o' = opts (fst a) in
     if k = ''*IDN'' then Done (query_only (respond
       (manufacturer (identification o') @ '','' @ model (identification o') @ '','' @
        serial_number (identification o') @ '','' @ firmware_version (identification o'))) a)
     else if k = ''*RST'' then Done (command_only (\<lambda>(s, c). (reset s, c)) a)
     else if k = ''*CLS'' then Done (command_only (\<lambda>(s, c). (clear_status s, c)) a)
     else if k = ''*OPT'' then Done (query_only (respond (options_response o')) a)
     else if k = ''*LRN'' then Done (query_only (respond
       (dquote # ''FUNC '' @ quote_join (meas_functions x) @ '';APER '' @ format_setting (aperture x) @ [dquote])) a)
     else if k = ''*OPC'' then
       Done (if query (snd a) then respond ''1'' a
             else assign (event_status_update (\<lambda>e. e OR 1)) a)
     else if k = ''*WAI'' then Done (command_only (\<lambda>b. b) a)
     else if k = ''*TRG'' then Done (command_only (assign (initiated_update (\<lambda>_. True))) a)
     else if k = ''*ESE'' then Done (on_field event_status_enable event_status_enable_update (integer 0 255) a)
     else if k = ''*ESR'' then Done (query_only (\<lambda>b.
       assign (event_status_update (\<lambda>_. 0)) (respond (to_string (event_status x)) b)) a)
     else if k = ''*SRE'' then Done (on_field service_request_enable service_request_enable_update (integer 0 255) a)
     else if k = ''*STB'' then Done (query_only (\<lambda>(s, c).
       case status_byte s of (stb, s1) \<Rightarrow> respond (to_string stb) (s1, c)) a)
     else if k = ''*SAV'' then Done (command_only save_setup a)
     else if k = ''*RCL'' then Done (command_only recall_setup a)
     else Declined)"

section \<open>ROUTe and INPut\<close>

definition handle_route :: "access \<Rightarrow> outcome" where
  "handle_route a =
     (if key (snd a) \<noteq> ''ROUT:SYST'' then Declined
      else if query (snd a) then
        Done (respond (quote (if wiring_system (st (fst a)) = TwoWattmeter then ''2W'' else ''3W'')) a)
      else Done (with_parameter (\<lambda>txt b.
        if upper txt = ''3W'' then assign (wiring_system_update (\<lambda>_. ThreeWattmeter)) b
        else if upper txt = ''2W'' then assign (wiring_system_update (\<lambda>_. TwoWattmeter)) b
        else fail kIllegalParameterValue (''Illegal parameter value;'' @ txt) b) a))"

definition coupling_spellings :: "(coupling \<times> string list) list" where
  "coupling_spellings = [(AC, [''AC'']), (DC, [''DC''])]"

definition shunt_spellings :: "(shunt \<times> string list) list" where
  "shunt_spellings = [(Internal, [''INT'', ''INTernal'']), (External, [''EXT'', ''EXTernal''])]"

definition handle_input :: "access \<Rightarrow> outcome" where
  "handle_input a = (let k = key (snd a); channel = command_suffix (snd a); i = nat channel in
     if \<not> key_starts ''INP#'' k then Declined
     else if channel < 1 \<or> channels (opts (fst a)) < channel then
       Done (fail kDataOutOfRange (''Data out of range;input channel '' @ to_string channel) a)
     else if k = ''INP#:COUP'' then
       Done (on_field (\<lambda>x. coupling x ! i) (element_update coupling_update i) (keyword coupling_spellings) a)
     else if k = ''INP#:GAIN'' then
       (if channel mod 2 = 0
        then Done (fail kSettingsConflict ''Settings conflict;GAIN applies to current channels only'' a)
        else Done (on_field (\<lambda>x. gain x ! i) (element_update gain_update i) (number dzero (lit (10 ^ 12) 1)) a))
     else if k = ''INP#:SHUN'' then
       (if channel mod 2 = 0
        then Done (fail kSettingsConflict ''Settings conflict;SHUNt applies to current channels only'' a)
        else Done (on_field (\<lambda>x. shunt x ! i) (element_update shunt_update i) (keyword shunt_spellings) a))
     else if k = ''INP#:FILT:STAT'' then
       Done (on_field (\<lambda>x. filter_on x ! i) (element_update filter_on_update i) boolean a)
     else if k = ''INP#:FILT:FREQ'' then
       Done (query_only (respond (format_setting (filter_frequency (st (fst a))))) a)
     else Declined)"

section \<open>SENSe: ranging, scaling, functions, data\<close>

text \<open>The range a request snaps to: the first that can hold it, the largest if none can.\<close>

definition snap_range :: "double list \<Rightarrow> double \<Rightarrow> double" where
  "snap_range ranges value =
     (case find (\<lambda>candidate. dle (dmul value (lit 999 1000)) candidate) ranges of
       Some candidate \<Rightarrow> candidate
     | None \<Rightarrow> last ranges)"

definition set_range :: "bool \<Rightarrow> nat \<Rightarrow> double list \<Rightarrow> access \<Rightarrow> access" where
  "set_range is_voltage phase ranges =
     with_parameter (\<lambda>txt b.
       case parse_number txt of
         None \<Rightarrow> fail kIllegalParameterValue (''Illegal parameter value;'' @ txt) b
       | Some value \<Rightarrow>
           if dlt value (dmul (hd ranges) (lit 999 1000)) \<or> dlt (dmul (last ranges) (lit 1001 1000)) value
           then fail kDataOutOfRange (''Data out of range;'' @ txt) b
           else assign (channel_update is_voltage phase
                  (\<lambda>config. config\<lparr>ch_range := snap_range ranges value, ch_autorange := False\<rparr>)) b)"

definition handle_channel :: "bool \<Rightarrow> access \<Rightarrow> outcome" where
  "handle_channel is_voltage a = (let
       phase = command_suffix (snd a); p = nat phase;
       ranges = (if is_voltage then voltage_ranges (opts (fst a)) else current_ranges (opts (fst a)));
       tail = drop 5 (key (snd a)) in
     if phase < 1 \<or> kMaxPhase < phase then
       Done (fail kDataOutOfRange (''Data out of range;phase '' @ to_string phase) a)
     else if tail = '':RANG'' then
       (if query (snd a)
        then Done (respond (format_setting (ch_range (channel_of is_voltage p (st (fst a))))) a)
        else Done (set_range is_voltage p ranges a))
     else if tail = '':RANG:AUTO'' then
       Done (on_field (\<lambda>x. ch_autorange (channel_of is_voltage p x))
         (\<lambda>f. channel_update is_voltage p (ch_autorange_update f)) boolean a)
     else if tail = '':RANG:LIST'' then Done (query_only (respond (join_values ranges)) a)
     else if tail = '':SCAL'' then
       Done (on_field (\<lambda>x. ch_scale (channel_of is_voltage p x))
         (\<lambda>f. channel_update is_voltage p (ch_scale_update f)) (number (lit 9 10) (lit (10 ^ 7) 1)) a)
     else Declined)"

text \<open>\<open>static_cast<long long>(time / std::max(aperture, kMinAperture))\<close>, answered to a query.\<close>

definition respond_points :: "double \<Rightarrow> double \<Rightarrow> access \<Rightarrow> outcome" where
  "respond_points seconds apert a =
     (case cast_long_long (ddiv seconds (dmax apert kMinAperture)) of
       Some points \<Rightarrow> Done (respond (to_string points) a)
     | None \<Rightarrow> Undefined)"

definition handle_sweep :: "access \<Rightarrow> outcome" where
  "handle_sweep a = (let block = command_suffix (snd a); b = nat block; tail = drop 4 (key (snd a)); x = st (fst a) in
     if block < 1 \<or> 2 < block then
       Done (fail kDataOutOfRange (''Data out of range;sweep block '' @ to_string block) a)
     else if tail = '':STAT'' then
       Done (on_field (\<lambda>x. sweep_enabled (sweep_of b x)) (\<lambda>f. sweep_at b (sweep_enabled_update f)) boolean a)
     else if tail = '':TIME'' then
       (if \<not> query (snd a) \<and> (case argument (snd a) 0 of Some txt \<Rightarrow> upper txt = ''MAX'' | None \<Rightarrow> False)
        then Done (assign (sweep_at b (sweep_time_update (\<lambda>_. lit 3600 1))) a)
        else Done (on_field (\<lambda>x. sweep_time (sweep_of b x)) (\<lambda>f. sweep_at b (sweep_time_update f))
               (number (lit 1 1000) (lit 3600 1)) a))
     else if tail = '':OFFS:TIME'' then
       Done (on_field (\<lambda>x. sweep_offset_time (sweep_of b x)) (\<lambda>f. sweep_at b (sweep_offset_time_update f))
         (number (lit (- 3600) 1) (lit 3600 1)) a)
     else if tail = '':COUN'' then
       Done (on_field (\<lambda>x. sweep_count (sweep_of b x)) (\<lambda>f. sweep_at b (sweep_count_update f)) (integer 1 1000000) a)
     else if tail = '':SFAC'' then
       Done (on_field (\<lambda>x. sweep_sparsing (sweep_of b x)) (\<lambda>f. sweep_at b (sweep_sparsing_update f)) (integer 1 65535) a)
     else if tail = '':FUNC'' then
       Done (on_field (\<lambda>x. sweep_functions (sweep_of b x)) (\<lambda>f. sweep_at b (sweep_functions_update f)) function_list a)
     else if tail = '':POINTS'' then
       (if query (snd a) then respond_points (sweep_time (sweep_of b x)) (aperture x) a
        else Done (query_only (\<lambda>b. b) a))
     else if tail = '':OFFS:POINTS'' then
       (if query (snd a) then respond_points (sweep_offset_time (sweep_of b x)) (aperture x) a
        else Done (query_only (\<lambda>b. b) a))
     else Declined)"

definition all_functions :: "string list" where
  "all_functions = [''VOLT1'', ''VOLT2'', ''VOLT3'', ''CURR1'', ''CURR2'', ''CURR3'',
     ''POW1:ACT'', ''POW2:ACT'', ''POW3:ACT'', ''FREQ'', ''TIME'']"

definition set_functions :: "access \<Rightarrow> access" where
  "set_functions a = (case read_function_list a of
     (a', None) \<Rightarrow> a'
   | (a', Some fs) \<Rightarrow>
       if \<not> concurrent (st (fst a')) \<and> 1 < length fs
       then fail kSettingsConflict ''Settings conflict;FUNCtion:CONCurrent is OFF'' a'
       else assign (meas_functions_update (\<lambda>_. fs)) a')"

definition set_concurrent :: "access \<Rightarrow> access" where
  "set_concurrent a = (let a' = on_field concurrent concurrent_update boolean a in
     if \<not> query (snd a) \<and> concurrent (st (fst a)) \<and> \<not> concurrent (st (fst a')) \<and>
        1 < length (meas_functions (st (fst a')))
     then assign (meas_functions_update (take 1)) a' else a')"

definition respond_data :: "libm \<Rightarrow> access \<Rightarrow> outcome" where
  "respond_data lm a =
     (case measurement_response lm (st (fst a)) (signal (fst a)) (meas_functions (st (fst a)))
             (key (snd a) = ''DATA:STAT'') of
       Some txt \<Rightarrow> Done (respond txt a)
     | None \<Rightarrow> Undefined)"

definition handle_data :: "libm \<Rightarrow> access \<Rightarrow> outcome" where
  "handle_data lm a =
     (if \<not> query (snd a) then Done (query_only (\<lambda>b. b) a)
      else if args (snd a) = [] then respond_data lm a
      else case read_function_list a of
        (a', None) \<Rightarrow> Done a'
      | (a', Some requested) \<Rightarrow> respond_data lm (assign (meas_functions_update (\<lambda>_. requested)) a'))"

definition handle_sense :: "libm \<Rightarrow> access \<Rightarrow> outcome" where
  "handle_sense lm a = (let k = key (snd a); x = st (fst a) in
     if key_starts ''VOLT#'' k then handle_channel True a
     else if key_starts ''CURR#'' k then handle_channel False a
     else if k = ''APER'' then Done (on_field aperture aperture_update (number kMinAperture kMaxAperture) a)
     else if k = ''SWE:FREQ'' then Done (query_only (respond (format_setting (sampling_frequency x))) a)
     else if k = ''FUNC'' then
       Done (if query (snd a) then respond (quote_join (meas_functions x)) a else set_functions a)
     else if k = ''FUNC:ALL'' then Done (command_only (assign (meas_functions_update (\<lambda>_. all_functions))) a)
     else if k = ''FUNC:OFF:ALL'' then Done (command_only (assign (meas_functions_update (\<lambda>_. []))) a)
     else if k = ''FUNC:CONC'' then Done (set_concurrent a)
     else if k = ''FUNC:COUN'' then Done (query_only (respond (to_string (int (length (meas_functions x))))) a)
     else if k = ''DATA'' \<or> k = ''DATA:STAT'' then handle_data lm a
     else if key_starts ''SWE#'' k then handle_sweep a
     else Declined)"

section \<open>SYNC\<close>

definition level_unit_spellings :: "(level_unit \<times> string list) list" where
  "level_unit_spellings = [(Absolute, [''ABS'', ''ABSolute'']), (Percent, [''PCT'', ''PERCent''])]"

definition slope_spellings :: "(slope \<times> string list) list" where
  "slope_spellings = [(Positive, [''POS'', ''POSitive'']), (Negative, [''NEG'', ''NEGative''])]"

definition set_sync_source :: "access \<Rightarrow> access" where
  "set_sync_source = with_parameter (\<lambda>txt b. let
       tk = make_token txt;
       is_voltage = mnemonic_matches (tok_text tk) ''VOLTage'';
       is_current = mnemonic_matches (tok_text tk) ''CURRent'';
       prefix = (if is_voltage then ''VOLT'' else ''CURR'') in
     if mnemonic_matches (tok_text tk) ''EXTernal'' then assign (sync_source_update (\<lambda>_. ''EXT'')) b
     else if (is_voltage \<or> is_current) \<and> 1 \<le> tok_suffix tk \<and> tok_suffix tk \<le> kMaxPhase
     then assign (sync_source_update (\<lambda>_. prefix @ to_string (tok_suffix tk))) b
     else if (is_voltage \<or> is_current) \<and> \<not> tok_has_suffix tk
     then assign (sync_source_update (\<lambda>_. prefix @ ''1'')) b
     else fail kIllegalParameterValue (''Illegal parameter value;'' @ txt) b)"

text \<open>The three documented cut-off frequencies.\<close>

definition cutoff_frequencies :: "double list" where
  "cutoff_frequencies = [lit 100 1, lit 1000 1, lit 10000 1]"

definition set_sync_filter_frequency :: "access \<Rightarrow> access" where
  "set_sync_filter_frequency = with_parameter (\<lambda>txt b.
     case parse_number txt of
       None \<Rightarrow> fail kIllegalParameterValue (''Illegal parameter value;'' @ txt) b
     | Some value \<Rightarrow>
        (case find (\<lambda>allowed. dle (dabs (dsub value allowed)) (dmul allowed (lit 1 (10 ^ 6)))) cutoff_frequencies of
          Some allowed \<Rightarrow> assign (sync_filter_frequency_update (\<lambda>_. allowed)) b
        | None \<Rightarrow> fail kIllegalParameterValue (''Illegal parameter value;'' @ txt) b))"

definition handle_sync :: "access \<Rightarrow> outcome" where
  "handle_sync a = (let k = key (snd a); x = st (fst a) in
     if k = ''SYNC:STAT'' then Done (on_field sync_enabled sync_enabled_update boolean a)
     else if k = ''SYNC:SOUR'' then
       Done (if query (snd a) then respond (sync_source x) a else set_sync_source a)
     else if k = ''SYNC:LEV'' then
       (let limit = (if sync_level_unit x = Percent then lit 150 1 else lit 1000 1) in
        Done (on_field sync_level sync_level_update (number (dneg limit) limit) a))
     else if k = ''SYNC:LEV:UNIT'' then
       Done (on_field sync_level_unit sync_level_unit_update (keyword level_unit_spellings) a)
     else if k = ''SYNC:SLOP'' then Done (on_field sync_slope sync_slope_update (keyword slope_spellings) a)
     else if k = ''SYNC:FILT:STAT'' then Done (on_field sync_filter sync_filter_update boolean a)
     else if k = ''SYNC:FILT:FREQ'' then
       Done (if query (snd a) then respond (format_setting (sync_filter_frequency x)) a
             else set_sync_filter_frequency a)
     else if k = ''SYNC:TIM'' then
       Done (on_field sync_timeout sync_timeout_update (number (lit 15 1000) (lit 3600 1)) a)
     else Declined)"

section \<open>INITiate, ABORt and TRIGger\<close>

definition stop_sweeps :: "simulator_state \<Rightarrow> simulator_state" where
  "stop_sweeps x = sweep_at 2 (sweep_enabled_update (\<lambda>_. False)) (sweep_at 1 (sweep_enabled_update (\<lambda>_. False)) x)"

definition handle_acquisition :: "access \<Rightarrow> outcome" where
  "handle_acquisition a = (let k = key (snd a) in
     if k = ''INIT:CONT'' then Done (on_field continuous continuous_update boolean a)
     else if k = ''INIT'' then Done (command_only (assign (initiated_update (\<lambda>_. True))) a)
     else if k = ''INIT:SEQ#'' \<or> k = ''INIT:NAME'' then
       Done (command_only (\<lambda>b. let block = (if k = ''INIT:SEQ#'' then command_suffix (snd b) else 1) in
         if block < 1 \<or> 2 < block
         then fail kDataOutOfRange (''Data out of range;sequence '' @ to_string block) b
         else assign (sweep_at (nat block) (sweep_enabled_update (\<lambda>_. True))) b) a)
     else if k = ''ABOR'' then
       Done (command_only (assign (\<lambda>x. stop_sweeps (x\<lparr>initiated := False\<rparr>))) a)
     else Declined)"

definition require_timestamp :: "access \<Rightarrow> access" where
  "require_timestamp = command_only (\<lambda>b.
     if length (args (snd b)) < 6
     then fail kMissingParameter ''Missing parameter;expected yyyy,MM,dd,hh,mm,ss'' b else b)"

definition handle_trigger :: "access \<Rightarrow> outcome" where
  "handle_trigger a = (let k = key (snd a); x = st (fst a) in
     if k = ''TRIG:STAR:SOUR'' then
       Done (if query (snd a) then respond (trigger_start_source x) a
             else with_parameter (\<lambda>txt. assign (trigger_start_source_update (\<lambda>_. upper txt))) a)
     else if k = ''TRIG:STOP:SOUR'' then
       Done (if query (snd a) then respond (trigger_stop_source x) a
             else with_parameter (\<lambda>txt. assign (trigger_stop_source_update (\<lambda>_. upper txt))) a)
     else if k = ''TRIG:STAR:LEV'' then
       Done (on_field trigger_start_level trigger_start_level_update (number (lit (- (10 ^ 7)) 1) (lit (10 ^ 7) 1)) a)
     else if k = ''TRIG:STOP:LEV'' then
       Done (on_field trigger_stop_level trigger_stop_level_update (number (lit (- (10 ^ 7)) 1) (lit (10 ^ 7) 1)) a)
     else if k = ''TRIG:STAR:SLOP'' then
       Done (on_field trigger_start_slope trigger_start_slope_update (keyword slope_spellings) a)
     else if k = ''TRIG:STOP:SLOP'' then
       Done (on_field trigger_stop_slope trigger_stop_slope_update (keyword slope_spellings) a)
     else if k = ''TRIG:STAR:TIME'' \<or> k = ''TRIG:STOP:TIME'' then Done (require_timestamp a)
     else Declined)"

section \<open>FORMat\<close>

definition format_name :: "data_format \<Rightarrow> string" where
  "format_name f = (case f of Ascii \<Rightarrow> ''ASC'' | Integer \<Rightarrow> ''INT'' | Real \<Rightarrow> ''REAL'')"

definition read_format :: "string \<Rightarrow> data_format option" where
  "read_format value =
     (if value = ''ASC'' \<or> value = ''ASCII'' then Some Ascii
      else if value = ''INT'' \<or> value = ''INTEGER'' then Some Integer
      else if value = ''REAL'' then Some Real
      else None)"

text \<open>The optional second parameter: \<open>Inl\<close> is a text that is no number.\<close>

definition read_length :: "command \<Rightarrow> int \<Rightarrow> string + int" where
  "read_length c len =
     (if 1 < length (args c) then
        (case parse_number (args c ! 1) of
          None \<Rightarrow> Inl (args c ! 1)
        | Some parsed \<Rightarrow> Inr (lround_int parsed))
      else Inr len)"

text \<open>The \<open>FORMat\<close> setting a command names, and its coupling with the other one.\<close>

definition set_format :: "bool \<Rightarrow> data_format_setting \<Rightarrow> simulator_state \<Rightarrow> simulator_state" where
  "set_format is_data setting x = (let binary = (fmt_format setting \<noteq> Ascii) in
     if is_data then x\<lparr>data_format := setting,
       status_format := (if (fmt_format (status_format x) \<noteq> Ascii) \<noteq> binary
         then (status_format x)\<lparr>fmt_format := (if binary then Integer else Ascii)\<rparr> else status_format x)\<rparr>
     else x\<lparr>status_format := setting,
       data_format := (if (fmt_format (data_format x) \<noteq> Ascii) \<noteq> binary
         then (data_format x)\<lparr>fmt_format := (if binary then Real else Ascii)\<rparr> else data_format x)\<rparr>)"

definition handle_format_setting :: "bool \<Rightarrow> access \<Rightarrow> access" where
  "handle_format_setting is_data a = (let
       setting = (if is_data then data_format (st (fst a)) else status_format (st (fst a))) in
     if query (snd a)
     then respond (format_name (fmt_format setting) @ '','' @ to_string (fmt_length setting)) a
     else with_parameter (\<lambda>txt b.
       case read_format (upper txt) of
         None \<Rightarrow> fail kIllegalParameterValue (''Illegal parameter value;'' @ txt) b
       | Some fmt \<Rightarrow>
          (case read_length (snd b) (fmt_length setting) of
            Inl bad \<Rightarrow> fail kIllegalParameterValue (''Illegal parameter value;'' @ bad) b
          | Inr len \<Rightarrow> assign (set_format is_data \<lparr>fmt_format = fmt, fmt_length = len\<rparr>) b)) a)"

definition byte_order_spellings :: "(byte_order \<times> string list) list" where
  "byte_order_spellings = [(Normal, [''NORM'', ''NORMal'']), (Swapped, [''SWAP'', ''SWAPped''])]"

definition handle_format :: "access \<Rightarrow> outcome" where
  "handle_format a = (let k = key (snd a) in
     if k = ''FORM'' then Done (handle_format_setting True a)
     else if k = ''FORM:STAT'' then Done (handle_format_setting False a)
     else if k = ''FORM:BORD'' then Done (on_field byte_order byte_order_update (keyword byte_order_spellings) a)
     else if k = ''FORM:TRAN'' then Done (on_field transpose_on transpose_on_update boolean a)
     else Declined)"

section \<open>DISPlay and OUTPut\<close>

definition handle_display_output :: "access \<Rightarrow> outcome" where
  "handle_display_output a = (let k = key (snd a) in
     if k = ''DISP:STAT'' then Done (on_field display_enabled display_enabled_update boolean a)
     else if k = ''DISP:USER:FUNC'' then Done (on_field display_functions display_functions_update function_list a)
     else if k = ''OUTP#:STAT'' then
       (if command_suffix (snd a) \<noteq> 9
        then Done (fail kUndefinedHeader (''Undefined header;OUTPut'' @ to_string (command_suffix (snd a))) a)
        else Done (on_field output_enabled output_enabled_update boolean a))
     else Declined)"

section \<open>SYSTem\<close>

definition key_lock_spellings :: "(key_lock \<times> string list) list" where
  "key_lock_spellings = [(KeyOff, [''OFF'', ''0'']), (KeyOn, [''ON'', ''1'']), (KeyRemote, [''REM'', ''REMote''])]"

definition error_text :: "scpi_error_info \<Rightarrow> string" where
  "error_text e = to_string (code e) @ '','' @ quote (message e)"

definition no_error_text :: string where
  "no_error_text = ''0,'' @ quote ''No error''"

definition next_error :: "access \<Rightarrow> access" where
  "next_error a = (case errors (st (fst a)) of
     [] \<Rightarrow> respond no_error_text a
   | entry # rest \<Rightarrow> respond (error_text entry) (assign (errors_update (\<lambda>_. rest)) a))"

definition all_errors :: "access \<Rightarrow> access" where
  "all_errors a = (case errors (st (fst a)) of
     [] \<Rightarrow> respond no_error_text a
   | entries \<Rightarrow> respond (join_with '','' (map error_text entries)) (assign (errors_update (\<lambda>_. [])) a))"

text \<open>Three numeric parameters; \<open>None\<close> if one of them is no number.\<close>

definition parse_three :: "string list \<Rightarrow> (double \<times> double \<times> double) option" where
  "parse_three xs = (case parse_number (xs ! 0) of
     None \<Rightarrow> None
   | Some u \<Rightarrow> (case parse_number (xs ! 1) of
       None \<Rightarrow> None
     | Some v \<Rightarrow> (case parse_number (xs ! 2) of
         None \<Rightarrow> None
       | Some w \<Rightarrow> Some (u, v, w))))"

definition outside :: "double \<Rightarrow> int \<Rightarrow> int \<Rightarrow> bool" where
  "outside v lo hi \<longleftrightarrow> dlt v (lit lo 1) \<or> dlt (lit hi 1) v"

definition handle_date :: "access \<Rightarrow> outcome" where
  "handle_date a = (let c = snd a; d = date (st (fst a)) in
     if query c then
       Done (respond (to_string (date_year d) @ '','' @ to_string (date_month d) @ '','' @ to_string (date_day d)) a)
     else if length (args c) < 3 then
       Done (fail kMissingParameter ''Missing parameter;expected year,month,day'' a)
     else case parse_three (args c) of
       None \<Rightarrow> Done (fail kIllegalParameterValue ''Illegal parameter value;SYSTem:DATE'' a)
     | Some (year, month, day) \<Rightarrow>
         if outside month 1 12 \<or> outside day 1 31
         then Done (fail kDataOutOfRange ''Data out of range;SYSTem:DATE'' a)
         else case (cast_int year, cast_int month, cast_int day) of
           (Some y, Some m, Some n) \<Rightarrow>
             Done (assign (date_update (\<lambda>_. \<lparr>date_year = y, date_month = m, date_day = n\<rparr>)) a)
         | _ \<Rightarrow> Undefined)"

definition handle_time :: "access \<Rightarrow> outcome" where
  "handle_time a = (let c = snd a; d = time_of_day (st (fst a)) in
     if query c then
       Done (respond (to_string (time_hours d) @ '','' @ to_string (time_minutes d) @ '','' @ to_string (time_seconds d)) a)
     else if length (args c) < 3 then
       Done (fail kMissingParameter ''Missing parameter;expected hours,minutes,seconds'' a)
     else case parse_three (args c) of
       None \<Rightarrow> Done (fail kIllegalParameterValue ''Illegal parameter value;SYSTem:TIME'' a)
     | Some (hours, minutes, seconds) \<Rightarrow>
         if outside hours 0 23 \<or> outside minutes 0 59 \<or> outside seconds 0 59
         then Done (fail kDataOutOfRange ''Data out of range;SYSTem:TIME'' a)
         else case (cast_int hours, cast_int minutes, cast_int seconds) of
           (Some h, Some m, Some n) \<Rightarrow>
             Done (assign (time_of_day_update (\<lambda>_. \<lparr>time_hours = h, time_minutes = m, time_seconds = n\<rparr>)) a)
         | _ \<Rightarrow> Undefined)"

definition handle_system :: "access \<Rightarrow> outcome" where
  "handle_system a = (let k = key (snd a) in
     if k = ''SYST:VERS'' then Done (query_only (respond (scpi_version (opts (fst a)))) a)
     else if k = ''SYST:ERR'' then Done (query_only next_error a)
     else if k = ''SYST:ERR:ALL'' then Done (query_only all_errors a)
     else if k = ''SYST:KLOC'' then Done (on_field key_lock key_lock_update (keyword key_lock_spellings) a)
     else if k = ''SYST:LANG'' then
       Done (if query (snd a) then respond (quote (language (st (fst a)))) a
             else with_parameter (\<lambda>txt. assign (language_update (\<lambda>_. txt))) a)
     else if k = ''SYST:DATE'' then handle_date a
     else if k = ''SYST:TIME'' then handle_time a
     else if k = ''SYST:COMM:GPIB:ADDR'' then Done (on_field gpib_address gpib_address_update (integer 1 30) a)
     else if k = ''SYST:COMM:SER:BAUD'' then Done (on_field serial_baud serial_baud_update (integer 1200 115200) a)
     else Declined)"

section \<open>TIMer\<close>

definition handle_timer :: "access \<Rightarrow> outcome" where
  "handle_timer a = (let k = key (snd a) in
     if k = ''TIM:RES'' then Done (command_only (assign (timer_seconds_update (\<lambda>_. dzero))) a)
     else if k = ''TIM:RES:TIME'' then
       Done (query_only (respond (format_setting (timer_seconds (st (fst a))))) a)
     else if k = ''TIM:RES:AUTO'' then
       Done (fail kUndefinedHeader ''Undefined header;TIMer:RESet:AUTO'' a)
     else Declined)"

end
