(* ===== verification/Sim_Calculate.thy ===== *)
theory Sim_Calculate
  imports Sim_Handlers
begin

unbundle bit_operations_syntax

text \<open>
  The CALCulate, TRACe and STATus handlers of
  \<open>module/simulator/src/simulator_calculate.cpp\<close>: the synthesised spectrum and trace, the
  window that selects a slice of them, and the parts of the status registers.
\<close>

section \<open>Windows\<close>

definition kSpectrumLines :: int where "kSpectrumLines = 32"

text \<open>
  The loop of \<open>apply_window\<close> at index \<open>i\<close> with \<open>n\<close> values taken. The index is a C++ \<open>int\<close>:
  \<open>None\<close> is the overflow of \<open>i += step\<close>.
\<close>

function window_loop :: "double list \<Rightarrow> int \<Rightarrow> int \<Rightarrow> int \<Rightarrow> int \<Rightarrow> double list option" where
  "window_loop source count sparsing i n =
     (let step = max sparsing 1 in
      if int (length source) \<le> i then Some []
      else if 0 < count \<and> count \<le> n then Some []
      else if int_max < i + step then None
      else map_option (\<lambda>out. source ! nat i # out) (window_loop source count sparsing (i + step) (n + 1)))"
  by pat_completeness auto
termination
  by (relation "measure (\<lambda>(source, count, sparsing, i, n). nat (int (length source) - i))") auto

declare window_loop.simps [simp del]

definition apply_window :: "double list \<Rightarrow> int \<Rightarrow> int \<Rightarrow> int \<Rightarrow> double list option" where
  "apply_window source count offset sparsing = window_loop source count sparsing (max offset 0) 0"

text \<open>
  \<open>read_window\<close>: up to \<open>n\<close> further arguments, up to the first that is missing or empty;
  \<open>Inl\<close> is one that is no number or a negative one.
\<close>

fun scan_window :: "nat \<Rightarrow> string list \<Rightarrow> string + int list" where
  "scan_window 0 xs = Inr []"
| "scan_window (Suc n) [] = Inr []"
| "scan_window (Suc n) (x # xs) =
     (if x = [] then Inr []
      else case parse_number x of
        None \<Rightarrow> Inl x
      | Some value \<Rightarrow>
          if dlt value dzero then Inl x
          else case scan_window n xs of
            Inl bad \<Rightarrow> Inl bad
          | Inr vs \<Rightarrow> Inr (lround_int value # vs))"

record window =
  win_count :: int
  win_offset :: int
  win_sparsing :: int

definition window_of :: "int list \<Rightarrow> window" where
  "window_of vs = \<lparr>win_count = (if 0 < length vs then vs ! 0 else 0),
     win_offset = (if 1 < length vs then vs ! 1 else 0),
     win_sparsing = (if 2 < length vs then vs ! 2 else 0)\<rparr>"

definition read_window :: "nat \<Rightarrow> access \<Rightarrow> access \<times> window option" where
  "read_window first_argument a =
     (case scan_window 3 (drop first_argument (args (snd a))) of
       Inl bad \<Rightarrow> (fail kIllegalParameterValue (''Illegal parameter value;'' @ bad) a, None)
     | Inr vs \<Rightarrow> (a, Some (window_of vs)))"

definition format_values :: "simulator_state \<Rightarrow> double list \<Rightarrow> string" where
  "format_values x vs = join_with '','' (map (format_value x) vs)"

text \<open>Answering with the slice of a series that the window selects.\<close>

definition respond_window :: "(double list \<Rightarrow> string) \<Rightarrow> double list \<Rightarrow> window \<Rightarrow> access \<Rightarrow> outcome" where
  "respond_window show_values source w a =
     (case apply_window source (win_count w) (win_offset w) (win_sparsing w) of
       None \<Rightarrow> Undefined
     | Some vs \<Rightarrow> Done (respond (show_values vs) a))"

section \<open>CALCulate\<close>

definition transform_mode_spellings :: "(transform_mode \<times> string list) list" where
  "transform_mode_spellings = [(Fft, [''FFT'']), (Dft, [''DFT'']), (Std, [''STD''])]"

definition harmonic_grouping_spellings :: "(harmonic_grouping \<times> string list) list" where
  "harmonic_grouping_spellings = [(Component, [''COMP'', ''COMPonent'']), (Harmonic, [''HARM'', ''HARMonic'']),
     (HGroup, [''HGR'', ''HGRoup'']), (HSGroup, [''HSGR'', ''HSGRoup'']),
     (ISGroup, [''ISGR'', ''ISGRoup'']), (SGroup, [''SGR'', ''SGRoup''])]"

definition integral_start_spellings :: "(integral_start_source \<times> string list) list" where
  "integral_start_spellings = [(StartCommand, [''CMD'']), (StartTime, [''TIME'']), (StartManual, [''MAN'', ''MANual''])]"

definition integral_stop_spellings :: "(integral_stop_source \<times> string list) list" where
  "integral_stop_spellings = [(StopCommand, [''CMD'']), (StopTime, [''TIME'']), (StopManual, [''MAN'', ''MANual'']),
     (StopTimeInterval, [''TINT'', ''TINTerval''])]"

definition power_correction_spellings :: "(power_correction \<times> string list) list" where
  "power_correction_spellings = [(Star, [''STAR'']), (Delta, [''DELT'', ''DELTa''])]"

definition transform_once :: "access \<Rightarrow> access" where
  "transform_once a =
     (if query (snd a) then fail kUndefinedHeader (''Undefined header;'' @ key (snd a)) a
      else with_parameter (\<lambda>txt b.
        if mnemonic_matches (upper txt) ''ONCE'' then b
        else fail kIllegalParameterValue (''Illegal parameter value;'' @ txt) b) a)"

definition set_cycles :: "access \<Rightarrow> access" where
  "set_cycles a = (case integer 4 12 (transform_cycles (st (fst a))) a of (cycles, (s, c)) \<Rightarrow>
     if failed c then (s, c)
     else if cycles \<notin> {4, 6, 8, 10, 12}
     then fail kIllegalParameterValue (''Illegal parameter value;'' @ to_string cycles) (s, c)
     else assign (transform_cycles_update (\<lambda>_. cycles)) (s, c))"

text \<open>A decaying harmonic series.\<close>

definition spectrum :: "simulated_signal \<Rightarrow> double list" where
  "spectrum sg = (let fundamental = (if present sg then voltage_rms (phases sg ! 0) else dzero) in
     map (\<lambda>line. ddiv fundamental (double_of_int (line * line))) [1..kSpectrumLines])"

definition handle_spectrum :: "access \<Rightarrow> outcome" where
  "handle_spectrum a =
     (if \<not> query (snd a) then Done (query_only (\<lambda>b. b) a)
      else case read_window 0 a of
        (a', None) \<Rightarrow> Done a'
      | (a', Some w) \<Rightarrow> respond_window (format_values (st (fst a'))) (spectrum (signal (fst a'))) w a')"

definition respond_preamble :: "access \<Rightarrow> access" where
  "respond_preamble a = (let x = st (fst a) in
     respond (to_string kSpectrumLines @ '','' @
       to_string (int (max (length (transform_functions x)) 1)) @ '','' @
       format_setting (frequency (signal (fst a))) @ '','' @ format_setting (transform_start x)) a)"

definition respond_thd :: "access \<Rightarrow> access" where
  "respond_thd a =
     (if transform_mode (st (fst a)) \<noteq> Std
      then fail kSettingsConflict ''Settings conflict;THD requires TRANsform:FREQuency:MODE STD'' a
      else respond (join_values (map (\<lambda>p. voltage_thd (phases (signal (fst a)) ! nat (p - 1))) [1..3])) a)"

definition start_integral :: "access \<Rightarrow> access" where
  "start_integral a =
     (if \<not> integral_enabled (st (fst a))
      then fail kSettingsConflict ''Settings conflict;CALCulate:INTegral:STATe is OFF'' a
      else assign (integral_running_update (\<lambda>_. True)) a)"

definition handle_efficiency :: "access \<Rightarrow> access" where
  "handle_efficiency a = (let x = st (fst a); xs = args (snd a); suffix = aggregate_suffix (snd a) in
     if suffix \<noteq> 0 \<and> suffix \<noteq> 460 then
       fail kUndefinedHeader (''Undefined header;CALCulate:POWer'' @ to_string suffix) a
     else if query (snd a) then respond (quote (efficiency_input x) @ '','' @ quote (efficiency_output x)) a
     else if length xs < 2 then
       fail kMissingParameter ''Missing parameter;expected <function1>,<function2>'' a
     else assign (\<lambda>x. x\<lparr>efficiency_input := upper (unquote (xs ! 0)),
                       efficiency_output := upper (unquote (xs ! 1))\<rparr>) a)"

definition handle_calculate :: "access \<Rightarrow> outcome" where
  "handle_calculate a = (let k = key (snd a) in
     if \<not> key_starts ''CALC:'' k then Declined
     else if k = ''CALC:TRAN:FREQ:STAT'' then Done (transform_once a)
     else if k = ''CALC:TRAN:FREQ:MODE'' then
       Done (on_field transform_mode transform_mode_update (keyword transform_mode_spellings) a)
     else if k = ''CALC:TRAN:FREQ:FUNC'' then
       Done (on_field transform_functions transform_functions_update function_list a)
     else if k = ''CALC:TRAN:FREQ:STAR'' then
       Done (on_field transform_start transform_start_update (number dzero (lit (10 ^ 6) 1)) a)
     else if k = ''CALC:TRAN:FREQ:STOP'' then
       Done (on_field transform_stop transform_stop_update (number dzero (lit (10 ^ 6) 1)) a)
     else if k = ''CALC:TRAN:FREQ:CYCL'' then
       Done (if query (snd a) then respond (to_string (transform_cycles (st (fst a)))) a else set_cycles a)
     else if k = ''CALC:TRAN:FREQ:GRO'' then
       Done (on_field transform_grouping transform_grouping_update (keyword harmonic_grouping_spellings) a)
     else if k = ''CALC:DATA'' then handle_spectrum a
     else if k = ''CALC:DATA:PRE'' then Done (query_only respond_preamble a)
     else if k = ''CALC:DATA:THD'' then Done (query_only respond_thd a)
     else if k = ''CALC:INT:STAT'' then Done (on_field integral_enabled integral_enabled_update boolean a)
     else if k = ''CALC:INT:FUNC'' then
       Done (on_field integral_functions integral_functions_update function_list a)
     else if k = ''CALC:INT:CLE'' then Done (command_only (assign (timer_seconds_update (\<lambda>_. dzero))) a)
     else if k = ''CALC:INT:CLE:AUTO'' then Done (on_field integral_auto_clear integral_auto_clear_update boolean a)
     else if k = ''CALC:INT:STAR:SOUR'' then
       Done (on_field integral_start_source integral_start_source_update (keyword integral_start_spellings) a)
     else if k = ''CALC:INT:STOP:SOUR'' then
       Done (on_field integral_stop_source integral_stop_source_update (keyword integral_stop_spellings) a)
     else if k = ''CALC:INT:STAR'' then Done (command_only start_integral a)
     else if k = ''CALC:INT:STOP'' then Done (command_only (assign (integral_running_update (\<lambda>_. False))) a)
     else if k = ''CALC:INT:STAR:TIME'' \<or> k = ''CALC:INT:STOP:TIME'' then Done (require_timestamp a)
     else if k = ''CALC:INT:STOP:TINT'' then
       Done (on_field integral_stop_interval integral_stop_interval_update (number (lit 1 1000) (lit 9990000 1)) a)
     else if k = ''CALC:HARM:ORD'' then Done (on_field harmonic_order harmonic_order_update (integer 0 100) a)
     else if k = ''CALC:POW:CORR'' then
       Done (on_field power_correction power_correction_update (keyword power_correction_spellings) a)
     else if k = ''CALC:POW#:EFF:REF'' then Done (handle_efficiency a)
     else Declined)"

section \<open>TRACe\<close>

text \<open>The recording: per function, a value that walks down from the measured one.\<close>

definition trace_of :: "simulated_measurement \<Rightarrow> int \<Rightarrow> double \<times> double" where
  "trace_of m point =
     (dmul (m_value m) (dsub (lit 1 1) (dmul (lit 1 1000) (double_of_int point))), double_of_int (m_status m))"

fun record_trace :: "libm \<Rightarrow> simulator_state \<Rightarrow> simulated_signal \<Rightarrow> string list \<Rightarrow> (double \<times> double) list option" where
  "record_trace lm x sg [] = Some []"
| "record_trace lm x sg (f # fs) =
     (case (measure_fn lm x sg f, trace_points x) of
       (Some m, Some points) \<Rightarrow>
         map_option (\<lambda>rest. map (trace_of m) [0..points - 1] @ rest) (record_trace lm x sg fs)
     | _ \<Rightarrow> None)"

definition respond_trace_preamble :: "sweep_config \<Rightarrow> access \<Rightarrow> outcome" where
  "respond_trace_preamble sw a = (let x = st (fst a) in
     case trace_points x of
       None \<Rightarrow> Undefined
     | Some points \<Rightarrow> Done (respond (to_string points @ '','' @
         to_string (int (max (length (sweep_functions sw)) 1)) @ '','' @
         format_setting (aperture x) @ '','' @ format_setting (sweep_offset_time sw)) a))"

definition respond_trace :: "libm \<Rightarrow> sweep_config \<Rightarrow> access \<Rightarrow> outcome" where
  "respond_trace lm sw a =
     (case read_window 1 a of
       (a', None) \<Rightarrow> Done a'
     | (a', Some w) \<Rightarrow> (let x = st (fst a');
           fs = (if sweep_functions sw = [] then meas_functions x else sweep_functions sw) in
         case record_trace lm x (signal (fst a')) fs of
           None \<Rightarrow> Undefined
         | Some samples \<Rightarrow>
             if key (snd a') = ''TRAC:STAT'' then respond_window join_values (map snd samples) w a'
             else respond_window (format_values x) (map fst samples) w a'))"

text \<open>The block argument of a trace query: a number that is 1 or 2.\<close>

definition block_argument :: "string \<Rightarrow> nat option" where
  "block_argument txt = (case parse_number txt of
     None \<Rightarrow> None
   | Some v \<Rightarrow> if deq v (lit 1 1) then Some 1 else if deq v (lit 2 1) then Some 2 else None)"

definition handle_trace_query :: "libm \<Rightarrow> access \<Rightarrow> outcome" where
  "handle_trace_query lm a = (let xs = args (snd a) in
     if \<not> query (snd a) then Done (query_only (\<lambda>b. b) a)
     else if xs = [] then Done (fail kMissingParameter ''Missing parameter;expected <block>'' a)
     else case block_argument (xs ! 0) of
       None \<Rightarrow> Done (fail kIllegalParameterValue (''Illegal parameter value;'' @ xs ! 0) a)
     | Some block \<Rightarrow>
         if key (snd a) = ''TRAC:PRE'' then respond_trace_preamble (sweep_of block (st (fst a))) a
         else respond_trace lm (sweep_of block (st (fst a))) a)"

definition kTraceCapacity :: int where "kTraceCapacity = 4096"

definition respond_trace_points :: "(int \<Rightarrow> int) \<Rightarrow> access \<Rightarrow> outcome" where
  "respond_trace_points f a =
     (if \<not> query (snd a) then Done (query_only (\<lambda>b. b) a)
      else case trace_points (st (fst a)) of
        None \<Rightarrow> Undefined
      | Some points \<Rightarrow> Done (respond (to_string (f points)) a))"

definition handle_trace :: "libm \<Rightarrow> access \<Rightarrow> outcome" where
  "handle_trace lm a = (let k = key (snd a) in
     if \<not> key_starts ''TRAC'' k then Declined
     else if k = ''TRAC:FREE'' then respond_trace_points (\<lambda>points. kTraceCapacity - points) a
     else if k = ''TRAC:CAT:LEN'' then respond_trace_points (\<lambda>points. points) a
     else if k = ''TRAC:DEL:ALL'' then Done (command_only (assign stop_sweeps) a)
     else if k = ''TRAC:PRE'' \<or> k = ''TRAC'' \<or> k = ''TRAC:STAT'' then handle_trace_query lm a
     else Declined)"

section \<open>STATus\<close>

definition register_named :: "string \<Rightarrow> status_register option" where
  "register_named name =
     (if name = ''OPER'' then Some Operation
      else if name = ''QUES'' then Some Questionable
      else if name = ''QUES:VOLT'' then Some QuestionableVoltage
      else if name = ''QUES:CURR'' then Some QuestionableCurrent
      else None)"

definition part_named :: "string \<Rightarrow> register_part option" where
  "part_named name =
     (if name = ''COND'' then Some Condition
      else if name = ''EVEN'' then Some Event
      else if name = ''ENAB'' then Some Enable
      else if name = ''PTR'' then Some PositiveTransition
      else if name = ''NTR'' then Some NegativeTransition
      else None)"

text \<open>The part of a key is what follows its last colon, the register what precedes it.\<close>

definition status_target :: "string \<Rightarrow> (status_register \<times> register_part) option" where
  "status_target k = (let rest = drop 5 k in
     if \<not> key_starts ''STAT:'' k \<or> CHR '':'' \<notin> set rest then None
     else case register_named (rev (tl (dropWhile (\<lambda>c. c \<noteq> CHR '':'') (rev rest)))) of
       None \<Rightarrow> None
     | Some reg \<Rightarrow> map_option (Pair reg) (part_named (rev (takeWhile (\<lambda>c. c \<noteq> CHR '':'') (rev rest)))))"

definition read_event :: "status_register \<Rightarrow> access \<Rightarrow> access" where
  "read_event reg a = (case a of (s, c) \<Rightarrow>
     (case latch_event reg s of (ev, s1) \<Rightarrow>
       assign (register_update reg (event_update (\<lambda>_. 0))) (respond (to_string ev) (s1, c))))"

definition handle_part :: "status_register \<Rightarrow> register_part \<Rightarrow> access \<Rightarrow> access" where
  "handle_part reg part a = (case part of
     Condition \<Rightarrow> query_only (\<lambda>b. respond (to_string (condition (st (fst b)) (signal (fst b)) reg)) b) a
   | Event \<Rightarrow> query_only (read_event reg) a
   | Enable \<Rightarrow> on_field (\<lambda>x. enable (register_of reg x)) (\<lambda>f. register_update reg (enable_update f)) (integer 0 65535) a
   | PositiveTransition \<Rightarrow>
       on_field (\<lambda>x. ptransition (register_of reg x)) (\<lambda>f. register_update reg (ptransition_update f)) (integer 0 65535) a
   | NegativeTransition \<Rightarrow>
       on_field (\<lambda>x. ntransition (register_of reg x)) (\<lambda>f. register_update reg (ntransition_update f)) (integer 0 65535) a)"

definition handle_status :: "access \<Rightarrow> outcome" where
  "handle_status a = (case status_target (key (snd a)) of
     None \<Rightarrow> Declined
   | Some (reg, part) \<Rightarrow> Done (handle_part reg part a))"

end
