(* ===== verification/Simulator.thy ===== *)
theory Simulator
  imports Sim_Specs Sim_Calculate
begin

text \<open>
  The input unit of \<open>module/simulator/src/norma_simulator.cpp\<close>: a command line is split
  into commands, each is separated into header and parameters, the header is resolved
  against the path shared with the previous command and looked up in the command table, and
  the handlers execute it. Responses are collected; a rejected command ends the line.

  \<open>None\<close> (and \<open>Undefined\<close> of a handler) means that the C++ has no defined behaviour from
  here on.
\<close>

section \<open>Reading a command\<close>

text \<open>
  The text before the first white space outside a quoted string, and the text after it when
  there is such a white space.
\<close>

fun header_scan :: "string \<Rightarrow> char option \<Rightarrow> string \<times> string option" where
  "header_scan [] q = ([], None)"
| "header_scan (c # cs) (Some q) =
     (case header_scan cs (if c = q then None else Some q) of (h, r) \<Rightarrow> (c # h, r))"
| "header_scan (c # cs) None =
     (if is_quote c then (case header_scan cs (Some c) of (h, r) \<Rightarrow> (c # h, r))
      else if is_space c then ([], Some cs)
      else (case header_scan cs None of (h, r) \<Rightarrow> (c # h, r)))"

definition read_arguments :: "string \<Rightarrow> string list" where
  "read_arguments parameters =
     (if parameters = [] then [] else map trim (split_unquoted parameters (CHR '','')))"

text \<open>Header (without the question mark) and the command filled in so far.\<close>

definition read_command :: "string \<Rightarrow> string \<times> command" where
  "read_command txt = (case header_scan txt None of (h, rest) \<Rightarrow>
     let parameters = (case rest of None \<Rightarrow> [] | Some r \<Rightarrow> trim r);
         is_query = (h \<noteq> [] \<and> last h = CHR ''?'') in
     (if is_query then butlast h else h,
      empty_command\<lparr>query := is_query, args := read_arguments parameters\<rparr>))"

text \<open>The header's tokens, behind the shared path unless the header starts with a colon.\<close>

definition is_absolute :: "string \<Rightarrow> bool" where
  "is_absolute header \<longleftrightarrow> header \<noteq> [] \<and> hd header = CHR '':''"

definition header_tokens :: "token list \<Rightarrow> string \<Rightarrow> token list" where
  "header_tokens path header =
     (if is_absolute header then map make_token (split_unquoted (tl header) (CHR '':''))
      else path @ map make_token (split_unquoted header (CHR '':'')))"

section \<open>Executing it\<close>

definition handlers :: "libm \<Rightarrow> (access \<Rightarrow> outcome) list" where
  "handlers lm = [handle_route, handle_input, handle_sense lm, handle_sync, handle_acquisition,
     handle_trigger, handle_calculate, handle_trace lm, handle_format, handle_display_output,
     handle_system, handle_status, handle_timer]"

fun first_handler :: "(access \<Rightarrow> outcome) list \<Rightarrow> access \<Rightarrow> outcome" where
  "first_handler [] a = Declined"
| "first_handler (h # hs) a = (case h a of Declined \<Rightarrow> first_handler hs a | r \<Rightarrow> r)"

definition execute :: "libm \<Rightarrow> access \<Rightarrow> access option" where
  "execute lm a = (case first_handler (handlers lm) a of
     Declined \<Rightarrow> Some (fail kExecutionError (''Simulator has no handler for command;'' @ key (snd a)) a)
   | Done a' \<Rightarrow> Some a'
   | Undefined \<Rightarrow> None)"

text \<open>What one command of a line leaves: the simulator, the path, its response, whether the line goes on.\<close>

record piece_result =
  pr_sim :: simulator
  pr_path :: "token list"
  pr_response :: "string option"
  pr_continue :: bool

definition finished :: "token list \<Rightarrow> access \<Rightarrow> piece_result" where
  "finished path a = \<lparr>pr_sim = fst a, pr_path = path, pr_response = response (snd a),
     pr_continue = (\<not> failed (snd a))\<rparr>"

text \<open>A header that is not known ends the line before a response is looked at.\<close>

definition rejected :: "token list \<Rightarrow> string \<Rightarrow> simulator \<Rightarrow> piece_result" where
  "rejected path txt s = \<lparr>pr_sim = push_error kUndefinedHeader (''Undefined header;'' @ txt) s,
     pr_path = path, pr_response = None, pr_continue = False\<rparr>"

definition run_common :: "token list \<Rightarrow> string \<Rightarrow> string \<Rightarrow> command \<Rightarrow> simulator \<Rightarrow> piece_result option" where
  "run_common path txt header c s = (let
       k = upper header;
       c1 = c\<lparr>key := k, tokens := [\<lparr>tok_text = k, tok_suffix = 0, tok_has_suffix = False\<rparr>]\<rparr> in
     case handle_common (s, c1) of
       Declined \<Rightarrow> Some (rejected path txt s)
     | Done a \<Rightarrow> Some (finished path a)
     | Undefined \<Rightarrow> None)"

definition run_subsystem ::
  "libm \<Rightarrow> token list \<Rightarrow> string \<Rightarrow> string \<Rightarrow> command \<Rightarrow> simulator \<Rightarrow> piece_result option" where
  "run_subsystem lm path txt header c s = (let toks = header_tokens path header; path' = butlast toks in
     case lookup_spec toks of
       None \<Rightarrow> Some (rejected path' txt s)
     | Some (k, sfx) \<Rightarrow>
         map_option (finished path') (execute lm (s, c\<lparr>tokens := toks, key := k, suffixes := sfx\<rparr>)))"

text \<open>One piece of the line, trimmed and not empty.\<close>

definition run_piece :: "libm \<Rightarrow> token list \<Rightarrow> string \<Rightarrow> simulator \<Rightarrow> piece_result option" where
  "run_piece lm path txt s = (case read_command txt of (header, c) \<Rightarrow>
     if header \<noteq> [] \<and> hd header = CHR ''*'' then run_common path txt header c s
     else run_subsystem lm path txt header c s)"

fun run_pieces :: "libm \<Rightarrow> token list \<Rightarrow> string list \<Rightarrow> simulator \<Rightarrow> (simulator \<times> string list) option" where
  "run_pieces lm path [] s = Some (s, [])"
| "run_pieces lm path (piece # pieces) s =
     (if trim piece = [] then run_pieces lm path pieces s
      else case run_piece lm path (trim piece) s of
        None \<Rightarrow> None
      | Some r \<Rightarrow>
          (let rs = (case pr_response r of None \<Rightarrow> [] | Some t \<Rightarrow> [t]) in
           if pr_continue r
           then map_option (\<lambda>(s', rs'). (s', rs @ rs')) (run_pieces lm (pr_path r) pieces (pr_sim r))
           else Some (pr_sim r, rs)))"

definition join_responses :: "string list \<Rightarrow> string" where
  "join_responses rs = join_with '';'' rs"

text \<open>\<open>handle_line\<close>; the line counter is a \<open>std::uint64_t\<close>.\<close>

definition handle_line :: "libm \<Rightarrow> string \<Rightarrow> simulator \<Rightarrow> (simulator \<times> string option) option" where
  "handle_line lm line s =
     map_option (\<lambda>(s', rs). (s', if rs = [] then None else Some (join_responses rs)))
       (run_pieces lm [] (split_unquoted line (CHR '';''))
         (s\<lparr>handled_lines := (handled_lines s + 1) mod 2 ^ 64\<rparr>))"

text \<open>Several lines, one after the other.\<close>

fun handle_lines :: "libm \<Rightarrow> string list \<Rightarrow> simulator \<Rightarrow> (simulator \<times> string option list) option" where
  "handle_lines lm [] s = Some (s, [])"
| "handle_lines lm (l # ls) s =
     (case handle_line lm l s of
       None \<Rightarrow> None
     | Some (s', r) \<Rightarrow> map_option (\<lambda>(s'', rs). (s'', r # rs)) (handle_lines lm ls s'))"

end
