(* ===== verification/Sim_Transport.thy ===== *)
theory Sim_Transport
  imports Scpi_Client Simulator
begin

text \<open>
  The in-process transport of the simulator (\<open>SimulatorTransport\<close> in
  \<open>module/simulator/include/fluke/norma/simulator/simulator_transport.hpp\<close>): every complete
  line written goes to the simulator at once, its response waits for the next read. The
  simulator is held by this transport alone; the fault switches are plain fields, as in the
  code.
\<close>

record sim_link =
  unit_under_test :: simulator
  pending :: string
  responses :: "string list"
  opened :: bool
  writes :: "string list"
  write_timeouts :: "int list"
  read_timeouts :: "int list"
  fail_writes :: bool
  fail_reads :: bool
  stall_reads :: bool

definition new_sim_link :: "simulator \<Rightarrow> sim_link" where
  "new_sim_link s = \<lparr>unit_under_test = s, pending = [], responses = [], opened = False, writes = [],
     write_timeouts = [], read_timeouts = [], fail_writes = False, fail_reads = False, stall_reads = False\<rparr>"

section \<open>Operations\<close>

definition sim_open :: "(sim_link, unit) io" where
  "sim_open t = Some (t\<lparr>opened := True\<rparr>, Inr ())"

definition sim_close :: "(sim_link, unit) io" where
  "sim_close t = Some (t\<lparr>opened := False, responses := []\<rparr>, Inr ())"

definition require_open :: "(sim_link, 'a) io \<Rightarrow> (sim_link, 'a) io" where
  "require_open m t = require (opened t) (ConnectionError ''simulated transport: not connected'') m t"

definition drop_return :: "string \<Rightarrow> string" where
  "drop_return l = (if l \<noteq> [] \<and> last l = carriage_return then butlast l else l)"

definition serve_line :: "libm \<Rightarrow> string \<Rightarrow> sim_link \<Rightarrow> sim_link option" where
  "serve_line lm l t = (case handle_line lm l (unit_under_test t) of
     None \<Rightarrow> None
   | Some (s, r) \<Rightarrow> Some (t\<lparr>unit_under_test := s, writes := writes t @ [l],
       responses := responses t @ answer_list r\<rparr>))"

fun serve_lines :: "libm \<Rightarrow> string list \<Rightarrow> sim_link \<Rightarrow> sim_link option" where
  "serve_lines lm [] t = Some t"
| "serve_lines lm (l # ls) t = (case serve_line lm (drop_return l) t of
     None \<Rightarrow> None
   | Some u \<Rightarrow> serve_lines lm ls u)"

definition sim_write :: "libm \<Rightarrow> string \<Rightarrow> int \<Rightarrow> (sim_link, unit) io" where
  "sim_write lm data timeout = require_open (\<lambda>t.
     let t1 = t\<lparr>write_timeouts := write_timeouts t @ [timeout]\<rparr> in
     if fail_writes t1 then Some (t1, Inl (ConnectionError ''simulated transport: write failed''))
     else case take_lines (pending t1 @ data) of (ls, rest) \<Rightarrow>
       map_option (\<lambda>u. (u\<lparr>pending := rest\<rparr>, Inr ())) (serve_lines lm ls t1))"

definition stall_text :: "int \<Rightarrow> string" where
  "stall_text timeout = ''simulated transport: read timed out after '' @ to_string timeout @ '' ms''"

definition silent_text :: "int \<Rightarrow> string" where
  "silent_text timeout = ''simulated transport: no response pending, read timed out after '' @ to_string timeout @ '' ms''"

definition sim_read_line :: "int \<Rightarrow> (sim_link, string) io" where
  "sim_read_line timeout = require_open (\<lambda>t.
     let t1 = t\<lparr>read_timeouts := read_timeouts t @ [timeout]\<rparr> in
     if fail_reads t1 then Some (t1, Inl (ConnectionError ''simulated transport: connection reset by peer''))
     else if stall_reads t1 then Some (t1, Inl (TimeoutError (stall_text timeout)))
     else case responses t1 of
       [] \<Rightarrow> Some (t1, Inl (TimeoutError (silent_text timeout)))
     | r # rs \<Rightarrow> Some (t1\<lparr>responses := rs\<rparr>, Inr r))"

definition pending_responses :: "sim_link \<Rightarrow> nat" where
  "pending_responses t = length (responses t)"

definition sim_transport :: "libm \<Rightarrow> sim_link transport" where
  "sim_transport lm = \<lparr>t_open = sim_open, t_close = sim_close, t_is_open = opened, t_write = sim_write lm,
     t_read_line = sim_read_line, t_description = (\<lambda>_. ''simulator://in-process'')\<rparr>"

lemma sim_transport_simps [simp]:
  "t_open (sim_transport lm) = sim_open" "t_close (sim_transport lm) = sim_close"
  "t_is_open (sim_transport lm) = opened" "t_write (sim_transport lm) = sim_write lm"
  "t_read_line (sim_transport lm) = sim_read_line"
  by (simp_all add: sim_transport_def)

section \<open>It is a line transport\<close>

text \<open>Open, without faults, and with no partial line in its buffer.\<close>

definition sim_ready :: "sim_link \<Rightarrow> bool" where
  "sim_ready t \<longleftrightarrow> opened t \<and> \<not> fail_writes t \<and> \<not> fail_reads t \<and> \<not> stall_reads t \<and> pending t = []"

lemma drop_return_id: "\<not> has_line_terminator l \<Longrightarrow> drop_return l = l"
  unfolding drop_return_def has_line_terminator_def by (metis last_in_set)

lemma serve_lines_append:
  "serve_lines lm (ls @ ms) t = (case serve_lines lm ls t of None \<Rightarrow> None | Some u \<Rightarrow> serve_lines lm ms u)"
  by (induction ls arbitrary: t) (auto split: option.splits)

interpretation sim_link: lasting_transport "sim_transport lm" sim_ready responses unit_under_test "handle_line lm"
  for lm
proof
  fix t l d r tm
  assume t: "sim_ready t" "\<not> has_line_terminator l" "handle_line lm l (unit_under_test t) = Some (d, r)"
  then have l: "take_lines (l @ [line_feed]) = ([l], [])"
    by (intro take_lines_one) (simp add: has_line_terminator_def)
  show "\<exists>u. t_write (sim_transport lm) (l @ [line_feed]) tm t = Some (u, Inr ()) \<and> sim_ready u \<and>
      unit_under_test u = d \<and> responses u = responses t @ answer_list r"
    using t drop_return_id [OF t(2)]
    by (simp add: sim_write_def require_open_def require_def sim_ready_def l serve_line_def)
next
  fix t a as tm
  assume "sim_ready t" "responses t = a # as"
  then show "\<exists>u. t_read_line (sim_transport lm) tm t = Some (u, Inr a) \<and> sim_ready u \<and>
      unit_under_test u = unit_under_test t \<and> responses u = as"
    by (simp add: sim_read_line_def require_open_def require_def sim_ready_def)
next
  fix t tm
  assume "sim_ready t" "responses t = []"
  then show "\<exists>u m. t_read_line (sim_transport lm) tm t = Some (u, Inl (TimeoutError m)) \<and>
      unit_under_test u = unit_under_test t"
    by (simp add: sim_read_line_def require_open_def require_def sim_ready_def)
next
  fix t tm u e
  assume "sim_ready t" "responses t = []" "t_read_line (sim_transport lm) tm t = Some (u, Inl e)"
  then show "sim_ready u \<and> responses u = []"
    by (auto simp: sim_read_line_def require_open_def require_def sim_ready_def)
qed

lemma handle_lines_serve_all: "handle_lines lm ls s = serve_all (handle_line lm) ls s"
  by (induction ls arbitrary: s) (simp_all split: option.splits)

end
