(* ===== verification/Sim_Fields.thy ===== *)
theory Sim_Fields
  imports Sim_Calculate
begin

text \<open>
  How the handlers' plumbing treats one setting. \<open>setting_op\<close> is the contract of
  \<open>Access::number\<close>, \<open>integer\<close>, \<open>boolean\<close>, \<open>keyword\<close> and \<open>function_list\<close>: a query only
  responds, and a setting either queues an error and leaves the field, or stores an accepted
  value and queues nothing. \<open>state_field\<close> is what a C++ reference into \<open>SimulatorState\<close>
  has to be for \<open>on_field\<close> to be that reference: writing back the value read changes
  nothing, and neither reading nor writing touches what \<open>push_error\<close> changes.
\<close>

section \<open>Errors the simulator reports\<close>

definition reported_codes :: "int list" where
  "reported_codes = [kMissingParameter, kUndefinedHeader, kSettingsConflict, kDataOutOfRange, kIllegalParameterValue]"

lemma reported_codes_simps [simp]:
  "kMissingParameter \<in> set reported_codes" "kUndefinedHeader \<in> set reported_codes"
  "kSettingsConflict \<in> set reported_codes" "kDataOutOfRange \<in> set reported_codes"
  "kIllegalParameterValue \<in> set reported_codes"
  by (simp_all add: reported_codes_def)

section \<open>The access primitives\<close>

lemma respond_simps [simp]:
  "fst (respond t a) = fst a" "snd (respond t a) = (snd a)\<lparr>response := Some t\<rparr>"
  by (simp_all add: respond_def split: prod.splits)

lemma fail_simps [simp]:
  "fst (fail e m a) = push_error e m (fst a)" "snd (fail e m a) = (snd a)\<lparr>failed := True\<rparr>"
  by (simp_all add: fail_def split: prod.splits)

lemma assign_simps [simp]:
  "fst (assign f a) = set_st f (fst a)" "snd (assign f a) = snd a"
  by (simp_all add: assign_def split: prod.splits)

lemma set_st_simps [simp]:
  "st (set_st f s) = f (st s)" "opts (set_st f s) = opts s"
  "signal (set_st f s) = signal s" "handled_lines (set_st f s) = handled_lines s"
  by (simp_all add: set_st_def)

lemma push_error_simps [simp]:
  "opts (push_error e m s) = opts s" "signal (push_error e m s) = signal s"
  "handled_lines (push_error e m s) = handled_lines s"
  by (simp_all add: push_error_def)

lemma parameter_cases:
  "parameter a = (fail kMissingParameter ''Missing parameter'' a, None) \<and> argument (snd a) 0 = None \<or>
   (\<exists>txt. parameter a = (a, Some txt) \<and> argument (snd a) 0 = Some txt)"
  by (auto simp: parameter_def split: option.splits)

definition in_range :: "double \<Rightarrow> double \<Rightarrow> double \<Rightarrow> bool" where
  "in_range lo hi v \<longleftrightarrow> \<not> dlt v lo \<and> \<not> dlt hi v"

text \<open>\<open>fails a b\<close>: the command was rejected with one of the reported codes.\<close>

definition fails :: "access \<Rightarrow> access \<Rightarrow> bool" where
  "fails a b \<longleftrightarrow> (\<exists>e m. e \<in> set reported_codes \<and> b = fail e m a)"

lemma fails_fail [simp]: "e \<in> set reported_codes \<Longrightarrow> fails a (fail e m a)"
  by (auto simp: fails_def)

definition setting_op :: "('v \<Rightarrow> access \<Rightarrow> 'v \<times> access) \<Rightarrow> ('v \<Rightarrow> bool) \<Rightarrow> bool" where
  "setting_op f Q \<longleftrightarrow> (\<forall>v a.
     (query (snd a) \<longrightarrow> fst (f v a) = v \<and> (\<exists>t. snd (f v a) = respond t a)) \<and>
     (\<not> query (snd a) \<longrightarrow>
        fst (f v a) = v \<and> fails a (snd (f v a)) \<or> Q (fst (f v a)) \<and> snd (f v a) = a))"

lemma setting_op_number: "setting_op (number lo hi) (in_range lo hi)"
  unfolding setting_op_def number_def in_range_def parameter_def
  by (auto split: option.splits)

lemma setting_op_integer: "setting_op (integer lo hi) (\<lambda>v. lo \<le> v \<and> v \<le> hi)"
  unfolding setting_op_def integer_def Let_def parameter_def
  by (auto split: option.splits)

lemma setting_op_boolean: "setting_op boolean (\<lambda>_. True)"
  unfolding setting_op_def boolean_def parameter_def
  by (auto split: option.splits)

lemma find_spelling_mem: "find_spelling w sp = Some v \<Longrightarrow> v \<in> fst ` set sp"
  unfolding find_spelling_def by (auto simp: find_Some_iff image_iff) (metis nth_mem fst_conv)

lemma setting_op_keyword: "setting_op (keyword sp) (\<lambda>v. v \<in> fst ` set sp)"
  unfolding setting_op_def keyword_def parameter_def
  by (auto split: option.splits dest: find_spelling_mem)

lemma read_function_list_cases:
  "fails a (fst (read_function_list a)) \<and> snd (read_function_list a) = None \<or>
   (\<exists>fs. read_function_list a = (a, Some fs))"
  by (auto simp: read_function_list_def split: sum.splits)

lemma setting_op_function_list: "setting_op function_list (\<lambda>_. True)"
  unfolding setting_op_def function_list_def read_function_list_def
  by (auto split: sum.splits)

lemma setting_op_mono: "setting_op f Q \<Longrightarrow> (\<And>v. Q v \<Longrightarrow> Q' v) \<Longrightarrow> setting_op f Q'"
  unfolding setting_op_def by blast

section \<open>References into the state\<close>

locale state_field =
  fixes rd :: "simulator_state \<Rightarrow> 'v"
    and upd :: "('v \<Rightarrow> 'v) \<Rightarrow> simulator_state \<Rightarrow> simulator_state"
  assumes get_put: "upd (\<lambda>_. rd x) x = x"
    and frame_errors: "errors (upd f x) = errors x"
    and frame_status: "event_status (upd f x) = event_status x"
    and rd_frame: "rd (x\<lparr>errors := es, event_status := e\<rparr>) = rd x"
begin

lemma get_put_self: "set_st (upd (\<lambda>_. rd (st s))) s = s"
  by (simp add: set_st_def get_put)

lemma rd_push_error: "rd (st (push_error e m s)) = rd (st s)"
  using rd_frame [of "event_status (st s)" _ "st s"] rd_frame [of "event_status (st s) OR 32" _ "st s"]
  by (simp add: push_error_def set_st_def)

lemma on_field_query:
  assumes "setting_op f Q" "query (snd a)"
  shows "\<exists>t. on_field rd upd f a = respond t a"
proof -
  obtain s c where a: "a = (s, c)" by (cases a)
  obtain t where "f (rd (st s)) a = (rd (st s), respond t a)"
    using assms unfolding setting_op_def by (metis prod.collapse)
  then have "on_field rd upd f a = respond t a"
    using get_put_self [of s] by (simp add: on_field_def a respond_def)
  then show ?thesis ..
qed

lemma on_field_set:
  assumes "setting_op f Q" "\<not> query (snd a)"
  shows "fails a (on_field rd upd f a) \<or> (\<exists>v. Q v \<and> on_field rd upd f a = assign (upd (\<lambda>_. v)) a)"
proof -
  obtain s c where a: "a = (s, c)" by (cases a)
  have put_back: "set_st (upd (\<lambda>_. rd (st s))) (push_error e m s) = push_error e m s" for e m
    using get_put_self [of "push_error e m s"] rd_push_error [of e m s] by simp
  have "(\<exists>b. fails a b \<and> f (rd (st s)) a = (rd (st s), b)) \<or> (\<exists>v. Q v \<and> f (rd (st s)) a = (v, a))"
    using assms unfolding setting_op_def by (metis prod.collapse)
  then show ?thesis
  proof
    assume "\<exists>b. fails a b \<and> f (rd (st s)) a = (rd (st s), b)"
    then obtain b where b: "fails a b" "f (rd (st s)) a = (rd (st s), b)" by blast
    then have "on_field rd upd f a = b"
      by (auto simp: on_field_def a fail_def fails_def put_back)
    with b show ?thesis by blast
  next
    assume "\<exists>v. Q v \<and> f (rd (st s)) a = (v, a)"
    then obtain v where v: "Q v" "f (rd (st s)) a = (v, a)" by blast
    then have "on_field rd upd f a = assign (upd (\<lambda>_. v)) a"
      by (simp add: on_field_def a assign_def)
    with v show ?thesis by blast
  qed
qed

end

text \<open>A field that reads back what was written to it.\<close>

locale lens_field = state_field +
  assumes put_get: "rd (upd f x) = f (rd x)"
begin

lemma set_then_query:
  assumes "on_field rd upd f a = b" "f (rd (st (fst a))) a = (v, a)"
  shows "rd (st (fst b)) = v" "snd b = snd a"
  using assms put_get unfolding on_field_def by (auto split: prod.splits)

end

text \<open>Array elements and the fields of a channel or a sweep block are such references.\<close>

lemmas element_defs = element_update_def channel_of_def channel_update_def sweep_of_def sweep_at_def

text \<open>The scalar members the handlers pass by reference.\<close>

lemma scalar_fields:
  "lens_field event_status_enable event_status_enable_update"
  "lens_field service_request_enable service_request_enable_update"
  "lens_field aperture aperture_update"
  "lens_field concurrent concurrent_update"
  "lens_field sync_enabled sync_enabled_update"
  "lens_field sync_level sync_level_update"
  "lens_field sync_level_unit sync_level_unit_update"
  "lens_field sync_slope sync_slope_update"
  "lens_field sync_filter sync_filter_update"
  "lens_field sync_timeout sync_timeout_update"
  "lens_field continuous continuous_update"
  "lens_field trigger_start_level trigger_start_level_update"
  "lens_field trigger_stop_level trigger_stop_level_update"
  "lens_field trigger_start_slope trigger_start_slope_update"
  "lens_field trigger_stop_slope trigger_stop_slope_update"
  "lens_field byte_order byte_order_update"
  "lens_field transpose_on transpose_on_update"
  "lens_field display_enabled display_enabled_update"
  "lens_field display_functions display_functions_update"
  "lens_field output_enabled output_enabled_update"
  "lens_field key_lock key_lock_update"
  "lens_field gpib_address gpib_address_update"
  "lens_field serial_baud serial_baud_update"
  "lens_field transform_mode transform_mode_update"
  "lens_field transform_functions transform_functions_update"
  "lens_field transform_start transform_start_update"
  "lens_field transform_stop transform_stop_update"
  "lens_field transform_grouping transform_grouping_update"
  "lens_field integral_enabled integral_enabled_update"
  "lens_field integral_functions integral_functions_update"
  "lens_field integral_auto_clear integral_auto_clear_update"
  "lens_field integral_start_source integral_start_source_update"
  "lens_field integral_stop_source integral_stop_source_update"
  "lens_field integral_stop_interval integral_stop_interval_update"
  "lens_field harmonic_order harmonic_order_update"
  "lens_field power_correction power_correction_update"
  by (unfold_locales; simp)+

text \<open>Elements of array members, and parts of a channel, a sweep block or a status register.\<close>

lemma element_fields:
  "state_field (\<lambda>x. coupling x ! i) (element_update coupling_update i)"
  "state_field (\<lambda>x. gain x ! i) (element_update gain_update i)"
  "state_field (\<lambda>x. shunt x ! i) (element_update shunt_update i)"
  "state_field (\<lambda>x. filter_on x ! i) (element_update filter_on_update i)"
  "state_field (\<lambda>x. ch_autorange (channel_of v i x)) (\<lambda>f. channel_update v i (ch_autorange_update f))"
  "state_field (\<lambda>x. ch_scale (channel_of v i x)) (\<lambda>f. channel_update v i (ch_scale_update f))"
  "state_field (\<lambda>x. sweep_enabled (sweep_of i x)) (\<lambda>f. sweep_at i (sweep_enabled_update f))"
  "state_field (\<lambda>x. sweep_time (sweep_of i x)) (\<lambda>f. sweep_at i (sweep_time_update f))"
  "state_field (\<lambda>x. sweep_offset_time (sweep_of i x)) (\<lambda>f. sweep_at i (sweep_offset_time_update f))"
  "state_field (\<lambda>x. sweep_count (sweep_of i x)) (\<lambda>f. sweep_at i (sweep_count_update f))"
  "state_field (\<lambda>x. sweep_sparsing (sweep_of i x)) (\<lambda>f. sweep_at i (sweep_sparsing_update f))"
  "state_field (\<lambda>x. sweep_functions (sweep_of i x)) (\<lambda>f. sweep_at i (sweep_functions_update f))"
  by (unfold_locales; (case_tac x)?; simp add: element_defs)+

lemma register_fields:
  "state_field (\<lambda>x. enable (register_of reg x)) (\<lambda>f. register_update reg (enable_update f))"
  "state_field (\<lambda>x. ptransition (register_of reg x)) (\<lambda>f. register_update reg (ptransition_update f))"
  "state_field (\<lambda>x. ntransition (register_of reg x)) (\<lambda>f. register_update reg (ntransition_update f))"
  by (cases reg; unfold_locales; (case_tac x)?; simp)+

lemmas state_fields = scalar_fields [THEN lens_field.axioms(1)] element_fields register_fields

interpretation aperture: lens_field aperture aperture_update
  by (rule scalar_fields)

interpretation gpib_address: lens_field gpib_address gpib_address_update
  by (rule scalar_fields)

interpretation channel_scale: state_field "\<lambda>x. ch_scale (channel_of v i x)"
    "\<lambda>f. channel_update v i (ch_scale_update f)" for v i
  by (rule element_fields)

end
