(* ===== verification/Sim_Steps.thy ===== *)
theory Sim_Steps
  imports Simulator Sim_Fields
begin

unbundle bit_operations_syntax

text \<open>
  An abstract machine for the simulator: the few kinds of transition the instrument makes
  (\<open>sim_step\<close>), what a well-formed configuration is (\<open>good_settings\<close>), and the refinement:
  whatever a handler does is a sequence of such transitions (\<open>leads\<close>). The rules
  \<open>leads_intros\<close> follow the plumbing of the handlers, so that a handler's lemma is one
  application of them plus the side conditions on its settings.
\<close>

section \<open>Well-formed configurations\<close>

definition good_options :: "simulator_options \<Rightarrow> bool" where
  "good_options o' \<longleftrightarrow> voltage_ranges o' \<noteq> [] \<and> current_ranges o' \<noteq> [] \<and> channels o' \<le> kMaxInputChannel"

text \<open>A NaN is in every range, as it is for the comparisons of the source.\<close>

definition good_channel :: "double list \<Rightarrow> channel_config \<Rightarrow> bool" where
  "good_channel ranges c \<longleftrightarrow> ch_range c \<in> set ranges \<and> in_range (lit 9 10) (lit (10 ^ 7) 1) (ch_scale c)"

definition good_sweep :: "sweep_config \<Rightarrow> bool" where
  "good_sweep w \<longleftrightarrow> in_range (lit 1 1000) (lit 3600 1) (sweep_time w) \<and>
     in_range (lit (- 3600) 1) (lit 3600 1) (sweep_offset_time w) \<and>
     1 \<le> sweep_count w \<and> sweep_count w \<le> 1000000 \<and> 1 \<le> sweep_sparsing w \<and> sweep_sparsing w \<le> 65535"

definition word16 :: "int \<Rightarrow> bool" where
  "word16 v \<longleftrightarrow> 0 \<le> v \<and> v \<le> 65535"

definition good_register :: "register_state \<Rightarrow> bool" where
  "good_register r \<longleftrightarrow> word16 (event r) \<and> word16 (enable r) \<and> word16 (ptransition r) \<and>
     word16 (ntransition r) \<and> word16 (previous_condition r)"

definition good_arrays :: "simulator_options \<Rightarrow> simulator_state \<Rightarrow> bool" where
  "good_arrays o' x \<longleftrightarrow>
     length (coupling x) = 13 \<and> length (shunt x) = 13 \<and> length (gain x) = 13 \<and> length (filter_on x) = 13 \<and>
     length (voltage x) = 7 \<and> length (current x) = 7 \<and> length (sweep x) = 3 \<and> length (saved_setups x) = 25 \<and>
     list_all (in_range dzero (lit (10 ^ 12) 1)) (gain x) \<and>
     list_all (good_channel (voltage_ranges o')) (voltage x) \<and>
     list_all (good_channel (current_ranges o')) (current x) \<and>
     list_all good_sweep (sweep x)"

definition sync_sources :: "string list" where
  "sync_sources = ''EXT'' # map (\<lambda>p. ''VOLT'' @ to_string p) [1..6] @ map (\<lambda>p. ''CURR'' @ to_string p) [1..6]"

definition good_timing :: "simulator_state \<Rightarrow> bool" where
  "good_timing x \<longleftrightarrow>
     in_range kMinAperture kMaxAperture (aperture x) \<and>
     sync_source x \<in> set sync_sources \<and>
     in_range (lit (- 1000) 1) (lit 1000 1) (sync_level x) \<and>
     sync_filter_frequency x \<in> set cutoff_frequencies \<and>
     in_range (lit 15 1000) (lit 3600 1) (sync_timeout x) \<and>
     in_range (lit (- (10 ^ 7)) 1) (lit (10 ^ 7) 1) (trigger_start_level x) \<and>
     in_range (lit (- (10 ^ 7)) 1) (lit (10 ^ 7) 1) (trigger_stop_level x) \<and>
     in_range dzero (lit (10 ^ 6) 1) (transform_start x) \<and>
     in_range dzero (lit (10 ^ 6) 1) (transform_stop x) \<and>
     in_range (lit 1 1000) (lit 9990000 1) (integral_stop_interval x)"

definition good_numbers :: "simulator_state \<Rightarrow> bool" where
  "good_numbers x \<longleftrightarrow>
     0 \<le> harmonic_order x \<and> harmonic_order x \<le> 100 \<and> transform_cycles x \<in> {4, 6, 8, 10, 12} \<and>
     1 \<le> gpib_address x \<and> gpib_address x \<le> 30 \<and> 1200 \<le> serial_baud x \<and> serial_baud x \<le> 115200 \<and>
     0 \<le> event_status_enable x \<and> event_status_enable x \<le> 255 \<and>
     0 \<le> service_request_enable x \<and> service_request_enable x \<le> 255"

definition good_clock :: "simulator_state \<Rightarrow> bool" where
  "good_clock x \<longleftrightarrow>
     1 \<le> date_month (date x) \<and> date_month (date x) \<le> 12 \<and> 1 \<le> date_day (date x) \<and> date_day (date x) \<le> 31 \<and>
     0 \<le> time_hours (time_of_day x) \<and> time_hours (time_of_day x) \<le> 23 \<and>
     0 \<le> time_minutes (time_of_day x) \<and> time_minutes (time_of_day x) \<le> 59 \<and>
     0 \<le> time_seconds (time_of_day x) \<and> time_seconds (time_of_day x) \<le> 59"

text \<open>The two FORMat settings are both text or both binary.\<close>

definition good_formats :: "simulator_state \<Rightarrow> bool" where
  "good_formats x \<longleftrightarrow> (fmt_format (data_format x) = Ascii) = (fmt_format (status_format x) = Ascii)"

definition good_registers :: "simulator_state \<Rightarrow> bool" where
  "good_registers x \<longleftrightarrow> good_register (operation x) \<and> good_register (questionable x) \<and>
     good_register (questionable_voltage x) \<and> good_register (questionable_current x)"

definition good_settings :: "simulator_options \<Rightarrow> simulator_state \<Rightarrow> bool" where
  "good_settings o' x \<longleftrightarrow> good_options o' \<and> good_arrays o' x \<and> good_timing x \<and> good_numbers x \<and>
     good_clock x \<and> good_formats x \<and> good_registers x"

lemmas good_group_defs = good_settings_def good_arrays_def good_timing_def good_numbers_def good_clock_def
  good_formats_def good_registers_def

section \<open>The abstract machine\<close>

text \<open>
  A setting is a change of the configuration that keeps it well formed and leaves the error
  queue and the event status alone.
\<close>

definition setting_change :: "simulator_options \<Rightarrow> simulator_state \<Rightarrow> simulator_state \<Rightarrow> bool" where
  "setting_change o' x y \<longleftrightarrow> errors y = errors x \<and> event_status y = event_status x \<and>
     (good_settings o' x \<longrightarrow> good_settings o' y)"

text \<open>The transitions of a query (\<open>q\<close>) or of a setting command (\<open>\<not> q\<close>).\<close>

inductive sim_step :: "bool \<Rightarrow> simulator \<Rightarrow> simulator \<Rightarrow> bool" for q :: bool where
  reject: "e \<in> set reported_codes \<Longrightarrow> sim_step q s (push_error e m s)"
| setting: "\<not> q \<Longrightarrow> setting_change (opts s) (st s) (f (st s)) \<Longrightarrow> sim_step q s (set_st f s)"
| reset_all: "\<not> q \<Longrightarrow> sim_step q s (reset s)"
| clear: "\<not> q \<Longrightarrow> sim_step q s (clear_status s)"
| operation_complete: "\<not> q \<Longrightarrow> sim_step q s (set_st (event_status_update (\<lambda>e. e OR 1)) s)"
| read_esr: "q \<Longrightarrow> sim_step q s (set_st (event_status_update (\<lambda>_. 0)) s)"
| dequeue: "q \<Longrightarrow> sim_step q s (set_st (errors_update (drop n)) s)"
| latch: "q \<Longrightarrow> sim_step q s (snd (latch_event reg s))"
| read_register: "q \<Longrightarrow> sim_step q s (set_st (register_update reg (event_update (\<lambda>_. 0))) s)"
| requested_functions: "q \<Longrightarrow> sim_step q s (set_st (meas_functions_update (\<lambda>_. fs)) s)"

inductive_cases sim_step_cases [elim]: "sim_step q s s'"

text \<open>What a handler does to the command it is given, apart from the state it leads to.\<close>

definition leads :: "access \<Rightarrow> access \<Rightarrow> bool" where
  "leads a b \<longleftrightarrow> (sim_step (query (snd a)))\<^sup>*\<^sup>* (fst a) (fst b) \<and>
     query (snd b) = query (snd a) \<and> key (snd b) = key (snd a) \<and> args (snd b) = args (snd a) \<and>
     suffixes (snd b) = suffixes (snd a) \<and> opts (fst b) = opts (fst a) \<and>
     (failed (snd a) \<longrightarrow> failed (snd b)) \<and>
     (failed (snd b) \<or> (\<exists>n. errors (st (fst b)) = drop n (errors (st (fst a)))))"

lemma leads_refl [simp, intro]: "leads a a"
  unfolding leads_def by (auto intro: exI [of _ "0::nat"])

lemma leads_trans [trans]:
  assumes "leads a b" "leads b c" shows "leads a c"
  using assms unfolding leads_def by (auto simp: drop_drop dest: rtranclp_trans)

text \<open>Every outcome with a defined result leads there.\<close>

definition outcome_leads :: "access \<Rightarrow> outcome \<Rightarrow> bool" where
  "outcome_leads a out \<longleftrightarrow> (\<forall>b. out = Done b \<longrightarrow> leads a b)"

section \<open>Rules for the plumbing\<close>

named_theorems leads_intros

lemma leads_step:
  assumes "sim_step (query (snd a)) (fst a) s'" "snd b = snd a" "fst b = s'"
    and "opts s' = opts (fst a)" "\<exists>n. errors (st s') = drop n (errors (st (fst a)))"
  shows "leads a b"
  using assms unfolding leads_def by auto

lemma leads_respond [leads_intros]: "leads a (respond t a)"
  unfolding leads_def by (auto intro: exI [of _ "0::nat"])

lemma leads_fail [leads_intros]: "e \<in> set reported_codes \<Longrightarrow> leads a (fail e m a)"
  unfolding leads_def by (auto intro!: sim_step.reject)

lemma leads_fails: "fails a b \<Longrightarrow> leads a b"
  by (auto simp: fails_def intro: leads_fail)

lemma leads_assign:
  assumes "\<not> query (snd a)" "setting_change (opts (fst a)) (st (fst a)) (f (st (fst a)))"
  shows "leads a (assign f a)"
  using assms by (intro leads_step [where s' = "set_st f (fst a)"])
    (auto simp: setting_change_def intro!: sim_step.setting exI [of _ "0::nat"])

lemma leads_query_only [leads_intros]:
  "(query (snd a) \<Longrightarrow> leads a (k a)) \<Longrightarrow> leads a (query_only k a)"
  by (simp add: query_only_def leads_fail)

lemma leads_command_only [leads_intros]:
  "(\<not> query (snd a) \<Longrightarrow> leads a (k a)) \<Longrightarrow> leads a (command_only k a)"
  by (simp add: command_only_def leads_fail)

lemma leads_with_parameter [leads_intros]:
  "(\<And>txt. argument (snd a) 0 = Some txt \<Longrightarrow> leads a (k txt a)) \<Longrightarrow> leads a (with_parameter k a)"
  by (auto simp: with_parameter_def parameter_def leads_fail split: option.splits)

lemma leads_if [leads_intros]:
  "(c \<Longrightarrow> leads a x) \<Longrightarrow> (\<not> c \<Longrightarrow> leads a y) \<Longrightarrow> leads a (if c then x else y)"
  by simp

lemma leads_option [leads_intros]:
  "(o' = None \<Longrightarrow> leads a x) \<Longrightarrow> (\<And>v. o' = Some v \<Longrightarrow> leads a (f v)) \<Longrightarrow>
   leads a (case o' of None \<Rightarrow> x | Some v \<Rightarrow> f v)"
  by (simp split: option.splits)

lemma outcome_basic [leads_intros]:
  "outcome_leads a Declined" "outcome_leads a Undefined" "leads a b \<Longrightarrow> outcome_leads a (Done b)"
  by (simp_all add: outcome_leads_def)

lemma outcome_if [leads_intros]:
  "(c \<Longrightarrow> outcome_leads a x) \<Longrightarrow> (\<not> c \<Longrightarrow> outcome_leads a y) \<Longrightarrow> outcome_leads a (if c then x else y)"
  by simp

lemma outcome_option [leads_intros]:
  "(o' = None \<Longrightarrow> outcome_leads a x) \<Longrightarrow> (\<And>v. o' = Some v \<Longrightarrow> outcome_leads a (f v)) \<Longrightarrow>
   outcome_leads a (case o' of None \<Rightarrow> x | Some v \<Rightarrow> f v)"
  by (simp split: option.splits)

lemma outcome_after:
  "leads a b \<Longrightarrow> outcome_leads b out \<Longrightarrow> outcome_leads a out"
  by (auto simp: outcome_leads_def intro: leads_trans)

text \<open>The five kinds of settings, on any reference into the state.\<close>

definition keeps_good :: "access \<Rightarrow> (simulator_state \<Rightarrow> simulator_state) \<Rightarrow> bool" where
  "keeps_good a f \<longleftrightarrow> (\<forall>x. good_settings (opts (fst a)) x \<longrightarrow> good_settings (opts (fst a)) (f x))"

lemma leads_on_field:
  assumes "state_field rd upd" "setting_op f Q" "\<And>v. Q v \<Longrightarrow> keeps_good a (upd (\<lambda>_. v))"
  shows "leads a (on_field rd upd f a)"
proof (cases "query (snd a)")
  case True
  then show ?thesis using state_field.on_field_query [OF assms(1,2)] leads_respond by metis
next
  case False
  have "setting_change (opts (fst a)) (st (fst a)) (upd (\<lambda>_. v) (st (fst a)))" if "Q v" for v
    using assms(3) [OF that] state_field.frame_errors [OF assms(1)] state_field.frame_status [OF assms(1)]
    by (simp add: setting_change_def keeps_good_def)
  then show ?thesis
    using state_field.on_field_set [OF assms(1,2) False] leads_fails leads_assign [OF False] by metis
qed

lemmas leads_fields [leads_intros] =
  leads_on_field [OF _ setting_op_number]
  leads_on_field [OF _ setting_op_integer]
  leads_on_field [OF _ setting_op_boolean]
  leads_on_field [OF _ setting_op_keyword]
  leads_on_field [OF _ setting_op_function_list]

text \<open>Changes of the settings made directly.\<close>

lemma leads_set [leads_intros]:
  assumes "\<not> query (snd a)" "keeps_good a f" "\<And>x. errors (f x) = errors x" "\<And>x. event_status (f x) = event_status x"
  shows "leads a (assign f a)"
  using assms by (intro leads_assign) (auto simp: setting_change_def keeps_good_def)

end
