(* ===== verification/Sim_Refine.thy ===== *)
theory Sim_Refine
  imports Sim_Steps
begin

unbundle bit_operations_syntax

text \<open>
  Every handler of the simulator refines the abstract machine: what it does to the
  simulator is a sequence of transitions of \<open>sim_step\<close>, with the side conditions that
  keep the configuration well formed. A command line does the same, one command after the
  other.
\<close>

section \<open>The handlers refine the machine\<close>

lemma list_all_update: "list_all P xs \<Longrightarrow> (i < length xs \<Longrightarrow> P v) \<Longrightarrow> list_all P (xs[i := v])"
  by (cases "i < length xs") (auto simp: list_all_length nth_list_update)

lemma list_all_modify: "list_all P xs \<Longrightarrow> (\<And>y. P y \<Longrightarrow> P (f y)) \<Longrightarrow> list_all P (xs[i := f (xs ! i)])"
  by (rule list_all_update) (auto simp: list_all_length)

lemmas keeps_defs = keeps_good_def good_group_defs

lemma handle_route_leads: "outcome_leads a (handle_route a)"
  unfolding handle_route_def
  by (intro leads_intros) (simp_all add: keeps_defs)

lemma handle_input_leads: "outcome_leads a (handle_input a)"
  unfolding handle_input_def Let_def
  by (intro leads_intros state_fields)
    (simp_all add: keeps_defs element_defs list_all_update)

lemma good_channel_update:
  "list_all (good_channel rs) xs \<Longrightarrow> in_range (lit 9 10) (lit (10 ^ 7) 1) v \<Longrightarrow>
     list_all (good_channel rs) (xs[i := ch_scale_update (\<lambda>_. v) (xs ! i)])"
  "list_all (good_channel rs) xs \<Longrightarrow>
     list_all (good_channel rs) (xs[i := ch_autorange_update f (xs ! i)])"
  "list_all (good_channel rs) xs \<Longrightarrow> r \<in> set rs \<Longrightarrow>
     list_all (good_channel rs) (xs[i := (xs ! i)\<lparr>ch_range := r, ch_autorange := b\<rparr>])"
  by (erule list_all_modify, simp add: good_channel_def)+

lemma snap_range_mem: "rs \<noteq> [] \<Longrightarrow> snap_range rs v \<in> set rs"
  by (auto simp: snap_range_def find_Some_iff split: option.splits)

lemma handle_channel_leads: "outcome_leads a (handle_channel v a)"
  unfolding handle_channel_def set_range_def Let_def
  by (intro leads_intros state_fields)
    (simp_all add: keeps_defs good_options_def snap_range_mem channel_update_def element_update_def good_channel_update)

lemma good_sweep_update:
  "list_all good_sweep xs \<Longrightarrow> list_all good_sweep (xs[i := sweep_enabled_update f (xs ! i)])"
  "list_all good_sweep xs \<Longrightarrow> list_all good_sweep (xs[i := sweep_functions_update g (xs ! i)])"
  "list_all good_sweep xs \<Longrightarrow> in_range (lit 1 1000) (lit 3600 1) v \<Longrightarrow>
     list_all good_sweep (xs[i := sweep_time_update (\<lambda>_. v) (xs ! i)])"
  "list_all good_sweep xs \<Longrightarrow> in_range (lit (- 3600) 1) (lit 3600 1) v \<Longrightarrow>
     list_all good_sweep (xs[i := sweep_offset_time_update (\<lambda>_. v) (xs ! i)])"
  "list_all good_sweep xs \<Longrightarrow> 1 \<le> n \<Longrightarrow> n \<le> 1000000 \<Longrightarrow>
     list_all good_sweep (xs[i := sweep_count_update (\<lambda>_. n) (xs ! i)])"
  "list_all good_sweep xs \<Longrightarrow> 1 \<le> n \<Longrightarrow> n \<le> 65535 \<Longrightarrow>
     list_all good_sweep (xs[i := sweep_sparsing_update (\<lambda>_. n) (xs ! i)])"
  by (erule list_all_modify, simp add: good_sweep_def)+

lemma in_range_hour: "in_range (lit 1 1000) (lit 3600 1) (lit 3600 1)"
  by code_simp

lemma respond_points_leads: "outcome_leads a (respond_points t u a)"
  unfolding respond_points_def by (intro leads_intros)

lemma handle_sweep_leads: "outcome_leads a (handle_sweep a)"
  unfolding handle_sweep_def Let_def
  by (intro leads_intros state_fields respond_points_leads leads_refl)
    (simp_all add: keeps_defs sweep_at_def element_update_def good_sweep_update in_range_hour)

lemma read_functions_elim:
  obtains (rejected) b where "leads a b" "read_function_list a = (b, None)"
  | (listed) fs where "read_function_list a = (a, Some fs)"
  using read_function_list_cases [of a] leads_fails by (metis prod.collapse)

lemma keeps_functions [simp]: "keeps_good a (meas_functions_update f)"
  by (simp add: keeps_defs)

lemma set_functions_leads: "\<not> query (snd a) \<Longrightarrow> leads a (set_functions a)"
  by (cases a rule: read_functions_elim) (simp_all add: set_functions_def leads_intros)

lemma leads_query_functions: "query (snd a) \<Longrightarrow> leads a (assign (meas_functions_update (\<lambda>_. fs)) a)"
  by (rule leads_step [OF sim_step.requested_functions]) (auto intro: exI [of _ "0::nat"])

lemma respond_data_leads: "outcome_leads a (respond_data lm a)"
  unfolding respond_data_def by (intro leads_intros)

lemma handle_data_leads: "outcome_leads a (handle_data lm a)"
proof (cases "query (snd a) \<and> args (snd a) \<noteq> []")
  case True
  then show ?thesis
    by (cases a rule: read_functions_elim)
      (simp_all add: handle_data_def leads_intros outcome_after [OF leads_query_functions respond_data_leads])
next
  case False
  then show ?thesis
    by (auto simp: handle_data_def respond_data_leads intro!: leads_intros)
qed

lemma set_concurrent_leads: "leads a (set_concurrent a)"
proof -
  let ?b = "on_field concurrent concurrent_update boolean a"
  have b: "leads a ?b"
    by (intro leads_intros state_fields) (simp_all add: keeps_defs)
  then have "leads a (assign (meas_functions_update (take 1)) ?b)" if "\<not> query (snd a)"
    using that by (intro leads_trans [OF b] leads_intros) (auto simp: leads_def)
  with b show ?thesis by (simp add: set_concurrent_def Let_def)
qed

lemma handle_sense_leads: "outcome_leads a (handle_sense lm a)"
  unfolding handle_sense_def Let_def
  by (intro leads_intros state_fields handle_channel_leads handle_sweep_leads handle_data_leads
      set_concurrent_leads set_functions_leads)
    (simp_all add: keeps_defs)

lemma level_limit_order:
  "dlt (lit (- 1000) 1) (dneg (lit 150 1))" "dlt (lit 150 1) (lit 1000 1)" "dneg (lit 1000 1) = lit (- 1000) 1"
  by code_simp+

lemma level_in_range:
  "in_range (dneg (if c then lit 150 1 else lit 1000 1)) (if c then lit 150 1 else lit 1000 1) v \<Longrightarrow>
   in_range (lit (- 1000) 1) (lit 1000 1) v"
  using level_limit_order by (auto simp: in_range_def dest: dlt_trans split: if_splits)

lemma sync_sources_mem:
  "''EXT'' \<in> set sync_sources" "''VOLT1'' \<in> set sync_sources" "''CURR1'' \<in> set sync_sources"
  "1 \<le> n \<Longrightarrow> n \<le> kMaxPhase \<Longrightarrow> ''VOLT'' @ to_string n \<in> set sync_sources"
  "1 \<le> n \<Longrightarrow> n \<le> kMaxPhase \<Longrightarrow> ''CURR'' @ to_string n \<in> set sync_sources"
proof -
  show "1 \<le> n \<Longrightarrow> n \<le> kMaxPhase \<Longrightarrow> ''VOLT'' @ to_string n \<in> set sync_sources"
    "1 \<le> n \<Longrightarrow> n \<le> kMaxPhase \<Longrightarrow> ''CURR'' @ to_string n \<in> set sync_sources"
    unfolding sync_sources_def kMaxPhase_def by auto
qed (code_simp+)

lemma find_mem: "find P xs = Some v \<Longrightarrow> v \<in> set xs"
  by (auto simp: find_Some_iff)

lemma set_sync_source_leads: "\<not> query (snd a) \<Longrightarrow> leads a (set_sync_source a)"
  unfolding set_sync_source_def Let_def
  by (intro leads_intros) (auto simp: keeps_defs sync_sources_mem [simplified])

lemma set_sync_filter_frequency_leads: "\<not> query (snd a) \<Longrightarrow> leads a (set_sync_filter_frequency a)"
  unfolding set_sync_filter_frequency_def
  by (intro leads_intros) (auto simp: keeps_defs dest: find_mem)

lemma handle_sync_leads: "outcome_leads a (handle_sync a)"
  unfolding handle_sync_def Let_def
  by (intro leads_intros state_fields set_sync_source_leads set_sync_filter_frequency_leads)
    (simp_all add: keeps_defs level_in_range)

lemma keeps_good_comp: "keeps_good a f \<Longrightarrow> keeps_good a g \<Longrightarrow> keeps_good a (\<lambda>x. f (g x))"
  by (simp add: keeps_good_def)

lemma keeps_sweep_enabled: "keeps_good a (sweep_at b (sweep_enabled_update f))"
  by (simp add: keeps_defs sweep_at_def element_update_def good_sweep_update)

lemma keeps_stop_sweeps: "keeps_good a stop_sweeps"
  using keeps_sweep_enabled unfolding keeps_good_def stop_sweeps_def by blast

lemma keeps_initiated: "keeps_good a (initiated_update f)"
  by (simp add: keeps_defs)

lemma sweep_at_frame [simp]:
  "errors (sweep_at b f x) = errors x" "event_status (sweep_at b f x) = event_status x"
  by (simp_all add: sweep_at_def element_update_def)

lemma stop_sweeps_frame [simp]:
  "errors (stop_sweeps x) = errors x" "event_status (stop_sweeps x) = event_status x"
  by (simp_all add: stop_sweeps_def)

lemma handle_acquisition_leads: "outcome_leads a (handle_acquisition a)"
  unfolding handle_acquisition_def Let_def
  by (intro leads_intros state_fields keeps_sweep_enabled keeps_initiated
      keeps_good_comp [OF keeps_stop_sweeps keeps_initiated]) (simp_all add: keeps_defs)

lemma require_timestamp_leads: "leads a (require_timestamp a)"
  unfolding require_timestamp_def by (intro leads_intros) simp_all

lemma handle_trigger_leads: "outcome_leads a (handle_trigger a)"
  unfolding handle_trigger_def Let_def
  by (intro leads_intros state_fields require_timestamp_leads) (simp_all add: keeps_defs)

lemma keeps_set_format: "keeps_good a (set_format d \<lparr>fmt_format = f, fmt_length = n\<rparr>)"
  by (auto simp: keeps_defs set_format_def Let_def)

lemma set_format_frame [simp]:
  "errors (set_format d v x) = errors x" "event_status (set_format d v x) = event_status x"
  by (simp_all add: set_format_def Let_def)

lemma handle_format_setting_leads: "leads a (handle_format_setting d a)"
  unfolding handle_format_setting_def Let_def
  by (intro leads_intros) (auto intro!: leads_intros keeps_set_format split: sum.splits)

lemma handle_format_leads: "outcome_leads a (handle_format a)"
  unfolding handle_format_def Let_def
  by (intro leads_intros state_fields handle_format_setting_leads) (simp_all add: keeps_defs)

lemma handle_display_output_leads: "outcome_leads a (handle_display_output a)"
  unfolding handle_display_output_def Let_def
  by (intro leads_intros state_fields) (simp_all add: keeps_defs)

lemma leads_dequeue:
  assumes "query (snd a)" shows "leads a (assign (errors_update (\<lambda>_. drop n (errors (st (fst a))))) a)"
proof (rule leads_step)
  show "sim_step (query (snd a)) (fst a) (set_st (errors_update (drop n)) (fst a))"
    by (rule sim_step.dequeue [OF assms])
  show "fst (assign (errors_update (\<lambda>_. drop n (errors (st (fst a))))) a) = set_st (errors_update (drop n)) (fst a)"
    by (cases "st (fst a)") (simp add: set_st_def)
qed auto

lemma leads_then_respond: "leads a b \<Longrightarrow> leads a (respond t b)"
  by (rule leads_trans [OF _ leads_respond])

lemma next_error_leads: "query (snd a) \<Longrightarrow> leads a (next_error a)"
  using leads_dequeue [of a 1]
  by (cases "errors (st (fst a))") (simp_all add: next_error_def leads_respond leads_then_respond)

lemma all_errors_leads:
  assumes "query (snd a)" shows "leads a (all_errors a)"
proof (cases "errors (st (fst a))")
  case Nil
  then show ?thesis by (simp only: all_errors_def list.case leads_respond)
next
  case (Cons e es)
  have "leads a (assign (errors_update (\<lambda>_. [])) a)"
    using leads_dequeue [OF assms, of "length (errors (st (fst a)))"] by simp
  then show ?thesis by (simp only: all_errors_def Cons list.case leads_then_respond)
qed


lemma keeps_date:
  assumes "\<not> outside month 1 12" "\<not> outside day 1 31" "cast_int month = Some m" "cast_int day = Some n"
  shows "keeps_good a (date_update (\<lambda>_. \<lparr>date_year = y, date_month = m, date_day = n\<rparr>))"
  using truncate_range [of _ _ month m 1 12] truncate_range [of _ _ day n 1 31] assms
  by (simp add: keeps_defs outside_def cast_int_def)

lemma keeps_time:
  assumes "\<not> outside hours 0 23" "\<not> outside minutes 0 59" "\<not> outside seconds 0 59"
    and "cast_int hours = Some h" "cast_int minutes = Some m" "cast_int seconds = Some n"
  shows "keeps_good a (time_of_day_update (\<lambda>_. \<lparr>time_hours = h, time_minutes = m, time_seconds = n\<rparr>))"
  using truncate_range [of _ _ hours h 0 23] truncate_range [of _ _ minutes m 0 59]
    truncate_range [of _ _ seconds n 0 59] assms
  by (simp add: keeps_defs outside_def cast_int_def)

lemma handle_date_leads: "outcome_leads a (handle_date a)"
  unfolding handle_date_def Let_def
  by (auto split: option.splits prod.splits intro!: leads_intros keeps_date)

lemma handle_time_leads: "outcome_leads a (handle_time a)"
  unfolding handle_time_def Let_def
  by (auto split: option.splits prod.splits intro!: leads_intros) (rule keeps_time; assumption)

lemma handle_system_leads: "outcome_leads a (handle_system a)"
  unfolding handle_system_def Let_def
  by (intro leads_intros state_fields next_error_leads all_errors_leads handle_date_leads handle_time_leads)
    (simp_all add: keeps_defs)

lemma handle_timer_leads: "outcome_leads a (handle_timer a)"
  unfolding handle_timer_def Let_def
  by (intro leads_intros) (simp_all add: keeps_defs)

lemma read_event_leads: "query (snd a) \<Longrightarrow> leads a (read_event reg a)"
proof -
  assume q: "query (snd a)"
  obtain s c where a: "a = (s, c)" by (cases a)
  obtain ev s1 where l: "latch_event reg s = (ev, s1)" by (cases "latch_event reg s")
  have s1: "s1 = snd (latch_event reg s)" by (simp add: l)
  have same: "errors (st s1) = errors (st s)" "opts s1 = opts s"
    by (cases reg; simp add: s1 latch_event_def Let_def)+
  let ?s2 = "set_st (register_update reg (event_update (\<lambda>_. 0))) s1"
  have e: "errors (st ?s2) = errors (st s)" by (cases reg; simp add: same)
  have "(sim_step True)\<^sup>*\<^sup>* s ?s2"
    using sim_step.latch [of True s reg] sim_step.read_register [of True s1 reg] by (simp add: s1)
  then show ?thesis
    using q e same by (auto simp: leads_def read_event_def a l intro: exI [of _ "0::nat"])
qed

lemma good_registers_update:
  "keeps_good a (register_update reg (enable_update (\<lambda>_. v)))" if "0 \<le> v \<and> v \<le> 65535" for v
  using that by (cases reg) (simp_all add: keeps_defs good_register_def word16_def)

lemma good_ptransition_update:
  "0 \<le> v \<and> v \<le> 65535 \<Longrightarrow> keeps_good a (register_update reg (ptransition_update (\<lambda>_. v)))"
  by (cases reg) (simp_all add: keeps_defs good_register_def word16_def)

lemma good_ntransition_update:
  "0 \<le> v \<and> v \<le> 65535 \<Longrightarrow> keeps_good a (register_update reg (ntransition_update (\<lambda>_. v)))"
  by (cases reg) (simp_all add: keeps_defs good_register_def word16_def)

lemma handle_part_leads: "leads a (handle_part reg part a)"
  unfolding handle_part_def
  by (cases part; simp; intro leads_intros state_fields read_event_leads good_registers_update
      good_ptransition_update good_ntransition_update) simp_all

lemma handle_status_leads: "outcome_leads a (handle_status a)"
  unfolding handle_status_def
  by (auto split: option.splits intro!: leads_intros handle_part_leads)

lemma read_window_elim:
  obtains (rejected) b where "leads a b" "read_window n a = (b, None)"
  | (window) w where "read_window n a = (a, Some w)"
proof (cases "scan_window 3 (drop n (args (snd a)))")
  case (Inl bad)
  then show ?thesis
    by (intro rejected [of "fail kIllegalParameterValue (''Illegal parameter value;'' @ bad) a"])
      (simp_all add: read_window_def leads_fail)
next
  case (Inr vs)
  then show ?thesis by (intro window) (simp add: read_window_def)
qed

lemma respond_window_leads: "outcome_leads a (respond_window f source w a)"
  unfolding respond_window_def by (intro leads_intros)

lemma handle_spectrum_leads: "outcome_leads a (handle_spectrum a)"
  by (rule read_window_elim [of a 0])
    (auto simp: handle_spectrum_def intro!: leads_intros respond_window_leads)

lemma set_cycles_leads: "\<not> query (snd a) \<Longrightarrow> leads a (set_cycles a)"
proof -
  assume q: "\<not> query (snd a)"
  obtain v b where i: "integer 4 12 (transform_cycles (st (fst a))) a = (v, b)"
    by (cases "integer 4 12 (transform_cycles (st (fst a))) a")
  have "fails a b \<or> b = a"
    using setting_op_integer [of 4 12] q i unfolding setting_op_def by (metis fst_conv snd_conv)
  then have b: "leads a b" "b = a \<or> failed (snd b)" by (auto simp: fails_def leads_fail)
  have eq: "set_cycles a = (if failed (snd b) then b
      else if v \<notin> {4, 6, 8, 10, 12} then fail kIllegalParameterValue (''Illegal parameter value;'' @ to_string v) b
      else assign (transform_cycles_update (\<lambda>_. v)) b)"
    by (cases b) (simp add: set_cycles_def i)
  have stored: "leads a (assign (transform_cycles_update (\<lambda>_. v)) a)" if "v \<in> {4, 6, 8, 10, 12}"
    using q that by (intro leads_intros) (simp_all add: keeps_defs)
  show ?thesis
    unfolding eq using b stored leads_trans [OF b(1) leads_fail] by auto
qed

lemma handle_efficiency_leads: "leads a (handle_efficiency a)"
  unfolding handle_efficiency_def Let_def
  by (intro leads_intros) (simp_all add: keeps_defs)

lemma handle_calculate_leads: "outcome_leads a (handle_calculate a)"
  unfolding handle_calculate_def transform_once_def respond_preamble_def respond_thd_def start_integral_def Let_def
  by (intro leads_intros state_fields handle_spectrum_leads handle_efficiency_leads require_timestamp_leads
      set_cycles_leads leads_refl)
    (simp_all add: keeps_defs)

lemma respond_trace_leads: "outcome_leads a (respond_trace lm sw a)"
  by (rule read_window_elim [of a 1])
    (auto simp: respond_trace_def Let_def intro!: leads_intros respond_window_leads)

lemma handle_trace_query_leads: "outcome_leads a (handle_trace_query lm a)"
  unfolding handle_trace_query_def respond_trace_preamble_def Let_def
  by (intro leads_intros respond_trace_leads leads_refl) simp_all

lemma handle_trace_leads: "outcome_leads a (handle_trace lm a)"
  unfolding handle_trace_def respond_trace_points_def Let_def
  by (intro leads_intros handle_trace_query_leads leads_refl) (simp_all add: keeps_stop_sweeps)

section \<open>The common commands\<close>

lemma reset_simps [simp]:
  "opts (reset s) = opts s" "signal (reset s) = signal s" "handled_lines (reset s) = handled_lines s"
  "errors (st (reset s)) = errors (st s)"
  by (simp_all add: reset_def)

lemma clear_status_simps [simp]:
  "opts (clear_status s) = opts s" "signal (clear_status s) = signal s"
  "handled_lines (clear_status s) = handled_lines s" "errors (st (clear_status s)) = []"
  by (simp_all add: clear_status_def)

lemma latch_event_simps [simp]:
  "errors (st (snd (latch_event reg s))) = errors (st s)" "opts (snd (latch_event reg s)) = opts s"
  "signal (snd (latch_event reg s)) = signal s" "handled_lines (snd (latch_event reg s)) = handled_lines s"
  by (cases reg; simp add: latch_event_def Let_def)+

lemma snd_status_byte: "snd (status_byte s) = snd (latch_event Questionable s)"
  by (simp add: status_byte_def Let_def split: prod.splits)

lemma leads_reset: "\<not> query (snd a) \<Longrightarrow> leads a ((\<lambda>(s, c). (reset s, c)) a)"
  by (rule leads_step [OF sim_step.reset_all]) (auto split: prod.splits intro: exI [of _ "0::nat"])

lemma leads_clear: "\<not> query (snd a) \<Longrightarrow> leads a ((\<lambda>(s, c). (clear_status s, c)) a)"
  by (rule leads_step [OF sim_step.clear])
    (auto split: prod.splits intro: exI [of _ "length (errors (st (fst a)))"])

lemma leads_status_byte:
  assumes "query (snd a)"
  shows "leads a ((\<lambda>(s, c). case status_byte s of (stb, s1) \<Rightarrow> respond (f stb) (s1, c)) a)"
proof -
  obtain s c where a: "a = (s, c)" by (cases a)
  obtain stb s1 where b: "status_byte s = (stb, s1)" by (cases "status_byte s")
  then have "s1 = snd (latch_event Questionable s)" using snd_status_byte [of s] by simp
  then have "leads a (s1, c)"
    using assms by (intro leads_step [OF sim_step.latch [of _ _ Questionable]])
      (auto simp: a intro: exI [of _ "0::nat"])
  then show ?thesis by (simp add: a b leads_then_respond)
qed

lemma leads_operation_complete: "\<not> query (snd a) \<Longrightarrow> leads a (assign (event_status_update (\<lambda>e. e OR 1)) a)"
  by (rule leads_step [OF sim_step.operation_complete]) (auto intro: exI [of _ "0::nat"])

lemma leads_read_esr: "query (snd a) \<Longrightarrow> leads a (assign (event_status_update (\<lambda>_. 0)) (respond t a))"
  by (rule leads_trans [OF leads_respond leads_step [OF sim_step.read_esr]]) (auto intro: exI [of _ "0::nat"])

lemma integer_elim:
  assumes "\<not> query (snd a)"
  obtains (rejected) b where "leads a b" "failed (snd b)" "integer lo hi v a = (v, b)"
  | (stored) n where "lo \<le> n" "n \<le> hi" "integer lo hi v a = (n, a)"
proof -
  obtain n b where i: "integer lo hi v a = (n, b)" by (cases "integer lo hi v a")
  have "n = v \<and> fails a b \<or> (lo \<le> n \<and> n \<le> hi) \<and> b = a"
    using setting_op_integer [of lo hi] assms i unfolding setting_op_def by (metis fst_conv snd_conv)
  then show ?thesis
    using rejected [of b] stored [of n] i by (auto simp: fails_def leads_fail)
qed

lemma save_setup_leads: "\<not> query (snd a) \<Longrightarrow> leads a (save_setup a)"
  by (rule integer_elim [of a 10 24 0])
    (auto simp: save_setup_def keeps_defs split: prod.splits intro!: leads_intros)

lemma recall_setup_leads: "\<not> query (snd a) \<Longrightarrow> leads a (recall_setup a)"
  by (rule integer_elim [of a 1 24 0]) (auto simp: recall_setup_def split: prod.splits intro!: leads_fail)

lemma handle_common_leads: "outcome_leads a (handle_common a)"
  unfolding handle_common_def Let_def
  by (intro leads_intros state_fields leads_reset leads_clear leads_status_byte leads_operation_complete
      leads_read_esr save_setup_leads recall_setup_leads leads_refl)
    (simp_all add: keeps_defs)

end
