(* ===== verification/Sim_Invariants.thy ===== *)
theory Sim_Invariants
  imports Sim_Refine
begin

unbundle bit_operations_syntax

text \<open>
  Command lines refine the abstract machine, and what follows: every key of the command
  table has a handler, and an invariant of the machine is an invariant of the simulator
  (locale \<open>machine_invariant\<close>), interpreted for the error queue, the well-formedness of the
  configuration, the event status register and the simulator's fixed parts.
\<close>

section \<open>Every key of the table has a handler\<close>

definition table_keys :: "string list" where
  "table_keys = map fst command_specs"

lemma first_handler_declined:
  "first_handler hs a = Declined \<longleftrightarrow> (\<forall>h \<in> set hs. h a = Declined)"
  by (induction hs) (auto split: outcome.splits)

lemma declined_simps:
  "respond_data lm a \<noteq> Declined" "handle_data lm a \<noteq> Declined" "handle_date a \<noteq> Declined"
  "handle_time a \<noteq> Declined" "handle_spectrum a \<noteq> Declined" "respond_window f vs w a \<noteq> Declined"
  "respond_trace_points g a \<noteq> Declined" "respond_trace lm sw a \<noteq> Declined"
  "handle_trace_query lm a \<noteq> Declined" "respond_points d e a \<noteq> Declined"
proof -
  show d: "respond_data lm a \<noteq> Declined" for a
    by (simp add: respond_data_def split: option.splits)
  show w: "respond_window f vs w a \<noteq> Declined" for f vs w a
    by (simp add: respond_window_def split: option.splits)
  show t: "respond_trace lm sw a \<noteq> Declined" for sw a
    by (simp add: respond_trace_def Let_def w split: option.splits prod.splits)
  show "handle_data lm a \<noteq> Declined" "handle_spectrum a \<noteq> Declined"
    by (simp_all add: handle_data_def handle_spectrum_def d w split: option.splits prod.splits)
  show "handle_date a \<noteq> Declined" "handle_time a \<noteq> Declined"
    by (simp_all add: handle_date_def handle_time_def Let_def split: option.splits prod.splits)
  show "respond_trace_points g a \<noteq> Declined" "respond_points d e a \<noteq> Declined"
    by (simp_all add: respond_trace_points_def respond_points_def split: option.splits)
  show "handle_trace_query lm a \<noteq> Declined"
    by (simp add: handle_trace_query_def respond_trace_preamble_def Let_def t split: option.splits)
qed

text \<open>For each subsystem, the keys it is sure to take.\<close>

lemma taken_route: "key (snd a) \<in> {''ROUT:SYST''} \<Longrightarrow> handle_route a \<noteq> Declined"
  by (auto simp: handle_route_def)

lemma taken_input:
  "key (snd a) \<in> {''INP#:COUP'', ''INP#:GAIN'', ''INP#:FILT:FREQ'', ''INP#:FILT:STAT'', ''INP#:SHUN''} \<Longrightarrow>
   handle_input a \<noteq> Declined"
  by (auto simp: handle_input_def key_starts_def Let_def)

lemma taken_channel:
  "drop 5 (key (snd a)) \<in> {'':RANG'', '':RANG:AUTO'', '':RANG:LIST'', '':SCAL''} \<Longrightarrow> handle_channel v a \<noteq> Declined"
  by (auto simp: handle_channel_def Let_def)

lemma taken_sweep:
  "drop 4 (key (snd a)) \<in> {'':STAT'', '':TIME'', '':OFFS:TIME'', '':COUN'', '':SFAC'', '':FUNC'', '':POINTS'', '':OFFS:POINTS''} \<Longrightarrow>
   handle_sweep a \<noteq> Declined"
  by (auto simp: handle_sweep_def Let_def declined_simps)

lemma taken_sense:
  "key (snd a) \<in> {''VOLT#:RANG'', ''VOLT#:RANG:AUTO'', ''VOLT#:RANG:LIST'', ''VOLT#:SCAL'',
     ''CURR#:RANG'', ''CURR#:RANG:AUTO'', ''CURR#:RANG:LIST'', ''CURR#:SCAL'',
     ''SWE#:STAT'', ''SWE#:TIME'', ''SWE#:OFFS:TIME'', ''SWE#:COUN'', ''SWE#:SFAC'', ''SWE#:FUNC'',
     ''SWE#:POINTS'', ''SWE#:OFFS:POINTS'', ''APER'', ''SWE:FREQ'', ''FUNC'', ''FUNC:ALL'', ''FUNC:OFF:ALL'',
     ''FUNC:CONC'', ''FUNC:COUN'', ''DATA'', ''DATA:STAT''} \<Longrightarrow> handle_sense lm a \<noteq> Declined"
  by (auto simp: handle_sense_def key_starts_def Let_def declined_simps taken_channel taken_sweep)

lemma taken_sync:
  "key (snd a) \<in> {''SYNC:STAT'', ''SYNC:SOUR'', ''SYNC:LEV'', ''SYNC:LEV:UNIT'', ''SYNC:SLOP'', ''SYNC:FILT:STAT'',
     ''SYNC:FILT:FREQ'', ''SYNC:TIM''} \<Longrightarrow> handle_sync a \<noteq> Declined"
  by (auto simp: handle_sync_def Let_def)

lemma taken_acquisition:
  "key (snd a) \<in> {''INIT:CONT'', ''INIT'', ''INIT:SEQ#'', ''INIT:NAME'', ''ABOR''} \<Longrightarrow> handle_acquisition a \<noteq> Declined"
  by (auto simp: handle_acquisition_def Let_def)

lemma taken_trigger:
  "key (snd a) \<in> {''TRIG:STAR:SOUR'', ''TRIG:STOP:SOUR'', ''TRIG:STAR:LEV'', ''TRIG:STOP:LEV'', ''TRIG:STAR:SLOP'',
     ''TRIG:STOP:SLOP'', ''TRIG:STAR:TIME'', ''TRIG:STOP:TIME''} \<Longrightarrow> handle_trigger a \<noteq> Declined"
  by (auto simp: handle_trigger_def Let_def)

lemma taken_calculate:
  "key (snd a) \<in> {''CALC:TRAN:FREQ:MODE'', ''CALC:TRAN:FREQ:FUNC'', ''CALC:TRAN:FREQ:STAR'', ''CALC:TRAN:FREQ:STOP'',
     ''CALC:TRAN:FREQ:CYCL'', ''CALC:TRAN:FREQ:GRO'', ''CALC:TRAN:FREQ:STAT'', ''CALC:DATA:PRE'', ''CALC:DATA:THD'',
     ''CALC:DATA'', ''CALC:INT:CLE:AUTO'', ''CALC:INT:CLE'', ''CALC:INT:FUNC'', ''CALC:INT:STAR:SOUR'',
     ''CALC:INT:STAR:TIME'', ''CALC:INT:STAR'', ''CALC:INT:STOP:SOUR'', ''CALC:INT:STOP:TIME'', ''CALC:INT:STOP:TINT'',
     ''CALC:INT:STOP'', ''CALC:INT:STAT'', ''CALC:HARM:ORD'', ''CALC:POW:CORR'', ''CALC:POW#:EFF:REF''} \<Longrightarrow>
   handle_calculate a \<noteq> Declined"
  by (auto simp: handle_calculate_def key_starts_def Let_def declined_simps)

lemma taken_trace:
  "key (snd a) \<in> {''TRAC:PRE'', ''TRAC:STAT'', ''TRAC:FREE'', ''TRAC:CAT:LEN'', ''TRAC:DEL:ALL'', ''TRAC''} \<Longrightarrow>
   handle_trace lm a \<noteq> Declined"
  by (auto simp: handle_trace_def key_starts_def Let_def declined_simps)

lemma taken_format:
  "key (snd a) \<in> {''FORM'', ''FORM:STAT'', ''FORM:BORD'', ''FORM:TRAN''} \<Longrightarrow> handle_format a \<noteq> Declined"
  by (auto simp: handle_format_def Let_def)

lemma taken_display:
  "key (snd a) \<in> {''DISP:STAT'', ''DISP:USER:FUNC'', ''OUTP#:STAT''} \<Longrightarrow> handle_display_output a \<noteq> Declined"
  by (auto simp: handle_display_output_def Let_def)

lemma taken_system:
  "key (snd a) \<in> {''SYST:VERS'', ''SYST:ERR'', ''SYST:ERR:ALL'', ''SYST:KLOC'', ''SYST:LANG'', ''SYST:DATE'', ''SYST:TIME'',
     ''SYST:COMM:GPIB:ADDR'', ''SYST:COMM:SER:BAUD''} \<Longrightarrow> handle_system a \<noteq> Declined"
  by (auto simp: handle_system_def Let_def declined_simps)

lemma taken_timer:
  "key (snd a) \<in> {''TIM:RES'', ''TIM:RES:TIME'', ''TIM:RES:AUTO''} \<Longrightarrow> handle_timer a \<noteq> Declined"
  by (auto simp: handle_timer_def Let_def)

definition status_keys :: "string list" where
  "status_keys = concat (map (\<lambda>r. map (\<lambda>p. ''STAT:'' @ r @ '':'' @ p) [''COND'', ''EVEN'', ''ENAB'', ''PTR'', ''NTR''])
     [''OPER'', ''QUES'', ''QUES:VOLT'', ''QUES:CURR''])"

lemma taken_status: "key (snd a) \<in> set status_keys \<Longrightarrow> handle_status a \<noteq> Declined"
proof -
  assume "key (snd a) \<in> set status_keys"
  moreover have "list_all (\<lambda>k. status_target k \<noteq> None) status_keys" by code_simp
  ultimately show ?thesis by (auto simp: handle_status_def list_all_iff split: option.splits)
qed


lemmas taken = taken_route taken_input taken_sense taken_sync taken_acquisition taken_trigger taken_calculate
  taken_trace taken_format taken_display taken_system taken_timer taken_status

lemma status_keys_eval:
  "set status_keys = {''STAT:OPER:COND'', ''STAT:OPER:EVEN'', ''STAT:OPER:ENAB'', ''STAT:OPER:PTR'', ''STAT:OPER:NTR'',
     ''STAT:QUES:COND'', ''STAT:QUES:EVEN'', ''STAT:QUES:ENAB'', ''STAT:QUES:PTR'', ''STAT:QUES:NTR'',
     ''STAT:QUES:VOLT:COND'', ''STAT:QUES:VOLT:EVEN'', ''STAT:QUES:VOLT:ENAB'', ''STAT:QUES:VOLT:PTR'', ''STAT:QUES:VOLT:NTR'',
     ''STAT:QUES:CURR:COND'', ''STAT:QUES:CURR:EVEN'', ''STAT:QUES:CURR:ENAB'', ''STAT:QUES:CURR:PTR'', ''STAT:QUES:CURR:NTR''}"
  by (simp add: status_keys_def)

lemma table_keys_split: "table_keys =
     [''ABOR''] @
     [''ROUT:SYST''] @
     [''INP#:COUP'', ''INP#:GAIN'', ''INP#:FILT:FREQ'', ''INP#:FILT:STAT'', ''INP#:SHUN''] @
     [''VOLT#:RANG:LIST'', ''VOLT#:RANG:AUTO'', ''VOLT#:RANG'', ''VOLT#:SCAL'', ''CURR#:RANG:LIST'',
        ''CURR#:RANG:AUTO'', ''CURR#:RANG'', ''CURR#:SCAL'', ''APER'', ''SWE:FREQ'', ''FUNC:OFF:ALL'',
        ''FUNC:CONC'', ''FUNC:COUN'', ''FUNC:ALL'', ''FUNC'', ''DATA:STAT'', ''DATA'',
        ''SWE#:OFFS:POINTS'', ''SWE#:OFFS:TIME'', ''SWE#:POINTS'', ''SWE#:TIME'', ''SWE#:COUN'',
        ''SWE#:SFAC'', ''SWE#:FUNC'', ''SWE#:STAT''] @
     [''SYNC:STAT'', ''SYNC:LEV:UNIT'', ''SYNC:TIM'', ''SYNC:LEV'', ''SYNC:SLOP'', ''SYNC:FILT:FREQ'',
        ''SYNC:FILT:STAT'', ''SYNC:SOUR''] @
     [''INIT:CONT'', ''INIT:SEQ#'', ''INIT:NAME'', ''INIT''] @
     [''TRIG:STAR:SOUR'', ''TRIG:STAR:TIME'', ''TRIG:STAR:LEV'', ''TRIG:STAR:SLOP'', ''TRIG:STOP:SOUR'',
        ''TRIG:STOP:TIME'', ''TRIG:STOP:LEV'', ''TRIG:STOP:SLOP''] @
     [''CALC:TRAN:FREQ:MODE'', ''CALC:TRAN:FREQ:FUNC'', ''CALC:TRAN:FREQ:STAR'',
        ''CALC:TRAN:FREQ:STOP'', ''CALC:TRAN:FREQ:CYCL'', ''CALC:TRAN:FREQ:GRO'', ''CALC:TRAN:FREQ:STAT'',
        ''CALC:DATA:PRE'', ''CALC:DATA:THD'', ''CALC:DATA'', ''CALC:INT:CLE:AUTO'', ''CALC:INT:CLE'',
        ''CALC:INT:FUNC'', ''CALC:INT:STAR:SOUR'', ''CALC:INT:STAR:TIME'', ''CALC:INT:STAR'',
        ''CALC:INT:STOP:SOUR'', ''CALC:INT:STOP:TIME'', ''CALC:INT:STOP:TINT'', ''CALC:INT:STOP'',
        ''CALC:INT:STAT'', ''CALC:HARM:ORD'', ''CALC:POW:CORR'', ''CALC:POW#:EFF:REF''] @
     [''TRAC:PRE'', ''TRAC:STAT'', ''TRAC:FREE'', ''TRAC:CAT:LEN'', ''TRAC:DEL:ALL'', ''TRAC''] @
     [''FORM:STAT'', ''FORM:BORD'', ''FORM:TRAN'', ''FORM''] @
     [''DISP:USER:FUNC'', ''DISP:STAT'', ''OUTP#:STAT''] @
     [''SYST:COMM:GPIB:ADDR'', ''SYST:COMM:SER:BAUD'', ''SYST:DATE'', ''SYST:TIME'', ''SYST:ERR:ALL'',
        ''SYST:ERR'', ''SYST:KLOC'', ''SYST:LANG'', ''SYST:VERS''] @
     [''STAT:OPER:COND'', ''STAT:OPER:ENAB'', ''STAT:OPER:PTR'', ''STAT:OPER:NTR'', ''STAT:OPER:EVEN'',
        ''STAT:QUES:VOLT:COND'', ''STAT:QUES:VOLT:ENAB'', ''STAT:QUES:VOLT:PTR'', ''STAT:QUES:VOLT:NTR'',
        ''STAT:QUES:VOLT:EVEN'', ''STAT:QUES:CURR:COND'', ''STAT:QUES:CURR:ENAB'', ''STAT:QUES:CURR:PTR'',
        ''STAT:QUES:CURR:NTR'', ''STAT:QUES:CURR:EVEN'', ''STAT:QUES:COND'', ''STAT:QUES:ENAB'',
        ''STAT:QUES:PTR'', ''STAT:QUES:NTR'', ''STAT:QUES:EVEN''] @
     [''TIM:RES:AUTO'', ''TIM:RES:TIME'', ''TIM:RES'']"
  unfolding table_keys_def command_specs_def by simp

lemma key_taken:
  assumes "key (snd a) \<in> set table_keys"
  shows "first_handler (handlers lm) a \<noteq> Declined"
proof -
  have "\<exists>h \<in> set (handlers lm). h a \<noteq> Declined"
    using assms unfolding table_keys_split set_append Un_iff handlers_def
    by (elim disjE) (use taken [of a] in \<open>auto simp: status_keys_eval\<close>)
  then show ?thesis by (auto simp: first_handler_declined)
qed

section \<open>Command lines refine the machine\<close>

lemma find_spec_key: "find_spec specs toks = Some (k, sfx) \<Longrightarrow> k \<in> fst ` set specs"
  by (induction specs toks rule: find_spec.induct) (auto split: option.splits)

lemma lookup_spec_key: "lookup_spec toks = Some (k, sfx) \<Longrightarrow> k \<in> set table_keys"
  by (drule find_spec_key [of compiled_specs toks k sfx, folded lookup_spec_def])
    (force simp: compiled_specs_def table_keys_def)

lemma handlers_lead: "h \<in> set (handlers lm) \<Longrightarrow> outcome_leads a (h a)"
  by (auto simp: handlers_def handle_route_leads handle_input_leads handle_sense_leads handle_sync_leads
      handle_acquisition_leads handle_trigger_leads handle_calculate_leads handle_trace_leads handle_format_leads
      handle_display_output_leads handle_system_leads handle_status_leads handle_timer_leads)

lemma first_handler_leads:
  "\<forall>h \<in> set hs. outcome_leads a (h a) \<Longrightarrow> outcome_leads a (first_handler hs a)"
  by (induction hs) (auto simp: outcome_leads_def split: outcome.splits)

lemma execute_leads:
  assumes "key (snd a) \<in> set table_keys" "execute lm a = Some b"
  shows "leads a b"
  using assms key_taken [of a lm] first_handler_leads [of "handlers lm" a] handlers_lead [of _ lm a]
  by (auto simp: execute_def outcome_leads_def split: outcome.splits)

text \<open>A command, whatever it is, makes transitions of its kind.\<close>

definition moves :: "simulator \<Rightarrow> simulator \<Rightarrow> bool" where
  "moves s t \<longleftrightarrow> (\<exists>q. (sim_step q)\<^sup>*\<^sup>* s t)"

lemma moves_reject: "e \<in> set reported_codes \<Longrightarrow> moves s (push_error e m s)"
  unfolding moves_def by (blast intro: sim_step.reject)

lemma leads_moves: "leads a b \<Longrightarrow> moves (fst a) (fst b)"
  by (auto simp: leads_def moves_def)

lemma run_piece_moves: "run_piece lm path txt s = Some r \<Longrightarrow> moves s (pr_sim r)"
proof -
  assume r: "run_piece lm path txt s = Some r"
  obtain header c where c: "read_command txt = (header, c)" by (cases "read_command txt")
  show ?thesis
  proof (cases "header \<noteq> [] \<and> hd header = CHR ''*''")
    case True
    let ?a = "(s, c\<lparr>key := upper header,
      tokens := [\<lparr>tok_text = upper header, tok_suffix = 0, tok_has_suffix = False\<rparr>]\<rparr>)"
    have "moves s (fst b)" if "handle_common ?a = Done b" for b
      using that handle_common_leads [of ?a] leads_moves [of ?a b] by (simp add: outcome_leads_def)
    then show ?thesis
      using r True moves_reject
      by (auto simp: run_piece_def c run_common_def Let_def rejected_def finished_def split: outcome.splits)
  next
    case False
    then have sub: "run_subsystem lm path txt header c s = Some r" using r by (simp add: run_piece_def c split: if_splits)
    let ?toks = "header_tokens path header"
    show ?thesis
    proof (cases "lookup_spec ?toks")
      case None
      then show ?thesis using sub moves_reject by (auto simp: run_subsystem_def Let_def rejected_def)
    next
      case (Some ks)
      obtain k sfx where ks: "ks = (k, sfx)" by (cases ks)
      let ?a = "(s, c\<lparr>tokens := ?toks, key := k, suffixes := sfx\<rparr>)"
      obtain b where b: "execute lm ?a = Some b" "r = finished (butlast ?toks) b"
        using sub Some ks by (auto simp: run_subsystem_def Let_def)
      have "leads ?a b"
        using execute_leads [of ?a lm b] b lookup_spec_key Some ks by simp
      then show ?thesis using leads_moves [of ?a b] b by (simp add: finished_def)
    qed
  qed
qed

section \<open>Invariants\<close>

text \<open>An invariant of the machine that does not look at the line counter.\<close>

locale machine_invariant =
  fixes I :: "simulator \<Rightarrow> bool"
  assumes step: "sim_step q s t \<Longrightarrow> I s \<Longrightarrow> I t"
    and counter: "I s \<Longrightarrow> I (s\<lparr>handled_lines := n\<rparr>)"
begin

lemma steps: "(sim_step q)\<^sup>*\<^sup>* s t \<Longrightarrow> I s \<Longrightarrow> I t"
  by (induction rule: rtranclp_induct) (auto intro: step)

lemma moves: "moves s t \<Longrightarrow> I s \<Longrightarrow> I t"
  by (auto simp: moves_def intro: steps)

lemma run_pieces: "run_pieces lm path pieces s = Some (t, rs) \<Longrightarrow> I s \<Longrightarrow> I t"
proof (induction lm path pieces s arbitrary: t rs rule: run_pieces.induct)
  case (2 lm path piece pieces s)
  show ?case
  proof (cases "trim piece = []")
    case True
    then show ?thesis using 2 by simp
  next
    case False
    then obtain r where r: "run_piece lm path (trim piece) s = Some r"
      using 2(3) by (auto split: option.splits)
    then have "I (pr_sim r)" using run_piece_moves moves 2(4) by blast
    then show ?thesis
      using 2(2) [OF False r] 2(3) False r by (auto simp: Let_def split: if_splits)
  qed
qed simp

lemma handle_line: "handle_line lm line s = Some (t, r) \<Longrightarrow> I s \<Longrightarrow> I t"
  unfolding handle_line_def using run_pieces counter by fastforce

lemma handle_lines: "handle_lines lm ls s = Some (t, rs) \<Longrightarrow> I s \<Longrightarrow> I t"
  by (induction lm ls s arbitrary: t rs rule: handle_lines.induct)
    (fastforce dest: handle_line split: option.splits prod.splits)+

end


section \<open>Interpretations\<close>

text \<open>The error queue: bounded, and only what the simulator reports is ever in it.\<close>

definition good_queue :: "simulator \<Rightarrow> bool" where
  "good_queue s \<longleftrightarrow> length (errors (st s)) \<le> 32 \<and>
     list_all (\<lambda>e. code e \<in> set reported_codes \<or> code e = kQueueOverflow) (errors (st s))"

lemma list_all_butlast: "list_all P xs \<Longrightarrow> list_all P (butlast xs)"
  by (auto simp: list_all_iff dest: in_set_butlastD)

lemma list_all_drop: "list_all P xs \<Longrightarrow> list_all P (drop n xs)"
  by (auto simp: list_all_iff dest: in_set_dropD)

lemma good_queue_push: "good_queue s \<Longrightarrow> e \<in> set reported_codes \<Longrightarrow> good_queue (push_error e m s)"
  by (auto simp: good_queue_def push_error_def set_st_def list_all_butlast)

lemma register_update_frame [simp]:
  "errors (register_update reg f x) = errors x" "event_status (register_update reg f x) = event_status x"
  by (cases reg; simp)+

interpretation queue: machine_invariant good_queue
proof
  fix q s t n
  show "sim_step q s t \<Longrightarrow> good_queue s \<Longrightarrow> good_queue t"
    by (induction rule: sim_step.induct)
      (auto simp: good_queue_push, auto simp: good_queue_def setting_change_def list_all_drop)
  show "good_queue s \<Longrightarrow> good_queue (s\<lparr>handled_lines := n\<rparr>)"
    by (simp add: good_queue_def)
qed

text \<open>The event status register only ever holds bit 0 (operation complete) and bit 5 (command error).\<close>

definition good_event_status :: "simulator \<Rightarrow> bool" where
  "good_event_status s \<longleftrightarrow> event_status (st s) \<in> {0, 1, 32, 33}"

lemma event_status_push: "good_event_status s \<Longrightarrow> good_event_status (push_error e m s)"
  by (auto simp: good_event_status_def push_error_def set_st_def)

interpretation event_status_bits: machine_invariant good_event_status
proof
  fix q s t n
  show "sim_step q s t \<Longrightarrow> good_event_status s \<Longrightarrow> good_event_status t"
    by (induction rule: sim_step.induct)
      (auto simp: event_status_push,
       auto simp: good_event_status_def setting_change_def reset_def clear_status_def initial_state_def latch_event_def Let_def)
  show "good_event_status s \<Longrightarrow> good_event_status (s\<lparr>handled_lines := n\<rparr>)"
    by (simp add: good_event_status_def)
qed

text \<open>The options and the signal are fixed.\<close>

interpretation fixed_parts: machine_invariant "\<lambda>s. opts s = o' \<and> signal s = sg" for o' sg
proof
  fix q s t n
  show "sim_step q s t \<Longrightarrow> opts s = o' \<and> signal s = sg \<Longrightarrow> opts t = o' \<and> signal t = sg"
    by (induction rule: sim_step.induct) simp_all
  show "opts s = o' \<and> signal s = sg \<Longrightarrow> opts (s\<lparr>handled_lines := n\<rparr>) = o' \<and> signal (s\<lparr>handled_lines := n\<rparr>) = sg"
    by simp
qed

section \<open>Well-formed configurations are kept\<close>

lemma word16_take_bit: "word16 v \<longleftrightarrow> take_bit 16 v = v"
  by (auto simp: word16_def take_bit_int_eq_self_iff)

lemma word16_or [intro]: "word16 a \<Longrightarrow> word16 b \<Longrightarrow> word16 (a OR b)"
  by (simp add: word16_take_bit)

lemma word16_and1 [intro]: "word16 a \<Longrightarrow> word16 (a AND b)"
  using AND_upper1 [of a b] by (auto simp: word16_def)

lemma word16_and2 [intro]: "word16 b \<Longrightarrow> word16 (a AND b)"
  using word16_and1 [of b a] by (simp add: and.commute)

lemma word16_overrange: "0 \<le> i \<Longrightarrow> i < 8 \<Longrightarrow> word16 (overrange_bit i)"
  and word16_underrange: "0 \<le> i \<Longrightarrow> i < 8 \<Longrightarrow> word16 (underrange_bit i)"
proof -
  assume "0 \<le> i" "i < 8"
  then have "i = 0 \<or> i = 1 \<or> i = 2 \<or> i = 3 \<or> i = 4 \<or> i = 5 \<or> i = 6 \<or> i = 7" by auto
  then show "word16 (overrange_bit i)" "word16 (underrange_bit i)"
    by (elim disjE; simp add: word16_def overrange_bit_def underrange_bit_def)+
qed

lemma word16_channel_bits_from:
  "0 \<le> i \<Longrightarrow> i + int (length configs) \<le> 8 \<Longrightarrow> word16 (channel_bits_from i configs raws)"
proof (induction i configs raws rule: channel_bits_from.induct)
  case (1 i config configs raw raws)
  then have "word16 (channel_bits_from (i + 1) configs raws)" by simp
  then show ?case
    using 1 word16_overrange [of i] word16_underrange [of i] by (auto simp: word16_def [of 0])
qed (simp_all add: word16_def)

lemma word16_condition: "good_arrays o' x \<Longrightarrow> word16 (condition x sg reg)"
  by (cases reg)
    (auto simp: good_arrays_def channel_bits_def kSynchronized_def kSyncAvailable_def kAveraging_def kSweeping_def
      kFrequency_def kVoltageSummary_def kCurrentSummary_def word16_def [of "numeral n" for n] word16_def [of 0]
      word16_def [of 1] intro!: word16_or word16_channel_bits_from)

lemma good_register_of: "good_registers x \<Longrightarrow> good_register (register_of reg x)"
  by (cases reg) (simp_all add: good_registers_def)

lemma good_settings_frame [simp]:
  "good_settings o' (errors_update f x) = good_settings o' x"
  "good_settings o' (event_status_update g x) = good_settings o' x"
  "good_settings o' (meas_functions_update h x) = good_settings o' x"
  by (simp_all add: good_group_defs)

lemma good_settings_register:
  "good_settings o' x \<Longrightarrow> good_register (f (register_of reg x)) \<Longrightarrow> good_settings o' (register_update reg f x)"
  by (cases reg) (simp_all add: good_group_defs)

lemma good_settings_latch:
  assumes "good_settings (opts s) (st s)" shows "good_settings (opts s) (st (snd (latch_event reg s)))"
proof -
  let ?r = "register_of reg (st s)" and ?now = "condition (st s) (signal s) reg"
  have now: "word16 ?now" using assms word16_condition by (auto simp: good_settings_def)
  have r: "good_register ?r" using assms good_register_of by (auto simp: good_settings_def)
  have "good_register (?r\<lparr>event := event ?r OR
      (((?now AND NOT (previous_condition ?r)) AND ptransition ?r) OR
       ((NOT ?now AND previous_condition ?r) AND ntransition ?r)), previous_condition := ?now\<rparr>)"
    using now r unfolding good_register_def by auto
  then show ?thesis
    using good_settings_register [OF assms] by (simp add: latch_event_def Let_def)
qed

lemma good_settings_push: "good_settings o' (st (push_error e m s)) = good_settings o' (st s)"
  by (simp add: push_error_def)

lemma good_initial_numbers:
  "good_timing initial_state" "good_numbers initial_state" "good_clock initial_state" "good_formats initial_state"
  "good_registers initial_state" "list_all good_sweep (sweep initial_state)"
  "in_range dzero (lit (10 ^ 12) 1) (lit 1 1)" "in_range (lit 9 10) (lit (10 ^ 7) 1) (lit 1 1)"
  by code_simp+

lemma good_settings_reset: "good_options (opts s) \<Longrightarrow> good_settings (opts s) (st (reset s))"
  using good_initial_numbers
  by (simp add: reset_def good_group_defs good_options_def good_channel_def initial_state_def list_all_iff)

lemma good_settings_clear: "good_settings o' (st s) \<Longrightarrow> good_settings o' (st (clear_status s))"
  by (simp add: clear_status_def good_group_defs good_register_def word16_def)

definition good_simulator :: "simulator \<Rightarrow> bool" where
  "good_simulator s \<longleftrightarrow> good_settings (opts s) (st s)"

interpretation configuration: machine_invariant good_simulator
proof
  fix q s t n
  show "sim_step q s t \<Longrightarrow> good_simulator s \<Longrightarrow> good_simulator t"
  proof (induction rule: sim_step.induct)
    case (latch s reg)
    then show ?case using good_settings_latch [of s reg] by (simp add: good_simulator_def)
  next
    case (read_register s reg)
    then show ?case
      using good_register_of [of "st s" reg] good_settings_register [of "opts s" "st s" "event_update (\<lambda>_. 0)" reg]
      by (auto simp: good_simulator_def good_settings_def good_register_def word16_def)
  next
    case (reset_all s)
    then show ?case using good_settings_reset [of s] by (simp add: good_simulator_def good_settings_def)
  qed (simp_all add: good_simulator_def good_settings_push good_settings_clear setting_change_def)
  show "good_simulator s \<Longrightarrow> good_simulator (s\<lparr>handled_lines := n\<rparr>)"
    by (simp add: good_simulator_def)
qed

lemma good_new_simulator: "good_options o' \<Longrightarrow> good_simulator (new_simulator o')"
  using good_settings_reset [of "\<lparr>opts = o', st = initial_state, signal = default_signal, handled_lines = 0\<rparr>"]
  by (simp add: good_simulator_def new_simulator_def)

end
