(* ===== verification/Sim_Atomic.thy ===== *)
theory Sim_Atomic
  imports Sim_Invariants
begin

text \<open>
  A rejected command changes nothing: if a handler marks a command failed, then all it did
  is queue one error (\<open>atomic\<close>). The proofs follow the plumbing of the handlers once more,
  this time without any condition on the values that are stored.
\<close>

definition atomic :: "access \<Rightarrow> access \<Rightarrow> bool" where
  "atomic a b \<longleftrightarrow> (failed (snd b) \<longrightarrow> failed (snd a) \<or> fails a b)"

definition outcome_atomic :: "access \<Rightarrow> outcome \<Rightarrow> bool" where
  "outcome_atomic a out \<longleftrightarrow> (\<forall>b. out = Done b \<longrightarrow> atomic a b)"

named_theorems atomic_intros

lemma atomic_refl [simp, intro]: "atomic a a"
  by (simp add: atomic_def)

lemma atomic_respond [atomic_intros]: "atomic a (respond t a)"
  by (simp add: atomic_def)

lemma atomic_fail [atomic_intros]: "e \<in> set reported_codes \<Longrightarrow> atomic a (fail e m a)"
  by (simp add: atomic_def)

lemma atomic_fails: "fails a b \<Longrightarrow> atomic a b"
  by (simp add: atomic_def)

lemma atomic_assign [atomic_intros]: "atomic a (assign f a)"
  by (simp add: atomic_def)

lemma atomic_respond_assign [atomic_intros]: "atomic a (respond t (assign f a))" "atomic a (assign f (respond t a))"
  by (simp_all add: atomic_def)

lemma atomic_query_only [atomic_intros]: "(query (snd a) \<Longrightarrow> atomic a (k a)) \<Longrightarrow> atomic a (query_only k a)"
  by (simp add: query_only_def atomic_fail)

lemma atomic_command_only [atomic_intros]: "(\<not> query (snd a) \<Longrightarrow> atomic a (k a)) \<Longrightarrow> atomic a (command_only k a)"
  by (simp add: command_only_def atomic_fail)

lemma atomic_with_parameter [atomic_intros]: "(\<And>txt. atomic a (k txt a)) \<Longrightarrow> atomic a (with_parameter k a)"
  by (auto simp: with_parameter_def parameter_def atomic_fail split: option.splits)

lemma atomic_if [atomic_intros]:
  "(c \<Longrightarrow> atomic a x) \<Longrightarrow> (\<not> c \<Longrightarrow> atomic a y) \<Longrightarrow> atomic a (if c then x else y)"
  by simp

lemma atomic_option [atomic_intros]:
  "(o' = None \<Longrightarrow> atomic a x) \<Longrightarrow> (\<And>v. o' = Some v \<Longrightarrow> atomic a (f v)) \<Longrightarrow>
   atomic a (case o' of None \<Rightarrow> x | Some v \<Rightarrow> f v)"
  by (simp split: option.splits)

lemma outcome_atomic_basic [atomic_intros]:
  "outcome_atomic a Declined" "outcome_atomic a Undefined" "atomic a b \<Longrightarrow> outcome_atomic a (Done b)"
  by (simp_all add: outcome_atomic_def)

lemma outcome_atomic_if [atomic_intros]:
  "(c \<Longrightarrow> outcome_atomic a x) \<Longrightarrow> (\<not> c \<Longrightarrow> outcome_atomic a y) \<Longrightarrow> outcome_atomic a (if c then x else y)"
  by simp

lemma outcome_atomic_option [atomic_intros]:
  "(o' = None \<Longrightarrow> outcome_atomic a x) \<Longrightarrow> (\<And>v. o' = Some v \<Longrightarrow> outcome_atomic a (f v)) \<Longrightarrow>
   outcome_atomic a (case o' of None \<Rightarrow> x | Some v \<Rightarrow> f v)"
  by (simp split: option.splits)

lemma atomic_on_field:
  assumes "state_field rd upd" "setting_op f Q"
  shows "atomic a (on_field rd upd f a)"
proof (cases "query (snd a)")
  case True
  then show ?thesis using state_field.on_field_query [OF assms] atomic_respond by metis
next
  case False
  then show ?thesis using state_field.on_field_set [OF assms] atomic_fails atomic_assign by metis
qed

lemmas atomic_fields [atomic_intros] =
  atomic_on_field [OF _ setting_op_number] atomic_on_field [OF _ setting_op_integer]
  atomic_on_field [OF _ setting_op_boolean] atomic_on_field [OF _ setting_op_keyword]
  atomic_on_field [OF _ setting_op_function_list]

section \<open>The handlers\<close>

lemma handle_route_atomic: "outcome_atomic a (handle_route a)"
  unfolding handle_route_def by (intro atomic_intros) simp_all

lemma handle_input_atomic: "outcome_atomic a (handle_input a)"
  unfolding handle_input_def Let_def by (intro atomic_intros state_fields) simp_all

lemma handle_channel_atomic: "outcome_atomic a (handle_channel v a)"
  unfolding handle_channel_def set_range_def Let_def by (intro atomic_intros state_fields) simp_all

lemma handle_sweep_atomic: "outcome_atomic a (handle_sweep a)"
  unfolding handle_sweep_def respond_points_def Let_def by (intro atomic_intros state_fields atomic_refl) simp_all

lemma read_functions_atomic:
  obtains (rejected) b where "atomic a b" "read_function_list a = (b, None)"
  | (listed) fs where "read_function_list a = (a, Some fs)"
  using read_function_list_cases [of a] atomic_fails by (metis prod.collapse)

lemma set_functions_atomic: "atomic a (set_functions a)"
  by (cases a rule: read_functions_atomic) (simp_all add: set_functions_def atomic_intros)

lemma handle_data_atomic: "outcome_atomic a (handle_data lm a)"
proof -
  have r: "outcome_atomic a (respond_data lm a)"
    unfolding respond_data_def by (intro atomic_intros)
  have s: "outcome_atomic a (respond_data lm (assign f a))" for f
    unfolding respond_data_def by (intro atomic_intros)
  show ?thesis
    using r s by (cases a rule: read_functions_atomic) (auto simp: handle_data_def intro!: atomic_intros)
qed

lemma set_concurrent_atomic: "atomic a (set_concurrent a)"
proof (cases "query (snd a)")
  case True
  have "atomic a (on_field concurrent concurrent_update boolean a)" by (intro atomic_intros state_fields)
  with True show ?thesis by (simp add: set_concurrent_def Let_def)
next
  case False
  have f: "state_field concurrent concurrent_update" by (intro state_fields)
  show ?thesis
    using state_field.on_field_set [OF f setting_op_boolean False]
  proof
    assume r: "fails a (on_field concurrent concurrent_update boolean a)"
    then have "concurrent (st (fst (on_field concurrent concurrent_update boolean a))) = concurrent (st (fst a))"
      using state_field.rd_push_error [OF f] by (auto simp: fails_def)
    then show ?thesis using r atomic_fails by (auto simp: set_concurrent_def Let_def)
  next
    assume "\<exists>v. True \<and> on_field concurrent concurrent_update boolean a = assign (concurrent_update (\<lambda>_. v)) a"
    then show ?thesis by (auto simp: set_concurrent_def Let_def atomic_def)
  qed
qed

lemma handle_sense_atomic: "outcome_atomic a (handle_sense lm a)"
  unfolding handle_sense_def Let_def
  by (intro atomic_intros state_fields handle_channel_atomic handle_sweep_atomic handle_data_atomic
      set_concurrent_atomic set_functions_atomic)

lemma handle_sync_atomic: "outcome_atomic a (handle_sync a)"
  unfolding handle_sync_def set_sync_source_def set_sync_filter_frequency_def Let_def
  by (intro atomic_intros state_fields) simp_all

lemma handle_acquisition_atomic: "outcome_atomic a (handle_acquisition a)"
  unfolding handle_acquisition_def Let_def by (intro atomic_intros state_fields) simp_all

lemma handle_trigger_atomic: "outcome_atomic a (handle_trigger a)"
  unfolding handle_trigger_def require_timestamp_def Let_def
  by (intro atomic_intros state_fields atomic_refl) simp_all

lemma handle_format_atomic: "outcome_atomic a (handle_format a)"
proof -
  have "atomic a (handle_format_setting d a)" for d
    unfolding handle_format_setting_def Let_def
    by (intro atomic_intros) (auto intro!: atomic_intros split: sum.splits)
  then show ?thesis unfolding handle_format_def Let_def by (intro atomic_intros state_fields)
qed

lemma handle_display_output_atomic: "outcome_atomic a (handle_display_output a)"
  unfolding handle_display_output_def Let_def by (intro atomic_intros state_fields) simp_all

lemma next_error_atomic: "atomic a (next_error a)" "atomic a (all_errors a)"
  by (auto simp: next_error_def all_errors_def intro!: atomic_intros split: list.splits)

lemma handle_date_atomic: "outcome_atomic a (handle_date a)"
  unfolding handle_date_def Let_def by (auto split: option.splits prod.splits intro!: atomic_intros)

lemma handle_time_atomic: "outcome_atomic a (handle_time a)"
  unfolding handle_time_def Let_def by (auto split: option.splits prod.splits intro!: atomic_intros)

lemma handle_system_atomic: "outcome_atomic a (handle_system a)"
  unfolding handle_system_def Let_def
  by (intro atomic_intros state_fields next_error_atomic handle_date_atomic handle_time_atomic)

lemma handle_timer_atomic: "outcome_atomic a (handle_timer a)"
  unfolding handle_timer_def Let_def by (intro atomic_intros) simp_all

lemma read_event_atomic: "atomic a (read_event reg a)"
  by (auto simp: read_event_def atomic_def split: prod.splits)

lemma handle_status_atomic: "outcome_atomic a (handle_status a)"
proof -
  have "atomic a (handle_part reg part a)" for reg part
    unfolding handle_part_def
    by (cases part; simp; intro atomic_intros state_fields read_event_atomic)
  then show ?thesis
    unfolding handle_status_def by (auto split: option.splits intro!: atomic_intros)
qed

lemma read_window_atomic:
  obtains (rejected) b where "atomic a b" "read_window n a = (b, None)"
  | (window) w where "read_window n a = (a, Some w)"
proof (cases "scan_window 3 (drop n (args (snd a)))")
  case (Inl bad)
  then show ?thesis
    by (intro rejected [of "fail kIllegalParameterValue (''Illegal parameter value;'' @ bad) a"])
      (simp_all add: read_window_def atomic_fail)
next
  case (Inr vs)
  then show ?thesis by (intro window) (simp add: read_window_def)
qed

lemma respond_window_atomic: "outcome_atomic a (respond_window f source w a)"
  unfolding respond_window_def by (intro atomic_intros)

lemma handle_spectrum_atomic: "outcome_atomic a (handle_spectrum a)"
  by (rule read_window_atomic [of a 0])
    (auto simp: handle_spectrum_def intro!: atomic_intros respond_window_atomic)

lemma integer_atomic:
  obtains (rejected) b where "fails a b" "integer lo hi v a = (v, b)"
  | (queried) t where "query (snd a)" "integer lo hi v a = (v, respond t a)"
  | (stored) n where "\<not> query (snd a)" "lo \<le> n" "n \<le> hi" "integer lo hi v a = (n, a)"
  using setting_op_integer [of lo hi] unfolding setting_op_def by (metis prod.collapse)

lemma set_cycles_atomic: "\<not> query (snd a) \<Longrightarrow> atomic a (set_cycles a)"
proof (cases rule: integer_atomic [of a 4 12 "transform_cycles (st (fst a))"])
  case (rejected b)
  then have "failed (snd b)" by (auto simp: fails_def)
  with rejected have "set_cycles a = b" by (cases b) (simp add: set_cycles_def)
  with rejected show ?thesis by (simp add: atomic_fails)
next
  case (queried t)
  moreover assume "\<not> query (snd a)"
  ultimately show ?thesis by simp
next
  case (stored n)
  then show ?thesis by (cases a) (auto simp: set_cycles_def intro!: atomic_fail atomic_assign)
qed

lemma handle_calculate_atomic: "outcome_atomic a (handle_calculate a)"
  unfolding handle_calculate_def transform_once_def respond_preamble_def respond_thd_def start_integral_def
    handle_efficiency_def require_timestamp_def Let_def
  by (intro atomic_intros state_fields handle_spectrum_atomic set_cycles_atomic atomic_refl) simp_all

lemma respond_trace_atomic: "outcome_atomic a (respond_trace lm sw a)"
  by (rule read_window_atomic [of a 1])
    (auto simp: respond_trace_def Let_def intro!: atomic_intros respond_window_atomic)

lemma handle_trace_atomic: "outcome_atomic a (handle_trace lm a)"
  unfolding handle_trace_def respond_trace_points_def handle_trace_query_def respond_trace_preamble_def Let_def
  by (intro atomic_intros respond_trace_atomic atomic_refl) simp_all

lemma save_setup_atomic: "\<not> query (snd a) \<Longrightarrow> atomic a (save_setup a)"
  by (cases rule: integer_atomic [of a 10 24 0])
    (auto simp: save_setup_def atomic_def split: prod.splits)

lemma recall_setup_atomic: "\<not> query (snd a) \<Longrightarrow> atomic a (recall_setup a)"
proof (cases rule: integer_atomic [of a 1 24 0])
  case (rejected b)
  then have "recall_setup a = b" by (cases b) (auto simp: recall_setup_def fails_def)
  with rejected show ?thesis by (simp add: atomic_fails)
next
  case (stored n)
  then show ?thesis by (cases a) (auto simp: recall_setup_def intro: atomic_fail)
qed simp

lemma handle_common_atomic: "outcome_atomic a (handle_common a)"
proof -
  have same: "atomic a ((\<lambda>(s, c). (f s, c)) a)" for f
    by (auto simp: atomic_def split: prod.splits)
  have stb: "atomic a ((\<lambda>(s, c). case status_byte s of (stb, s1) \<Rightarrow> respond (to_string stb) (s1, c)) a)"
    by (auto simp: atomic_def split: prod.splits)
  show ?thesis
    unfolding handle_common_def Let_def
    by (intro atomic_intros state_fields same stb save_setup_atomic recall_setup_atomic atomic_refl)
qed

lemma first_handler_atomic:
  "\<forall>h \<in> set hs. outcome_atomic a (h a) \<Longrightarrow> outcome_atomic a (first_handler hs a)"
  by (induction hs) (auto simp: outcome_atomic_def split: outcome.splits)

lemma execute_atomic:
  assumes "key (snd a) \<in> set table_keys" "execute lm a = Some b"
  shows "atomic a b"
proof -
  have "outcome_atomic a (first_handler (handlers lm) a)"
    by (rule first_handler_atomic) (auto simp: handlers_def handle_route_atomic handle_input_atomic handle_sense_atomic
        handle_sync_atomic handle_acquisition_atomic handle_trigger_atomic handle_calculate_atomic handle_trace_atomic
        handle_format_atomic handle_display_output_atomic handle_system_atomic handle_status_atomic handle_timer_atomic)
  then show ?thesis
    using assms key_taken [of a lm] by (auto simp: execute_def outcome_atomic_def split: outcome.splits)
qed

end
