(* ===== verification/Sim_Measure_Facts.thy ===== *)
theory Sim_Measure_Facts
  imports Sim_Measure
begin

unbundle bit_operations_syntax

text \<open>
  Facts about the measurement model: when the recursion over the efficiency references
  ends, which status bits can occur together, and what latching an event does bit by bit.
\<close>

section \<open>Termination of a measurement\<close>

text \<open>A function whose value is the ratio of the two efficiency references.\<close>

definition asks_ratio :: "libm \<Rightarrow> simulator_state \<Rightarrow> simulated_signal \<Rightarrow> string \<Rightarrow> bool" where
  "asks_ratio lm x sg function = (let
       parsed = split_function function;
       ps = aggregated_phases (fn_suffix parsed);
       tail = snd (peel_harmonic (harmonic_order x) (snd (peel_accumulator (fn_tail parsed)))) in
     measure_early x sg parsed = None \<and>
     evaluate_quantity lm x (sum_phases lm sg ps) ps (quantity parsed) tail = EfficiencyRatio)"

lemma measure_direct: "\<not> asks_ratio lm x sg f \<Longrightarrow> measure_fn lm x sg f \<noteq> None"
  by (subst measure_fn.simps)
    (auto simp: asks_ratio_def Let_def split: option.splits prod.splits quantity_value.splits)

lemma measure_ratio:
  assumes "asks_ratio lm x sg f"
  shows "measure_fn lm x sg f \<noteq> None \<longleftrightarrow>
    measure_fn lm x sg (efficiency_input x) \<noteq> None \<and> measure_fn lm x sg (efficiency_output x) \<noteq> None"
  using assms
  by (subst measure_fn.simps) (auto simp: asks_ratio_def Let_def bind_eq_Some_conv split: prod.splits)

lemma measure_ratio_of_ratio:
  assumes "measure_fn lm x sg f = Some m"
  shows "asks_ratio lm x sg f \<longrightarrow>
    \<not> asks_ratio lm x sg (efficiency_input x) \<and> \<not> asks_ratio lm x sg (efficiency_output x)"
proof (rule measure_fn.raw_induct [where xa = "(((lm, x), sg), f)" and y = m and
    P = "\<lambda>lm x sg f m. asks_ratio lm x sg f \<longrightarrow>
      \<not> asks_ratio lm x sg (efficiency_input x) \<and> \<not> asks_ratio lm x sg (efficiency_output x)",
    unfolded case_prod_conv], goal_cases)
  case (1 measure lm x sg f m)
  show ?case
  proof (rule impI)
    assume r: "asks_ratio lm x sg f"
    then obtain i u where "measure lm x sg (efficiency_input x) = Some i"
      "measure lm x sg (efficiency_output x) = Some u"
      using 1(2) by (auto simp: asks_ratio_def Let_def bind_eq_Some_conv split: prod.splits)
    then show "\<not> asks_ratio lm x sg (efficiency_input x) \<and> \<not> asks_ratio lm x sg (efficiency_output x)"
      using 1(1) by blast
  qed
qed (rule assms)

lemma measure_None_iff:
  "measure_fn lm x sg f = None \<longleftrightarrow>
     asks_ratio lm x sg f \<and> (asks_ratio lm x sg (efficiency_input x) \<or> asks_ratio lm x sg (efficiency_output x))"
  using measure_direct measure_ratio measure_ratio_of_ratio by (metis not_None_eq)

text \<open>With no efficiency reference set, every measurement ends.\<close>

lemma not_ratio:
  "voltage_quantity a b c d e tail \<noteq> EfficiencyRatio" "current_quantity a b c d e f tail \<noteq> EfficiencyRatio"
  "phase_quantity lm sm \<noteq> EfficiencyRatio" "resistance_quantity sm a b tail \<noteq> EfficiencyRatio"
  "reactance_quantity sm a b tail \<noteq> EfficiencyRatio"
  by (simp_all add: voltage_quantity_def current_quantity_def phase_quantity_def resistance_quantity_def
      reactance_quantity_def Let_def)

lemma power_ratio: "power_quantity x sm v tail = EfficiencyRatio \<Longrightarrow> efficiency_input x \<noteq> [] \<and> efficiency_output x \<noteq> []"
  by (auto simp: power_quantity_def split: if_splits)

lemma evaluate_ratio:
  "evaluate_quantity lm x sm ps q tail = EfficiencyRatio \<Longrightarrow> efficiency_input x \<noteq> [] \<and> efficiency_output x \<noteq> []"
  using power_ratio by (auto simp: evaluate_quantity_def Let_def not_ratio split: if_splits)

lemma measure_without_reference:
  "efficiency_input x = [] \<or> efficiency_output x = [] \<Longrightarrow> measure_fn lm x sg f \<noteq> None"
  by (rule measure_direct) (auto simp: asks_ratio_def Let_def dest: evaluate_ratio)

section \<open>Status of a measurement\<close>

lemmas status_flags = kNormal_def kUnderrange_def kOverrange_def kUndefined_def kNotAvailable_def
  kPowerFactorCapacitive_def

lemma range_status_values: "range_status c raw \<in> {0, 1, 2}"
  by (simp add: range_status_def status_flags)

text \<open>Only the power factor sets a bit of its own, and it is not an input of its own range.\<close>

lemma quantity_status:
  "evaluate_quantity lm x sm ps q tail = Quantity v n \<Longrightarrow>
   n = 0 \<or> n = 128 \<and> input_kind_of q = DerivedInput"
  by (auto simp: evaluate_quantity_def voltage_quantity_def current_quantity_def power_quantity_def phase_quantity_def
      resistance_quantity_def reactance_quantity_def input_kind_of_def status_flags Let_def split: if_splits)

definition status_ok :: "simulated_measurement \<Rightarrow> bool" where
  "status_ok m \<longleftrightarrow> m_status m \<in> {0, 1, 2, 8, 16, 128, 136}"

lemma finish_status:
  "n = 0 \<or> n = 128 \<and> input_kind_of q = DerivedInput \<Longrightarrow> status_ok (finish_measurement x sm ps q factor acc v n)"
  using range_status_values [of "voltage x ! nat (hd ps)" "ddiv (sum_voltage_rms sm) (double_of_int (int (length ps)))"]
    range_status_values [of "current x ! nat (hd ps)" "ddiv (sum_current_rms sm) (double_of_int (int (length ps)))"]
  by (auto simp: finish_measurement_def status_ok_def Let_def status_flags split: input_kind.splits)

lemma early_status: "measure_early x sg parsed = Some m \<Longrightarrow> status_ok m"
  by (auto simp: measure_early_def time_measurement_def unavailable_def undefined_measurement_def status_flags
      status_ok_def Let_def split: if_splits)

lemma unavailable_status: "status_ok unavailable"
  by (simp add: status_ok_def unavailable_def status_flags)

lemma measure_status: "measure_fn lm x sg f = Some m \<Longrightarrow> status_ok m"
  by (subst (asm) measure_fn.simps)
    (auto simp: Let_def bind_eq_Some_conv unavailable_status early_status
      split: option.splits prod.splits quantity_value.splits dest!: quantity_status intro!: finish_status)

section \<open>Latching\<close>

lemma latch_event_bits:
  "bit (fst (latch_event reg s)) n \<longleftrightarrow>
     bit (event (register_of reg (st s))) n \<or>
     bit (condition (st s) (signal s) reg) n \<and> \<not> bit (previous_condition (register_of reg (st s))) n \<and>
       bit (ptransition (register_of reg (st s))) n \<or>
     \<not> bit (condition (st s) (signal s) reg) n \<and> bit (previous_condition (register_of reg (st s))) n \<and>
       bit (ntransition (register_of reg (st s))) n"
  by (auto simp: latch_event_def Let_def bit_or_iff bit_and_iff bit_not_iff)

lemma register_of_update: "register_of reg (register_update reg f x) = f (register_of reg x)"
  by (cases reg) simp_all

lemma condition_register_update: "condition (register_update reg f x) sg reg' = condition x sg reg'"
  by (cases reg; cases reg') (simp_all add: channel_bits_def)

text \<open>With the condition unchanged and its event read, there is nothing left to latch.\<close>

lemma latch_event_idle:
  "event (register_of reg (st s)) = 0 \<Longrightarrow> previous_condition (register_of reg (st s)) = condition (st s) (signal s) reg \<Longrightarrow>
   fst (latch_event reg s) = 0"
  by (simp add: latch_event_def Let_def)

end
