(* ===== verification/Sim_Queue.thy ===== *)
theory Sim_Queue
  imports Sim_Atomic Sim_Measure_Facts
begin

unbundle bit_operations_syntax

text \<open>
  Three behaviours that clients rely on: a query leaves the settings alone, the error queue
  is a bounded first-in first-out queue, and the windows of the data queries are slices.
\<close>

section \<open>Queries\<close>

text \<open>The state without the parts a query may change: what it reads destructively, and the function list.\<close>

definition settings_of :: "simulator_state \<Rightarrow> simulator_state" where
  "settings_of x = x\<lparr>errors := [], event_status := 0, meas_functions := [],
     operation := (operation x)\<lparr>event := 0, previous_condition := 0\<rparr>,
     questionable := (questionable x)\<lparr>event := 0, previous_condition := 0\<rparr>,
     questionable_voltage := (questionable_voltage x)\<lparr>event := 0, previous_condition := 0\<rparr>,
     questionable_current := (questionable_current x)\<lparr>event := 0, previous_condition := 0\<rparr>\<rparr>"

lemma settings_of_frame:
  "settings_of (errors_update f x) = settings_of x" "settings_of (event_status_update g x) = settings_of x"
  "settings_of (meas_functions_update h x) = settings_of x"
  by (simp_all add: settings_of_def)

lemma settings_of_register:
  "settings_of (register_update reg (\<lambda>r. r\<lparr>event := e, previous_condition := p\<rparr>) x) = settings_of x"
  "settings_of (register_update reg (event_update f) x) = settings_of x"
  by (cases reg; simp add: settings_of_def)+

lemma query_step: "sim_step True s t \<Longrightarrow> settings_of (st t) = settings_of (st s)"
  by (induction rule: sim_step.induct)
    (simp_all add: settings_of_frame settings_of_register push_error_def latch_event_def Let_def)

lemma query_steps: "(sim_step True)\<^sup>*\<^sup>* s t \<Longrightarrow> settings_of (st t) = settings_of (st s)"
  by (induction rule: rtranclp_induct) (simp_all add: query_step)

section \<open>The error queue\<close>

text \<open>The abstract queue: at most 32 entries, the last of a full one is the overflow entry.\<close>

definition overflow_entry :: scpi_error_info where
  "overflow_entry = \<lparr>code = kQueueOverflow, message = ''Queue overflow''\<rparr>"

definition bounded :: "scpi_error_info list \<Rightarrow> scpi_error_info list" where
  "bounded q = (if length q \<le> 32 then q else take 31 q @ [overflow_entry])"

lemma length_bounded: "length (bounded q) \<le> 32"
  by (simp add: bounded_def)

lemma push_error_bounded:
  assumes "length (errors (st s)) \<le> 32"
  shows "errors (st (push_error c m s)) = bounded (errors (st s) @ [\<lparr>code = c, message = m\<rparr>])"
proof (cases "length (errors (st s)) = 32")
  case True
  then show ?thesis by (simp add: push_error_def bounded_def overflow_entry_def butlast_conv_take)
next
  case False
  then show ?thesis using assms by (simp add: push_error_def bounded_def)
qed

lemma bounded_bounded: "bounded (bounded q @ [e]) = bounded (q @ [e])"
  by (auto simp: bounded_def)

fun push_all :: "scpi_error_info list \<Rightarrow> simulator \<Rightarrow> simulator" where
  "push_all [] s = s"
| "push_all (e # es) s = push_all es (push_error (code e) (message e) s)"

lemma push_all_bounded:
  "length (errors (st s)) \<le> 32 \<Longrightarrow> errors (st (push_all es s)) = bounded (errors (st s) @ es)"
proof (induction es arbitrary: s)
  case Nil
  then show ?case by (simp add: bounded_def)
next
  case (Cons e es)
  have e: "errors (st (push_error (code e) (message e) s)) = bounded (errors (st s) @ [e])"
    using push_error_bounded [OF Cons.prems, of "code e" "message e"] by (cases e) simp
  have b: "bounded (bounded q @ es) = bounded (q @ es)" for q
  proof (induction es arbitrary: q)
    case Nil
    then show ?case by (auto simp: bounded_def)
  next
    case (Cons f fs)
    have "bounded (bounded q @ f # fs) = bounded (bounded (bounded q @ [f]) @ fs)"
      using Cons [of "bounded q @ [f]"] by simp
    also have "\<dots> = bounded (bounded (q @ [f]) @ fs)" by (simp add: bounded_bounded)
    also have "\<dots> = bounded (q @ f # fs)" using Cons [of "q @ [f]"] by simp
    finally show ?case .
  qed
  show ?case using Cons.IH [of "push_error (code e) (message e) s"] e b length_bounded by simp
qed

section \<open>Windows\<close>

text \<open>How many values a window of a series of length \<open>len\<close> has, from index \<open>i\<close> with \<open>n\<close> taken.\<close>

definition window_length :: "int \<Rightarrow> int \<Rightarrow> int \<Rightarrow> int \<Rightarrow> int \<Rightarrow> int" where
  "window_length len count step i n =
     (let available = (if i < len then (len - i + step - 1) div step else 0) in
      if 0 < count then min available (max 0 (count - n)) else available)"

lemma window_length_step:
  assumes "1 \<le> step" "i < len" "\<not> (0 < count \<and> count \<le> n)"
  shows "window_length len count step i n = window_length len count step (i + step) (n + 1) + 1"
    and "0 \<le> window_length len count step (i + step) (n + 1)"
proof -
  have "(len - i + step - 1) div step = (len - (i + step) + step - 1) div step + 1"
    using assms(1) div_add_self2 [of step "len - i - 1"] by (simp add: algebra_simps)
  moreover have "(len - (i + step) + step - 1) div step = 0" if "\<not> i + step < len"
    using assms that by (intro div_pos_pos_trivial) auto
  moreover have "0 \<le> (len - (i + step) + step - 1) div step"
    using assms by (intro pos_imp_zdiv_nonneg_iff [THEN iffD2]) auto
  ultimately show "window_length len count step i n = window_length len count step (i + step) (n + 1) + 1"
    and "0 \<le> window_length len count step (i + step) (n + 1)"
    using assms by (auto simp: window_length_def Let_def)
qed

lemma window_loop_slice:
  assumes "window_loop source count sparsing i n = Some vs" "0 \<le> i" "0 \<le> n"
  shows "int (length vs) = window_length (int (length source)) count (max sparsing 1) i n \<and>
    vs = map (\<lambda>j. source ! nat (i + int j * max sparsing 1)) [0..<length vs]"
  using assms
proof (induction source count sparsing i n arbitrary: vs rule: window_loop.induct)
  case (1 source count sparsing i n)
  let ?step = "max sparsing 1"
  show ?case
  proof (cases "int (length source) \<le> i \<or> 0 < count \<and> count \<le> n")
    case True
    then have "vs = []" using 1(2) by (subst (asm) window_loop.simps) (auto simp: Let_def split: if_splits)
    moreover have "0 \<le> (int (length source) - i + ?step - 1) div ?step" if "i < int (length source)"
      using that by (intro pos_imp_zdiv_nonneg_iff [THEN iffD2]) auto
    ultimately show ?thesis using True by (auto simp: window_length_def Let_def)
  next
    case False
    then obtain ws where ws: "window_loop source count sparsing (i + ?step) (n + 1) = Some ws"
      "vs = source ! nat i # ws"
      using 1(2) by (subst (asm) window_loop.simps) (auto simp: Let_def split: if_splits)
    have nov: "\<not> int_max < i + ?step"
      using 1(2) False by (subst (asm) window_loop.simps) (auto simp: Let_def split: if_splits)
    have IH: "int (length ws) = window_length (int (length source)) count ?step (i + ?step) (n + 1) \<and>
        ws = map (\<lambda>j. source ! nat (i + ?step + int j * ?step)) [0..<length ws]"
      using 1(1) [OF refl _ _ nov ws(1)] False 1(3,4) by auto
    have len: "int (length vs) = window_length (int (length source)) count ?step i n"
      using IH ws(2) window_length_step [of ?step i "int (length source)" count n] False by auto
    have "map (\<lambda>j. source ! nat (i + int j * ?step)) [0..<length vs] =
        source ! nat i # map (\<lambda>j. source ! nat (i + int (Suc j) * ?step)) [0..<length ws]"
      unfolding ws(2) by (simp add: upt_conv_Cons map_Suc_upt [symmetric] del: upt_Suc)
    also have "map (\<lambda>j. source ! nat (i + int (Suc j) * ?step)) [0..<length ws] = ws"
      using IH by (simp add: algebra_simps)
    finally show ?thesis using len ws(2) by simp
  qed
qed

lemma window_loop_defined:
  "int (length source) + max sparsing 1 \<le> int_max + 1 \<Longrightarrow> window_loop source count sparsing i n \<noteq> None"
  by (induction source count sparsing i n rule: window_loop.induct)
    (subst window_loop.simps, auto simp: Let_def)

end
