(* ===== verification/Sim_Matching.thy ===== *)
theory Sim_Matching
  imports Sim_Specs
begin

text \<open>
  What the matcher of \<open>norma_simulator.cpp\<close> decides. \<open>header_match\<close> is the declarative
  reading of a pattern (a mandatory node is matched by one token, an optional one by one
  token or none, and the suffixes of the suffixed nodes are collected); \<open>match_pattern\<close>
  with its backtracking finds a match exactly when there is one. A syntactic check of two
  patterns, \<open>overlap\<close>, over-approximates the headers they share, and no two entries of the
  command table pass it: the table is unambiguous, whatever its order.
\<close>

section \<open>Headers of a pattern\<close>

inductive header_match :: "pattern_node list \<Rightarrow> token list \<Rightarrow> int list \<Rightarrow> bool" where
  ended: "header_match [] [] []"
| given: "node_accepts n t \<Longrightarrow> header_match ps ts sfx \<Longrightarrow>
     header_match (n # ps) (t # ts) ((if suffixed n then [tok_suffix t] else []) @ sfx)"
| omitted: "optional n \<Longrightarrow> header_match ps ts sfx \<Longrightarrow> header_match (n # ps) ts sfx"

inductive_cases header_match_Nil: "header_match [] ts sfx"
inductive_cases header_match_Cons: "header_match (n # ps) ts sfx"

lemma match_pattern_sound:
  "match_pattern ps ts pre = Some r \<Longrightarrow> \<exists>sfx. r = pre @ sfx \<and> header_match ps ts sfx"
proof (induction ps arbitrary: ts pre r)
  case Nil
  then show ?case by (auto intro: header_match.ended split: if_splits)
next
  case (Cons n ps)
  show ?case
  proof (cases "\<exists>t ts'. ts = t # ts' \<and> node_accepts n t \<and>
      match_pattern ps ts' (if suffixed n then pre @ [tok_suffix t] else pre) = Some r")
    case True
    then obtain t ts' where ts: "ts = t # ts'" "node_accepts n t"
      and m: "match_pattern ps ts' (if suffixed n then pre @ [tok_suffix t] else pre) = Some r" by auto
    from Cons.IH [OF m] obtain sfx
      where "r = (if suffixed n then pre @ [tok_suffix t] else pre) @ sfx" "header_match ps ts' sfx" by auto
    then show ?thesis
      using ts header_match.given [of n t ps ts' sfx]
      by (intro exI [of _ "(if suffixed n then [tok_suffix t] else []) @ sfx"]) auto
  next
    case False
    then have "optional n" "match_pattern ps ts pre = Some r"
      using Cons.prems by (auto simp: Let_def split: list.splits if_splits option.splits)
    then show ?thesis using Cons.IH header_match.omitted by blast
  qed
qed

lemma match_pattern_complete:
  "header_match ps ts sfx \<Longrightarrow> match_pattern ps ts pre \<noteq> None"
proof (induction arbitrary: pre rule: header_match.induct)
  case (given n t ps ts sfx)
  obtain r where "match_pattern ps ts (if suffixed n then pre @ [tok_suffix t] else pre) = Some r"
    using given.IH by blast
  then show ?case using given.hyps(1) by simp
qed (auto simp: Let_def split: option.splits)

section \<open>Which headers two patterns share\<close>

definition spellings :: "pattern_node \<Rightarrow> string list" where
  "spellings n = concat (map (\<lambda>m. [short_form m, upper m]) (mnemonics n))"

lemma node_accepts_spelling: "node_accepts n t \<Longrightarrow> tok_text t \<in> set (spellings n)"
  by (auto simp: node_accepts_def spellings_def list_ex_iff mnemonic_matches_def)

text \<open>Patterns reduced to the spellings of their nodes.\<close>

definition spelled :: "pattern_node list \<Rightarrow> (string list \<times> bool) list" where
  "spelled ps = map (\<lambda>n. (spellings n, optional n)) ps"

definition share :: "string list \<Rightarrow> string list \<Rightarrow> bool" where
  "share xs ys \<longleftrightarrow> list_ex (\<lambda>x. list_ex (\<lambda>y. x = y) ys) xs"

fun overlap :: "(string list \<times> bool) list \<Rightarrow> (string list \<times> bool) list \<Rightarrow> bool" where
  "overlap [] [] = True"
| "overlap [] ((y, oy) # ys) = (oy \<and> overlap [] ys)"
| "overlap ((x, ox) # xs) [] = (ox \<and> overlap xs [])"
| "overlap ((x, ox) # xs) ((y, oy) # ys) =
     (if ox \<and> overlap xs ((y, oy) # ys) then True
      else if oy \<and> overlap ((x, ox) # xs) ys then True
      else if share x y then overlap xs ys else False)"

lemma overlap_omit1: "ox \<Longrightarrow> overlap xs ys \<Longrightarrow> overlap ((x, ox) # xs) ys"
  by (cases ys) auto

lemma overlap_omit2: "oy \<Longrightarrow> overlap xs ys \<Longrightarrow> overlap xs ((y, oy) # ys)"
  by (cases xs) auto

lemma overlap_sound:
  "header_match ps ts a \<Longrightarrow> header_match qs ts b \<Longrightarrow> overlap (spelled ps) (spelled qs)"
proof (induction arbitrary: qs b rule: header_match.induct)
  case ended
  then show ?case
    by (induction qs "[] :: token list" b rule: header_match.induct) (auto simp: spelled_def)
next
  case (given n t ps ts sfx)
  from given.prems show ?case
  proof (induction qs "t # ts" b rule: header_match.induct)
    case (given m qs sfx')
    have "share (spellings n) (spellings m)"
      using node_accepts_spelling [OF given.hyps(1)] node_accepts_spelling [OF \<open>node_accepts n t\<close>]
      by (auto simp: share_def list_ex_iff)
    moreover have "overlap (spelled ps) (spelled qs)"
      using \<open>\<And>qs b. header_match qs ts b \<Longrightarrow> overlap (spelled ps) (spelled qs)\<close> given.hyps by blast
    ultimately show ?case by (simp add: spelled_def)
  next
    case (omitted m qs sfx')
    then show ?case using overlap_omit2 by (simp add: spelled_def)
  qed
next
  case (omitted n ps ts sfx)
  then show ?case using overlap_omit1 by (simp add: spelled_def)
qed

section \<open>The command table is unambiguous\<close>

fun pairwise_disjoint :: "(string list \<times> bool) list list \<Rightarrow> bool" where
  "pairwise_disjoint [] = True"
| "pairwise_disjoint (x # xs) = (if list_ex (overlap x) xs then False else pairwise_disjoint xs)"

lemma pairwise_disjoint_append:
  "pairwise_disjoint (xs @ ys) \<longleftrightarrow>
     pairwise_disjoint xs \<and> pairwise_disjoint ys \<and> (\<forall>x \<in> set xs. \<forall>y \<in> set ys. \<not> overlap x y)"
  by (induction xs) (auto simp: list_ex_iff)

lemma pairwise_disjoint_nth:
  "pairwise_disjoint xs \<Longrightarrow> i < j \<Longrightarrow> j < length xs \<Longrightarrow> \<not> overlap (xs ! i) (xs ! j)"
proof (induction xs arbitrary: i j)
  case (Cons x xs)
  then show ?case
    by (cases i; cases j) (auto simp: list_ex_iff split: if_splits)
qed simp

text \<open>
  Patterns that begin with different keywords share no header. The first tokens of a
  pattern are the spellings up to its first mandatory node.
\<close>

fun firsts :: "(string list \<times> bool) list \<Rightarrow> string list" where
  "firsts [] = []"
| "firsts ((x, ox) # xs) = x @ (if ox then firsts xs else [])"

definition mandatory :: "(string list \<times> bool) list \<Rightarrow> bool" where
  "mandatory xs \<longleftrightarrow> list_ex (\<lambda>(x, ox). \<not> ox) xs"

lemma overlap_firsts:
  "overlap xs ys \<Longrightarrow> mandatory xs \<Longrightarrow> mandatory ys \<Longrightarrow> set (firsts xs) \<inter> set (firsts ys) \<noteq> {}"
proof (induction xs ys rule: overlap.induct)
  case (2 y oy ys)
  then show ?case by (simp add: mandatory_def)
next
  case (3 x ox xs)
  then show ?case by (simp add: mandatory_def)
next
  case (4 x ox xs y oy ys)
  show ?case
  proof (cases "share x y")
    case True
    then show ?thesis by (auto simp: share_def list_ex_iff)
  next
    case False
    then show ?thesis using 4 by (auto simp: mandatory_def split: if_splits)
  qed
qed (simp add: mandatory_def)

definition group_firsts :: "(string list \<times> bool) list list \<Rightarrow> string list" where
  "group_firsts g = remdups (concat (map firsts g))"

fun firsts_disjoint :: "string list list \<Rightarrow> bool" where
  "firsts_disjoint [] = True"
| "firsts_disjoint (f # fs) = (if list_ex (share f) fs then False else firsts_disjoint fs)"

lemma groups_disjoint:
  "firsts_disjoint (map group_firsts gs) \<Longrightarrow> list_all pairwise_disjoint gs \<Longrightarrow>
   list_all (list_all mandatory) gs \<Longrightarrow> pairwise_disjoint (concat gs)"
proof (induction gs)
  case (Cons g gs)
  have "\<not> overlap x y" if "x \<in> set g" "h \<in> set gs" "y \<in> set h" for x y h
  proof
    assume "overlap x y"
    then have "set (firsts x) \<inter> set (firsts y) \<noteq> {}"
      using overlap_firsts Cons.prems that by (auto simp: list_all_iff)
    then have "share (group_firsts g) (group_firsts h)"
      using that by (auto simp: share_def list_ex_iff group_firsts_def)
    then show False using Cons.prems(1) that by (auto simp: list_ex_iff split: if_splits)
  qed
  then show ?case using Cons by (auto simp: pairwise_disjoint_append split: if_splits)
qed simp

text \<open>The table's patterns by their first keyword, and the first tokens of each group.\<close>

definition spelled_groups :: "(string list \<times> bool) list list list" where
  "spelled_groups = [
     [[([''ABOR'', ''ABORT''], False)]],
     [[([''ROUT'', ''ROUTE''], False), ([''SYST'', ''SYSTEM''], False)]],
     [[([''INP'', ''INPUT''], False), ([''COUP'', ''COUPLING''], False)],
      [([''INP'', ''INPUT''], False), ([''GAIN'', ''GAIN''], False)],
      [([''INP'', ''INPUT''], False), ([''FILT'', ''FILTER''], False), ([''LPAS'', ''LPASS''], True), ([''FREQ'', ''FREQUENCY''], False)],
      [([''INP'', ''INPUT''], False), ([''FILT'', ''FILTER''], False), ([''STAT'', ''STATE''], True)],
      [([''INP'', ''INPUT''], False), ([''SHUN'', ''SHUNT''], False)]],
     [[([''SENS'', ''SENSE''], True), ([''VOLT'', ''VOLTAGE''], False), ([''AC'', ''AC'', ''DC'', ''DC''], True), ([''RANG'', ''RANGE''], False), ([''UPP'', ''UPPER''], True), ([''LIST'', ''LIST''], False)],
      [([''SENS'', ''SENSE''], True), ([''VOLT'', ''VOLTAGE''], False), ([''AC'', ''AC'', ''DC'', ''DC''], True), ([''RANG'', ''RANGE''], False), ([''UPP'', ''UPPER''], True), ([''AUTO'', ''AUTO''], False)],
      [([''SENS'', ''SENSE''], True), ([''VOLT'', ''VOLTAGE''], False), ([''AC'', ''AC'', ''DC'', ''DC''], True), ([''RANG'', ''RANGE''], False), ([''UPP'', ''UPPER''], True)],
      [([''SENS'', ''SENSE''], True), ([''VOLT'', ''VOLTAGE''], False), ([''AC'', ''AC'', ''DC'', ''DC''], True), ([''SCAL'', ''SCALE''], False)],
      [([''SENS'', ''SENSE''], True), ([''CURR'', ''CURRENT''], False), ([''AC'', ''AC'', ''DC'', ''DC''], True), ([''RANG'', ''RANGE''], False), ([''UPP'', ''UPPER''], True), ([''LIST'', ''LIST''], False)],
      [([''SENS'', ''SENSE''], True), ([''CURR'', ''CURRENT''], False), ([''AC'', ''AC'', ''DC'', ''DC''], True), ([''RANG'', ''RANGE''], False), ([''UPP'', ''UPPER''], True), ([''AUTO'', ''AUTO''], False)],
      [([''SENS'', ''SENSE''], True), ([''CURR'', ''CURRENT''], False), ([''AC'', ''AC'', ''DC'', ''DC''], True), ([''RANG'', ''RANGE''], False), ([''UPP'', ''UPPER''], True)],
      [([''SENS'', ''SENSE''], True), ([''CURR'', ''CURRENT''], False), ([''AC'', ''AC'', ''DC'', ''DC''], True), ([''SCAL'', ''SCALE''], False)],
      [([''SENS'', ''SENSE''], True), ([''VOLT'', ''VOLTAGE'', ''CURR'', ''CURRENT'', ''POW'', ''POWER''], True), ([''AC'', ''AC'', ''DC'', ''DC''], True), ([''APER'', ''APERTURE''], False)],
      [([''SENS'', ''SENSE''], True), ([''SWE'', ''SWEEP''], False), ([''FREQ'', ''FREQUENCY''], False)],
      [([''SENS'', ''SENSE''], True), ([''FUNC'', ''FUNCTION''], False), ([''OFF'', ''OFF''], False), ([''ALL'', ''ALL''], False)],
      [([''SENS'', ''SENSE''], True), ([''FUNC'', ''FUNCTION''], False), ([''CONC'', ''CONCURRENT''], False)],
      [([''SENS'', ''SENSE''], True), ([''FUNC'', ''FUNCTION''], False), ([''ON'', ''ON''], True), ([''COUN'', ''COUNT''], False)],
      [([''SENS'', ''SENSE''], True), ([''FUNC'', ''FUNCTION''], False), ([''ON'', ''ON''], True), ([''ALL'', ''ALL''], False)],
      [([''SENS'', ''SENSE''], True), ([''FUNC'', ''FUNCTION''], False), ([''ON'', ''ON''], True)],
      [([''SENS'', ''SENSE''], True), ([''DATA'', ''DATA''], False), ([''STAT'', ''STATUS''], False)],
      [([''SENS'', ''SENSE''], True), ([''DATA'', ''DATA''], False)],
      [([''SENS'', ''SENSE''], True), ([''SWE'', ''SWEEP''], False), ([''OFFS'', ''OFFSET''], False), ([''POINTS'', ''POINTS''], False)],
      [([''SENS'', ''SENSE''], True), ([''SWE'', ''SWEEP''], False), ([''OFFS'', ''OFFSET''], False), ([''TIME'', ''TIME''], False)],
      [([''SENS'', ''SENSE''], True), ([''SWE'', ''SWEEP''], False), ([''POINTS'', ''POINTS''], False)],
      [([''SENS'', ''SENSE''], True), ([''SWE'', ''SWEEP''], False), ([''TIME'', ''TIME''], False)],
      [([''SENS'', ''SENSE''], True), ([''SWE'', ''SWEEP''], False), ([''COUN'', ''COUNT''], False)],
      [([''SENS'', ''SENSE''], True), ([''SWE'', ''SWEEP''], False), ([''SFAC'', ''SFACTOR''], False)],
      [([''SENS'', ''SENSE''], True), ([''SWE'', ''SWEEP''], False), ([''FUNC'', ''FUNCTION''], False)],
      [([''SENS'', ''SENSE''], True), ([''SWE'', ''SWEEP''], False), ([''STAT'', ''STATE''], True)]],
     [[([''SYNC'', ''SYNC''], False), ([''STAT'', ''STATE''], False)],
      [([''SYNC'', ''SYNC''], False), ([''LEV'', ''LEVEL''], False), ([''UNIT'', ''UNIT''], False)],
      [([''SYNC'', ''SYNC''], False), ([''TIM'', ''TIMEOUT''], False)],
      [([''SYNC'', ''SYNC''], False), ([''SOUR'', ''SOURCE'', ''VOLT'', ''VOLTAGE'', ''CURR'', ''CURRENT''], True), ([''LEV'', ''LEVEL''], False)],
      [([''SYNC'', ''SYNC''], False), ([''SOUR'', ''SOURCE'', ''VOLT'', ''VOLTAGE'', ''CURR'', ''CURRENT''], True), ([''SLOP'', ''SLOPE''], False)],
      [([''SYNC'', ''SYNC''], False), ([''SOUR'', ''SOURCE'', ''VOLT'', ''VOLTAGE'', ''CURR'', ''CURRENT''], True), ([''FILT'', ''FILTER''], False), ([''LPAS'', ''LPASS''], True), ([''FREQ'', ''FREQUENCY''], False)],
      [([''SYNC'', ''SYNC''], False), ([''SOUR'', ''SOURCE'', ''VOLT'', ''VOLTAGE'', ''CURR'', ''CURRENT''], True), ([''FILT'', ''FILTER''], False), ([''LPAS'', ''LPASS''], True), ([''STAT'', ''STATE''], True)],
      [([''SYNC'', ''SYNC''], False), ([''SOUR'', ''SOURCE''], True)]],
     [[([''INIT'', ''INITIATE''], False), ([''CONT'', ''CONTINUOUS''], False)],
      [([''INIT'', ''INITIATE''], False), ([''IMM'', ''IMMEDIATE''], True), ([''SEQ'', ''SEQUENCE''], False)],
      [([''INIT'', ''INITIATE''], False), ([''IMM'', ''IMMEDIATE''], True), ([''NAME'', ''NAME''], False)],
      [([''INIT'', ''INITIATE''], False), ([''IMM'', ''IMMEDIATE''], True)]],
     [[([''TRIG'', ''TRIGGER''], False), ([''STAR'', ''START''], False), ([''SOUR'', ''SOURCE''], False)],
      [([''TRIG'', ''TRIGGER''], False), ([''STAR'', ''START''], False), ([''TIME'', ''TIME''], False)],
      [([''TRIG'', ''TRIGGER''], False), ([''STAR'', ''START''], False), ([''LEV'', ''LEVEL''], False)],
      [([''TRIG'', ''TRIGGER''], False), ([''STAR'', ''START''], False), ([''SLOP'', ''SLOPE''], False)],
      [([''TRIG'', ''TRIGGER''], False), ([''STOP'', ''STOP''], False), ([''SOUR'', ''SOURCE''], False)],
      [([''TRIG'', ''TRIGGER''], False), ([''STOP'', ''STOP''], False), ([''TIME'', ''TIME''], False)],
      [([''TRIG'', ''TRIGGER''], False), ([''STOP'', ''STOP''], False), ([''LEV'', ''LEVEL''], False)],
      [([''TRIG'', ''TRIGGER''], False), ([''STOP'', ''STOP''], False), ([''SLOP'', ''SLOPE''], False)]],
     [[([''CALC'', ''CALCULATE''], False), ([''TRAN'', ''TRANSFORM''], False), ([''FREQ'', ''FREQUENCY''], False), ([''MODE'', ''MODE''], False)],
      [([''CALC'', ''CALCULATE''], False), ([''TRAN'', ''TRANSFORM''], False), ([''FREQ'', ''FREQUENCY''], False), ([''FUNC'', ''FUNCTION''], False)],
      [([''CALC'', ''CALCULATE''], False), ([''TRAN'', ''TRANSFORM''], False), ([''FREQ'', ''FREQUENCY''], False), ([''STAR'', ''START''], False)],
      [([''CALC'', ''CALCULATE''], False), ([''TRAN'', ''TRANSFORM''], False), ([''FREQ'', ''FREQUENCY''], False), ([''STOP'', ''STOP''], False)],
      [([''CALC'', ''CALCULATE''], False), ([''TRAN'', ''TRANSFORM''], False), ([''FREQ'', ''FREQUENCY''], False), ([''CYCL'', ''CYCLES''], False)],
      [([''CALC'', ''CALCULATE''], False), ([''TRAN'', ''TRANSFORM''], False), ([''FREQ'', ''FREQUENCY''], False), ([''GRO'', ''GROUPING''], False)],
      [([''CALC'', ''CALCULATE''], False), ([''TRAN'', ''TRANSFORM''], False), ([''FREQ'', ''FREQUENCY''], False), ([''STAT'', ''STATE''], True)],
      [([''CALC'', ''CALCULATE''], False), ([''DATA'', ''DATA''], False), ([''PRE'', ''PREAMBLE''], False)],
      [([''CALC'', ''CALCULATE''], False), ([''DATA'', ''DATA''], False), ([''THD'', ''THD''], False)],
      [([''CALC'', ''CALCULATE''], False), ([''DATA'', ''DATA''], False)],
      [([''CALC'', ''CALCULATE''], False), ([''INT'', ''INTEGRAL''], False), ([''CLE'', ''CLEAR''], False), ([''AUTO'', ''AUTO''], False)],
      [([''CALC'', ''CALCULATE''], False), ([''INT'', ''INTEGRAL''], False), ([''CLE'', ''CLEAR''], False), ([''IMM'', ''IMMEDIATE''], True)],
      [([''CALC'', ''CALCULATE''], False), ([''INT'', ''INTEGRAL''], False), ([''FUNC'', ''FUNCTION''], False)],
      [([''CALC'', ''CALCULATE''], False), ([''INT'', ''INTEGRAL''], False), ([''STAR'', ''START''], False), ([''SOUR'', ''SOURCE''], False)],
      [([''CALC'', ''CALCULATE''], False), ([''INT'', ''INTEGRAL''], False), ([''STAR'', ''START''], False), ([''TIME'', ''TIME''], False)],
      [([''CALC'', ''CALCULATE''], False), ([''INT'', ''INTEGRAL''], False), ([''STAR'', ''START''], False), ([''IMM'', ''IMMEDIATE''], True)],
      [([''CALC'', ''CALCULATE''], False), ([''INT'', ''INTEGRAL''], False), ([''STOP'', ''STOP''], False), ([''SOUR'', ''SOURCE''], False)],
      [([''CALC'', ''CALCULATE''], False), ([''INT'', ''INTEGRAL''], False), ([''STOP'', ''STOP''], False), ([''TIME'', ''TIME''], False)],
      [([''CALC'', ''CALCULATE''], False), ([''INT'', ''INTEGRAL''], False), ([''STOP'', ''STOP''], False), ([''TINT'', ''TINTERVAL''], False)],
      [([''CALC'', ''CALCULATE''], False), ([''INT'', ''INTEGRAL''], False), ([''STOP'', ''STOP''], False), ([''IMM'', ''IMMEDIATE''], True)],
      [([''CALC'', ''CALCULATE''], False), ([''INT'', ''INTEGRAL''], False), ([''STAT'', ''STATE''], True)],
      [([''CALC'', ''CALCULATE''], False), ([''HARM'', ''HARMONIC''], False), ([''ORD'', ''ORDER''], False)],
      [([''CALC'', ''CALCULATE''], False), ([''POW'', ''POWER''], False), ([''CORR'', ''CORRECTED''], False)],
      [([''CALC'', ''CALCULATE''], False), ([''POW'', ''POWER''], False), ([''EFF'', ''EFFICIENCY''], False), ([''REF'', ''REFERENCE''], False)]],
     [[([''TRAC'', ''TRACE''], False), ([''DATA'', ''DATA''], True), ([''PRE'', ''PREAMBLE''], False)],
      [([''TRAC'', ''TRACE''], False), ([''DATA'', ''DATA''], True), ([''STAT'', ''STATUS''], False)],
      [([''TRAC'', ''TRACE''], False), ([''FREE'', ''FREE''], False)],
      [([''TRAC'', ''TRACE''], False), ([''CAT'', ''CATALOG''], False), ([''LEN'', ''LENGTH''], False)],
      [([''TRAC'', ''TRACE''], False), ([''DEL'', ''DELETE''], False), ([''ALL'', ''ALL''], False)],
      [([''TRAC'', ''TRACE''], False), ([''DATA'', ''DATA''], True)]],
     [[([''FORM'', ''FORMAT''], False), ([''DATA'', ''DATA''], True), ([''STAT'', ''STATUS''], False)],
      [([''FORM'', ''FORMAT''], False), ([''BORD'', ''BORDER''], False)],
      [([''FORM'', ''FORMAT''], False), ([''TRAN'', ''TRANSPOSE''], False)],
      [([''FORM'', ''FORMAT''], False), ([''DATA'', ''DATA''], True)]],
     [[([''DISP'', ''DISPLAY''], False), ([''USER'', ''USER''], False), ([''FUNC'', ''FUNCTION''], False)],
      [([''DISP'', ''DISPLAY''], False), ([''WIND'', ''WINDOW''], True), ([''STAT'', ''STATE''], True)]],
     [[([''OUTP'', ''OUTPUT''], False), ([''STAT'', ''STATE''], True)]],
     [[([''SYST'', ''SYSTEM''], False), ([''COMM'', ''COMMUNICATE''], False), ([''GPIB'', ''GPIB''], False), ([''SELF'', ''SELF''], True), ([''ADDR'', ''ADDRESS''], False)],
      [([''SYST'', ''SYSTEM''], False), ([''COMM'', ''COMMUNICATE''], False), ([''SER'', ''SERIAL''], False), ([''BAUD'', ''BAUD''], False)],
      [([''SYST'', ''SYSTEM''], False), ([''DATE'', ''DATE''], False)],
      [([''SYST'', ''SYSTEM''], False), ([''TIME'', ''TIME''], False)],
      [([''SYST'', ''SYSTEM''], False), ([''ERR'', ''ERROR''], False), ([''ALL'', ''ALL''], False)],
      [([''SYST'', ''SYSTEM''], False), ([''ERR'', ''ERROR''], False), ([''NEXT'', ''NEXT''], True)],
      [([''SYST'', ''SYSTEM''], False), ([''KLOC'', ''KLOCK''], False)],
      [([''SYST'', ''SYSTEM''], False), ([''LANG'', ''LANGUAGE''], False)],
      [([''SYST'', ''SYSTEM''], False), ([''VERS'', ''VERSION''], False)]],
     [[([''STAT'', ''STATUS''], False), ([''OPER'', ''OPERATION''], False), ([''COND'', ''CONDITION''], False)],
      [([''STAT'', ''STATUS''], False), ([''OPER'', ''OPERATION''], False), ([''ENAB'', ''ENABLE''], False)],
      [([''STAT'', ''STATUS''], False), ([''OPER'', ''OPERATION''], False), ([''PTR'', ''PTRANSITION''], False)],
      [([''STAT'', ''STATUS''], False), ([''OPER'', ''OPERATION''], False), ([''NTR'', ''NTRANSITION''], False)],
      [([''STAT'', ''STATUS''], False), ([''OPER'', ''OPERATION''], False), ([''EVEN'', ''EVENT''], True)],
      [([''STAT'', ''STATUS''], False), ([''QUES'', ''QUESTIONABLE''], False), ([''VOLT'', ''VOLTAGE''], False), ([''COND'', ''CONDITION''], False)],
      [([''STAT'', ''STATUS''], False), ([''QUES'', ''QUESTIONABLE''], False), ([''VOLT'', ''VOLTAGE''], False), ([''ENAB'', ''ENABLE''], False)],
      [([''STAT'', ''STATUS''], False), ([''QUES'', ''QUESTIONABLE''], False), ([''VOLT'', ''VOLTAGE''], False), ([''PTR'', ''PTRANSITION''], False)],
      [([''STAT'', ''STATUS''], False), ([''QUES'', ''QUESTIONABLE''], False), ([''VOLT'', ''VOLTAGE''], False), ([''NTR'', ''NTRANSITION''], False)],
      [([''STAT'', ''STATUS''], False), ([''QUES'', ''QUESTIONABLE''], False), ([''VOLT'', ''VOLTAGE''], False), ([''EVEN'', ''EVENT''], True)],
      [([''STAT'', ''STATUS''], False), ([''QUES'', ''QUESTIONABLE''], False), ([''CURR'', ''CURRENT''], False), ([''COND'', ''CONDITION''], False)],
      [([''STAT'', ''STATUS''], False), ([''QUES'', ''QUESTIONABLE''], False), ([''CURR'', ''CURRENT''], False), ([''ENAB'', ''ENABLE''], False)],
      [([''STAT'', ''STATUS''], False), ([''QUES'', ''QUESTIONABLE''], False), ([''CURR'', ''CURRENT''], False), ([''PTR'', ''PTRANSITION''], False)],
      [([''STAT'', ''STATUS''], False), ([''QUES'', ''QUESTIONABLE''], False), ([''CURR'', ''CURRENT''], False), ([''NTR'', ''NTRANSITION''], False)],
      [([''STAT'', ''STATUS''], False), ([''QUES'', ''QUESTIONABLE''], False), ([''CURR'', ''CURRENT''], False), ([''EVEN'', ''EVENT''], True)],
      [([''STAT'', ''STATUS''], False), ([''QUES'', ''QUESTIONABLE''], False), ([''COND'', ''CONDITION''], False)],
      [([''STAT'', ''STATUS''], False), ([''QUES'', ''QUESTIONABLE''], False), ([''ENAB'', ''ENABLE''], False)],
      [([''STAT'', ''STATUS''], False), ([''QUES'', ''QUESTIONABLE''], False), ([''PTR'', ''PTRANSITION''], False)],
      [([''STAT'', ''STATUS''], False), ([''QUES'', ''QUESTIONABLE''], False), ([''NTR'', ''NTRANSITION''], False)],
      [([''STAT'', ''STATUS''], False), ([''QUES'', ''QUESTIONABLE''], False), ([''EVEN'', ''EVENT''], True)]],
     [[([''TIM'', ''TIMER''], False), ([''RES'', ''RESET''], False), ([''AUTO'', ''AUTO''], False)],
      [([''TIM'', ''TIMER''], False), ([''RES'', ''RESET''], False), ([''TIME'', ''TIME''], False)],
      [([''TIM'', ''TIMER''], False), ([''RES'', ''RESET''], False)]]]"

definition first_tokens :: "string list list" where
  "first_tokens = [
     [''ABOR'', ''ABORT''],
     [''ROUT'', ''ROUTE''],
     [''INP'', ''INPUT''],
     [''VOLT'', ''VOLTAGE'', ''CURR'', ''CURRENT'', ''POW'', ''POWER'', ''AC'', ''DC'', ''APER'', ''APERTURE'', ''FUNC'', ''FUNCTION'', ''DATA'', ''SENS'', ''SENSE'', ''SWE'', ''SWEEP''],
     [''SYNC''],
     [''INIT'', ''INITIATE''],
     [''TRIG'', ''TRIGGER''],
     [''CALC'', ''CALCULATE''],
     [''TRAC'', ''TRACE''],
     [''FORM'', ''FORMAT''],
     [''DISP'', ''DISPLAY''],
     [''OUTP'', ''OUTPUT''],
     [''SYST'', ''SYSTEM''],
     [''STAT'', ''STATUS''],
     [''TIM'', ''TIMER'']]"

lemma spelled_groups_ok:
  "map (\<lambda>(k, p). spelled p) compiled_specs = concat spelled_groups"
  "map group_firsts spelled_groups = first_tokens"
  "firsts_disjoint first_tokens"
  "list_all pairwise_disjoint spelled_groups"
  "list_all (list_all mandatory) spelled_groups"
  by code_simp+

lemma table_disjoint: "pairwise_disjoint (map (\<lambda>(k, p). spelled p) compiled_specs)"
  using groups_disjoint [of spelled_groups] spelled_groups_ok by simp

text \<open>Two entries of the table that match the same header are the same entry.\<close>

lemma table_unambiguous:
  assumes "i < length compiled_specs" "j < length compiled_specs"
    and "header_match (snd (compiled_specs ! i)) toks a" "header_match (snd (compiled_specs ! j)) toks b"
  shows "i = j"
proof (rule ccontr)
  assume "i \<noteq> j"
  let ?sp = "map (\<lambda>(k, p). spelled p) compiled_specs"
  have n: "?sp ! l = spelled (snd (compiled_specs ! l))" if "l < length compiled_specs" for l
    using that by (simp add: case_prod_beta)
  have "overlap (?sp ! i) (?sp ! j)" "overlap (?sp ! j) (?sp ! i)"
    using overlap_sound assms n by simp_all
  then show False
    using pairwise_disjoint_nth [OF table_disjoint] \<open>i \<noteq> j\<close> assms(1,2) by (metis length_map linorder_neqE_nat)
qed

lemma find_spec_None: "find_spec specs toks = None \<longleftrightarrow> (\<forall>(k, p) \<in> set specs. match_pattern p toks [] = None)"
  by (induction specs toks rule: find_spec.induct) (auto split: option.splits)

lemma find_spec_Some:
  "find_spec specs toks = Some (k, sfx) \<Longrightarrow> \<exists>p. (k, p) \<in> set specs \<and> match_pattern p toks [] = Some sfx"
  by (induction specs toks rule: find_spec.induct) (auto split: option.splits)

text \<open>So an entry whose pattern matches is the one that is found: no other has to be looked at.\<close>

lemma lookup_match:
  assumes "(k, p) \<in> set compiled_specs" "match_pattern p toks [] = Some sfx"
  shows "lookup_spec toks = Some (k, sfx)"
proof -
  have "find_spec compiled_specs toks \<noteq> None" using assms find_spec_None [of compiled_specs toks] by fastforce
  then obtain k' sfx' where l: "find_spec compiled_specs toks = Some (k', sfx')" by auto
  then obtain p' where p': "(k', p') \<in> set compiled_specs" "match_pattern p' toks [] = Some sfx'"
    using find_spec_Some by blast
  obtain i j where ij: "i < length compiled_specs" "compiled_specs ! i = (k, p)"
    "j < length compiled_specs" "compiled_specs ! j = (k', p')"
    using assms(1) p'(1) by (metis in_set_conv_nth)
  obtain a b where "header_match p toks a" "header_match p' toks b"
    using match_pattern_sound assms(2) p'(2) by meson
  then have "(k, p) = (k', p')" using table_unambiguous [of i j toks a b] ij by auto
  then show ?thesis using l assms(2) p'(2) by (simp add: lookup_spec_def)
qed

lemma lookup_pattern:
  assumes "(k, pattern) \<in> set command_specs" "match_pattern (compile_pattern pattern) toks [] = Some sfx"
  shows "lookup_spec toks = Some (k, sfx)"
  using assms by (intro lookup_match [of k "compile_pattern pattern"]) (auto simp: compiled_specs_def)

end
