(* ===== verification/Sim_Lines.thy ===== *)
theory Sim_Lines
  imports Sim_Queue Sim_Matching
begin

text \<open>
  The effect of single command lines on an arbitrary simulator: the plumbing of
  \<open>handle_line\<close> for a line of one command, and the lines every client sends: \<open>SYST:ERR?\<close>,
  \<open>*RST\<close> and \<open>*CLS\<close>.
\<close>

definition counted :: "simulator \<Rightarrow> simulator" where
  "counted s = s\<lparr>handled_lines := (handled_lines s + 1) mod 2 ^ 64\<rparr>"

lemma counted_simps [simp]:
  "st (counted s) = st s" "opts (counted s) = opts s" "signal (counted s) = signal s"
  by (simp_all add: counted_def)

lemma handle_line_one:
  assumes "split_unquoted line (CHR '';'') = [piece]" "trim piece \<noteq> []"
  shows "handle_line lm line s =
    map_option (\<lambda>r. (pr_sim r, pr_response r)) (run_piece lm [] (trim piece) (counted s))"
  using assms
  by (auto simp: handle_line_def counted_def Let_def join_responses_def split: option.splits)

lemma handle_line_subsystem:
  assumes "split_unquoted line (CHR '';'') = [piece]" "trim piece \<noteq> []"
    and "read_command (trim piece) = (h, c)" "h = [] \<or> hd h \<noteq> CHR ''*''"
    and "lookup_spec (header_tokens [] h) = Some (k, sfx)"
  shows "handle_line lm line s =
    map_option (\<lambda>b. (fst b, response (snd b)))
      (execute lm (counted s, c\<lparr>tokens := header_tokens [] h, key := k, suffixes := sfx\<rparr>))"
  unfolding handle_line_one [OF assms(1,2)] run_piece_def assms(3) case_prod_conv run_subsystem_def Let_def assms(5)
    option.case
  using assms(4) by (auto simp: finished_def option.map_comp comp_def)

lemma handle_line_common:
  assumes "split_unquoted line (CHR '';'') = [piece]" "trim piece = txt" "txt \<noteq> []"
    and "read_command txt = (h, c)" "h \<noteq> []" "hd h = CHR ''*''"
  shows "handle_line lm line s =
    (case handle_common (counted s, c\<lparr>key := upper h,
        tokens := [\<lparr>tok_text = upper h, tok_suffix = 0, tok_has_suffix = False\<rparr>]\<rparr>) of
      Declined \<Rightarrow> Some (push_error kUndefinedHeader (''Undefined header;'' @ txt) (counted s), None)
    | Done b \<Rightarrow> Some (fst b, response (snd b))
    | Undefined \<Rightarrow> None)"
  using assms
  by (simp add: handle_line_one run_piece_def run_common_def finished_def rejected_def Let_def split: outcome.splits)

section \<open>SYST:ERR?\<close>

definition error_command :: command where
  "error_command = empty_command\<lparr>query := True, tokens := header_tokens [] ''SYST:ERR'', key := ''SYST:ERR''\<rparr>"

lemma error_query_parts:
  "split_unquoted ''SYST:ERR?'' (CHR '';'') = [''SYST:ERR?'']" "trim ''SYST:ERR?'' = ''SYST:ERR?''"
  "read_command ''SYST:ERR?'' = (''SYST:ERR'', empty_command\<lparr>query := True\<rparr>)"
  "lookup_spec (header_tokens [] ''SYST:ERR'') = Some (''SYST:ERR'', [])"
  by code_simp+

lemma execute_system:
  assumes "key (snd a) = ''SYST:ERR''"
  shows "execute lm a = Some (query_only next_error a)"
  using assms
  by (simp add: execute_def handlers_def handle_route_def handle_input_def handle_sense_def handle_sync_def
      handle_acquisition_def handle_trigger_def handle_calculate_def handle_trace_def handle_format_def
      handle_display_output_def handle_system_def key_starts_def Let_def)

lemma handle_error_query:
  "handle_line lm ''SYST:ERR?'' s =
     Some (case errors (st s) of
       [] \<Rightarrow> (counted s, Some no_error_text)
     | e # es \<Rightarrow> (set_st (errors_update (\<lambda>_. es)) (counted s), Some (error_text e)))"
proof -
  have "handle_line lm ''SYST:ERR?'' s =
    map_option (\<lambda>b. (fst b, response (snd b)))
      (execute lm (counted s, empty_command\<lparr>query := True, tokens := header_tokens [] ''SYST:ERR'',
        key := ''SYST:ERR'', suffixes := []\<rparr>))"
    by (rule handle_line_subsystem [of _ "''SYST:ERR?''"]) (simp_all add: error_query_parts)
  then show ?thesis
    by (auto simp: execute_system query_only_def next_error_def split: list.splits)
qed

text \<open>Reading the queue until it is empty.\<close>

lemma drain_queue:
  "\<exists>t. handle_lines lm (replicate (length (errors (st s)) + 1) ''SYST:ERR?'') s =
     Some (t, map (\<lambda>e. Some (error_text e)) (errors (st s)) @ [Some no_error_text]) \<and>
     st t = (st s)\<lparr>errors := []\<rparr>"
proof (induction "errors (st s)" arbitrary: s)
  case Nil
  then show ?case
    by (intro exI [of _ "counted s"]) (cases "st s", simp add: handle_error_query Nil [symmetric])
next
  case (Cons e es)
  let ?s = "set_st (errors_update (\<lambda>_. es)) (counted s)"
  obtain t where t: "handle_lines lm (replicate (length es + 1) ''SYST:ERR?'') ?s =
      Some (t, map (\<lambda>e. Some (error_text e)) es @ [Some no_error_text])" "st t = (st ?s)\<lparr>errors := []\<rparr>"
    using Cons(1) [of ?s] by auto
  have "handle_line lm ''SYST:ERR?'' s = Some (?s, Some (error_text e))"
    unfolding handle_error_query Cons(2) [symmetric] by simp
  with t show ?case
    unfolding Cons(2) [symmetric] by (intro exI [of _ t]) simp
qed

section \<open>*RST and *CLS\<close>

lemma reset_parts:
  "split_unquoted ''*RST'' (CHR '';'') = [''*RST'']" "trim ''*RST'' = ''*RST''"
  "read_command ''*RST'' = (''*RST'', empty_command)" "upper ''*RST'' = ''*RST''"
  by code_simp+

lemma handle_reset: "handle_line lm ''*RST'' s = Some (reset (counted s), None)"
  by (subst handle_line_common [OF reset_parts(1-2) _ reset_parts(3)])
    (simp_all add: reset_parts handle_common_def command_only_def empty_command_def Let_def)

lemma clear_parts:
  "split_unquoted ''*CLS'' (CHR '';'') = [''*CLS'']" "trim ''*CLS'' = ''*CLS''"
  "read_command ''*CLS'' = (''*CLS'', empty_command)" "upper ''*CLS'' = ''*CLS''"
  by code_simp+

lemma handle_clear: "handle_line lm ''*CLS'' s = Some (clear_status (counted s), None)"
  by (subst handle_line_common [OF clear_parts(1-2) _ clear_parts(3)])
    (simp_all add: clear_parts handle_common_def command_only_def empty_command_def Let_def)

end
