(* ===== verification/Sim_Properties.thy ===== *)
theory Sim_Properties
  imports Sim_Lines
begin

text \<open>
  What the simulator guarantees, whatever command lines it is sent: properties of
  \<open>handle_line\<close> and \<open>handle_lines\<close> over the abstract machine and its invariants.
\<close>

section \<open>Concrete inputs for the witnesses\<close>

text \<open>Some C library; no witness depends on what it computes.\<close>

definition sample_libm :: libm where
  "sample_libm = \<lparr>cos_fn = (\<lambda>_. lit 1 1), sin_fn = (\<lambda>_. dzero), acos_fn = (\<lambda>_. dzero)\<rparr>"

definition fresh :: simulator where
  "fresh = new_simulator default_options"


lemma fst_defined: "x \<noteq> None \<Longrightarrow> (\<And>t r. x = Some (t, r) \<Longrightarrow> P t) \<Longrightarrow> P (fst (the x))"
  by auto

lemma good_default_options: "good_options default_options"
  by code_simp

lemma fresh_invariants: "good_simulator fresh" "good_queue fresh" "good_event_status fresh"
proof -
  show "good_simulator fresh" by (simp add: fresh_def good_new_simulator good_default_options)
  show "good_queue fresh" "good_event_status fresh"
    by (simp_all add: fresh_def new_simulator_def reset_def initial_state_def good_queue_def good_event_status_def)
qed

lemma queue_new_simulator: "good_queue (new_simulator o')" "good_event_status (new_simulator o')"
  by (simp_all add: new_simulator_def reset_def initial_state_def good_queue_def good_event_status_def)

section \<open>Invariants of every session\<close>

lemma session_good:
  assumes "good_options o'" "handle_lines lm ls (new_simulator o') = Some (t, rs)"
  shows "good_settings o' (st t)" "opts t = o'"
proof -
  have "good_simulator t"
    using configuration.handle_lines [OF assms(2)] good_new_simulator [OF assms(1)] by blast
  moreover show "opts t = o'"
    using fixed_parts.handle_lines [OF assms(2), of o' default_signal] by (simp add: new_simulator_def)
  ultimately show "good_settings o' (st t)" by (simp add: good_simulator_def)
qed

text \<open>
  C1: Whatever command lines are sent to a simulator with usable options, its configuration
  stays well formed: every array keeps its length, every range is one of the selectable
  ranges, every setting is inside the limits of its command (the synchronisation source one
  of the thirteen that exist, the cut-off frequency one of the three, the date and time
  those of a calendar), the two FORMat settings agree on text or binary, and every status
  register is a 16-bit word.
\<close>

theorem session_well_formed:
  assumes "good_options o'" "handle_lines lm ls (new_simulator o') = Some (t, rs)"
  shows "good_settings o' (st t)"
  using assms by (rule session_good)

theorem session_well_formed_witness:
  "good_settings default_options
     (st (fst (the (handle_lines sample_libm [''*ESE 5'', ''*BAD''] (new_simulator default_options)))))"
  by (rule fst_defined, code_simp, rule session_well_formed [OF good_default_options])

text \<open>
  C2: The error queue of a session never holds more than 32 entries, and every code in it
  is one of -109, -113, -221, -222, -224 or the overflow -350. In particular -200, the
  simulator's own \<open>no handler for command\<close>, is never reported: every key of the command
  table has a handler.
\<close>

theorem session_error_queue:
  assumes "handle_lines lm ls (new_simulator o') = Some (t, rs)"
  shows "length (errors (st t)) \<le> 32 \<and>
         code ` set (errors (st t)) \<subseteq> {- 109, - 113, - 221, - 222, - 224, - 350}"
proof -
  have "good_queue t" using queue.handle_lines [OF assms] queue_new_simulator by blast
  then show ?thesis
    by (auto simp: good_queue_def list_all_iff reported_codes_def error_codes)
qed

theorem session_error_queue_witness:
  "(\<lambda>t. length (errors (st t)) \<le> 32 \<and> code ` set (errors (st t)) \<subseteq> {- 109, - 113, - 221, - 222, - 224, - 350})
     (fst (the (handle_lines sample_libm [''*BAD'', ''*ESE''] (new_simulator default_options))))"
  by (rule fst_defined, code_simp, rule session_error_queue)



section \<open>One command at a time\<close>

lemma piece_atomic:
  assumes "run_piece lm path txt s = Some r" "\<not> pr_continue r"
  shows "\<exists>e m. e \<in> set reported_codes \<and> pr_sim r = push_error e m s"
proof -
  obtain h c where c: "read_command txt = (h, c)" by (cases "read_command txt")
  then have unfailed: "\<not> failed c"
    by (auto simp: read_command_def Let_def empty_command_def split: prod.splits)
  have fin: "\<exists>e m. e \<in> set reported_codes \<and> fst a = push_error e m s"
    if "atomic (s, c') a" "\<not> failed c'" "failed (snd a)" for c' a
  proof -
    have "fails (s, c') a" using that by (simp add: atomic_def)
    then obtain e m where "e \<in> set reported_codes" "a = fail e m (s, c')" by (auto simp: fails_def)
    then show ?thesis by (intro exI conjI) simp_all
  qed
  show ?thesis
  proof (cases "h \<noteq> [] \<and> hd h = CHR ''*''")
    case True
    let ?a = "(s, c\<lparr>key := upper h, tokens := [\<lparr>tok_text = upper h, tok_suffix = 0, tok_has_suffix = False\<rparr>]\<rparr>)"
    show ?thesis
    proof (cases "handle_common ?a")
      case Declined
      then have "pr_sim r = push_error kUndefinedHeader (''Undefined header;'' @ txt) s"
        using assms(1) True by (auto simp: run_piece_def c run_common_def Let_def rejected_def)
      then show ?thesis using reported_codes_simps(2) by blast
    next
      case (Done b)
      then have "r = finished path b"
        using assms(1) True by (simp add: run_piece_def c run_common_def Let_def)
      then show ?thesis
        using fin [of "snd ?a" b] handle_common_atomic [of ?a] Done assms(2) unfailed
        by (simp add: outcome_atomic_def finished_def)
    next
      case Undefined
      then show ?thesis using assms(1) True by (simp add: run_piece_def c run_common_def Let_def)
    qed
  next
    case False
    then have sub: "run_subsystem lm path txt h c s = Some r"
      using assms(1) by (simp add: run_piece_def c split: if_splits)
    let ?toks = "header_tokens path h"
    show ?thesis
    proof (cases "lookup_spec ?toks")
      case None
      then have "pr_sim r = push_error kUndefinedHeader (''Undefined header;'' @ txt) s"
        using sub by (auto simp: run_subsystem_def Let_def rejected_def)
      then show ?thesis using reported_codes_simps(2) by blast
    next
      case (Some ks)
      obtain k sfx where ks: "ks = (k, sfx)" by (cases ks)
      let ?a = "(s, c\<lparr>tokens := ?toks, key := k, suffixes := sfx\<rparr>)"
      obtain b where b: "execute lm ?a = Some b" "r = finished (butlast ?toks) b"
        using sub Some ks by (auto simp: run_subsystem_def Let_def)
      have "atomic ?a b" using execute_atomic [of ?a lm b] b lookup_spec_key Some ks by simp
      then show ?thesis using fin [of "snd ?a" b] b assms(2) unfailed by (simp add: finished_def)
    qed
  qed
qed

text \<open>
  C4: A rejected command changes nothing. Whenever a command ends its line, all it did to
  the simulator is to queue one error with one of the reported codes; no setting is half
  applied, whichever of the handlers rejected it.
\<close>

theorem rejected_command_changes_nothing:
  assumes "run_piece lm path txt s = Some r" "\<not> pr_continue r"
  shows "\<exists>e m. e \<in> {- 109, - 113, - 221, - 222, - 224} \<and> pr_sim r = push_error e m s"
  using piece_atomic [OF assms] by (simp add: reported_codes_def error_codes)

theorem rejected_command_changes_nothing_witness:
  "\<exists>e m. e \<in> {- 109, - 113, - 221, - 222, - 224} \<and>
     pr_sim (the (run_piece sample_libm [] ''*SRE 300'' fresh)) = push_error e m fresh"
proof -
  have "map_option pr_continue (run_piece sample_libm [] ''*SRE 300'' fresh) = Some False" by code_simp
  then obtain r where r: "run_piece sample_libm [] ''*SRE 300'' fresh = Some r" "\<not> pr_continue r" by auto
  show ?thesis using rejected_command_changes_nothing [OF r] by (simp only: r(1) option.sel)
qed



section \<open>Headers\<close>

text \<open>
  C6: The command table is unambiguous. A header selects the key \<open>k\<close> exactly when it is a
  header of \<open>k\<close>'s pattern in the declarative reading (mandatory and optional nodes, short
  or long spelling, suffixes only where the pattern allows them). The first-match order of
  the table, and the backtracking order of the matcher, never decide between two commands.
\<close>

theorem lookup_is_the_match:
  "(\<exists>sfx. lookup_spec toks = Some (k, sfx)) \<longleftrightarrow>
   (\<exists>p sfx. (k, p) \<in> set compiled_specs \<and> header_match p toks sfx)"
proof
  assume "\<exists>sfx. lookup_spec toks = Some (k, sfx)"
  then show "\<exists>p sfx. (k, p) \<in> set compiled_specs \<and> header_match p toks sfx"
    using find_spec_Some match_pattern_sound unfolding lookup_spec_def by blast
next
  assume "\<exists>p sfx. (k, p) \<in> set compiled_specs \<and> header_match p toks sfx"
  then obtain p where p: "(k, p) \<in> set compiled_specs" "match_pattern p toks [] \<noteq> None"
    using match_pattern_complete by blast
  then show "\<exists>sfx. lookup_spec toks = Some (k, sfx)" using lookup_match by blast
qed

section \<open>Measurements\<close>

text \<open>
  C7: When a measurement ends. The recursion of \<open>measure\<close> over the two efficiency
  references fails to end exactly for a function that asks for the efficiency while one of
  the two references asks for it as well; in particular it always ends before references
  are set. So \<open>CALC:POW:EFF:REF "POW:EFF",...\<close> followed by \<open>DATA? "POW:EFF"\<close>
  recurses until the stack is exhausted.
\<close>

theorem measurement_ends_iff:
  "measure_fn lm x sg f = None \<longleftrightarrow>
     asks_ratio lm x sg f \<and> (asks_ratio lm x sg (efficiency_input x) \<or> asks_ratio lm x sg (efficiency_output x))"
  by (rule measure_None_iff)

theorem measurement_ends_iff_witness:
  "measure_fn sample_libm (initial_state\<lparr>efficiency_input := ''POW:EFF'', efficiency_output := ''POW1:ACT''\<rparr>)
     default_signal ''POW:EFF'' = None"
proof -
  have "asks_ratio sample_libm (initial_state\<lparr>efficiency_input := ''POW:EFF'', efficiency_output := ''POW1:ACT''\<rparr>)
      default_signal ''POW:EFF''" by code_simp
  then show ?thesis
    using measurement_ends_iff [of sample_libm "initial_state\<lparr>efficiency_input := ''POW:EFF'', efficiency_output := ''POW1:ACT''\<rparr>"
        default_signal "''POW:EFF''"] by simp
qed

text \<open>
  C8: The status of a measurement. Whatever is measured, the status bits are one of seven
  combinations: normal, underrange, overrange, undefined, not available, capacitive power
  factor, or an undefined capacitive power factor. Underrange and overrange exclude each
  other, and neither ever accompanies an invalid value.
\<close>

theorem measurement_status_values:
  assumes "measure_fn lm x sg f = Some m"
  shows "m_status m \<in> {0, kUnderrange, kOverrange, kUndefined, kNotAvailable, kPowerFactorCapacitive,
    kPowerFactorCapacitive + kUndefined}"
  using measure_status [OF assms] by (simp add: status_ok_def status_flags)

theorem measurement_status_values_witness:
  "m_status (the (measure_fn sample_libm (st fresh) (signal fresh) ''VOLT1:AC''))
     \<in> {0, kUnderrange, kOverrange, kUndefined, kNotAvailable, kPowerFactorCapacitive,
    kPowerFactorCapacitive + kUndefined}"
proof -
  have "measure_fn sample_libm (st fresh) (signal fresh) ''VOLT1:AC'' \<noteq> None" by code_simp
  then obtain m where "measure_fn sample_libm (st fresh) (signal fresh) ''VOLT1:AC'' = Some m" by blast
  then show ?thesis using measurement_status_values by (simp only: option.sel)
qed


text \<open>C10: The event part clears on read: read twice in a row, the second answer is 0.\<close>

theorem event_clears_on_read:
  "\<exists>b. read_event reg (read_event reg a) = respond ''0'' b"
proof -
  obtain s c where a: "a = (s, c)" by (cases a)
  have zero: "to_string 0 = ''0''" by code_simp
  obtain ev s1 where l1: "latch_event reg s = (ev, s1)" by (cases "latch_event reg s")
  let ?s2 = "set_st (register_update reg (event_update (\<lambda>_. 0))) s1"
  have s1: "s1 = set_st (register_update reg (\<lambda>r. r\<lparr>event := ev,
      previous_condition := condition (st s) (signal s) reg\<rparr>)) s"
    using l1 by (auto simp: latch_event_def Let_def)
  have "fst (latch_event reg ?s2) = 0"
    by (rule latch_event_idle) (simp_all add: s1 register_of_update condition_register_update)
  then obtain s3 where l2: "latch_event reg ?s2 = (0, s3)" by (cases "latch_event reg ?s2") auto
  have "read_event reg (read_event reg a) =
      assign (register_update reg (event_update (\<lambda>_. 0))) (respond (to_string 0) (s3, c\<lparr>response := Some (to_string ev)\<rparr>))"
    by (simp add: read_event_def a l1 respond_def assign_def l2)
  also have "\<dots> = respond ''0'' (assign (register_update reg (event_update (\<lambda>_. 0)))
      (s3, c\<lparr>response := Some (to_string ev)\<rparr>))"
    using zero by (simp add: respond_def assign_def)
  finally show ?thesis ..
qed

section \<open>Data windows and ranges\<close>

text \<open>
  C11: A window is a slice. When the data queries' \<open><count>,<offset>,<sparsing>\<close> window does
  not overflow its \<open>int\<close> index, it selects every \<open>sparsing\<close>-th value from \<open>offset\<close> on, as
  many as there are or as \<open>count\<close> allows; and it never overflows while the length of the
  series and the step together fit an \<open>int\<close>.
\<close>

theorem window_is_a_slice:
  assumes "int (length source) + max sparsing 1 \<le> int_max + 1"
  shows "\<exists>vs. apply_window source count offset sparsing = Some vs \<and>
    int (length vs) = window_length (int (length source)) count (max sparsing 1) (max offset 0) 0 \<and>
    vs = map (\<lambda>j. source ! nat (max offset 0 + int j * max sparsing 1)) [0..<length vs]"
proof -
  obtain vs where "apply_window source count offset sparsing = Some vs"
    using window_loop_defined [OF assms] unfolding apply_window_def by blast
  then show ?thesis using window_loop_slice [of source count sparsing "max offset 0" 0 vs]
    by (simp add: apply_window_def)
qed

theorem window_is_a_slice_witness:
  "\<exists>vs. apply_window (replicate 32 (lit 1 1)) 3 1 4 = Some vs \<and>
    int (length vs) = window_length (int (length (replicate 32 (lit 1 1)))) 3 (max 4 1) (max 1 0) 0 \<and>
    vs = map (\<lambda>j. replicate 32 (lit 1 1) ! nat (max 1 0 + int j * max 4 1)) [0..<length vs]"
  by (rule window_is_a_slice) (simp add: int_max_def)

lemma dlt_irrefl: "\<not> dlt x x"
  by (cases x) (simp_all add: dlt_finite)

lemma snap_range_smallest:
  assumes "sorted_wrt dlt ranges"
  shows "\<forall>r \<in> set ranges. dle (dmul v (lit 999 1000)) r \<longrightarrow> \<not> dlt r (snap_range ranges v)"
    and "dle (dmul v (lit 999 1000)) (snap_range ranges v) \<or> (\<forall>r \<in> set ranges. \<not> dle (dmul v (lit 999 1000)) r)"
proof (atomize (full), cases "find (\<lambda>r. dle (dmul v (lit 999 1000)) r) ranges")
  case None
  then show "(\<forall>r \<in> set ranges. dle (dmul v (lit 999 1000)) r \<longrightarrow> \<not> dlt r (snap_range ranges v)) \<and>
      (dle (dmul v (lit 999 1000)) (snap_range ranges v) \<or> (\<forall>r \<in> set ranges. \<not> dle (dmul v (lit 999 1000)) r))"
    by (auto simp: find_None_iff)
next
  let ?P = "\<lambda>r. dle (dmul v (lit 999 1000)) r"
  case (Some r)
  then obtain i where i: "i < length ranges" "?P (ranges ! i)" "r = ranges ! i" "\<forall>j < i. \<not> ?P (ranges ! j)"
      by (auto simp: find_Some_iff)
  have "\<not> dlt (ranges ! j) (ranges ! i)" if j: "j < length ranges" "?P (ranges ! j)" for j
    proof (cases "i = j")
      case False
      then have "i < j" using i(4) j(2) by (meson linorder_neqE_nat)
      then show ?thesis using sorted_wrt_nth_less [OF assms _ j(1)] dlt_trans dlt_irrefl by blast
    qed (simp add: dlt_irrefl)
  then show "(\<forall>r \<in> set ranges. ?P r \<longrightarrow> \<not> dlt r (snap_range ranges v)) \<and>
      (?P (snap_range ranges v) \<or> (\<forall>r \<in> set ranges. \<not> ?P r))"
    using Some i by (auto simp: snap_range_def in_set_conv_nth)
qed

text \<open>
  C12: Choosing a range. A request that \<open>RANGe\<close> accepts switches autorange off and selects
  a selectable range: the smallest that holds the request (up to the 0.1 percent the source
  grants), or the largest when none does.
\<close>

theorem range_request_snaps:
  assumes "set_range is_voltage p ranges a = b" "\<not> failed (snd b)" "sorted_wrt dlt ranges" "ranges \<noteq> []"
    and "argument (snd a) 0 = Some txt" "parse_number txt = Some v"
    and "p < length (if is_voltage then voltage (st (fst a)) else current (st (fst a)))"
  shows "let c = channel_of is_voltage p (st (fst b)) in
    \<not> ch_autorange c \<and> ch_range c \<in> set ranges \<and>
    (\<forall>r \<in> set ranges. dle (dmul v (lit 999 1000)) r \<longrightarrow> \<not> dlt r (ch_range c)) \<and>
    (dle (dmul v (lit 999 1000)) (ch_range c) \<or> (\<forall>r \<in> set ranges. \<not> dle (dmul v (lit 999 1000)) r))"
proof -
  have "b = assign (channel_update is_voltage p
      (\<lambda>config. config\<lparr>ch_range := snap_range ranges v, ch_autorange := False\<rparr>)) a"
    using assms(1,2,5,6) by (auto simp: set_range_def with_parameter_def parameter_def split: if_splits)
  then have c: "channel_of is_voltage p (st (fst b)) =
      (channel_of is_voltage p (st (fst a)))\<lparr>ch_range := snap_range ranges v, ch_autorange := False\<rparr>"
    using assms(7) by (cases is_voltage) (simp_all add: element_defs)
  show ?thesis using snap_range_smallest [OF assms(3)] snap_range_mem [OF assms(4), of v] by (simp add: c Let_def)
qed

definition range_request :: command where
  "range_request = empty_command\<lparr>key := ''VOLT#:RANG'', suffixes := [1], args := [''250'']\<rparr>"

theorem range_request_snaps_witness:
  "let c = channel_of True 1 (st (fst (set_range True 1 (voltage_ranges default_options) (fresh, range_request)))) in
    \<not> ch_autorange c \<and> ch_range c \<in> set (voltage_ranges default_options) \<and>
    (\<forall>r \<in> set (voltage_ranges default_options). dle (dmul (lit 250 1) (lit 999 1000)) r \<longrightarrow> \<not> dlt r (ch_range c)) \<and>
    (dle (dmul (lit 250 1) (lit 999 1000)) (ch_range c) \<or>
     (\<forall>r \<in> set (voltage_ranges default_options). \<not> dle (dmul (lit 250 1) (lit 999 1000)) r))"
proof -
  let ?b = "set_range True 1 (voltage_ranges default_options) (fresh, range_request)"
  have "\<not> failed (snd ?b)" "sorted_wrt dlt (voltage_ranges default_options)"
    "voltage_ranges default_options \<noteq> []" "argument (snd (fresh, range_request)) 0 = Some ''250''"
    "parse_number ''250'' = Some (lit 250 1)"
    "1 < length (if True then voltage (st (fst (fresh, range_request))) else current (st (fst (fresh, range_request))))"
    by code_simp+
  then show ?thesis by (rule range_request_snaps [OF refl])
qed

end
