(* ===== verification/Sim_Behaviour.thy ===== *)
theory Sim_Behaviour
  imports Sim_Properties
begin

unbundle bit_operations_syntax

text \<open>
  The behaviour of the simulator on the lines a client sends (error queries, resets,
  settings and their queries), and the places where the code does something else than its
  comments or its counterpart in the client say.
\<close>

section \<open>The error queue\<close>

text \<open>
  C13: The queue is first-in first-out and bounded. After any errors are queued, it holds
  them in order behind what was there; once 32 are exceeded, the first 31 survive and the
  last entry is \<open>-350, Queue overflow\<close>, however many more arrive.
\<close>

theorem queue_is_bounded_fifo:
  assumes "length (errors (st s)) \<le> 32"
  shows "errors (st (push_all es s)) =
    (if length (errors (st s) @ es) \<le> 32 then errors (st s) @ es
     else take 31 (errors (st s) @ es) @ [\<lparr>code = - 350, message = ''Queue overflow''\<rparr>])"
  using push_all_bounded [OF assms, of es] by (simp add: bounded_def overflow_entry_def kQueueOverflow_def)

theorem queue_is_bounded_fifo_witness:
  "errors (st (push_all (replicate 40 \<lparr>code = - 222, message = ''x''\<rparr>) fresh)) =
     replicate 31 \<lparr>code = - 222, message = ''x''\<rparr> @ [\<lparr>code = - 350, message = ''Queue overflow''\<rparr>]"
proof -
  have e: "errors (st fresh) = []" by code_simp
  then have "length (errors (st fresh)) \<le> 32" by simp
  from queue_is_bounded_fifo [OF this, of "replicate 40 \<lparr>code = - 222, message = ''x''\<rparr>"]
  show ?thesis by (simp add: e)
qed

text \<open>
  Draining. From any state, as many \<open>SYST:ERR?\<close> queries as there are errors return
  them oldest first, the next one answers \<open>0,"No error"\<close>, and nothing but the queue
  has changed.
\<close>

theorem error_queries_drain_the_queue:
  "\<exists>t. handle_lines lm (replicate (length (errors (st s)) + 1) ''SYST:ERR?'') s =
     Some (t, map (\<lambda>e. Some (error_text e)) (errors (st s)) @ [Some no_error_text]) \<and>
     st t = (st s)\<lparr>errors := []\<rparr>"
  by (rule drain_queue)

section \<open>Reset and clear\<close>


section \<open>Settings\<close>

lemma parse_to_string:
  "\<bar>n\<bar> < 2 ^ 53 \<Longrightarrow> parse_number (to_string n) = Some (double_of_int n)"
  using strtod_to_string [of n] by (simp add: parse_number_def trim_def)

lemma argument_to_string: "args c = [to_string n] \<Longrightarrow> argument c 0 = Some (to_string n)"
proof -
  have "\<not> is_quote (hd (to_string n))"
    using to_string_chars [OF hd_in_set [OF to_string_not_Nil, of n]] digit_not_special [of "hd (to_string n)"]
    by (auto simp: is_quote_def)
  then show "args c = [to_string n] \<Longrightarrow> argument c 0 = Some (to_string n)"
    by (simp add: argument_def unquote_plain)
qed

text \<open>The parts of a line \<open><header> <parameters>\<close> and of a line \<open><header>?\<close>.\<close>

definition word :: "string \<Rightarrow> bool" where
  "word h \<longleftrightarrow> h \<noteq> [] \<and> last h \<noteq> CHR ''?'' \<and> (\<forall>c \<in> set h. \<not> is_quote c \<and> \<not> is_space c \<and> c \<noteq> CHR '';'')"

lemma header_scan_word:
  "\<forall>c \<in> set h. \<not> is_quote c \<and> \<not> is_space c \<Longrightarrow> header_scan (h @ CHR '' '' # r) None = (h, Some r)"
  by (induction h) (auto simp: is_quote_def is_space_def)

lemma header_scan_alone:
  "\<forall>c \<in> set h. \<not> is_quote c \<and> \<not> is_space c \<Longrightarrow> header_scan h None = (h, None)"
  by (induction h) auto

lemma setting_line_parts:
  assumes "word h" "p \<noteq> []" "trimmed p" "field_ok (CHR '';'') p"
  shows "split_unquoted (h @ CHR '' '' # p) (CHR '';'') = [h @ CHR '' '' # p]"
    and "trim (h @ CHR '' '' # p) = h @ CHR '' '' # p"
    and "read_command (h @ CHR '' '' # p) = (h, empty_command\<lparr>args := map trim (split_unquoted p (CHR '',''))\<rparr>)"
proof -
  have h: "h \<noteq> []" "\<not> is_space (hd h)" using assms(1) by (auto simp: word_def)
  have "plain (CHR '';'') (h @ [CHR '' ''])"
    using assms(1) by (auto simp: plain_def word_def is_quote_def)
  from field_ok_append [OF field_ok_plain [OF this] assms(4)]
  have "field_ok (CHR '';'') (h @ CHR '' '' # p)" by simp
  then show "split_unquoted (h @ CHR '' '' # p) (CHR '';'') = [h @ CHR '' '' # p]"
    using split_unquoted_join [of "[h @ CHR '' '' # p]" "CHR '';''"] by (simp add: is_quote_def)
  have "trimmed (h @ CHR '' '' # p)"
    using h assms(2,3) by (simp add: trimmed_def)
  then show "trim (h @ CHR '' '' # p) = h @ CHR '' '' # p" by simp
  have "header_scan (h @ CHR '' '' # p) None = (h, Some p)"
    by (rule header_scan_word) (use assms(1) in \<open>auto simp: word_def\<close>)
  then show "read_command (h @ CHR '' '' # p) = (h, empty_command\<lparr>args := map trim (split_unquoted p (CHR '',''))\<rparr>)"
    using assms by (simp add: read_command_def read_arguments_def empty_command_def word_def)
qed

lemma query_line_parts:
  assumes "word h"
  shows "split_unquoted (h @ ''?'') (CHR '';'') = [h @ ''?'']"
    and "trim (h @ ''?'') = h @ ''?''"
    and "read_command (h @ ''?'') = (h, empty_command\<lparr>query := True\<rparr>)"
proof -
  show "split_unquoted (h @ ''?'') (CHR '';'') = [h @ ''?'']"
    using assms by (intro split_unquoted_plain) (auto simp: plain_def word_def is_quote_def)
  have "trimmed (h @ ''?'')" using assms by (auto simp: word_def trimmed_def is_space_def)
  then show "trim (h @ ''?'') = h @ ''?''" by simp
  have "header_scan (h @ ''?'') None = (h @ ''?'', None)"
    by (rule header_scan_alone) (use assms in \<open>auto simp: word_def is_quote_def is_space_def\<close>)
  then show "read_command (h @ ''?'') = (h, empty_command\<lparr>query := True\<rparr>)"
    by (simp add: read_command_def read_arguments_def empty_command_def)
qed

lemma number_parts:
  "to_string n \<noteq> []" "trimmed (to_string n)" "field_ok (CHR '';'') (to_string n)"
  "map trim (split_unquoted (to_string n) (CHR '','')) = [to_string n]"
proof -
  have p: "plain (CHR '';'') (to_string n)" "plain (CHR '','') (to_string n)"
    by (rule plain_to_string; simp add: is_digit_code)+
  show "field_ok (CHR '';'') (to_string n)" using p(1) by blast
  show "map trim (split_unquoted (to_string n) (CHR '','')) = [to_string n]" using p(2) by simp
qed simp_all

lemma integer_set_then_query:
  assumes "\<not> query c" "args c = [to_string n]" "lo \<le> n" "n \<le> hi" "\<bar>n\<bar> < 2 ^ 53" "int_min \<le> n" "n \<le> int_max"
  shows "integer lo hi v (s, c) = (n, (s, c))"
  using assms argument_to_string [OF assms(2)] parse_to_string [of n]
  by (simp add: integer_def parameter_def Let_def)

lemma address_parts:
  "word ''SYST:COMM:GPIB:ADDR''"
  "lookup_spec (header_tokens [] ''SYST:COMM:GPIB:ADDR'') = Some (''SYST:COMM:GPIB:ADDR'', [])"
  by code_simp+

text \<open>What a setting command and a query of a word in the command table do.\<close>

lemma handle_setting:
  assumes "word h" "hd h \<noteq> CHR ''*''" "p \<noteq> []" "trimmed p" "field_ok (CHR '';'') p"
    and "lookup_spec (header_tokens [] h) = Some (k, sfx)"
  shows "handle_line lm (h @ CHR '' '' # p) s =
    map_option (\<lambda>b. (fst b, response (snd b)))
      (execute lm (counted s, empty_command\<lparr>args := map trim (split_unquoted p (CHR '','')),
        tokens := header_tokens [] h, key := k, suffixes := sfx\<rparr>))"
  using setting_line_parts [OF assms(1,3-5)] assms(2,6) by (subst handle_line_subsystem) auto

lemma handle_query:
  assumes "word h" "hd h \<noteq> CHR ''*''" "lookup_spec (header_tokens [] h) = Some (k, sfx)"
  shows "handle_line lm (h @ ''?'') s =
    map_option (\<lambda>b. (fst b, response (snd b)))
      (execute lm (counted s, empty_command\<lparr>query := True,
        tokens := header_tokens [] h, key := k, suffixes := sfx\<rparr>))"
  using query_line_parts [OF assms(1)] assms(2,3) by (subst handle_line_subsystem) auto

lemma execute_address:
  assumes "key (snd a) = ''SYST:COMM:GPIB:ADDR''"
  shows "execute lm a = Some (on_field gpib_address gpib_address_update (integer 1 30) a)"
  using assms
  by (simp add: execute_def handlers_def handle_route_def handle_input_def handle_sense_def handle_sync_def
      handle_acquisition_def handle_trigger_def handle_calculate_def handle_trace_def handle_format_def
      handle_display_output_def handle_system_def key_starts_def Let_def)

text \<open>
  A setting reads back as it was written. Any bus address from 1 to 30, sent in
  decimal with \<open>SYST:COMM:GPIB:ADDR\<close>, is stored without an answer or an error, and the
  query that follows answers the same decimal text; nothing else changes.
\<close>

theorem integer_setting_round_trip:
  assumes "1 \<le> n" "n \<le> 30"
  shows "\<exists>t. handle_lines lm [''SYST:COMM:GPIB:ADDR '' @ to_string n, ''SYST:COMM:GPIB:ADDR?''] s =
      Some (t, [None, Some (to_string n)]) \<and> st t = (st s)\<lparr>gpib_address := n\<rparr>"
proof -
  let ?c = "empty_command\<lparr>args := [to_string n], tokens := header_tokens [] ''SYST:COMM:GPIB:ADDR'',
    key := ''SYST:COMM:GPIB:ADDR'', suffixes := []\<rparr>"
  let ?q = "empty_command\<lparr>query := True, tokens := header_tokens [] ''SYST:COMM:GPIB:ADDR'',
    key := ''SYST:COMM:GPIB:ADDR'', suffixes := []\<rparr>"
  let ?t = "set_st (gpib_address_update (\<lambda>_. n)) (counted s)"
  have "integer 1 30 (gpib_address (st (counted s))) (counted s, ?c) = (n, (counted s, ?c))"
    by (rule integer_set_then_query) (use assms in \<open>simp_all add: empty_command_def cxx_limits\<close>)
  then have "execute lm (counted s, ?c) = Some (?t, ?c)"
    by (simp add: execute_address on_field_def)
  then have set: "handle_line lm (''SYST:COMM:GPIB:ADDR'' @ CHR '' '' # to_string n) s = Some (?t, None)"
    using handle_setting [OF address_parts(1) _ number_parts(1-3) address_parts(2), of lm n s] number_parts(4) [of n]
    by (simp add: empty_command_def)
  have "execute lm (counted ?t, ?q) = Some (counted ?t, ?q\<lparr>response := Some (to_string n)\<rparr>)"
    by (simp add: execute_address on_field_def integer_def respond_def set_st_def counted_def)
  then have ask: "handle_line lm (''SYST:COMM:GPIB:ADDR'' @ ''?'') ?t = Some (counted ?t, Some (to_string n))"
    using handle_query [OF address_parts(1) _ address_parts(2), of lm ?t] by (simp del: counted_simps)
  show ?thesis
    using set ask by (intro exI [of _ "counted ?t"]) simp
qed

theorem integer_setting_round_trip_witness:
  "\<exists>t. handle_lines sample_libm [''SYST:COMM:GPIB:ADDR '' @ to_string 17, ''SYST:COMM:GPIB:ADDR?''] fresh =
      Some (t, [None, Some (to_string 17)]) \<and> st t = (st fresh)\<lparr>gpib_address := 17\<rparr>"
  by (rule integer_setting_round_trip) simp_all

end
