(* ===== verification/Sim_Findings.thy ===== *)
theory Sim_Findings
  imports Sim_Behaviour
begin

text \<open>
  Concrete runs of the simulator that show where the code does something else than its
  comments, its README or its counterpart in the client say. Each theorem is one input and
  what the code does with it.
\<close>

definition run_lines :: "string list \<Rightarrow> (simulator \<times> string option list) option" where
  "run_lines ls = handle_lines sample_libm ls fresh"

definition answers :: "string list \<Rightarrow> string option list option" where
  "answers ls = map_option snd (run_lines ls)"

text \<open>
  \<open>Access::integer\<close> narrows the rounded value to \<open>int\<close> before it checks the limits, so a
  value of 2^32 + 5 passes as 5.
\<close>

theorem huge_integer_is_accepted:
  "answers [''SYST:COMM:GPIB:ADDR 4294967301'', ''SYST:COMM:GPIB:ADDR?'', ''SYST:ERR?''] =
     Some [None, Some ''5'', Some no_error_text]"
  by code_simp

text \<open>\<open>Access::number\<close> compares with the limits in a way that lets a NaN through.\<close>

theorem nan_is_accepted:
  "answers [''SENS:APER NAN'', ''SENS:APER?'', ''SYST:ERR?''] = Some [None, Some ''nan'', Some no_error_text]"
  by code_simp

text \<open>
  Parameters beyond the first are ignored, where the README lists \<open>-108, Parameter not
  allowed\<close> among the errors raised (and the manual gives \<open>*SRE 2,1\<close> as its example).
\<close>

theorem extra_parameters_are_ignored:
  "answers [''*SRE 2,1'', ''*SRE?'', ''SYST:ERR?''] = Some [None, Some ''2'', Some no_error_text]"
  by code_simp

text \<open>
  The length of \<open>FORM ASC,<length>\<close> is not limited; beyond 56 digits the exponent does not
  fit the buffer of 64 bytes, and the response is a number without its exponent.
\<close>

theorem long_format_loses_exponent:
  "format_value (initial_state\<lparr>data_format := \<lparr>fmt_format = Ascii, fmt_length = 70\<rparr>\<rparr>) (lit 1000 1) =
     ''+1.'' @ replicate 60 (CHR ''0'')"
  by code_simp

text \<open>A sparsing of \<open>INT_MAX\<close> overflows the \<open>int\<close> index of the window loop.\<close>

theorem sparsing_overflows:
  "apply_window (replicate 32 dzero) 0 1 2147483647 = None"
  by code_simp

text \<open>A year is not checked before it is converted to \<open>int\<close>.\<close>

theorem huge_year_is_undefined:
  "run_lines [''SYST:DATE 1E30,1,1''] = None"
  by code_simp

end
