(* ===== verification/Keywords.thy ===== *)
theory Keywords
  imports Cxx_Errors
begin

text \<open>
  The character data of the command set (\<open>module/src/scpi_keywords.cpp\<close>): every
  enumeration is written in its short form and read in the short or long form, in any
  casing and with any white space around it. \<open>keyword_codec\<close> is the contract of one such
  pair; all twelve pairs of the code are interpretations of it.
\<close>

definition unexpected :: "string \<Rightarrow> string \<Rightarrow> cxx_error + 'a" where
  "unexpected what txt = Inl (ProtocolError (''unexpected '' @ what @ '' response: '' @ quote txt))"

definition matches :: "string \<Rightarrow> string list \<Rightarrow> bool" where
  "matches value spellings \<longleftrightarrow> value \<in> set spellings"

definition normalize_keyword :: "string \<Rightarrow> string" where
  "normalize_keyword txt = upper (trim txt)"

section \<open>Setting commands: always the short form\<close>

definition to_scpi_coupling :: "coupling \<Rightarrow> string" where
  "to_scpi_coupling k = (case k of AC \<Rightarrow> ''AC'' | DC \<Rightarrow> ''DC'')"

definition to_scpi_shunt :: "shunt \<Rightarrow> string" where
  "to_scpi_shunt k = (case k of External \<Rightarrow> ''EXT'' | Internal \<Rightarrow> ''INT'')"

definition to_scpi_slope :: "slope \<Rightarrow> string" where
  "to_scpi_slope k = (case k of Negative \<Rightarrow> ''NEG'' | Positive \<Rightarrow> ''POS'')"

definition to_scpi_level_unit :: "level_unit \<Rightarrow> string" where
  "to_scpi_level_unit k = (case k of Percent \<Rightarrow> ''PCT'' | Absolute \<Rightarrow> ''ABS'')"

definition to_scpi_data_format :: "data_format \<Rightarrow> string" where
  "to_scpi_data_format k = (case k of Integer \<Rightarrow> ''INT'' | Real \<Rightarrow> ''REAL'' | Ascii \<Rightarrow> ''ASC'')"

definition to_scpi_byte_order :: "byte_order \<Rightarrow> string" where
  "to_scpi_byte_order k = (case k of Swapped \<Rightarrow> ''SWAP'' | Normal \<Rightarrow> ''NORM'')"

definition to_scpi_key_lock :: "key_lock \<Rightarrow> string" where
  "to_scpi_key_lock k = (case k of KeyOn \<Rightarrow> ''ON'' | KeyRemote \<Rightarrow> ''REM'' | KeyOff \<Rightarrow> ''OFF'')"

definition to_scpi_transform_mode :: "transform_mode \<Rightarrow> string" where
  "to_scpi_transform_mode k = (case k of Dft \<Rightarrow> ''DFT'' | Std \<Rightarrow> ''STD'' | Fft \<Rightarrow> ''FFT'')"

definition to_scpi_harmonic_grouping :: "harmonic_grouping \<Rightarrow> string" where
  "to_scpi_harmonic_grouping k = (case k of Harmonic \<Rightarrow> ''HARM'' | HGroup \<Rightarrow> ''HGR'' | HSGroup \<Rightarrow> ''HSGR''
     | ISGroup \<Rightarrow> ''ISGR'' | SGroup \<Rightarrow> ''SGR'' | Component \<Rightarrow> ''COMP'')"

definition to_scpi_power_correction :: "power_correction \<Rightarrow> string" where
  "to_scpi_power_correction k = (case k of Delta \<Rightarrow> ''DELT'' | Star \<Rightarrow> ''STAR'')"

definition to_scpi_integral_start :: "integral_start_source \<Rightarrow> string" where
  "to_scpi_integral_start k = (case k of StartTime \<Rightarrow> ''TIME'' | StartManual \<Rightarrow> ''MAN'' | StartCommand \<Rightarrow> ''CMD'')"

definition to_scpi_integral_stop :: "integral_stop_source \<Rightarrow> string" where
  "to_scpi_integral_stop k = (case k of StopTime \<Rightarrow> ''TIME'' | StopManual \<Rightarrow> ''MAN'' | StopTimeInterval \<Rightarrow> ''TINT''
     | StopCommand \<Rightarrow> ''CMD'')"

section \<open>Query parsing: short form, long form, any casing\<close>

definition parse_coupling :: "string \<Rightarrow> cxx_error + coupling" where
  "parse_coupling txt = (let value = normalize_keyword txt in
     if value = ''AC'' then Inr AC
     else if value = ''DC'' then Inr DC
     else unexpected ''INPut:COUPling?'' txt)"

definition parse_shunt :: "string \<Rightarrow> cxx_error + shunt" where
  "parse_shunt txt = (let value = normalize_keyword txt in
     if matches value [''INT'', ''INTERNAL''] then Inr Internal
     else if matches value [''EXT'', ''EXTERNAL''] then Inr External
     else unexpected ''INPut:SHUNt?'' txt)"

definition parse_slope :: "string \<Rightarrow> cxx_error + slope" where
  "parse_slope txt = (let value = normalize_keyword txt in
     if matches value [''POS'', ''POSITIVE''] then Inr Positive
     else if matches value [''NEG'', ''NEGATIVE''] then Inr Negative
     else unexpected ''SLOPe?'' txt)"

definition parse_level_unit :: "string \<Rightarrow> cxx_error + level_unit" where
  "parse_level_unit txt = (let value = normalize_keyword txt in
     if matches value [''ABS'', ''ABSOLUTE''] then Inr Absolute
     else if matches value [''PCT'', ''PERCENT''] then Inr Percent
     else unexpected ''SYNC:LEVel:UNIT?'' txt)"

definition parse_data_format :: "string \<Rightarrow> cxx_error + data_format" where
  "parse_data_format txt = (let value = normalize_keyword txt in
     if matches value [''ASC'', ''ASCII''] then Inr Ascii
     else if matches value [''INT'', ''INTEGER''] then Inr Integer
     else if value = ''REAL'' then Inr Real
     else unexpected ''FORMat?'' txt)"

definition parse_byte_order :: "string \<Rightarrow> cxx_error + byte_order" where
  "parse_byte_order txt = (let value = normalize_keyword txt in
     if matches value [''NORM'', ''NORMAL''] then Inr Normal
     else if matches value [''SWAP'', ''SWAPPED''] then Inr Swapped
     else unexpected ''FORMat:BORDer?'' txt)"

definition parse_key_lock :: "string \<Rightarrow> cxx_error + key_lock" where
  "parse_key_lock txt = (let value = normalize_keyword txt in
     if matches value [''ON'', ''1''] then Inr KeyOn
     else if matches value [''OFF'', ''0''] then Inr KeyOff
     else if matches value [''REM'', ''REMOTE''] then Inr KeyRemote
     else unexpected ''SYSTem:KLOCk?'' txt)"

definition parse_transform_mode :: "string \<Rightarrow> cxx_error + transform_mode" where
  "parse_transform_mode txt = (let value = normalize_keyword txt in
     if value = ''FFT'' then Inr Fft
     else if value = ''DFT'' then Inr Dft
     else if value = ''STD'' then Inr Std
     else unexpected ''CALCulate:TRANsform:FREQuency:MODE?'' txt)"

definition parse_harmonic_grouping :: "string \<Rightarrow> cxx_error + harmonic_grouping" where
  "parse_harmonic_grouping txt = (let value = normalize_keyword txt in
     if matches value [''COMP'', ''COMPONENT''] then Inr Component
     else if matches value [''HARM'', ''HARMONIC''] then Inr Harmonic
     else if matches value [''HGR'', ''HGROUP''] then Inr HGroup
     else if matches value [''HSGR'', ''HSGROUP''] then Inr HSGroup
     else if matches value [''ISGR'', ''ISGROUP''] then Inr ISGroup
     else if matches value [''SGR'', ''SGROUP''] then Inr SGroup
     else unexpected ''CALCulate:TRANsform:FREQuency:GROuping?'' txt)"

definition parse_power_correction :: "string \<Rightarrow> cxx_error + power_correction" where
  "parse_power_correction txt = (let value = normalize_keyword txt in
     if value = ''STAR'' then Inr Star
     else if matches value [''DELT'', ''DELTA''] then Inr Delta
     else unexpected ''CALCulate:POWer:CORRected?'' txt)"

definition parse_integral_start :: "string \<Rightarrow> cxx_error + integral_start_source" where
  "parse_integral_start txt = (let value = normalize_keyword txt in
     if value = ''CMD'' then Inr StartCommand
     else if value = ''TIME'' then Inr StartTime
     else if matches value [''MAN'', ''MANUAL''] then Inr StartManual
     else unexpected ''CALCulate:INTegral:STARt:SOURce?'' txt)"

definition parse_integral_stop :: "string \<Rightarrow> cxx_error + integral_stop_source" where
  "parse_integral_stop txt = (let value = normalize_keyword txt in
     if value = ''CMD'' then Inr StopCommand
     else if value = ''TIME'' then Inr StopTime
     else if matches value [''MAN'', ''MANUAL''] then Inr StopManual
     else if matches value [''TINT'', ''TINTERVAL''] then Inr StopTimeInterval
     else unexpected ''CALCulate:INTegral:STOP:SOURce?'' txt)"

section \<open>The contract of a keyword\<close>

lemma trim_padded:
  assumes "\<forall>c \<in> set ws. is_space c" shows "trim (s @ ws) = trim s"
proof (cases "\<forall>c \<in> set s. is_space c")
  case True
  then have "dropWhile is_space (s @ ws) = []" "dropWhile is_space s = []"
    using assms by (auto simp: dropWhile_eq_Nil_conv)
  then show ?thesis by (simp only: trim_def)
next
  case False
  then obtain c where c: "c \<in> set s" "\<not> is_space c" by blast
  have "dropWhile is_space (s @ ws) = dropWhile is_space s @ ws"
    using c by (rule dropWhile_append1)
  moreover have "dropWhile is_space (rev ws @ r) = dropWhile is_space r" for r
    using assms by (intro dropWhile_append2) simp
  ultimately show ?thesis by (simp add: trim_def)
qed

locale keyword_codec =
  fixes print :: "'k \<Rightarrow> string"
    and parse :: "string \<Rightarrow> cxx_error + 'k"
  assumes parse_print: "parse (print k) = Inr k"
    and parse_normal: "normalize_keyword t = normalize_keyword u \<Longrightarrow> parse t = Inr k \<Longrightarrow> parse u = Inr k"
    and parse_error: "parse t = Inl e \<Longrightarrow> \<exists>what. e = ProtocolError (''unexpected '' @ what @ '' response: '' @ quote t)"
begin

lemma print_inj: "print k = print l \<Longrightarrow> k = l"
  by (metis parse_print sum.inject(2))

text \<open>Casing and surrounding white space never matter.\<close>

lemma parse_variant: "normalize_keyword (print k) = normalize_keyword t \<Longrightarrow> parse t = Inr k"
  by (rule parse_normal [OF _ parse_print])

lemma parse_padded: "\<forall>c \<in> set ws. is_space c \<Longrightarrow> parse (print k @ ws) = Inr k"
  by (intro parse_variant) (simp add: normalize_keyword_def trim_padded)

lemma parse_any_case: "upper t = upper (print k) \<Longrightarrow> parse t = Inr k"
  by (rule parse_variant) (metis normalize_keyword_def trim_upper)

end

named_theorems keyword_defs "printing and parsing of the keywords"

lemmas [keyword_defs] = unexpected_def matches_def
lemmas [keyword_defs] = to_scpi_coupling_def parse_coupling_def
lemmas [keyword_defs] = to_scpi_shunt_def parse_shunt_def
lemmas [keyword_defs] = to_scpi_slope_def parse_slope_def
lemmas [keyword_defs] = to_scpi_level_unit_def parse_level_unit_def
lemmas [keyword_defs] = to_scpi_data_format_def parse_data_format_def
lemmas [keyword_defs] = to_scpi_byte_order_def parse_byte_order_def
lemmas [keyword_defs] = to_scpi_key_lock_def parse_key_lock_def
lemmas [keyword_defs] = to_scpi_transform_mode_def parse_transform_mode_def
lemmas [keyword_defs] = to_scpi_harmonic_grouping_def parse_harmonic_grouping_def
lemmas [keyword_defs] = to_scpi_power_correction_def parse_power_correction_def
lemmas [keyword_defs] = to_scpi_integral_start_def parse_integral_start_def
lemmas [keyword_defs] = to_scpi_integral_stop_def parse_integral_stop_def

text \<open>Normalising a printed keyword changes nothing.\<close>

lemma normal_words:
  "normalize_keyword ''ABS'' = ''ABS''"
  "normalize_keyword ''AC'' = ''AC''"
  "normalize_keyword ''ASC'' = ''ASC''"
  "normalize_keyword ''CMD'' = ''CMD''"
  "normalize_keyword ''COMP'' = ''COMP''"
  "normalize_keyword ''DC'' = ''DC''"
  "normalize_keyword ''DELT'' = ''DELT''"
  "normalize_keyword ''DFT'' = ''DFT''"
  "normalize_keyword ''EXT'' = ''EXT''"
  "normalize_keyword ''FFT'' = ''FFT''"
  "normalize_keyword ''HARM'' = ''HARM''"
  "normalize_keyword ''HGR'' = ''HGR''"
  "normalize_keyword ''HSGR'' = ''HSGR''"
  "normalize_keyword ''INT'' = ''INT''"
  "normalize_keyword ''ISGR'' = ''ISGR''"
  "normalize_keyword ''MAN'' = ''MAN''"
  "normalize_keyword ''NEG'' = ''NEG''"
  "normalize_keyword ''NORM'' = ''NORM''"
  "normalize_keyword ''OFF'' = ''OFF''"
  "normalize_keyword ''ON'' = ''ON''"
  "normalize_keyword ''PCT'' = ''PCT''"
  "normalize_keyword ''POS'' = ''POS''"
  "normalize_keyword ''REAL'' = ''REAL''"
  "normalize_keyword ''REM'' = ''REM''"
  "normalize_keyword ''SGR'' = ''SGR''"
  "normalize_keyword ''STAR'' = ''STAR''"
  "normalize_keyword ''STD'' = ''STD''"
  "normalize_keyword ''SWAP'' = ''SWAP''"
  "normalize_keyword ''TIME'' = ''TIME''"
  "normalize_keyword ''TINT'' = ''TINT''"
  by code_simp+

interpretation coupling_keyword: keyword_codec to_scpi_coupling parse_coupling
proof
  fix k show "parse_coupling (to_scpi_coupling k) = Inr k"
    by (cases k) (simp_all add: keyword_defs normal_words Let_def)
qed (auto simp: keyword_defs Let_def split: if_splits)

interpretation shunt_keyword: keyword_codec to_scpi_shunt parse_shunt
proof
  fix k show "parse_shunt (to_scpi_shunt k) = Inr k"
    by (cases k) (simp_all add: keyword_defs normal_words Let_def)
qed (auto simp: keyword_defs Let_def split: if_splits)

interpretation slope_keyword: keyword_codec to_scpi_slope parse_slope
proof
  fix k show "parse_slope (to_scpi_slope k) = Inr k"
    by (cases k) (simp_all add: keyword_defs normal_words Let_def)
qed (auto simp: keyword_defs Let_def split: if_splits)

interpretation level_unit_keyword: keyword_codec to_scpi_level_unit parse_level_unit
proof
  fix k show "parse_level_unit (to_scpi_level_unit k) = Inr k"
    by (cases k) (simp_all add: keyword_defs normal_words Let_def)
qed (auto simp: keyword_defs Let_def split: if_splits)

interpretation data_format_keyword: keyword_codec to_scpi_data_format parse_data_format
proof
  fix k show "parse_data_format (to_scpi_data_format k) = Inr k"
    by (cases k) (simp_all add: keyword_defs normal_words Let_def)
qed (auto simp: keyword_defs Let_def split: if_splits)

interpretation byte_order_keyword: keyword_codec to_scpi_byte_order parse_byte_order
proof
  fix k show "parse_byte_order (to_scpi_byte_order k) = Inr k"
    by (cases k) (simp_all add: keyword_defs normal_words Let_def)
qed (auto simp: keyword_defs Let_def split: if_splits)

interpretation key_lock_keyword: keyword_codec to_scpi_key_lock parse_key_lock
proof
  fix k show "parse_key_lock (to_scpi_key_lock k) = Inr k"
    by (cases k) (simp_all add: keyword_defs normal_words Let_def)
qed (auto simp: keyword_defs Let_def split: if_splits)

interpretation transform_mode_keyword: keyword_codec to_scpi_transform_mode parse_transform_mode
proof
  fix k show "parse_transform_mode (to_scpi_transform_mode k) = Inr k"
    by (cases k) (simp_all add: keyword_defs normal_words Let_def)
qed (auto simp: keyword_defs Let_def split: if_splits)

interpretation harmonic_grouping_keyword: keyword_codec to_scpi_harmonic_grouping parse_harmonic_grouping
proof
  fix k show "parse_harmonic_grouping (to_scpi_harmonic_grouping k) = Inr k"
    by (cases k) (simp_all add: keyword_defs normal_words Let_def)
qed (auto simp: keyword_defs Let_def split: if_splits)

interpretation power_correction_keyword: keyword_codec to_scpi_power_correction parse_power_correction
proof
  fix k show "parse_power_correction (to_scpi_power_correction k) = Inr k"
    by (cases k) (simp_all add: keyword_defs normal_words Let_def)
qed (auto simp: keyword_defs Let_def split: if_splits)

interpretation integral_start_keyword: keyword_codec to_scpi_integral_start parse_integral_start
proof
  fix k show "parse_integral_start (to_scpi_integral_start k) = Inr k"
    by (cases k) (simp_all add: keyword_defs normal_words Let_def)
qed (auto simp: keyword_defs Let_def split: if_splits)

interpretation integral_stop_keyword: keyword_codec to_scpi_integral_stop parse_integral_stop
proof
  fix k show "parse_integral_stop (to_scpi_integral_stop k) = Inr k"
    by (cases k) (simp_all add: keyword_defs normal_words Let_def)
qed (auto simp: keyword_defs Let_def split: if_splits)

end
