(* ===== verification/Client_Session.thy ===== *)
theory Client_Session
  imports Sim_Transport Sim_Findings Keywords
begin

text \<open>
  Client and simulator together: what \<open>ScpiClient\<close> does over a \<open>SimulatorTransport\<close>. The
  contracts proved for any transport are used at the simulator's own one.
\<close>

section \<open>The simulator as a device with an error queue\<close>

definition without_errors :: "simulator \<Rightarrow> simulator_state \<times> simulator_options \<times> simulated_signal" where
  "without_errors s = ((st s)\<lparr>errors := []\<rparr>, opts s, signal s)"

lemma entry_text_error_text: "error_text e = entry_text (code e) (message e)"
  by (simp add: error_text_def entry_text_def)

lemma no_error_entry: "no_error_text = entry_text 0 ''No error''"
  by code_simp

interpretation sim_errors: error_device "sim_transport lm" sim_ready responses unit_under_test "handle_line lm"
    "\<lambda>s. errors (st s)" without_errors for lm
proof
  fix d :: simulator and e es
  assume "errors (st d) = e # es"
  then show "\<exists>d'. handle_line lm ''SYST:ERR?'' d = Some (d', Some (entry_text (code e) (message e))) \<and>
      errors (st d') = es \<and> without_errors d' = without_errors d"
    by (simp add: handle_error_query entry_text_error_text without_errors_def)
next
  fix d :: simulator
  assume "errors (st d) = []"
  then show "\<exists>d' m. handle_line lm ''SYST:ERR?'' d = Some (d', Some (entry_text 0 m)) \<and>
      errors (st d') = [] \<and> without_errors d' = without_errors d"
    by (auto simp: handle_error_query no_error_entry without_errors_def)
qed

end
