(* ===== verification/Instrument.thy ===== *)
theory Instrument
  imports Scpi_Client Keywords
begin

text \<open>
  \<open>NormaInstrument\<close>, first part (\<open>module/src/instrument.cpp\<close>): lifecycle, the IEEE 488.2
  common commands, the status registers and the errors. The instrument's state is its
  client's; \<open>norma_x\<close> is the member function \<open>x\<close>. An argument the library rejects is an
  \<open>InvalidArgument\<close> thrown before anything is sent.
\<close>

section \<open>Shared private helpers\<close>

text \<open>\<open>check_phase\<close> and \<open>check_channel\<close> throw before anything is sent.\<close>

definition phase_error :: "int \<Rightarrow> cxx_error" where
  "phase_error phase = InvalidArgument (''phase must be 1..'' @ to_string kMaxPhase @ '', got '' @ to_string phase)"

definition channel_error :: "int \<Rightarrow> cxx_error" where
  "channel_error channel = InvalidArgument (''input channel must be 1..'' @ to_string kMaxInputChannel @ '', got '' @ to_string channel)"

definition check_phase :: "int \<Rightarrow> ('s, 'a) io \<Rightarrow> ('s, 'a) io" where
  "check_phase phase m = require (\<not> (phase < 1 \<or> kMaxPhase < phase)) (phase_error phase) m"

definition check_channel :: "int \<Rightarrow> ('s, 'a) io \<Rightarrow> ('s, 'a) io" where
  "check_channel channel m = require (\<not> (channel < 1 \<or> kMaxInputChannel < channel)) (channel_error channel) m"

text \<open>\<open>sense_node\<close> is called for its text, after its check.\<close>

definition sense_node :: "string \<Rightarrow> int \<Rightarrow> (string \<Rightarrow> ('s, 'a) io) \<Rightarrow> ('s, 'a) io" where
  "sense_node base phase m = check_phase phase (m (base @ to_string phase))"

definition data_arguments :: "int \<Rightarrow> int \<Rightarrow> int \<Rightarrow> string" where
  "data_arguments count offset sparsing =
     (if count \<le> 0 then []
      else '' '' @ to_string count @
        (if 0 < offset \<or> 0 < sparsing then '','' @ to_string offset else []) @
        (if 0 < sparsing then '','' @ to_string sparsing else []))"

section \<open>Raw SCPI\<close>

definition norma_write :: "'t transport \<Rightarrow> string \<Rightarrow> ('t client, unit) io" where
  "norma_write tr scpi = send tr scpi"

definition norma_query :: "'t transport \<Rightarrow> string \<Rightarrow> ('t client, string) io" where
  "norma_query tr scpi = query_line tr scpi"

section \<open>Lifecycle, timeout\<close>

definition norma_close :: "'t transport \<Rightarrow> ('t client, unit) io" where
  "norma_close tr = client_close tr"

definition norma_set_timeout :: "'t transport \<Rightarrow> int \<Rightarrow> ('t client, unit) io" where
  "norma_set_timeout tr ms = set_default_timeout ms"

section \<open>IEEE 488.2 common commands\<close>

text \<open>Fields beyond the end of the response leave their part of the identification empty.\<close>

definition field_at :: "string list \<Rightarrow> nat \<Rightarrow> string" where
  "field_at fs i = (if i < length fs then unquote (fs ! i) else [])"

definition parse_identification :: "string \<Rightarrow> identification" where
  "parse_identification line = (let fs = split_csv line in
     \<lparr>manufacturer = field_at fs 0, model = field_at fs 1, serial_number = field_at fs 2,
      firmware_version = field_at fs 3\<rparr>)"

definition norma_identify :: "'t transport \<Rightarrow> ('t client, identification) io" where
  "norma_identify tr = parsed (\<lambda>line. Inr (parse_identification line)) (query_line tr ''*IDN?'')"

definition norma_reset :: "'t transport \<Rightarrow> ('t client, unit) io" where
  "norma_reset tr = send tr ''*RST''"

definition norma_clear_status :: "'t transport \<Rightarrow> ('t client, unit) io" where
  "norma_clear_status tr = send tr ''*CLS''"

definition norma_options :: "'t transport \<Rightarrow> ('t client, string) io" where
  "norma_options tr = query_line tr ''*OPT?''"

definition norma_learn :: "'t transport \<Rightarrow> ('t client, string) io" where
  "norma_learn tr = query_line tr ''*LRN?''"

definition check_complete :: "string \<Rightarrow> cxx_error + unit" where
  "check_complete response =
     (if response \<noteq> ''1'' then Inl (ProtocolError (''unexpected *OPC? response: '' @ quote response)) else Inr ())"

definition norma_wait_operation_complete :: "'t transport \<Rightarrow> int \<Rightarrow> ('t client, unit) io" where
  "norma_wait_operation_complete tr timeout = parsed check_complete (query_within tr ''*OPC?'' timeout)"

definition norma_set_operation_complete_flag :: "'t transport \<Rightarrow> ('t client, unit) io" where
  "norma_set_operation_complete_flag tr = send tr ''*OPC''"

definition norma_wait_pending_operations :: "'t transport \<Rightarrow> ('t client, unit) io" where
  "norma_wait_pending_operations tr = send tr ''*WAI''"

definition norma_trigger :: "'t transport \<Rightarrow> ('t client, unit) io" where
  "norma_trigger tr = send tr ''*TRG''"

definition norma_set_event_status_enable :: "'t transport \<Rightarrow> int \<Rightarrow> ('t client, unit) io" where
  "norma_set_event_status_enable tr msk = send tr (''*ESE '' @ to_string msk)"

definition norma_event_status_enable :: "'t transport \<Rightarrow> ('t client, int) io" where
  "norma_event_status_enable tr = query_int tr ''*ESE?''"

definition norma_event_status :: "'t transport \<Rightarrow> ('t client, int) io" where
  "norma_event_status tr = query_int tr ''*ESR?''"

definition norma_set_service_request_enable :: "'t transport \<Rightarrow> int \<Rightarrow> ('t client, unit) io" where
  "norma_set_service_request_enable tr msk = send tr (''*SRE '' @ to_string msk)"

definition norma_service_request_enable :: "'t transport \<Rightarrow> ('t client, int) io" where
  "norma_service_request_enable tr = query_int tr ''*SRE?''"

definition norma_status_byte :: "'t transport \<Rightarrow> ('t client, int) io" where
  "norma_status_byte tr = query_int tr ''*STB?''"

definition norma_save_setup :: "'t transport \<Rightarrow> int \<Rightarrow> ('t client, unit) io" where
  "norma_save_setup tr slot = require (\<not> (slot < 10 \<or> 24 < slot)) (InvalidArgument (''*SAV slot must be 10..24, got '' @ to_string slot))
     (send tr (''*SAV '' @ to_string slot))"

definition norma_recall_setup :: "'t transport \<Rightarrow> int \<Rightarrow> ('t client, unit) io" where
  "norma_recall_setup tr slot = require (\<not> (slot \<noteq> 1 \<and> slot \<noteq> 2 \<and> (slot < 10 \<or> 24 < slot)))
     (InvalidArgument (''*RCL slot must be 1, 2 or 10..24, got '' @ to_string slot))
     (send tr (''*RCL '' @ to_string slot))"

section \<open>STATus\<close>

definition status_node :: "status_register \<Rightarrow> register_part \<Rightarrow> string" where
  "status_node reg part = ''STAT:'' @
     (case reg of Operation \<Rightarrow> ''OPER'' | Questionable \<Rightarrow> ''QUES''
      | QuestionableVoltage \<Rightarrow> ''QUES:VOLT'' | QuestionableCurrent \<Rightarrow> ''QUES:CURR'') @
     (case part of Condition \<Rightarrow> '':COND'' | Event \<Rightarrow> '':EVEN'' | Enable \<Rightarrow> '':ENAB''
      | PositiveTransition \<Rightarrow> '':PTR'' | NegativeTransition \<Rightarrow> '':NTR'')"

definition norma_status :: "'t transport \<Rightarrow> status_register \<Rightarrow> register_part \<Rightarrow> ('t client, int) io" where
  "norma_status tr reg part = query_int tr (status_node reg part @ ''?'')"

definition norma_set_status :: "'t transport \<Rightarrow> status_register \<Rightarrow> register_part \<Rightarrow> int \<Rightarrow> ('t client, unit) io" where
  "norma_set_status tr reg part msk = require (\<not> (part = Condition \<or> part = Event))
     (InvalidArgument ''the CONDition and EVENt parts of a status register are read-only'')
     (require (\<not> (msk < 0 \<or> 65535 < msk))
       (InvalidArgument (''status register mask must be 0..65535, got '' @ to_string msk))
       (send tr (status_node reg part @ '' '' @ to_string msk)))"

definition norma_status_operation_condition :: "'t transport \<Rightarrow> ('t client, int) io" where
  "norma_status_operation_condition tr = norma_status tr Operation Condition"

section \<open>Errors\<close>

definition norma_read_errors :: "'t transport \<Rightarrow> ('t client, scpi_error_info list) io" where
  "norma_read_errors tr = read_all_errors tr"

definition norma_read_errors_at_once :: "'t transport \<Rightarrow> ('t client, scpi_error_info list) io" where
  "norma_read_errors_at_once tr = parsed parse_errors (query_line tr ''SYST:ERR:ALL?'')"

definition norma_check_errors :: "'t transport \<Rightarrow> ('t client, unit) io" where
  "norma_check_errors tr = throw_if_error tr"

end
