(* ===== verification/Instrument_Config.thy ===== *)
theory Instrument_Config
  imports Instrument
begin

text \<open>
  \<open>NormaInstrument\<close>, second part (\<open>module/src/instrument_config.cpp\<close>): ROUTe, INPut,
  SENSe ranging and scaling, SYNC, FORMat, DISPlay, OUTPut, SYSTem and TIMer.
\<close>

section \<open>Formatting parameters\<close>

definition input_node :: "int \<Rightarrow> string" where
  "input_node channel = ''INP'' @ to_string channel"

text \<open>The separator is put before every value but the first; a printed integer is never empty.\<close>

definition join_ints :: "int list \<Rightarrow> string" where
  "join_ints ns = join_with '','' (map to_string ns)"

definition format_parameter :: "data_format \<Rightarrow> int \<Rightarrow> string" where
  "format_parameter format len =
     to_scpi_data_format format @ (if 0 < len then '','' @ to_string len else [])"

definition parse_format_setting :: "string \<Rightarrow> cxx_error + data_format_setting" where
  "parse_format_setting response = (case split_csv response of
     [] \<Rightarrow> Inl (ProtocolError ''empty FORMat? response'')
   | f # rest \<Rightarrow> try_result (parse_data_format f) (\<lambda>format.
       map_result (\<lambda>len. \<lparr>fmt_format = format, fmt_length = len\<rparr>)
         (case rest of [] \<Rightarrow> Inr 0 | l # _ \<Rightarrow> to_int l)))"

text \<open>\<open>std::to_string\<close> of a \<open>double\<close> is \<open>%f\<close>: six decimals.\<close>

definition double_to_string :: "double \<Rightarrow> string" where
  "double_to_string x = (case x of
     NaN \<Rightarrow> ''nan''
   | Inf s \<Rightarrow> (if s then ''-inf'' else ''inf'')
   | Fin s m e \<Rightarrow> (let d = round_half_even (\<bar>numer x\<bar> * 10 ^ 6) (denom x);
         frac = dec_digits (d mod 10 ^ 6) in
       (if s then ''-'' else []) @ dec_digits (d div 10 ^ 6) @ ''.'' @
       replicate (6 - length frac) (CHR ''0'') @ frac))"

section \<open>ROUTe\<close>

definition norma_set_wiring_system :: "'t transport \<Rightarrow> wiring_system \<Rightarrow> ('t client, unit) io" where
  "norma_set_wiring_system tr sys = send tr (if sys = TwoWattmeter then ''ROUT:SYST '' @ quote ''2W'' else ''ROUT:SYST '' @ quote ''3W'')"

definition parse_wiring_system :: "string \<Rightarrow> cxx_error + wiring_system" where
  "parse_wiring_system line = (let response = unquote line in
     if response = ''2W'' then Inr TwoWattmeter
     else if response = ''3W'' then Inr ThreeWattmeter
     else Inl (ProtocolError (''unexpected ROUT:SYST? response: '' @ quote response)))"

definition norma_wiring_system :: "'t transport \<Rightarrow> ('t client, wiring_system) io" where
  "norma_wiring_system tr = parsed parse_wiring_system (query_line tr ''ROUT:SYST?'')"

section \<open>INPut\<close>

definition norma_set_input_coupling :: "'t transport \<Rightarrow> int \<Rightarrow> coupling \<Rightarrow> ('t client, unit) io" where
  "norma_set_input_coupling tr channel c = check_channel channel (send tr (input_node channel @ '':COUP '' @ to_scpi_coupling c))"

definition norma_input_coupling :: "'t transport \<Rightarrow> int \<Rightarrow> ('t client, coupling) io" where
  "norma_input_coupling tr channel = check_channel channel (parsed parse_coupling (query_line tr (input_node channel @ '':COUP?'')))"

definition norma_set_input_gain :: "'t transport \<Rightarrow> int \<Rightarrow> double \<Rightarrow> ('t client, unit) io" where
  "norma_set_input_gain tr channel g = check_channel channel (send tr (input_node channel @ '':GAIN '' @ format_double g))"

definition norma_input_gain :: "'t transport \<Rightarrow> int \<Rightarrow> ('t client, double) io" where
  "norma_input_gain tr channel = check_channel channel (query_value tr (input_node channel @ '':GAIN?''))"

definition norma_set_input_filter :: "'t transport \<Rightarrow> int \<Rightarrow> bool \<Rightarrow> ('t client, unit) io" where
  "norma_set_input_filter tr channel on = check_channel channel (send tr (input_node channel @ '':FILT:STAT '' @ client_format_bool on))"

definition norma_input_filter :: "'t transport \<Rightarrow> int \<Rightarrow> ('t client, bool) io" where
  "norma_input_filter tr channel = check_channel channel (query_bool tr (input_node channel @ '':FILT:STAT?''))"

definition norma_input_filter_frequency :: "'t transport \<Rightarrow> int \<Rightarrow> ('t client, double) io" where
  "norma_input_filter_frequency tr channel = check_channel channel (query_value tr (input_node channel @ '':FILT:LPAS:FREQ?''))"

definition norma_set_input_shunt :: "'t transport \<Rightarrow> int \<Rightarrow> shunt \<Rightarrow> ('t client, unit) io" where
  "norma_set_input_shunt tr channel s = check_channel channel (send tr (input_node channel @ '':SHUN '' @ to_scpi_shunt s))"

definition norma_input_shunt :: "'t transport \<Rightarrow> int \<Rightarrow> ('t client, shunt) io" where
  "norma_input_shunt tr channel = check_channel channel (parsed parse_shunt (query_line tr (input_node channel @ '':SHUN?'')))"

section \<open>SENSe: ranging and scaling\<close>

definition norma_set_voltage_range :: "'t transport \<Rightarrow> int \<Rightarrow> double \<Rightarrow> ('t client, unit) io" where
  "norma_set_voltage_range tr phase volts = sense_node ''VOLT'' phase (\<lambda>node. send tr (node @ '':RANG '' @ format_double volts))"

definition norma_voltage_range :: "'t transport \<Rightarrow> int \<Rightarrow> ('t client, double) io" where
  "norma_voltage_range tr phase = sense_node ''VOLT'' phase (\<lambda>node. query_value tr (node @ '':RANG?''))"

definition norma_set_voltage_autorange :: "'t transport \<Rightarrow> int \<Rightarrow> bool \<Rightarrow> ('t client, unit) io" where
  "norma_set_voltage_autorange tr phase on = sense_node ''VOLT'' phase (\<lambda>node. send tr (node @ '':RANG:AUTO '' @ client_format_bool on))"

definition norma_voltage_autorange :: "'t transport \<Rightarrow> int \<Rightarrow> ('t client, bool) io" where
  "norma_voltage_autorange tr phase = sense_node ''VOLT'' phase (\<lambda>node. query_bool tr (node @ '':RANG:AUTO?''))"

definition norma_voltage_ranges :: "'t transport \<Rightarrow> int \<Rightarrow> ('t client, double list) io" where
  "norma_voltage_ranges tr phase = sense_node ''VOLT'' phase (\<lambda>node. query_values tr (node @ '':RANG:LIST?''))"

definition norma_set_voltage_scale :: "'t transport \<Rightarrow> int \<Rightarrow> double \<Rightarrow> ('t client, unit) io" where
  "norma_set_voltage_scale tr phase ratio = sense_node ''VOLT'' phase (\<lambda>node. send tr (node @ '':SCAL '' @ format_double ratio))"

definition norma_voltage_scale :: "'t transport \<Rightarrow> int \<Rightarrow> ('t client, double) io" where
  "norma_voltage_scale tr phase = sense_node ''VOLT'' phase (\<lambda>node. query_value tr (node @ '':SCAL?''))"

definition norma_set_current_range :: "'t transport \<Rightarrow> int \<Rightarrow> double \<Rightarrow> ('t client, unit) io" where
  "norma_set_current_range tr phase amps = sense_node ''CURR'' phase (\<lambda>node. send tr (node @ '':RANG '' @ format_double amps))"

definition norma_current_range :: "'t transport \<Rightarrow> int \<Rightarrow> ('t client, double) io" where
  "norma_current_range tr phase = sense_node ''CURR'' phase (\<lambda>node. query_value tr (node @ '':RANG?''))"

definition norma_set_current_autorange :: "'t transport \<Rightarrow> int \<Rightarrow> bool \<Rightarrow> ('t client, unit) io" where
  "norma_set_current_autorange tr phase on = sense_node ''CURR'' phase (\<lambda>node. send tr (node @ '':RANG:AUTO '' @ client_format_bool on))"

definition norma_current_autorange :: "'t transport \<Rightarrow> int \<Rightarrow> ('t client, bool) io" where
  "norma_current_autorange tr phase = sense_node ''CURR'' phase (\<lambda>node. query_bool tr (node @ '':RANG:AUTO?''))"

definition norma_current_ranges :: "'t transport \<Rightarrow> int \<Rightarrow> ('t client, double list) io" where
  "norma_current_ranges tr phase = sense_node ''CURR'' phase (\<lambda>node. query_values tr (node @ '':RANG:LIST?''))"

definition norma_set_current_scale :: "'t transport \<Rightarrow> int \<Rightarrow> double \<Rightarrow> ('t client, unit) io" where
  "norma_set_current_scale tr phase ratio = sense_node ''CURR'' phase (\<lambda>node. send tr (node @ '':SCAL '' @ format_double ratio))"

definition norma_current_scale :: "'t transport \<Rightarrow> int \<Rightarrow> ('t client, double) io" where
  "norma_current_scale tr phase = sense_node ''CURR'' phase (\<lambda>node. query_value tr (node @ '':SCAL?''))"

definition norma_set_aperture :: "'t transport \<Rightarrow> double \<Rightarrow> ('t client, unit) io" where
  "norma_set_aperture tr seconds = require (dle kMinAperture seconds \<and> dle seconds kMaxAperture)
     (InvalidArgument (''aperture must be '' @ double_to_string kMinAperture @ ''..'' @ double_to_string kMaxAperture @
        '' s, got '' @ double_to_string seconds))
     (send tr (''APER '' @ format_double seconds))"

definition norma_aperture :: "'t transport \<Rightarrow> ('t client, double) io" where
  "norma_aperture tr = query_value tr ''APER?''"

definition norma_sampling_frequency :: "'t transport \<Rightarrow> ('t client, double) io" where
  "norma_sampling_frequency tr = query_value tr ''SWE:FREQ?''"

section \<open>SYNC\<close>

definition norma_set_sync_enabled :: "'t transport \<Rightarrow> bool \<Rightarrow> ('t client, unit) io" where
  "norma_set_sync_enabled tr on = send tr (''SYNC:STAT '' @ client_format_bool on)"

definition norma_sync_enabled :: "'t transport \<Rightarrow> ('t client, bool) io" where
  "norma_sync_enabled tr = query_bool tr ''SYNC:STAT?''"

definition norma_set_sync_source :: "'t transport \<Rightarrow> string \<Rightarrow> ('t client, unit) io" where
  "norma_set_sync_source tr source = send tr (''SYNC:SOUR '' @ source)"

definition norma_sync_source :: "'t transport \<Rightarrow> ('t client, string) io" where
  "norma_sync_source tr = parsed (\<lambda>line. Inr (unquote line)) (query_line tr ''SYNC:SOUR?'')"

definition norma_sync_to_voltage :: "'t transport \<Rightarrow> int \<Rightarrow> ('t client, unit) io" where
  "norma_sync_to_voltage tr phase = check_phase phase (norma_set_sync_source tr (''VOLT'' @ to_string phase))"

definition norma_sync_to_current :: "'t transport \<Rightarrow> int \<Rightarrow> ('t client, unit) io" where
  "norma_sync_to_current tr phase = check_phase phase (norma_set_sync_source tr (''CURR'' @ to_string phase))"

definition norma_sync_external :: "'t transport \<Rightarrow> ('t client, unit) io" where
  "norma_sync_external tr = norma_set_sync_source tr ''EXT''"

definition norma_set_sync_level :: "'t transport \<Rightarrow> double \<Rightarrow> ('t client, unit) io" where
  "norma_set_sync_level tr level = send tr (''SYNC:SOUR:LEV '' @ format_double level)"

definition norma_sync_level :: "'t transport \<Rightarrow> ('t client, double) io" where
  "norma_sync_level tr = query_value tr ''SYNC:SOUR:LEV?''"

definition norma_set_sync_level_unit :: "'t transport \<Rightarrow> level_unit \<Rightarrow> ('t client, unit) io" where
  "norma_set_sync_level_unit tr unt = send tr (''SYNC:LEV:UNIT '' @ to_scpi_level_unit unt)"

definition norma_sync_level_unit :: "'t transport \<Rightarrow> ('t client, level_unit) io" where
  "norma_sync_level_unit tr = parsed parse_level_unit (query_line tr ''SYNC:LEV:UNIT?'')"

definition norma_set_sync_slope :: "'t transport \<Rightarrow> slope \<Rightarrow> ('t client, unit) io" where
  "norma_set_sync_slope tr slp = send tr (''SYNC:SOUR:SLOP '' @ to_scpi_slope slp)"

definition norma_sync_slope :: "'t transport \<Rightarrow> ('t client, slope) io" where
  "norma_sync_slope tr = parsed parse_slope (query_line tr ''SYNC:SOUR:SLOP?'')"

definition norma_set_sync_filter :: "'t transport \<Rightarrow> bool \<Rightarrow> ('t client, unit) io" where
  "norma_set_sync_filter tr on = send tr (''SYNC:SOUR:FILT:LPAS:STAT '' @ client_format_bool on)"

definition norma_sync_filter :: "'t transport \<Rightarrow> ('t client, bool) io" where
  "norma_sync_filter tr = query_bool tr ''SYNC:SOUR:FILT:LPAS:STAT?''"

definition norma_set_sync_filter_frequency :: "'t transport \<Rightarrow> double \<Rightarrow> ('t client, unit) io" where
  "norma_set_sync_filter_frequency tr hertz = send tr (''SYNC:SOUR:FILT:LPAS:FREQ '' @ format_double hertz)"

definition norma_sync_filter_frequency :: "'t transport \<Rightarrow> ('t client, double) io" where
  "norma_sync_filter_frequency tr = query_value tr ''SYNC:SOUR:FILT:LPAS:FREQ?''"

definition norma_set_sync_timeout :: "'t transport \<Rightarrow> double \<Rightarrow> ('t client, unit) io" where
  "norma_set_sync_timeout tr seconds = send tr (''SYNC:TIM '' @ format_double seconds)"

definition norma_sync_timeout :: "'t transport \<Rightarrow> ('t client, double) io" where
  "norma_sync_timeout tr = query_value tr ''SYNC:TIM?''"

section \<open>FORMat\<close>

definition norma_set_data_format :: "'t transport \<Rightarrow> data_format \<Rightarrow> int \<Rightarrow> ('t client, unit) io" where
  "norma_set_data_format tr format len = send tr (''FORM '' @ format_parameter format len)"

definition norma_data_format :: "'t transport \<Rightarrow> ('t client, data_format_setting) io" where
  "norma_data_format tr = parsed parse_format_setting (query_line tr ''FORM?'')"

definition norma_set_status_format :: "'t transport \<Rightarrow> data_format \<Rightarrow> int \<Rightarrow> ('t client, unit) io" where
  "norma_set_status_format tr format len = send tr (''FORM:STAT '' @ format_parameter format len)"

definition norma_status_format :: "'t transport \<Rightarrow> ('t client, data_format_setting) io" where
  "norma_status_format tr = parsed parse_format_setting (query_line tr ''FORM:STAT?'')"

definition norma_set_byte_order :: "'t transport \<Rightarrow> byte_order \<Rightarrow> ('t client, unit) io" where
  "norma_set_byte_order tr order = send tr (''FORM:BORD '' @ to_scpi_byte_order order)"

definition norma_byte_order :: "'t transport \<Rightarrow> ('t client, byte_order) io" where
  "norma_byte_order tr = parsed parse_byte_order (query_line tr ''FORM:BORD?'')"

definition norma_set_transpose :: "'t transport \<Rightarrow> bool \<Rightarrow> ('t client, unit) io" where
  "norma_set_transpose tr on = send tr (''FORM:TRAN '' @ client_format_bool on)"

definition norma_transpose :: "'t transport \<Rightarrow> ('t client, bool) io" where
  "norma_transpose tr = query_bool tr ''FORM:TRAN?''"

section \<open>DISPlay and OUTPut\<close>

definition norma_set_display_enabled :: "'t transport \<Rightarrow> bool \<Rightarrow> ('t client, unit) io" where
  "norma_set_display_enabled tr on = send tr (''DISP:WIND:STAT '' @ client_format_bool on)"

definition norma_display_enabled :: "'t transport \<Rightarrow> ('t client, bool) io" where
  "norma_display_enabled tr = query_bool tr ''DISP:WIND:STAT?''"

definition norma_set_display_functions :: "'t transport \<Rightarrow> string list \<Rightarrow> ('t client, unit) io" where
  "norma_set_display_functions tr fns = require (fns \<noteq> []) (InvalidArgument ''set_display_functions: the function list must not be empty'')
     (send tr (''DISP:USER:FUNC '' @ client_quote_join fns))"

definition norma_display_functions :: "'t transport \<Rightarrow> ('t client, string list) io" where
  "norma_display_functions tr = query_strings tr ''DISP:USER:FUNC?''"

definition norma_set_output_enabled :: "'t transport \<Rightarrow> bool \<Rightarrow> ('t client, unit) io" where
  "norma_set_output_enabled tr on = send tr (''OUTP9:STAT '' @ client_format_bool on)"

definition norma_output_enabled :: "'t transport \<Rightarrow> ('t client, bool) io" where
  "norma_output_enabled tr = query_bool tr ''OUTP9:STAT?''"

section \<open>SYSTem\<close>

definition norma_scpi_version :: "'t transport \<Rightarrow> ('t client, string) io" where
  "norma_scpi_version tr = query_line tr ''SYST:VERS?''"

definition norma_set_key_lock :: "'t transport \<Rightarrow> key_lock \<Rightarrow> ('t client, unit) io" where
  "norma_set_key_lock tr lock = send tr (''SYST:KLOC '' @ to_scpi_key_lock lock)"

definition norma_key_lock :: "'t transport \<Rightarrow> ('t client, key_lock) io" where
  "norma_key_lock tr = parsed parse_key_lock (query_line tr ''SYST:KLOC?'')"

definition norma_set_date :: "'t transport \<Rightarrow> date \<Rightarrow> ('t client, unit) io" where
  "norma_set_date tr d = send tr (''SYST:DATE '' @ join_ints [date_year d, date_month d, date_day d])"

text \<open>Three integers, checked left to right. Two of the code's throws differ in their text only.\<close>

definition parse_three_ints :: "string \<Rightarrow> string \<Rightarrow> cxx_error + int \<times> int \<times> int" where
  "parse_three_ints expected response = (case split_csv response of
     a # b # c # _ \<Rightarrow> try_result (to_int a) (\<lambda>x. try_result (to_int b) (\<lambda>y. map_result (\<lambda>z. (x, y, z)) (to_int c)))
   | _ \<Rightarrow> Inl (ProtocolError (''expected '' @ expected @ '', got '' @ quote response)))"

definition parse_date :: "string \<Rightarrow> cxx_error + date" where
  "parse_date response = map_result (\<lambda>(y, m, d). \<lparr>date_year = y, date_month = m, date_day = d\<rparr>)
     (parse_three_ints ''<year>,<month>,<day> from SYST:DATE?'' response)"

definition parse_time :: "string \<Rightarrow> cxx_error + time" where
  "parse_time response = map_result (\<lambda>(h, m, s). \<lparr>time_hours = h, time_minutes = m, time_seconds = s\<rparr>)
     (parse_three_ints ''<hours>,<minutes>,<seconds> from SYST:TIME?'' response)"

definition norma_date :: "'t transport \<Rightarrow> ('t client, date) io" where
  "norma_date tr = parsed parse_date (query_line tr ''SYST:DATE?'')"

definition norma_set_time :: "'t transport \<Rightarrow> time \<Rightarrow> ('t client, unit) io" where
  "norma_set_time tr t = send tr (''SYST:TIME '' @ join_ints [time_hours t, time_minutes t, time_seconds t])"

definition norma_time_of_day :: "'t transport \<Rightarrow> ('t client, time) io" where
  "norma_time_of_day tr = parsed parse_time (query_line tr ''SYST:TIME?'')"

definition norma_set_gpib_address :: "'t transport \<Rightarrow> int \<Rightarrow> ('t client, unit) io" where
  "norma_set_gpib_address tr address = require (\<not> (address < 1 \<or> 30 < address))
     (InvalidArgument (''GPIB address must be 1..30, got '' @ to_string address))
     (send tr (''SYST:COMM:GPIB:ADDR '' @ to_string address))"

definition norma_gpib_address :: "'t transport \<Rightarrow> ('t client, int) io" where
  "norma_gpib_address tr = query_int tr ''SYST:COMM:GPIB:ADDR?''"

definition norma_set_serial_baud :: "'t transport \<Rightarrow> int \<Rightarrow> ('t client, unit) io" where
  "norma_set_serial_baud tr baud = send tr (''SYST:COMM:SER:BAUD '' @ to_string baud)"

definition norma_serial_baud :: "'t transport \<Rightarrow> ('t client, int) io" where
  "norma_serial_baud tr = query_int tr ''SYST:COMM:SER:BAUD?''"

definition norma_set_language :: "'t transport \<Rightarrow> string \<Rightarrow> ('t client, unit) io" where
  "norma_set_language tr lang = send tr (''SYST:LANG '' @ quote lang)"

definition norma_language :: "'t transport \<Rightarrow> ('t client, string) io" where
  "norma_language tr = parsed (\<lambda>line. Inr (unquote line)) (query_line tr ''SYST:LANG?'')"

section \<open>TIMer\<close>

definition norma_reset_timer :: "'t transport \<Rightarrow> ('t client, unit) io" where
  "norma_reset_timer tr = send tr ''TIM:RES''"

definition norma_timer_reset_time :: "'t transport \<Rightarrow> ('t client, double) io" where
  "norma_timer_reset_time tr = query_value tr ''TIM:RES:TIME?''"

end
