(* ===== verification/Function_Names.thy ===== *)
theory Function_Names
  imports Cxx_Errors
begin

text \<open>
  The \<open>fn::\<close> helpers of \<open>module/include/fluke/norma/types.hpp\<close>: which phase suffixes the
  manual defines, and the names of measurement functions built from them. A suffix a
  quantity does not have is an \<open>InvalidArgument\<close>.
\<close>

section \<open>Phase suffixes\<close>

definition is_phase :: "int \<Rightarrow> bool" where
  "is_phase phase \<longleftrightarrow> 1 \<le> phase \<and> phase \<le> kMaxPhase"

definition is_phase_to_phase :: "int \<Rightarrow> bool" where
  "is_phase_to_phase phase \<longleftrightarrow> phase \<in> set [12, 13, 23, 31, 45, 56, 64]"

definition is_aggregate :: "int \<Rightarrow> bool" where
  "is_aggregate phase \<longleftrightarrow> phase = 0 \<or> phase = 460"

definition is_average_phase_to_phase :: "int \<Rightarrow> bool" where
  "is_average_phase_to_phase phase \<longleftrightarrow> phase = 123 \<or> phase = 456"

definition is_valid_suffix :: "int \<Rightarrow> bool" where
  "is_valid_suffix phase \<longleftrightarrow> is_aggregate phase \<or> is_phase phase \<or> is_phase_to_phase phase \<or>
     is_average_phase_to_phase phase"

definition suffixed :: "string \<Rightarrow> int \<Rightarrow> (int \<Rightarrow> bool) \<Rightarrow> cxx_error + string" where
  "suffixed base phase accepts =
     (if \<not> accepts phase
      then Inl (InvalidArgument (''invalid phase suffix for function '' @ quote base @ '': '' @ to_string phase))
      else Inr (base @ (if 0 < phase then to_string phase else [])))"

definition phase_or_aggregate :: "int \<Rightarrow> bool" where
  "phase_or_aggregate phase \<longleftrightarrow> is_aggregate phase \<or> is_phase phase"

definition phase_only :: "int \<Rightarrow> bool" where
  "phase_only phase \<longleftrightarrow> is_phase phase"

definition any_phase_to_phase :: "int \<Rightarrow> bool" where
  "any_phase_to_phase phase \<longleftrightarrow> is_phase_to_phase phase \<or> is_average_phase_to_phase phase"

definition aggregate_only :: "int \<Rightarrow> bool" where
  "aggregate_only phase \<longleftrightarrow> is_aggregate phase"

definition node :: "string \<Rightarrow> int \<Rightarrow> string \<Rightarrow> (int \<Rightarrow> bool) \<Rightarrow> cxx_error + string" where
  "node base phase tail accepts = map_result (\<lambda>s. s @ tail) (suffixed base phase accepts)"

section \<open>Voltage\<close>

definition fn_voltage :: "int \<Rightarrow> cxx_error + string" where
  "fn_voltage phase = node ''VOLT'' phase [] phase_or_aggregate"

definition fn_voltage_ac :: "int \<Rightarrow> cxx_error + string" where
  "fn_voltage_ac phase = node ''VOLT'' phase '':AC'' phase_or_aggregate"

definition fn_voltage_mean :: "int \<Rightarrow> cxx_error + string" where
  "fn_voltage_mean phase = node ''VOLT'' phase '':MEAN'' phase_or_aggregate"

definition fn_voltage_rectified_mean :: "int \<Rightarrow> cxx_error + string" where
  "fn_voltage_rectified_mean phase = node ''VOLT'' phase '':RMEAN'' phase_or_aggregate"

definition fn_voltage_rectified_mean_corrected :: "int \<Rightarrow> cxx_error + string" where
  "fn_voltage_rectified_mean_corrected phase = node ''VOLT'' phase '':RMCORR'' phase_or_aggregate"

definition fn_voltage_peak_to_peak :: "int \<Rightarrow> cxx_error + string" where
  "fn_voltage_peak_to_peak phase = node ''VOLT'' phase '':PTP'' phase_only"

definition fn_voltage_peak_high :: "int \<Rightarrow> cxx_error + string" where
  "fn_voltage_peak_high phase = node ''VOLT'' phase '':PHIGH'' phase_only"

definition fn_voltage_peak_low :: "int \<Rightarrow> cxx_error + string" where
  "fn_voltage_peak_low phase = node ''VOLT'' phase '':PLOW'' phase_only"

definition fn_voltage_crest_factor :: "int \<Rightarrow> cxx_error + string" where
  "fn_voltage_crest_factor phase = node ''VOLT'' phase '':CFAC'' phase_only"

definition fn_voltage_form_factor :: "int \<Rightarrow> cxx_error + string" where
  "fn_voltage_form_factor phase = node ''VOLT'' phase '':FFAC'' phase_only"

definition fn_voltage_harmonic_content :: "int \<Rightarrow> cxx_error + string" where
  "fn_voltage_harmonic_content phase = node ''VOLT'' phase '':HCONT'' phase_only"

definition fn_voltage_fundamental_content :: "int \<Rightarrow> cxx_error + string" where
  "fn_voltage_fundamental_content phase = node ''VOLT'' phase '':FCONT'' phase_only"

definition fn_voltage_thd :: "int \<Rightarrow> cxx_error + string" where
  "fn_voltage_thd phase = node ''VOLT'' phase '':THD'' phase_only"

definition fn_voltage_phase :: "int \<Rightarrow> cxx_error + string" where
  "fn_voltage_phase phase = node ''VOLT'' phase '':PHAS'' phase_only"

definition fn_voltage_line :: "int \<Rightarrow> cxx_error + string" where
  "fn_voltage_line phase = node ''VOLT'' phase [] any_phase_to_phase"

definition fn_voltage_line_mean :: "int \<Rightarrow> cxx_error + string" where
  "fn_voltage_line_mean phase = node ''VOLT'' phase '':MEAN'' any_phase_to_phase"

definition fn_voltage_line_rectified_mean :: "int \<Rightarrow> cxx_error + string" where
  "fn_voltage_line_rectified_mean phase = node ''VOLT'' phase '':RMEAN'' any_phase_to_phase"

definition fn_voltage_line_rectified_mean_corrected :: "int \<Rightarrow> cxx_error + string" where
  "fn_voltage_line_rectified_mean_corrected phase = node ''VOLT'' phase '':RMCORR'' any_phase_to_phase"

definition fn_voltage_line_form_factor :: "int \<Rightarrow> cxx_error + string" where
  "fn_voltage_line_form_factor phase = node ''VOLT'' phase '':FFAC'' is_phase_to_phase"

definition fn_voltage_line_thd :: "int \<Rightarrow> cxx_error + string" where
  "fn_voltage_line_thd phase = node ''VOLT'' phase '':THD'' is_phase_to_phase"

definition fn_voltage_line_harmonic_content :: "int \<Rightarrow> cxx_error + string" where
  "fn_voltage_line_harmonic_content phase = node ''VOLT'' phase '':HCONT'' is_phase_to_phase"

definition fn_voltage_line_fundamental_content :: "int \<Rightarrow> cxx_error + string" where
  "fn_voltage_line_fundamental_content phase = node ''VOLT'' phase '':FCONT'' is_phase_to_phase"

definition fn_voltage_line_phase :: "int \<Rightarrow> cxx_error + string" where
  "fn_voltage_line_phase phase = node ''VOLT'' phase '':PHAS'' is_phase_to_phase"

section \<open>Current\<close>

definition fn_current :: "int \<Rightarrow> cxx_error + string" where
  "fn_current phase = node ''CURR'' phase [] phase_or_aggregate"

definition fn_current_ac :: "int \<Rightarrow> cxx_error + string" where
  "fn_current_ac phase = node ''CURR'' phase '':AC'' phase_or_aggregate"

definition fn_current_mean :: "int \<Rightarrow> cxx_error + string" where
  "fn_current_mean phase = node ''CURR'' phase '':MEAN'' phase_or_aggregate"

definition fn_current_rectified_mean :: "int \<Rightarrow> cxx_error + string" where
  "fn_current_rectified_mean phase = node ''CURR'' phase '':RMEAN'' phase_or_aggregate"

definition fn_current_rectified_mean_corrected :: "int \<Rightarrow> cxx_error + string" where
  "fn_current_rectified_mean_corrected phase = node ''CURR'' phase '':RMCORR'' phase_or_aggregate"

definition fn_current_peak_to_peak :: "int \<Rightarrow> cxx_error + string" where
  "fn_current_peak_to_peak phase = node ''CURR'' phase '':PTP'' phase_only"

definition fn_current_peak_high :: "int \<Rightarrow> cxx_error + string" where
  "fn_current_peak_high phase = node ''CURR'' phase '':PHIGH'' phase_only"

definition fn_current_peak_low :: "int \<Rightarrow> cxx_error + string" where
  "fn_current_peak_low phase = node ''CURR'' phase '':PLOW'' phase_only"

definition fn_current_crest_factor :: "int \<Rightarrow> cxx_error + string" where
  "fn_current_crest_factor phase = node ''CURR'' phase '':CFAC'' phase_only"

definition fn_current_form_factor :: "int \<Rightarrow> cxx_error + string" where
  "fn_current_form_factor phase = node ''CURR'' phase '':FFAC'' phase_only"

definition fn_current_harmonic_content :: "int \<Rightarrow> cxx_error + string" where
  "fn_current_harmonic_content phase = node ''CURR'' phase '':HCONT'' phase_only"

definition fn_current_fundamental_content :: "int \<Rightarrow> cxx_error + string" where
  "fn_current_fundamental_content phase = node ''CURR'' phase '':FCONT'' phase_only"

definition fn_current_thd :: "int \<Rightarrow> cxx_error + string" where
  "fn_current_thd phase = node ''CURR'' phase '':THD'' phase_only"

definition fn_current_phase :: "int \<Rightarrow> cxx_error + string" where
  "fn_current_phase phase = node ''CURR'' phase '':PHAS'' phase_only"

section \<open>Power and derived quantities\<close>

definition fn_active_power :: "int \<Rightarrow> cxx_error + string" where
  "fn_active_power phase = node ''POW'' phase '':ACT'' phase_or_aggregate"

definition fn_apparent_power :: "int \<Rightarrow> cxx_error + string" where
  "fn_apparent_power phase = node ''POW'' phase '':APP'' phase_or_aggregate"

definition fn_reactive_power :: "int \<Rightarrow> cxx_error + string" where
  "fn_reactive_power phase = node ''POW'' phase '':REAC'' phase_or_aggregate"

definition fn_power_factor :: "int \<Rightarrow> cxx_error + string" where
  "fn_power_factor phase = node ''POW'' phase '':FACT'' phase_or_aggregate"

definition fn_corrected_power :: "int \<Rightarrow> cxx_error + string" where
  "fn_corrected_power phase = node ''POW'' phase '':CORR'' phase_or_aggregate"

definition fn_efficiency :: "int \<Rightarrow> cxx_error + string" where
  "fn_efficiency phase = node ''POW'' phase '':EFF'' aggregate_only"

definition fn_phase_angle :: "int \<Rightarrow> cxx_error + string" where
  "fn_phase_angle phase = node ''PHAS'' phase [] phase_or_aggregate"

definition fn_apparent_impedance :: "int \<Rightarrow> cxx_error + string" where
  "fn_apparent_impedance phase = node ''IMP'' phase '':APP'' phase_or_aggregate"

definition fn_series_resistance :: "int \<Rightarrow> cxx_error + string" where
  "fn_series_resistance phase = node ''RES'' phase '':SER'' phase_or_aggregate"

definition fn_parallel_resistance :: "int \<Rightarrow> cxx_error + string" where
  "fn_parallel_resistance phase = node ''RES'' phase '':PAR'' phase_or_aggregate"

definition fn_series_reactance :: "int \<Rightarrow> cxx_error + string" where
  "fn_series_reactance phase = node ''REACT'' phase '':SER'' phase_or_aggregate"

definition fn_parallel_reactance :: "int \<Rightarrow> cxx_error + string" where
  "fn_parallel_reactance phase = node ''REACT'' phase '':PAR'' phase_or_aggregate"

section \<open>Instrument-wide quantities\<close>

definition fn_frequency :: string where
  "fn_frequency = ''FREQ''"

definition fn_time_interval :: string where
  "fn_time_interval = ''TIME''"

definition fn_time_relative :: string where
  "fn_time_relative = ''TIME:REL''"

section \<open>Modifiers\<close>

definition fn_harmonic :: "string \<Rightarrow> string" where
  "fn_harmonic f = f @ '':HAR''"

definition fn_minimum :: "string \<Rightarrow> string" where
  "fn_minimum f = f @ '':MIN''"

definition fn_maximum :: "string \<Rightarrow> string" where
  "fn_maximum f = f @ '':MAX''"

definition fn_integral_positive :: "string \<Rightarrow> string" where
  "fn_integral_positive f = f @ '':IPOS''"

definition fn_integral_negative :: "string \<Rightarrow> string" where
  "fn_integral_negative f = f @ '':INEG''"

definition fn_integral :: "string \<Rightarrow> string" where
  "fn_integral f = f @ '':INT''"

end
