(* ===== verification/Instrument_Data.thy ===== *)
theory Instrument_Data
  imports Instrument_Config Function_Names
begin

text \<open>
  \<open>NormaInstrument\<close>, third part (\<open>module/src/instrument_data.cpp\<close>): measurement functions,
  acquisition, triggering, the data queries, CALCulate and memory recording.
\<close>

section \<open>Parameters and responses\<close>

definition sweep_node :: "sweep_block \<Rightarrow> string" where
  "sweep_node block = ''SWE'' @ (if block = Block2 then ''2'' else ''1'')"

definition trace_block :: "sweep_block \<Rightarrow> string" where
  "trace_block block = (if block = Block2 then ''2'' else ''1'')"

definition trace_arguments :: "sweep_block \<Rightarrow> int \<Rightarrow> int \<Rightarrow> int \<Rightarrow> string" where
  "trace_arguments block count offset sparsing = trace_block block @
     (if count \<le> 0 then []
      else '','' @ to_string count @
        (if 0 < offset \<or> 0 < sparsing then '','' @ to_string offset else []) @
        (if 0 < sparsing then '','' @ to_string sparsing else []))"

definition require_functions :: "string \<Rightarrow> string list \<Rightarrow> ('s, 'a) io \<Rightarrow> ('s, 'a) io" where
  "require_functions what fns m =
     require (fns \<noteq> []) (InvalidArgument (what @ '': the function list must not be empty'')) m"

definition format_timestamp :: "date \<Rightarrow> time \<Rightarrow> string" where
  "format_timestamp d t = join_with '',''
     [to_string (date_year d), to_string (date_month d), to_string (date_day d),
      to_string (time_hours t), to_string (time_minutes t), to_string (time_seconds t)]"

text \<open>
  \<open>parse_preamble\<close>: quoted fields are function names, the others numbers, recognised by
  their position among the fields less the functions seen so far.
\<close>

record data_preamble =
  pre_count :: int
  pre_function_count :: int
  pre_interval :: double
  pre_start :: double
  pre_functions :: "string list"
  pre_raw :: string

definition preamble_field :: "nat \<Rightarrow> string \<Rightarrow> data_preamble \<Rightarrow> cxx_error + data_preamble" where
  "preamble_field i field p =
     (if field \<noteq> [] \<and> is_quote (hd field) then Inr (p\<lparr>pre_functions := pre_functions p @ [unquote field]\<rparr>)
      else let k = i - length (pre_functions p) in
        if k = 0 then map_result (\<lambda>n. p\<lparr>pre_count := n\<rparr>) (to_int field)
        else if k = 1 then map_result (\<lambda>n. p\<lparr>pre_function_count := n\<rparr>) (to_int field)
        else if k = 2 then map_result (\<lambda>x. p\<lparr>pre_interval := x\<rparr>) (to_double field)
        else if k = 3 then map_result (\<lambda>x. p\<lparr>pre_start := x\<rparr>) (to_double field)
        else Inr p)"

fun preamble_fields :: "nat \<Rightarrow> string list \<Rightarrow> data_preamble \<Rightarrow> cxx_error + data_preamble" where
  "preamble_fields i [] p = Inr p"
| "preamble_fields i (f # fs) p = try_result (preamble_field i f p) (preamble_fields (i + 1) fs)"

definition parse_preamble :: "string \<Rightarrow> cxx_error + data_preamble" where
  "parse_preamble response = preamble_fields 0 (split_csv response)
     \<lparr>pre_count = 0, pre_function_count = 0, pre_interval = dzero, pre_start = dzero,
      pre_functions = [], pre_raw = response\<rparr>"

section \<open>SENSe: measurement functions\<close>

definition norma_set_functions :: "'t transport \<Rightarrow> string list \<Rightarrow> ('t client, unit) io" where
  "norma_set_functions tr fns = require (fns \<noteq> [])
     (InvalidArgument ''set_functions: the function list must not be empty (use clear_functions() to turn all off)'')
     (send tr (''FUNC '' @ client_quote_join fns))"

definition norma_functions :: "'t transport \<Rightarrow> ('t client, string list) io" where
  "norma_functions tr = query_strings tr ''FUNC?''"

definition norma_enable_all_functions :: "'t transport \<Rightarrow> ('t client, unit) io" where
  "norma_enable_all_functions tr = send tr ''FUNC:ON:ALL''"

definition norma_clear_functions :: "'t transport \<Rightarrow> ('t client, unit) io" where
  "norma_clear_functions tr = send tr ''FUNC:OFF:ALL''"

definition norma_function_count :: "'t transport \<Rightarrow> ('t client, int) io" where
  "norma_function_count tr = query_int tr ''FUNC:COUN?''"

definition norma_set_concurrent :: "'t transport \<Rightarrow> bool \<Rightarrow> ('t client, unit) io" where
  "norma_set_concurrent tr on = send tr (''FUNC:CONC '' @ client_format_bool on)"

definition norma_concurrent :: "'t transport \<Rightarrow> ('t client, bool) io" where
  "norma_concurrent tr = query_bool tr ''FUNC:CONC?''"

section \<open>Preparing the instrument (\<open>instrument.cpp\<close>)\<close>

definition norma_prepare :: "'t transport \<Rightarrow> ('t client, unit) io" where
  "norma_prepare tr = and_then (norma_clear_status tr) (\<lambda>_.
     and_then (norma_set_data_format tr Ascii 6) (\<lambda>_.
     and_then (norma_set_concurrent tr True) (\<lambda>_.
     and_then (norma_read_errors tr) (\<lambda>_. ret ()))))"

section \<open>Acquisition\<close>

definition norma_set_continuous :: "'t transport \<Rightarrow> bool \<Rightarrow> ('t client, unit) io" where
  "norma_set_continuous tr on = send tr (if on then ''INIT:CONT ON'' else ''INIT:CONT OFF'')"

definition norma_continuous :: "'t transport \<Rightarrow> ('t client, bool) io" where
  "norma_continuous tr = query_bool tr ''INIT:CONT?''"

definition norma_initiate :: "'t transport \<Rightarrow> ('t client, unit) io" where
  "norma_initiate tr = send tr ''INIT''"

definition norma_initiate_sweep :: "'t transport \<Rightarrow> sweep_block \<Rightarrow> ('t client, unit) io" where
  "norma_initiate_sweep tr block = send tr (''INIT:SEQ'' @ trace_block block)"

definition norma_abort :: "'t transport \<Rightarrow> ('t client, unit) io" where
  "norma_abort tr = send tr ''ABOR''"

section \<open>TRIGger\<close>

definition norma_set_trigger_start_source :: "'t transport \<Rightarrow> string \<Rightarrow> ('t client, unit) io" where
  "norma_set_trigger_start_source tr source = send tr (''TRIG:STAR:SOUR '' @ source)"

definition norma_trigger_start_source :: "'t transport \<Rightarrow> ('t client, string) io" where
  "norma_trigger_start_source tr = parsed (\<lambda>line. Inr (unquote line)) (query_line tr ''TRIG:STAR:SOUR?'')"

definition norma_set_trigger_start_level :: "'t transport \<Rightarrow> double \<Rightarrow> ('t client, unit) io" where
  "norma_set_trigger_start_level tr level = send tr (''TRIG:STAR:LEV '' @ format_double level)"

definition norma_trigger_start_level :: "'t transport \<Rightarrow> ('t client, double) io" where
  "norma_trigger_start_level tr = query_value tr ''TRIG:STAR:LEV?''"

definition norma_set_trigger_start_slope :: "'t transport \<Rightarrow> slope \<Rightarrow> ('t client, unit) io" where
  "norma_set_trigger_start_slope tr slp = send tr (''TRIG:STAR:SLOP '' @ to_scpi_slope slp)"

definition norma_trigger_start_slope :: "'t transport \<Rightarrow> ('t client, slope) io" where
  "norma_trigger_start_slope tr = parsed parse_slope (query_line tr ''TRIG:STAR:SLOP?'')"

definition norma_set_trigger_start_time :: "'t transport \<Rightarrow> date \<Rightarrow> time \<Rightarrow> ('t client, unit) io" where
  "norma_set_trigger_start_time tr d t = send tr (''TRIG:STAR:TIME '' @ format_timestamp d t)"

definition norma_set_trigger_stop_source :: "'t transport \<Rightarrow> string \<Rightarrow> ('t client, unit) io" where
  "norma_set_trigger_stop_source tr source = send tr (''TRIG:STOP:SOUR '' @ source)"

definition norma_trigger_stop_source :: "'t transport \<Rightarrow> ('t client, string) io" where
  "norma_trigger_stop_source tr = parsed (\<lambda>line. Inr (unquote line)) (query_line tr ''TRIG:STOP:SOUR?'')"

definition norma_set_trigger_stop_level :: "'t transport \<Rightarrow> double \<Rightarrow> ('t client, unit) io" where
  "norma_set_trigger_stop_level tr level = send tr (''TRIG:STOP:LEV '' @ format_double level)"

definition norma_trigger_stop_level :: "'t transport \<Rightarrow> ('t client, double) io" where
  "norma_trigger_stop_level tr = query_value tr ''TRIG:STOP:LEV?''"

definition norma_set_trigger_stop_slope :: "'t transport \<Rightarrow> slope \<Rightarrow> ('t client, unit) io" where
  "norma_set_trigger_stop_slope tr slp = send tr (''TRIG:STOP:SLOP '' @ to_scpi_slope slp)"

definition norma_trigger_stop_slope :: "'t transport \<Rightarrow> ('t client, slope) io" where
  "norma_trigger_stop_slope tr = parsed parse_slope (query_line tr ''TRIG:STOP:SLOP?'')"

definition norma_set_trigger_stop_time :: "'t transport \<Rightarrow> date \<Rightarrow> time \<Rightarrow> ('t client, unit) io" where
  "norma_set_trigger_stop_time tr d t = send tr (''TRIG:STOP:TIME '' @ format_timestamp d t)"

section \<open>Data\<close>

definition norma_data :: "'t transport \<Rightarrow> string list \<Rightarrow> ('t client, double list) io" where
  "norma_data tr fns = (if fns = [] then query_values tr ''DATA?'' else query_values tr (''DATA? '' @ client_quote_join fns))"

text \<open>
  The values come first, the status words after them. Converting a status to \<open>int\<close> is
  undefined when it is no number an \<open>int\<close> can hold: \<open>None\<close>.
\<close>

fun to_ints :: "double list \<Rightarrow> int list option" where
  "to_ints [] = Some []"
| "to_ints (x # xs) = (case cast_int x of None \<Rightarrow> None | Some n \<Rightarrow> map_option (Cons n) (to_ints xs))"

definition split_reading :: "double list \<Rightarrow> ('s, reading) io" where
  "split_reading raw = (if odd (length raw)
     then throw (ProtocolError (''DATA:STAT? returned an odd number of fields ('' @ to_string (int (length raw)) @ '')''))
     else let n = length raw div 2 in
       case to_ints (drop n raw) of
         None \<Rightarrow> (\<lambda>_. None)
       | Some ns \<Rightarrow> ret \<lparr>reading_values = take n raw, reading_status = ns\<rparr>)"

definition norma_data_with_status :: "'t transport \<Rightarrow> string list \<Rightarrow> ('t client, reading) io" where
  "norma_data_with_status tr fns = and_then (query_values tr (if fns = [] then ''DATA:STAT?'' else ''DATA:STAT? '' @ client_quote_join fns)) split_reading"

section \<open>CALCulate: harmonics and spectrum\<close>

definition norma_set_harmonic_order :: "'t transport \<Rightarrow> int \<Rightarrow> ('t client, unit) io" where
  "norma_set_harmonic_order tr order = require (\<not> order < 0) (InvalidArgument (''harmonic order must not be negative, got '' @ to_string order))
     (send tr (''CALC:HARM:ORD '' @ to_string order))"

definition norma_harmonic_order :: "'t transport \<Rightarrow> ('t client, int) io" where
  "norma_harmonic_order tr = query_int tr ''CALC:HARM:ORD?''"

definition norma_transform_once :: "'t transport \<Rightarrow> ('t client, unit) io" where
  "norma_transform_once tr = send tr ''CALC:TRAN:FREQ ONCE''"

definition norma_set_transform_mode :: "'t transport \<Rightarrow> transform_mode \<Rightarrow> ('t client, unit) io" where
  "norma_set_transform_mode tr mode = send tr (''CALC:TRAN:FREQ:MODE '' @ to_scpi_transform_mode mode)"

definition norma_transform_mode :: "'t transport \<Rightarrow> ('t client, transform_mode) io" where
  "norma_transform_mode tr = parsed parse_transform_mode (query_line tr ''CALC:TRAN:FREQ:MODE?'')"

definition norma_set_transform_functions :: "'t transport \<Rightarrow> string list \<Rightarrow> ('t client, unit) io" where
  "norma_set_transform_functions tr fns = require_functions ''set_transform_functions'' fns (send tr (''CALC:TRAN:FREQ:FUNC '' @ client_quote_join fns))"

definition norma_transform_functions :: "'t transport \<Rightarrow> ('t client, string list) io" where
  "norma_transform_functions tr = query_strings tr ''CALC:TRAN:FREQ:FUNC?''"

definition norma_set_transform_start :: "'t transport \<Rightarrow> double \<Rightarrow> ('t client, unit) io" where
  "norma_set_transform_start tr hertz = send tr (''CALC:TRAN:FREQ:STAR '' @ format_double hertz)"

definition norma_transform_start :: "'t transport \<Rightarrow> ('t client, double) io" where
  "norma_transform_start tr = query_value tr ''CALC:TRAN:FREQ:STAR?''"

definition norma_set_transform_stop :: "'t transport \<Rightarrow> double \<Rightarrow> ('t client, unit) io" where
  "norma_set_transform_stop tr hertz = send tr (''CALC:TRAN:FREQ:STOP '' @ format_double hertz)"

definition norma_transform_stop :: "'t transport \<Rightarrow> ('t client, double) io" where
  "norma_transform_stop tr = query_value tr ''CALC:TRAN:FREQ:STOP?''"

definition norma_set_transform_cycles :: "'t transport \<Rightarrow> int \<Rightarrow> ('t client, unit) io" where
  "norma_set_transform_cycles tr cycles = require (cycles \<in> {4, 6, 8, 10, 12})
     (InvalidArgument (''transform cycles must be 4, 6, 8, 10 or 12, got '' @ to_string cycles))
     (send tr (''CALC:TRAN:FREQ:CYCL '' @ to_string cycles))"

definition norma_transform_cycles :: "'t transport \<Rightarrow> ('t client, int) io" where
  "norma_transform_cycles tr = query_int tr ''CALC:TRAN:FREQ:CYCL?''"

definition norma_set_transform_grouping :: "'t transport \<Rightarrow> harmonic_grouping \<Rightarrow> ('t client, unit) io" where
  "norma_set_transform_grouping tr grp = send tr (''CALC:TRAN:FREQ:GRO '' @ to_scpi_harmonic_grouping grp)"

definition norma_transform_grouping :: "'t transport \<Rightarrow> ('t client, harmonic_grouping) io" where
  "norma_transform_grouping tr = parsed parse_harmonic_grouping (query_line tr ''CALC:TRAN:FREQ:GRO?'')"

definition norma_transform_data :: "'t transport \<Rightarrow> int \<Rightarrow> int \<Rightarrow> ('t client, double list) io" where
  "norma_transform_data tr count offset = query_values tr (''CALC:DATA?'' @ data_arguments count offset 0)"

definition norma_transform_preamble :: "'t transport \<Rightarrow> ('t client, data_preamble) io" where
  "norma_transform_preamble tr = parsed parse_preamble (query_line tr ''CALC:DATA:PRE?'')"

definition norma_transform_thd :: "'t transport \<Rightarrow> ('t client, double list) io" where
  "norma_transform_thd tr = query_values tr ''CALC:DATA:THD?''"

section \<open>CALCulate: integration\<close>

definition norma_set_integral_enabled :: "'t transport \<Rightarrow> bool \<Rightarrow> ('t client, unit) io" where
  "norma_set_integral_enabled tr on = send tr (''CALC:INT:STAT '' @ client_format_bool on)"

definition norma_integral_enabled :: "'t transport \<Rightarrow> ('t client, bool) io" where
  "norma_integral_enabled tr = query_bool tr ''CALC:INT:STAT?''"

definition norma_set_integral_functions :: "'t transport \<Rightarrow> string list \<Rightarrow> ('t client, unit) io" where
  "norma_set_integral_functions tr fns = require_functions ''set_integral_functions'' fns (send tr (''CALC:INT:FUNC '' @ client_quote_join fns))"

definition norma_integral_functions :: "'t transport \<Rightarrow> ('t client, string list) io" where
  "norma_integral_functions tr = query_strings tr ''CALC:INT:FUNC?''"

definition norma_clear_integral :: "'t transport \<Rightarrow> ('t client, unit) io" where
  "norma_clear_integral tr = send tr ''CALC:INT:CLE''"

definition norma_set_integral_auto_clear :: "'t transport \<Rightarrow> bool \<Rightarrow> ('t client, unit) io" where
  "norma_set_integral_auto_clear tr on = send tr (''CALC:INT:CLE:AUTO '' @ client_format_bool on)"

definition norma_integral_auto_clear :: "'t transport \<Rightarrow> ('t client, bool) io" where
  "norma_integral_auto_clear tr = query_bool tr ''CALC:INT:CLE:AUTO?''"

definition norma_set_integral_start_source :: "'t transport \<Rightarrow> integral_start_source \<Rightarrow> ('t client, unit) io" where
  "norma_set_integral_start_source tr src = send tr (''CALC:INT:STAR:SOUR '' @ to_scpi_integral_start src)"

definition norma_integral_start_source :: "'t transport \<Rightarrow> ('t client, integral_start_source) io" where
  "norma_integral_start_source tr = parsed parse_integral_start (query_line tr ''CALC:INT:STAR:SOUR?'')"

definition norma_start_integral :: "'t transport \<Rightarrow> ('t client, unit) io" where
  "norma_start_integral tr = send tr ''CALC:INT:STAR''"

definition norma_set_integral_start_time :: "'t transport \<Rightarrow> date \<Rightarrow> time \<Rightarrow> ('t client, unit) io" where
  "norma_set_integral_start_time tr d t = send tr (''CALC:INT:STAR:TIME '' @ format_timestamp d t)"

definition norma_set_integral_stop_source :: "'t transport \<Rightarrow> integral_stop_source \<Rightarrow> ('t client, unit) io" where
  "norma_set_integral_stop_source tr src = send tr (''CALC:INT:STOP:SOUR '' @ to_scpi_integral_stop src)"

definition norma_integral_stop_source :: "'t transport \<Rightarrow> ('t client, integral_stop_source) io" where
  "norma_integral_stop_source tr = parsed parse_integral_stop (query_line tr ''CALC:INT:STOP:SOUR?'')"

definition norma_stop_integral :: "'t transport \<Rightarrow> ('t client, unit) io" where
  "norma_stop_integral tr = send tr ''CALC:INT:STOP''"

definition norma_set_integral_stop_time :: "'t transport \<Rightarrow> date \<Rightarrow> time \<Rightarrow> ('t client, unit) io" where
  "norma_set_integral_stop_time tr d t = send tr (''CALC:INT:STOP:TIME '' @ format_timestamp d t)"

definition norma_set_integral_stop_interval :: "'t transport \<Rightarrow> double \<Rightarrow> ('t client, unit) io" where
  "norma_set_integral_stop_interval tr seconds = send tr (''CALC:INT:STOP:TINT '' @ format_double seconds)"

definition norma_integral_stop_interval :: "'t transport \<Rightarrow> ('t client, double) io" where
  "norma_integral_stop_interval tr = query_value tr ''CALC:INT:STOP:TINT?''"

section \<open>CALCulate: power\<close>

definition norma_set_power_correction :: "'t transport \<Rightarrow> power_correction \<Rightarrow> ('t client, unit) io" where
  "norma_set_power_correction tr corr = send tr (''CALC:POW:CORR '' @ to_scpi_power_correction corr)"

definition norma_power_correction :: "'t transport \<Rightarrow> ('t client, power_correction) io" where
  "norma_power_correction tr = parsed parse_power_correction (query_line tr ''CALC:POW:CORR?'')"

definition norma_set_efficiency_reference :: "'t transport \<Rightarrow> string \<Rightarrow> string \<Rightarrow> int \<Rightarrow> ('t client, unit) io" where
  "norma_set_efficiency_reference tr inp outp phase = require (is_aggregate phase)
     (InvalidArgument (''efficiency reference is defined for the aggregate suffixes 0 and 460, got '' @ to_string phase))
     (send tr ((if phase = 460 then ''CALC:POW460:EFF:REF'' else ''CALC:POW:EFF:REF'') @ '' '' @ quote inp @ '','' @ quote outp))"

section \<open>Memory recording: SENSe:SWEep\<close>

definition norma_set_sweep_enabled :: "'t transport \<Rightarrow> sweep_block \<Rightarrow> bool \<Rightarrow> ('t client, unit) io" where
  "norma_set_sweep_enabled tr block on = send tr (sweep_node block @ '':STAT '' @ client_format_bool on)"

definition norma_sweep_enabled :: "'t transport \<Rightarrow> sweep_block \<Rightarrow> ('t client, bool) io" where
  "norma_sweep_enabled tr block = query_bool tr (sweep_node block @ '':STAT?'')"

definition norma_set_sweep_time :: "'t transport \<Rightarrow> sweep_block \<Rightarrow> double \<Rightarrow> ('t client, unit) io" where
  "norma_set_sweep_time tr block seconds = send tr (sweep_node block @ '':TIME '' @ format_double seconds)"

definition norma_set_sweep_time_max :: "'t transport \<Rightarrow> sweep_block \<Rightarrow> ('t client, unit) io" where
  "norma_set_sweep_time_max tr block = send tr (sweep_node block @ '':TIME MAX'')"

definition norma_sweep_time :: "'t transport \<Rightarrow> sweep_block \<Rightarrow> ('t client, double) io" where
  "norma_sweep_time tr block = query_value tr (sweep_node block @ '':TIME?'')"

definition norma_set_sweep_offset_time :: "'t transport \<Rightarrow> sweep_block \<Rightarrow> double \<Rightarrow> ('t client, unit) io" where
  "norma_set_sweep_offset_time tr block seconds = send tr (sweep_node block @ '':OFFS:TIME '' @ format_double seconds)"

definition norma_sweep_offset_time :: "'t transport \<Rightarrow> sweep_block \<Rightarrow> ('t client, double) io" where
  "norma_sweep_offset_time tr block = query_value tr (sweep_node block @ '':OFFS:TIME?'')"

definition norma_sweep_points :: "'t transport \<Rightarrow> sweep_block \<Rightarrow> ('t client, int) io" where
  "norma_sweep_points tr block = query_int tr (sweep_node block @ '':POINTS?'')"

definition norma_sweep_offset_points :: "'t transport \<Rightarrow> sweep_block \<Rightarrow> ('t client, int) io" where
  "norma_sweep_offset_points tr block = query_int tr (sweep_node block @ '':OFFS:POINTS?'')"

definition norma_set_sweep_count :: "'t transport \<Rightarrow> sweep_block \<Rightarrow> int \<Rightarrow> ('t client, unit) io" where
  "norma_set_sweep_count tr block count = require (\<not> count < 1) (InvalidArgument (''sweep count must be at least 1, got '' @ to_string count))
     (send tr (sweep_node block @ '':COUN '' @ to_string count))"

definition norma_sweep_count :: "'t transport \<Rightarrow> sweep_block \<Rightarrow> ('t client, int) io" where
  "norma_sweep_count tr block = query_int tr (sweep_node block @ '':COUN?'')"

definition norma_set_sweep_sparsing :: "'t transport \<Rightarrow> sweep_block \<Rightarrow> int \<Rightarrow> ('t client, unit) io" where
  "norma_set_sweep_sparsing tr block factor = require (\<not> (factor < 1 \<or> 65535 < factor))
     (InvalidArgument (''sparsing factor must be 1..65535, got '' @ to_string factor))
     (send tr (sweep_node block @ '':SFAC '' @ to_string factor))"

definition norma_sweep_sparsing :: "'t transport \<Rightarrow> sweep_block \<Rightarrow> ('t client, int) io" where
  "norma_sweep_sparsing tr block = query_int tr (sweep_node block @ '':SFAC?'')"

definition norma_set_sweep_functions :: "'t transport \<Rightarrow> sweep_block \<Rightarrow> string list \<Rightarrow> ('t client, unit) io" where
  "norma_set_sweep_functions tr block fns = require_functions ''set_sweep_functions'' fns (send tr (sweep_node block @ '':FUNC '' @ client_quote_join fns))"

definition norma_sweep_functions :: "'t transport \<Rightarrow> sweep_block \<Rightarrow> ('t client, string list) io" where
  "norma_sweep_functions tr block = query_strings tr (sweep_node block @ '':FUNC?'')"

section \<open>Memory recording: TRACe\<close>

definition norma_trace_preamble :: "'t transport \<Rightarrow> sweep_block \<Rightarrow> ('t client, data_preamble) io" where
  "norma_trace_preamble tr block = parsed parse_preamble (query_line tr (''TRAC:PRE? '' @ trace_block block))"

definition norma_trace_data :: "'t transport \<Rightarrow> sweep_block \<Rightarrow> int \<Rightarrow> int \<Rightarrow> int \<Rightarrow> ('t client, double list) io" where
  "norma_trace_data tr block count offset sparsing = query_values tr (''TRAC? '' @ trace_arguments block count offset sparsing)"

definition norma_trace_status :: "'t transport \<Rightarrow> sweep_block \<Rightarrow> int \<Rightarrow> int \<Rightarrow> int \<Rightarrow> ('t client, int list) io" where
  "norma_trace_status tr block count offset sparsing = and_then (query_values tr (''TRAC:STAT? '' @ trace_arguments block count offset sparsing))
     (\<lambda>vs. case to_ints vs of None \<Rightarrow> (\<lambda>_. None) | Some ns \<Rightarrow> ret ns)"

definition norma_trace_free :: "'t transport \<Rightarrow> ('t client, int) io" where
  "norma_trace_free tr = query_int tr ''TRAC:FREE?''"

definition norma_trace_length :: "'t transport \<Rightarrow> ('t client, int) io" where
  "norma_trace_length tr = query_int tr ''TRAC:CAT:LEN?''"

definition norma_delete_traces :: "'t transport \<Rightarrow> ('t client, unit) io" where
  "norma_delete_traces tr = send tr ''TRAC:DEL:ALL''"

end
