(* ===== verification/Access_Codec.thy ===== *)
theory Access_Codec
  imports Client_Session Instrument_Data
begin

text \<open>
  The two halves of a parameter: how the client writes and reads a value, and how the
  simulator's \<open>Access\<close> methods do. \<open>access_codec\<close> is what the two have to agree on for a
  value to survive the way there and back; keywords, booleans, integers, numbers and
  function lists are interpretations.
\<close>

text \<open>Text that may follow the blank of a setting command.\<close>

definition wire :: "string \<Rightarrow> bool" where
  "wire p \<longleftrightarrow> p \<noteq> [] \<and> trimmed p \<and> field_ok (CHR '';'') p \<and> \<not> has_line_terminator p"

definition parameters_of :: "string \<Rightarrow> string list" where
  "parameters_of p = map trim (split_unquoted p (CHR '',''))"

locale access_codec =
  fixes operation :: "'v \<Rightarrow> access \<Rightarrow> 'v \<times> access"
    and put :: "'v \<Rightarrow> string"
    and get :: "string \<Rightarrow> cxx_error + 'v"
    and legal :: "'v \<Rightarrow> bool"
  assumes put_wire: "legal v \<Longrightarrow> wire (put v)"
    and operation_set: "legal v \<Longrightarrow> \<not> query (snd a) \<Longrightarrow> args (snd a) = parameters_of (put v) \<Longrightarrow> operation w a = (v, a)"
    and operation_get: "legal v \<Longrightarrow> query (snd a) \<Longrightarrow> \<exists>t. operation v a = (v, respond t a) \<and> get t = Inr v"

section \<open>Words without quotes\<close>

definition bare :: "string \<Rightarrow> bool" where
  "bare p \<longleftrightarrow> p \<noteq> [] \<and> list_all (\<lambda>c. \<not> is_quote c \<and> \<not> is_space c \<and> c \<noteq> CHR '';'' \<and> c \<noteq> CHR '','') p"

lemma bare_char:
  "bare p \<Longrightarrow> c \<in> set p \<Longrightarrow> \<not> is_quote c \<and> \<not> is_space c \<and> c \<noteq> CHR '';'' \<and> c \<noteq> CHR '',''"
  by (simp add: bare_def list_all_iff)

lemma bare_facts:
  assumes "bare p"
  shows "p \<noteq> []" "trimmed p" "plain (CHR '';'') p" "plain (CHR '','') p" "\<not> has_line_terminator p" "\<not> is_quote (hd p)"
proof -
  show n: "p \<noteq> []" using assms by (simp add: bare_def)
  show "trimmed p" "\<not> is_quote (hd p)"
    using n bare_char [OF assms, of "hd p"] bare_char [OF assms, of "last p"] by (simp_all add: trimmed_def)
  show "plain (CHR '';'') p" "plain (CHR '','') p" using bare_char [OF assms] by (simp_all add: plain_def)
  show "\<not> has_line_terminator p"
    using bare_char [OF assms, of line_feed] bare_char [OF assms, of carriage_return]
    by (auto simp: has_line_terminator_def is_space_def)
qed

lemma bare_wire: "bare p \<Longrightarrow> wire p"
  using bare_facts [of p] by (auto simp: wire_def)

lemma bare_parameters: "bare p \<Longrightarrow> parameters_of p = [p]"
  using bare_facts [of p] by (simp add: parameters_of_def)

lemma bare_argument: "bare p \<Longrightarrow> args c = [p] \<Longrightarrow> argument c 0 = Some p"
  using bare_facts [of p] by (simp add: argument_def unquote_plain)

lemma bare_to_string: "bare (to_string n)"
  using to_string_chars [of _ n] digit_not_special
  by (fastforce simp: bare_def list_all_iff is_quote_def is_space_def dest: digit_not_space)

section \<open>Keywords\<close>

lemma keyword_codec_access:
  assumes "keyword_codec prnt prs" "\<And>k. bare (prnt k)" "\<And>k. find_spelling (upper (prnt k)) tbl = Some k"
    and "\<And>k. \<exists>n ns. map_of tbl k = Some (n # ns) \<and> prs n = Inr k"
  shows "access_codec (keyword tbl) prnt prs (\<lambda>_. True)"
proof
  fix v w and a :: access
  show "wire (prnt v)" using assms(2) by (rule bare_wire)
  show "keyword tbl w a = (v, a)" if "\<not> query (snd a)" "args (snd a) = parameters_of (prnt v)"
    using that bare_argument [OF assms(2), of "snd a" v] bare_parameters [OF assms(2), of v] assms(3)
    by (simp add: keyword_def parameter_def)
  show "\<exists>t. keyword tbl v a = (v, respond t a) \<and> prs t = Inr v" if "query (snd a)"
    using that assms(4) [of v] by (auto simp: keyword_def)
qed

lemma coupling_written: "bare (to_scpi_coupling k)" "find_spelling (upper (to_scpi_coupling k)) coupling_spellings = Some k"
  by (induct k; code_simp)+

lemma coupling_answered: "\<exists>w ws. map_of coupling_spellings k = Some (w # ws) \<and> parse_coupling w = Inr k"
  by (induct k) (simp_all add: coupling_spellings_def keyword_defs normal_words Let_def)

interpretation coupling_access: access_codec "keyword coupling_spellings" to_scpi_coupling parse_coupling "\<lambda>_. True"
  by (rule keyword_codec_access [OF coupling_keyword.keyword_codec_axioms coupling_written coupling_answered])

lemma shunt_written: "bare (to_scpi_shunt k)" "find_spelling (upper (to_scpi_shunt k)) shunt_spellings = Some k"
  by (induct k; code_simp)+

lemma shunt_answered: "\<exists>w ws. map_of shunt_spellings k = Some (w # ws) \<and> parse_shunt w = Inr k"
  by (induct k) (simp_all add: shunt_spellings_def keyword_defs normal_words Let_def)

interpretation shunt_access: access_codec "keyword shunt_spellings" to_scpi_shunt parse_shunt "\<lambda>_. True"
  by (rule keyword_codec_access [OF shunt_keyword.keyword_codec_axioms shunt_written shunt_answered])

lemma slope_written: "bare (to_scpi_slope k)" "find_spelling (upper (to_scpi_slope k)) slope_spellings = Some k"
  by (induct k; code_simp)+

lemma slope_answered: "\<exists>w ws. map_of slope_spellings k = Some (w # ws) \<and> parse_slope w = Inr k"
  by (induct k) (simp_all add: slope_spellings_def keyword_defs normal_words Let_def)

interpretation slope_access: access_codec "keyword slope_spellings" to_scpi_slope parse_slope "\<lambda>_. True"
  by (rule keyword_codec_access [OF slope_keyword.keyword_codec_axioms slope_written slope_answered])

lemma level_unit_written: "bare (to_scpi_level_unit k)" "find_spelling (upper (to_scpi_level_unit k)) level_unit_spellings = Some k"
  by (induct k; code_simp)+

lemma level_unit_answered: "\<exists>w ws. map_of level_unit_spellings k = Some (w # ws) \<and> parse_level_unit w = Inr k"
  by (induct k) (simp_all add: level_unit_spellings_def keyword_defs normal_words Let_def)

interpretation level_unit_access: access_codec "keyword level_unit_spellings" to_scpi_level_unit parse_level_unit "\<lambda>_. True"
  by (rule keyword_codec_access [OF level_unit_keyword.keyword_codec_axioms level_unit_written level_unit_answered])

lemma byte_order_written: "bare (to_scpi_byte_order k)" "find_spelling (upper (to_scpi_byte_order k)) byte_order_spellings = Some k"
  by (induct k; code_simp)+

lemma byte_order_answered: "\<exists>w ws. map_of byte_order_spellings k = Some (w # ws) \<and> parse_byte_order w = Inr k"
  by (induct k) (simp_all add: byte_order_spellings_def keyword_defs normal_words Let_def)

interpretation byte_order_access: access_codec "keyword byte_order_spellings" to_scpi_byte_order parse_byte_order "\<lambda>_. True"
  by (rule keyword_codec_access [OF byte_order_keyword.keyword_codec_axioms byte_order_written byte_order_answered])

lemma key_lock_written: "bare (to_scpi_key_lock k)" "find_spelling (upper (to_scpi_key_lock k)) key_lock_spellings = Some k"
  by (induct k; code_simp)+

lemma key_lock_answered: "\<exists>w ws. map_of key_lock_spellings k = Some (w # ws) \<and> parse_key_lock w = Inr k"
  by (induct k) (simp_all add: key_lock_spellings_def keyword_defs normal_words Let_def)

interpretation key_lock_access: access_codec "keyword key_lock_spellings" to_scpi_key_lock parse_key_lock "\<lambda>_. True"
  by (rule keyword_codec_access [OF key_lock_keyword.keyword_codec_axioms key_lock_written key_lock_answered])

lemma transform_mode_written: "bare (to_scpi_transform_mode k)" "find_spelling (upper (to_scpi_transform_mode k)) transform_mode_spellings = Some k"
  by (induct k; code_simp)+

lemma transform_mode_answered: "\<exists>w ws. map_of transform_mode_spellings k = Some (w # ws) \<and> parse_transform_mode w = Inr k"
  by (induct k) (simp_all add: transform_mode_spellings_def keyword_defs normal_words Let_def)

interpretation transform_mode_access: access_codec "keyword transform_mode_spellings" to_scpi_transform_mode parse_transform_mode "\<lambda>_. True"
  by (rule keyword_codec_access [OF transform_mode_keyword.keyword_codec_axioms transform_mode_written transform_mode_answered])

lemma harmonic_grouping_written: "bare (to_scpi_harmonic_grouping k)" "find_spelling (upper (to_scpi_harmonic_grouping k)) harmonic_grouping_spellings = Some k"
  by (induct k; code_simp)+

lemma harmonic_grouping_answered: "\<exists>w ws. map_of harmonic_grouping_spellings k = Some (w # ws) \<and> parse_harmonic_grouping w = Inr k"
  by (induct k) (simp_all add: harmonic_grouping_spellings_def keyword_defs normal_words Let_def)

interpretation harmonic_grouping_access: access_codec "keyword harmonic_grouping_spellings" to_scpi_harmonic_grouping parse_harmonic_grouping "\<lambda>_. True"
  by (rule keyword_codec_access [OF harmonic_grouping_keyword.keyword_codec_axioms harmonic_grouping_written harmonic_grouping_answered])

lemma power_correction_written: "bare (to_scpi_power_correction k)" "find_spelling (upper (to_scpi_power_correction k)) power_correction_spellings = Some k"
  by (induct k; code_simp)+

lemma power_correction_answered: "\<exists>w ws. map_of power_correction_spellings k = Some (w # ws) \<and> parse_power_correction w = Inr k"
  by (induct k) (simp_all add: power_correction_spellings_def keyword_defs normal_words Let_def)

interpretation power_correction_access: access_codec "keyword power_correction_spellings" to_scpi_power_correction parse_power_correction "\<lambda>_. True"
  by (rule keyword_codec_access [OF power_correction_keyword.keyword_codec_axioms power_correction_written power_correction_answered])

lemma integral_start_written: "bare (to_scpi_integral_start k)" "find_spelling (upper (to_scpi_integral_start k)) integral_start_spellings = Some k"
  by (induct k; code_simp)+

lemma integral_start_answered: "\<exists>w ws. map_of integral_start_spellings k = Some (w # ws) \<and> parse_integral_start w = Inr k"
  by (induct k) (simp_all add: integral_start_spellings_def keyword_defs normal_words Let_def)

interpretation integral_start_access: access_codec "keyword integral_start_spellings" to_scpi_integral_start parse_integral_start "\<lambda>_. True"
  by (rule keyword_codec_access [OF integral_start_keyword.keyword_codec_axioms integral_start_written integral_start_answered])

lemma integral_stop_written: "bare (to_scpi_integral_stop k)" "find_spelling (upper (to_scpi_integral_stop k)) integral_stop_spellings = Some k"
  by (induct k; code_simp)+

lemma integral_stop_answered: "\<exists>w ws. map_of integral_stop_spellings k = Some (w # ws) \<and> parse_integral_stop w = Inr k"
  by (induct k) (simp_all add: integral_stop_spellings_def keyword_defs normal_words Let_def)

interpretation integral_stop_access: access_codec "keyword integral_stop_spellings" to_scpi_integral_stop parse_integral_stop "\<lambda>_. True"
  by (rule keyword_codec_access [OF integral_stop_keyword.keyword_codec_axioms integral_stop_written integral_stop_answered])

section \<open>Booleans\<close>

interpretation boolean_access: access_codec boolean client_format_bool to_bool "\<lambda>_. True"
proof
  fix v w and a :: access
  have b: "bare (client_format_bool v)" for v by (induct v; code_simp)
  then show "wire (client_format_bool v)" by (rule bare_wire)
  have p: "parse_boolean (client_format_bool v) = Some v" for v by (induct v; code_simp)
  show "boolean w a = (v, a)" if "\<not> query (snd a)" "args (snd a) = parameters_of (client_format_bool v)"
    using that bare_argument [OF b, of "snd a" v] bare_parameters [OF b, of v] p
    by (simp add: boolean_def parameter_def)
  have "to_bool (format_bool v) = Inr v" by (induct v; code_simp)
  then show "\<exists>t. boolean v a = (v, respond t a) \<and> to_bool t = Inr v" if "query (snd a)"
    using that by (auto simp: boolean_def)
qed

section \<open>Integers\<close>

definition legal_int :: "int \<Rightarrow> int \<Rightarrow> int \<Rightarrow> bool" where
  "legal_int lo hi n \<longleftrightarrow> lo \<le> n \<and> n \<le> hi \<and> int_min \<le> n \<and> n \<le> int_max"

interpretation integer_access: access_codec "integer lo hi" to_string to_int "legal_int lo hi" for lo hi
proof
  fix v w and a :: access
  assume l: "legal_int lo hi v"
  show "wire (to_string v)" by (rule bare_wire) (rule bare_to_string)
  show "integer lo hi w a = (v, a)" if "\<not> query (snd a)" "args (snd a) = parameters_of (to_string v)"
    using that l integer_set_then_query [of "snd a" v lo hi w "fst a"] abs_less_iff [of v "2 ^ 53"] bare_parameters [OF bare_to_string, of v]
    by (simp add: legal_int_def cxx_limits)
  show "\<exists>t. integer lo hi v a = (v, respond t a) \<and> to_int t = Inr v" if "query (snd a)"
    using that l to_int_to_string by (auto simp: integer_def legal_int_def)
qed

section \<open>Numbers\<close>

text \<open>Integers of up to nine digits print exactly with \<open>%.9g\<close>.\<close>

definition legal_number :: "double \<Rightarrow> double \<Rightarrow> double \<Rightarrow> bool" where
  "legal_number lo hi x \<longleftrightarrow> in_range lo hi x \<and> (\<exists>n. x = double_of_int n \<and> \<bar>n\<bar> < 10 ^ 9)"

lemma to_string_short:
  assumes "\<bar>n\<bar> < 10 ^ 9" shows "snprintf64 (to_string n) = to_string n"
proof -
  have "length (dec_digits \<bar>n\<bar>) \<le> 9"
  proof (rule ccontr)
    assume l: "\<not> length (dec_digits \<bar>n\<bar>) \<le> 9"
    then have "n \<noteq> 0" by (auto simp: dec_digits.simps [of 0])
    then have "10 ^ (length (dec_digits \<bar>n\<bar>) - 1) \<le> \<bar>n\<bar>" using dec_digits_brackets [of "\<bar>n\<bar>"] by simp
    moreover have "(10::int) ^ 9 \<le> 10 ^ (length (dec_digits \<bar>n\<bar>) - 1)"
      using l by (intro power_increasing) auto
    ultimately show False using assms by simp
  qed
  then have "length (to_string n) \<le> 63" by (simp add: to_string_abs abs_if split: if_splits)
  then show ?thesis by (simp add: snprintf64_def)
qed

lemma no_exponent: "map (\<lambda>c. if c = CHR ''e'' then CHR ''E'' else c) (to_string n) = to_string n"
  by (rule map_idI) (auto dest: to_string_chars simp: is_digit_code)

lemma dabs_make: "dabs (make_double s p q) = make_double False p q"
  unfolding make_double_def Let_def by (simp only: if_distrib [of dabs] dabs.simps)

lemma dabs_int: "dabs (double_of_int n) = double_of_int \<bar>n\<bar>"
  by (simp add: double_of_int_def lit_def dabs_make)

lemma nan_threshold:
  assumes "\<bar>n\<bar> < 10 ^ 9" shows "\<not> dle kScpiNanThreshold (dabs (double_of_int n))"
proof -
  have t: "is_finite kScpiNanThreshold" "dle (double_of_int (10 ^ 9)) kScpiNanThreshold" by code_simp+
  have "is_finite (double_of_int (10 ^ 9))" "dval (double_of_int (10 ^ 9)) = of_int (10 ^ 9)"
    using finite_double_of_int [of "10 ^ 9"] dval_double_of_int [of "10 ^ 9"] by simp_all
  then have "of_int (10 ^ 9) \<le> dval kScpiNanThreshold" using t dle_finite by metis
  moreover have "is_finite (double_of_int \<bar>n\<bar>)" "dval (double_of_int \<bar>n\<bar>) = of_int \<bar>n\<bar>"
    using assms finite_double_of_int [of "\<bar>n\<bar>"] dval_double_of_int [of "\<bar>n\<bar>"] by simp_all
  moreover have "(of_int \<bar>n\<bar> :: rat) < of_int (10 ^ 9)" using assms by (simp only: of_int_less_iff)
  ultimately show ?thesis using t(1) by (simp add: dabs_int dle_finite)
qed

lemma to_double_to_string:
  assumes "\<bar>n\<bar> < 10 ^ 9" shows "to_double (to_string n) = Inr (double_of_int n)"
  using assms nan_threshold [OF assms] strtod_to_string [of n] by (simp add: to_double_def)

interpretation number_access: access_codec "number lo hi" format_double to_double "legal_number lo hi" for lo hi
proof
  fix v w and a :: access
  assume "legal_number lo hi v"
  then obtain n where n: "in_range lo hi v" "v = double_of_int n" "\<bar>n\<bar> < 10 ^ 9" by (auto simp: legal_number_def)
  then have f: "format_double v = to_string n" "format_setting v = to_string n"
    by (simp_all add: format_double_def format_setting_def format_g9_int to_string_short no_exponent)
  show "wire (format_double v)" unfolding f by (rule bare_wire) (rule bare_to_string)
  show "number lo hi w a = (v, a)" if "\<not> query (snd a)" "args (snd a) = parameters_of (format_double v)"
    using that n f argument_to_string [of "snd a" n] bare_parameters [OF bare_to_string, of n] parse_to_string [of n]
    by (simp add: number_def parameter_def in_range_def)
  show "\<exists>t. number lo hi v a = (v, respond t a) \<and> to_double t = Inr v" if "query (snd a)"
    using that n f to_double_to_string by (auto simp: number_def)
qed

section \<open>Function lists\<close>

definition function_name_ok :: "string \<Rightarrow> bool" where
  "function_name_ok f \<longleftrightarrow> dquote \<notin> set f \<and> \<not> has_line_terminator f"

definition legal_functions :: "string list \<Rightarrow> bool" where
  "legal_functions fs \<longleftrightarrow> fs \<noteq> [] \<and> list_all (\<lambda>f. function_name_ok f \<and> upper f = f) fs"

lemma function_name_quote:
  assumes "list_all function_name_ok fs" "sep = CHR '','' \<or> sep = CHR '';''"
  shows "\<forall>x \<in> set (map quote fs). field_ok sep x"
  using assms by (auto simp: list_all_iff function_name_ok_def)

lemma field_ok_join:
  assumes "\<forall>x \<in> set xs. field_ok (CHR '';'') x" "xs \<noteq> []"
  shows "field_ok (CHR '';'') (join_with '','' xs)"
  using assms
proof (induction "'',''" xs rule: join_with.induct)
  case (3 x y xs)
  have "field_ok (CHR '';'') '',''" by (rule field_ok_plain) (simp add: plain_def is_quote_def)
  then show ?case using 3 by (auto intro!: field_ok_append simp del: append_Cons)
qed auto

lemma join_quotes_ends:
  "fs \<noteq> [] \<Longrightarrow> hd (client_quote_join fs) = dquote \<and> last (client_quote_join fs) = dquote \<and> client_quote_join fs \<noteq> []"
  by (induction fs rule: induct_list012) (simp_all add: client_quote_join_def quote_def)

lemma join_set: "set (join_with sep xs) \<subseteq> set sep \<union> \<Union> (set ` set xs)"
  by (induction sep xs rule: join_with.induct) auto

lemma quote_join_wire:
  assumes "list_all function_name_ok fs" "fs \<noteq> []"
  shows "wire (client_quote_join fs)" "parameters_of (client_quote_join fs) = map quote fs"
    "read_strings (client_quote_join fs) = fs"
proof -
  have t: "trimmed (client_quote_join fs)" "trim (client_quote_join fs) \<noteq> []"
    using join_quotes_ends [OF assms(2)] by (auto simp: trimmed_def is_space_def)
  have "c \<noteq> line_feed \<and> c \<noteq> carriage_return" if "c \<in> set (client_quote_join fs)" for c
    using that join_set [of "'',''" "map quote fs"] assms(1)
    by (fastforce simp: client_quote_join_def quote_def list_all_iff function_name_ok_def has_line_terminator_def)
  then have "\<not> has_line_terminator (client_quote_join fs)" by (auto simp: has_line_terminator_def)
  moreover have "field_ok (CHR '';'') (client_quote_join fs)"
    unfolding client_quote_join_def using assms function_name_quote by (intro field_ok_join) auto
  ultimately show "wire (client_quote_join fs)" using t(1) join_quotes_ends [OF assms(2)] by (simp add: wire_def)
  have c: "\<forall>x \<in> set (map quote fs). field_ok (CHR '','') x" "map quote fs \<noteq> []" "\<not> is_quote (CHR '','')"
    using assms function_name_quote by (auto simp: is_quote_def)
  show "parameters_of (client_quote_join fs) = map quote fs"
    using split_unquoted_join [OF c] by (simp add: parameters_of_def client_quote_join_def)
  have "split_csv (client_quote_join fs) = map quote fs"
    unfolding split_csv_def client_quote_join_def
    by (rule split_fields_join) (use c t(2) in \<open>auto simp: client_quote_join_def\<close>)
  then show "read_strings (client_quote_join fs) = fs" by (simp add: read_strings_def map_idI)
qed

lemma scan_quoted: "scan_function_list (map quote fs) = Inr (map upper fs)"
  by (induction fs) (simp_all add: Let_def, simp add: quote_def is_quote_def)

interpretation functions_access: access_codec function_list client_quote_join "\<lambda>t. Inr (read_strings t)" legal_functions
proof
  fix v w and a :: access
  assume l: "legal_functions v"
  then have q: "wire (client_quote_join v)" "parameters_of (client_quote_join v) = map quote v"
    "read_strings (client_quote_join v) = v"
    using quote_join_wire [of v] by (auto simp: legal_functions_def list_all_iff)
  show "wire (client_quote_join v)" by fact
  show "function_list w a = (v, a)" if "\<not> query (snd a)" "args (snd a) = parameters_of (client_quote_join v)"
    using that l q(2) map_idI [of v upper]
    by (simp add: function_list_def read_function_list_def scan_quoted legal_functions_def list_all_iff)
  show "\<exists>t. function_list v a = (v, respond t a) \<and> Inr (read_strings t) = Inr v" if "query (snd a)"
    using that q(3) by (auto simp: function_list_def quote_join_def client_quote_join_def)
qed

end
