(* ===== verification/Remote_Settings.thy ===== *)
theory Remote_Settings
  imports Access_Codec
begin

text \<open>
  A setting of the instrument seen from the client: a member of the simulator's state, the
  \<open>Access\<close> method that handles it, the header of its command and the two conversions of the
  client. \<open>remote_member\<close> puts the contracts together: what \<open>state_field\<close> says of the
  member, what \<open>access_codec\<close> says of the values, and what the command table and the
  handlers say of the header, in a simulator that is \<open>valid\<close> for it (an element of an array
  has to be there). Its lemma, set and then ask, is proved once and holds for every instance
  below. \<open>remote_setting\<close> is the case of a plain member, which every simulator has.
\<close>

section \<open>The contract\<close>

locale remote_member = state_field rd upd + access_codec operation put get legal
  for rd :: "simulator_state \<Rightarrow> 'v" and upd operation put get legal +
  fixes header :: string and table_key :: string and table_suffixes :: "int list"
    and valid :: "simulator \<Rightarrow> bool"
  assumes header_word: "word header" "hd header \<noteq> CHR ''*''"
    and header_found: "lookup_spec (header_tokens [] header) = Some (table_key, table_suffixes)"
    and valid_put_get: "valid s \<Longrightarrow> rd (upd (\<lambda>_. v) (st s)) = v"
    and valid_set: "valid s \<Longrightarrow> valid (set_st (upd (\<lambda>_. v)) s)"
    and valid_counted: "valid s \<Longrightarrow> valid (counted s)"
    and runs: "valid (fst a) \<Longrightarrow> key (snd a) = table_key \<Longrightarrow> suffixes (snd a) = table_suffixes \<Longrightarrow>
      query (snd a) \<or> (\<exists>v. legal v \<and> args (snd a) = parameters_of (put v)) \<Longrightarrow>
      execute lm a = Some (on_field rd upd operation a)"
begin

lemma set_line:
  assumes "legal v" "valid s"
  shows "handle_line lm (header @ CHR '' '' # put v) s = Some (set_st (upd (\<lambda>_. v)) (counted s), None)"
proof -
  let ?c = "empty_command\<lparr>args := parameters_of (put v), tokens := header_tokens [] header, key := table_key,
    suffixes := table_suffixes\<rparr>"
  have w: "put v \<noteq> []" "trimmed (put v)" "field_ok (CHR '';'') (put v)"
    using put_wire [OF assms(1)] by (simp_all add: wire_def)
  have "operation (rd (st (counted s))) (counted s, ?c) = (v, (counted s, ?c))"
    by (rule operation_set) (use assms in \<open>simp_all add: empty_command_def\<close>)
  then have "execute lm (counted s, ?c) = Some (set_st (upd (\<lambda>_. v)) (counted s), ?c)"
    using valid_counted [OF assms(2)] assms(1) by (subst runs) (auto simp: on_field_def)
  then show ?thesis
    using handle_setting [OF header_word w header_found, of lm s] by (simp add: parameters_of_def empty_command_def)
qed

lemma get_line:
  assumes "legal (rd (st s))" "valid s"
  shows "\<exists>t. handle_line lm (header @ ''?'') s = Some (counted s, Some t) \<and> get t = Inr (rd (st s))"
proof -
  let ?c = "empty_command\<lparr>query := True, tokens := header_tokens [] header, key := table_key, suffixes := table_suffixes\<rparr>"
  obtain t where t: "operation (rd (st s)) (counted s, ?c) = (rd (st s), respond t (counted s, ?c))" "get t = Inr (rd (st s))"
    using operation_get [OF assms(1), of "(counted s, ?c)"] by auto
  have "on_field rd upd operation (counted s, ?c) = respond t (counted s, ?c)"
    using t(1) get_put_self [of "counted s"] by (simp add: on_field_def respond_def)
  then have "execute lm (counted s, ?c) = Some (respond t (counted s, ?c))"
    using valid_counted [OF assms(2)] by (subst runs) simp_all
  then show ?thesis
    using handle_query [OF header_word header_found, of lm s] t(2) by (intro exI [of _ t]) simp
qed

lemma clean: "\<not> has_line_terminator (header @ ''?'')" "legal v \<Longrightarrow> \<not> has_line_terminator (header @ CHR '' '' # put v)"
proof -
  have "\<not> is_space c" if "c \<in> set header" for c using that header_word(1) by (simp add: word_def)
  then have h: "\<not> has_line_terminator header"
    by (auto simp: has_line_terminator_def is_space_def)
  then show "\<not> has_line_terminator (header @ ''?'')" by (simp add: has_line_terminator_def)
  show "\<not> has_line_terminator (header @ CHR '' '' # put v)" if "legal v"
    using h put_wire [OF that] by (simp add: has_line_terminator_def wire_def)
qed

text \<open>Set, then ask, through the client and the transport.\<close>

lemma set_then_get:
  assumes "sim_ready (link c)" "responses (link c) = []" "valid (unit_under_test (link c))" "legal v"
  shows "\<exists>u. and_then (send (sim_transport lm) (header @ CHR '' '' # put v))
        (\<lambda>_. parsed get (query_line (sim_transport lm) (header @ ''?''))) c = Some (c\<lparr>link := u\<rparr>, Inr v) \<and>
    sim_ready u \<and> responses u = [] \<and> st (unit_under_test u) = upd (\<lambda>_. v) (st (unit_under_test (link c)))"
proof -
  let ?s = "unit_under_test (link c)"
  let ?t = "set_st (upd (\<lambda>_. v)) (counted ?s)"
  obtain u where u: "send (sim_transport lm) (header @ CHR '' '' # put v) c = Some (c\<lparr>link := u\<rparr>, Inr ())"
      "sim_ready u" "unit_under_test u = ?t" "responses u = []"
    using sim_link.send_served [OF assms(1) clean(2) set_line] assms(2-4) by (metis answer_list_simps(1) append_Nil)
  have t: "valid ?t" using assms(3) by (intro valid_set valid_counted)
  have v: "rd (st ?t) = v" using valid_put_get [OF assms(3)] by simp
  obtain a where a: "handle_line lm (header @ ''?'') ?t = Some (counted ?t, Some a)" "get a = Inr v"
    using get_line [of ?t lm] t assms(4) unfolding v by blast
  obtain w where "query_line (sim_transport lm) (header @ ''?'') (c\<lparr>link := u\<rparr>) = Some (c\<lparr>link := w\<rparr>, Inr a)"
      "sim_ready w" "unit_under_test w = counted ?t" "responses w = []"
    using sim_link.query_in_step [of "c\<lparr>link := u\<rparr>" "header @ ''?''" lm] u a(1) clean(1) by auto
  then show ?thesis
    using u(1) a(2) by (intro exI [of _ w]) (simp add: io_simps)
qed

end

locale remote_setting = lens_field rd upd + access_codec operation put get legal
  for rd :: "simulator_state \<Rightarrow> 'v" and upd operation put get legal +
  fixes header :: string and table_key :: string and table_suffixes :: "int list"
  assumes header_word: "word header" "hd header \<noteq> CHR ''*''"
    and header_found: "lookup_spec (header_tokens [] header) = Some (table_key, table_suffixes)"
    and runs: "key (snd a) = table_key \<Longrightarrow> suffixes (snd a) = table_suffixes \<Longrightarrow>
      execute lm a = Some (on_field rd upd operation a)"

sublocale remote_setting \<subseteq> member: remote_member rd upd operation put get legal header table_key table_suffixes "\<lambda>_. True"
  by unfold_locales (simp_all add: header_word header_found runs put_get)

section \<open>The settings\<close>

text \<open>What the handlers do for a key is found by comparing keys.\<close>

lemmas handler_defs = execute_def handlers_def handle_route_def handle_input_def handle_sense_def handle_sync_def
  handle_acquisition_def handle_trigger_def handle_calculate_def handle_trace_def handle_format_def
  handle_display_output_def handle_system_def key_starts_def

text \<open>A header that the pattern of a table entry matches.\<close>

definition heads :: "string \<Rightarrow> string \<Rightarrow> string \<Rightarrow> int list \<Rightarrow> bool" where
  "heads h k pattern sfx \<longleftrightarrow> word h \<and> hd h \<noteq> CHR ''*'' \<and> (k, pattern) \<in> set command_specs \<and>
     match_pattern (compile_pattern pattern) (header_tokens [] h) [] = Some sfx"

lemma remote_settingI:
  assumes "heads h k pattern sfx" "lens_field rd upd" "access_codec opn put get legal"
    and "\<And>lm a. key (snd a) = k \<Longrightarrow> suffixes (snd a) = sfx \<Longrightarrow> execute lm a = Some (on_field rd upd opn a)"
  shows "remote_setting rd upd opn put get legal h k sfx"
  using assms lookup_pattern [of k pattern "header_tokens [] h" sfx] by (simp add: heads_def remote_setting_def remote_setting_axioms_def)

interpretation remote_sync_level_unit: remote_setting sync_level_unit sync_level_unit_update "keyword level_unit_spellings" to_scpi_level_unit parse_level_unit
    "\<lambda>_. True" "''SYNC:LEV:UNIT''" "''SYNC:LEV:UNIT''" "[]"
  by (rule remote_settingI [of _ _ "''SYNC:LEVel:UNIT''"], code_simp, rule scalar_fields, rule level_unit_access.access_codec_axioms,
    simp add: handler_defs Let_def command_suffix_def)

interpretation remote_sync_slope: remote_setting sync_slope sync_slope_update "keyword slope_spellings" to_scpi_slope parse_slope
    "\<lambda>_. True" "''SYNC:SOUR:SLOP''" "''SYNC:SLOP''" "[0]"
  by (rule remote_settingI [of _ _ "''SYNC:[SOURce|VOLTage#|CURRent#]:SLOPe''"], code_simp, rule scalar_fields, rule slope_access.access_codec_axioms,
    simp add: handler_defs Let_def command_suffix_def)

interpretation remote_byte_order: remote_setting byte_order byte_order_update "keyword byte_order_spellings" to_scpi_byte_order parse_byte_order
    "\<lambda>_. True" "''FORM:BORD''" "''FORM:BORD''" "[]"
  by (rule remote_settingI [of _ _ "''FORMat:BORDer''"], code_simp, rule scalar_fields, rule byte_order_access.access_codec_axioms,
    simp add: handler_defs Let_def command_suffix_def)

interpretation remote_key_lock: remote_setting key_lock key_lock_update "keyword key_lock_spellings" to_scpi_key_lock parse_key_lock
    "\<lambda>_. True" "''SYST:KLOC''" "''SYST:KLOC''" "[]"
  by (rule remote_settingI [of _ _ "''SYSTem:KLOCk''"], code_simp, rule scalar_fields, rule key_lock_access.access_codec_axioms,
    simp add: handler_defs Let_def command_suffix_def)

interpretation remote_trigger_start_slope: remote_setting trigger_start_slope trigger_start_slope_update "keyword slope_spellings" to_scpi_slope parse_slope
    "\<lambda>_. True" "''TRIG:STAR:SLOP''" "''TRIG:STAR:SLOP''" "[]"
  by (rule remote_settingI [of _ _ "''TRIGger:STARt:SLOPe''"], code_simp, rule scalar_fields, rule slope_access.access_codec_axioms,
    simp add: handler_defs Let_def command_suffix_def)

interpretation remote_trigger_stop_slope: remote_setting trigger_stop_slope trigger_stop_slope_update "keyword slope_spellings" to_scpi_slope parse_slope
    "\<lambda>_. True" "''TRIG:STOP:SLOP''" "''TRIG:STOP:SLOP''" "[]"
  by (rule remote_settingI [of _ _ "''TRIGger:STOP:SLOPe''"], code_simp, rule scalar_fields, rule slope_access.access_codec_axioms,
    simp add: handler_defs Let_def command_suffix_def)

interpretation remote_transform_mode: remote_setting transform_mode transform_mode_update "keyword transform_mode_spellings" to_scpi_transform_mode parse_transform_mode
    "\<lambda>_. True" "''CALC:TRAN:FREQ:MODE''" "''CALC:TRAN:FREQ:MODE''" "[]"
  by (rule remote_settingI [of _ _ "''CALCulate:TRANsform:FREQuency:MODE''"], code_simp, rule scalar_fields, rule transform_mode_access.access_codec_axioms,
    simp add: handler_defs Let_def command_suffix_def)

interpretation remote_transform_grouping: remote_setting transform_grouping transform_grouping_update "keyword harmonic_grouping_spellings" to_scpi_harmonic_grouping parse_harmonic_grouping
    "\<lambda>_. True" "''CALC:TRAN:FREQ:GRO''" "''CALC:TRAN:FREQ:GRO''" "[]"
  by (rule remote_settingI [of _ _ "''CALCulate:TRANsform:FREQuency:GROuping''"], code_simp, rule scalar_fields, rule harmonic_grouping_access.access_codec_axioms,
    simp add: handler_defs Let_def command_suffix_def)

interpretation remote_integral_start_source: remote_setting integral_start_source integral_start_source_update "keyword integral_start_spellings" to_scpi_integral_start parse_integral_start
    "\<lambda>_. True" "''CALC:INT:STAR:SOUR''" "''CALC:INT:STAR:SOUR''" "[]"
  by (rule remote_settingI [of _ _ "''CALCulate:INTegral:STARt:SOURce''"], code_simp, rule scalar_fields, rule integral_start_access.access_codec_axioms,
    simp add: handler_defs Let_def command_suffix_def)

interpretation remote_integral_stop_source: remote_setting integral_stop_source integral_stop_source_update "keyword integral_stop_spellings" to_scpi_integral_stop parse_integral_stop
    "\<lambda>_. True" "''CALC:INT:STOP:SOUR''" "''CALC:INT:STOP:SOUR''" "[]"
  by (rule remote_settingI [of _ _ "''CALCulate:INTegral:STOP:SOURce''"], code_simp, rule scalar_fields, rule integral_stop_access.access_codec_axioms,
    simp add: handler_defs Let_def command_suffix_def)

interpretation remote_power_correction: remote_setting power_correction power_correction_update "keyword power_correction_spellings" to_scpi_power_correction parse_power_correction
    "\<lambda>_. True" "''CALC:POW:CORR''" "''CALC:POW:CORR''" "[]"
  by (rule remote_settingI [of _ _ "''CALCulate:POWer:CORRected''"], code_simp, rule scalar_fields, rule power_correction_access.access_codec_axioms,
    simp add: handler_defs Let_def command_suffix_def)

interpretation remote_sync_enabled: remote_setting sync_enabled sync_enabled_update boolean client_format_bool to_bool
    "\<lambda>_. True" "''SYNC:STAT''" "''SYNC:STAT''" "[]"
  by (rule remote_settingI [of _ _ "''SYNC:STATe''"], code_simp, rule scalar_fields, rule boolean_access.access_codec_axioms,
    simp add: handler_defs Let_def command_suffix_def)

interpretation remote_sync_filter: remote_setting sync_filter sync_filter_update boolean client_format_bool to_bool
    "\<lambda>_. True" "''SYNC:SOUR:FILT:LPAS:STAT''" "''SYNC:FILT:STAT''" "[0]"
  by (rule remote_settingI [of _ _ "''SYNC:[SOURce|VOLTage#|CURRent#]:FILTer:[LPASs]:[STATe]''"], code_simp, rule scalar_fields, rule boolean_access.access_codec_axioms,
    simp add: handler_defs Let_def command_suffix_def)

interpretation remote_transpose_on: remote_setting transpose_on transpose_on_update boolean client_format_bool to_bool
    "\<lambda>_. True" "''FORM:TRAN''" "''FORM:TRAN''" "[]"
  by (rule remote_settingI [of _ _ "''FORMat:TRANspose''"], code_simp, rule scalar_fields, rule boolean_access.access_codec_axioms,
    simp add: handler_defs Let_def command_suffix_def)

interpretation remote_display_enabled: remote_setting display_enabled display_enabled_update boolean client_format_bool to_bool
    "\<lambda>_. True" "''DISP:WIND:STAT''" "''DISP:STAT''" "[]"
  by (rule remote_settingI [of _ _ "''DISPlay:[WINDow]:[STATe]''"], code_simp, rule scalar_fields, rule boolean_access.access_codec_axioms,
    simp add: handler_defs Let_def command_suffix_def)

interpretation remote_output_enabled: remote_setting output_enabled output_enabled_update boolean client_format_bool to_bool
    "\<lambda>_. True" "''OUTP9:STAT''" "''OUTP#:STAT''" "[9]"
  by (rule remote_settingI [of _ _ "''OUTPut#:[STATe]''"], code_simp, rule scalar_fields, rule boolean_access.access_codec_axioms,
    simp add: handler_defs Let_def command_suffix_def)

interpretation remote_integral_enabled: remote_setting integral_enabled integral_enabled_update boolean client_format_bool to_bool
    "\<lambda>_. True" "''CALC:INT:STAT''" "''CALC:INT:STAT''" "[]"
  by (rule remote_settingI [of _ _ "''CALCulate:INTegral:[STATe]''"], code_simp, rule scalar_fields, rule boolean_access.access_codec_axioms,
    simp add: handler_defs Let_def command_suffix_def)

interpretation remote_integral_auto_clear: remote_setting integral_auto_clear integral_auto_clear_update boolean client_format_bool to_bool
    "\<lambda>_. True" "''CALC:INT:CLE:AUTO''" "''CALC:INT:CLE:AUTO''" "[]"
  by (rule remote_settingI [of _ _ "''CALCulate:INTegral:CLEar:AUTO''"], code_simp, rule scalar_fields, rule boolean_access.access_codec_axioms,
    simp add: handler_defs Let_def command_suffix_def)

interpretation remote_gpib_address: remote_setting gpib_address gpib_address_update "integer 1 30" to_string to_int
    "legal_int 1 30" "''SYST:COMM:GPIB:ADDR''" "''SYST:COMM:GPIB:ADDR''" "[]"
  by (rule remote_settingI [of _ _ "''SYSTem:COMMunicate:GPIB:[SELF]:ADDRess''"], code_simp, rule scalar_fields, rule integer_access.access_codec_axioms,
    simp add: handler_defs Let_def command_suffix_def)

interpretation remote_serial_baud: remote_setting serial_baud serial_baud_update "integer 1200 115200" to_string to_int
    "legal_int 1200 115200" "''SYST:COMM:SER:BAUD''" "''SYST:COMM:SER:BAUD''" "[]"
  by (rule remote_settingI [of _ _ "''SYSTem:COMMunicate:SERial:BAUD''"], code_simp, rule scalar_fields, rule integer_access.access_codec_axioms,
    simp add: handler_defs Let_def command_suffix_def)

interpretation remote_harmonic_order: remote_setting harmonic_order harmonic_order_update "integer 0 100" to_string to_int
    "legal_int 0 100" "''CALC:HARM:ORD''" "''CALC:HARM:ORD''" "[]"
  by (rule remote_settingI [of _ _ "''CALCulate:HARMonic:ORDer''"], code_simp, rule scalar_fields, rule integer_access.access_codec_axioms,
    simp add: handler_defs Let_def command_suffix_def)

interpretation remote_sync_timeout: remote_setting sync_timeout sync_timeout_update "number (lit 15 1000) (lit 3600 1)" format_double to_double
    "legal_number (lit 15 1000) (lit 3600 1)" "''SYNC:TIM''" "''SYNC:TIM''" "[]"
  by (rule remote_settingI [of _ _ "''SYNC:TIMeout''"], code_simp, rule scalar_fields, rule number_access.access_codec_axioms,
    simp add: handler_defs Let_def command_suffix_def)

interpretation remote_transform_start: remote_setting transform_start transform_start_update "number dzero (lit (10 ^ 6) 1)" format_double to_double
    "legal_number dzero (lit (10 ^ 6) 1)" "''CALC:TRAN:FREQ:STAR''" "''CALC:TRAN:FREQ:STAR''" "[]"
  by (rule remote_settingI [of _ _ "''CALCulate:TRANsform:FREQuency:STARt''"], code_simp, rule scalar_fields, rule number_access.access_codec_axioms,
    simp add: handler_defs Let_def command_suffix_def)

interpretation remote_transform_stop: remote_setting transform_stop transform_stop_update "number dzero (lit (10 ^ 6) 1)" format_double to_double
    "legal_number dzero (lit (10 ^ 6) 1)" "''CALC:TRAN:FREQ:STOP''" "''CALC:TRAN:FREQ:STOP''" "[]"
  by (rule remote_settingI [of _ _ "''CALCulate:TRANsform:FREQuency:STOP''"], code_simp, rule scalar_fields, rule number_access.access_codec_axioms,
    simp add: handler_defs Let_def command_suffix_def)

interpretation remote_integral_stop_interval: remote_setting integral_stop_interval integral_stop_interval_update "number (lit 1 1000) (lit 9990000 1)" format_double to_double
    "legal_number (lit 1 1000) (lit 9990000 1)" "''CALC:INT:STOP:TINT''" "''CALC:INT:STOP:TINT''" "[]"
  by (rule remote_settingI [of _ _ "''CALCulate:INTegral:STOP:TINTerval''"], code_simp, rule scalar_fields, rule number_access.access_codec_axioms,
    simp add: handler_defs Let_def command_suffix_def)

interpretation remote_display_functions: remote_setting display_functions display_functions_update function_list client_quote_join "\<lambda>t. Inr (read_strings t)"
    legal_functions "''DISP:USER:FUNC''" "''DISP:USER:FUNC''" "[]"
  by (rule remote_settingI [of _ _ "''DISPlay:USER:FUNCtion''"], code_simp, rule scalar_fields, rule functions_access.access_codec_axioms,
    simp add: handler_defs Let_def command_suffix_def)

interpretation remote_transform_functions: remote_setting transform_functions transform_functions_update function_list client_quote_join "\<lambda>t. Inr (read_strings t)"
    legal_functions "''CALC:TRAN:FREQ:FUNC''" "''CALC:TRAN:FREQ:FUNC''" "[]"
  by (rule remote_settingI [of _ _ "''CALCulate:TRANsform:FREQuency:FUNCtion''"], code_simp, rule scalar_fields, rule functions_access.access_codec_axioms,
    simp add: handler_defs Let_def command_suffix_def)

interpretation remote_integral_functions: remote_setting integral_functions integral_functions_update function_list client_quote_join "\<lambda>t. Inr (read_strings t)"
    legal_functions "''CALC:INT:FUNC''" "''CALC:INT:FUNC''" "[]"
  by (rule remote_settingI [of _ _ "''CALCulate:INTegral:FUNCtion''"], code_simp, rule scalar_fields, rule functions_access.access_codec_axioms,
    simp add: handler_defs Let_def command_suffix_def)

section \<open>Elements of arrays\<close>

text \<open>The arrays as every session keeps them, and the channels of the instrument up to \<open>n\<close>.\<close>

definition has_arrays :: "simulator \<Rightarrow> bool" where
  "has_arrays s \<longleftrightarrow> length (coupling (st s)) = 13 \<and> length (gain (st s)) = 13 \<and> length (shunt (st s)) = 13 \<and>
     length (filter_on (st s)) = 13 \<and> length (voltage (st s)) = 7 \<and> length (current (st s)) = 7 \<and>
     length (sweep (st s)) = 3"

definition has_channel :: "int \<Rightarrow> simulator \<Rightarrow> bool" where
  "has_channel n s \<longleftrightarrow> has_arrays s \<and> n \<le> channels (opts s)"

lemma has_arrays_good: "good_settings o' (st s) \<Longrightarrow> has_arrays s"
  by (simp add: good_settings_def good_arrays_def has_arrays_def)

lemma remote_memberI:
  assumes "heads h k pattern sfx" "state_field rd upd" "access_codec opn put get legal"
    and "\<And>s v. valid s \<Longrightarrow> rd (upd (\<lambda>_. v) (st s)) = v \<and> valid (set_st (upd (\<lambda>_. v)) s) \<and> valid (counted s)"
    and "\<And>lm a. valid (fst a) \<Longrightarrow> key (snd a) = k \<Longrightarrow> suffixes (snd a) = sfx \<Longrightarrow>
      query (snd a) \<or> (\<exists>v. legal v \<and> args (snd a) = parameters_of (put v)) \<Longrightarrow>
      execute lm a = Some (on_field rd upd opn a)"
  shows "remote_member rd upd opn put get legal h k sfx valid"
  using assms lookup_pattern [of k pattern "header_tokens [] h" sfx]
  by (simp add: heads_def remote_member_def remote_member_axioms_def)

end
