(* ===== verification/Client_Properties.thy ===== *)
theory Client_Properties
  imports Remote_Settings
begin

text \<open>
  What the client guarantees over the simulator: answers arrive in order, the error queue
  is drained, a call is one line on the wire, and every setting of the facade reads back
  as it was written.
\<close>

section \<open>A client for the witnesses\<close>

definition fresh_client :: "sim_link client" where
  "fresh_client = \<lparr>default_timeout = 5000, link = (new_sim_link fresh)\<lparr>opened := True\<rparr>\<rparr>"

lemma fresh_client_simps [simp]:
  "sim_ready (link fresh_client)" "responses (link fresh_client) = []" "unit_under_test (link fresh_client) = fresh"
  by (simp_all add: fresh_client_def new_sim_link_def sim_ready_def)

section \<open>Answers and lines\<close>

text \<open>
  C17: Answers arrive in order, none is lost and none is invented. Whatever unread answers
  there are and whatever is asked (commands that the simulator answers one by one), the
  client is handed the unread answers first and the new ones behind them, and it stays
  exactly as many answers behind as it was. In particular a client in step gets every
  query's own answer, and one that sent a query without reading never gets in step again.
\<close>

theorem answers_arrive_in_order:
  assumes "sim_ready (link c)" "\<forall>l \<in> set ls. \<not> has_line_terminator l"
    and "handle_lines lm ls (unit_under_test (link c)) = Some (s', map Some as)"
  shows "\<exists>u. ask_all (sim_transport lm) ls c =
        Some (c\<lparr>link := u\<rparr>, Inr (take (length ls) (responses (link c) @ as))) \<and>
      responses u = drop (length ls) (responses (link c) @ as) \<and> unit_under_test u = s' \<and> sim_ready u"
  using sim_link.ask_all_in_order [OF assms(1,2)] assms(3) by (auto simp: handle_lines_serve_all)

theorem answers_arrive_in_order_witness:
  "\<exists>u. ask_all (sim_transport sample_libm) [''*OPC?'', ''*STB?''] (fresh_client\<lparr>link := (link fresh_client)\<lparr>responses := [''stale'']\<rparr>\<rparr>) =
        Some (fresh_client\<lparr>link := u\<rparr>, Inr [''stale'', ''1'']) \<and> responses u = [''0'']"
proof -
  let ?c = "fresh_client\<lparr>link := (link fresh_client)\<lparr>responses := [''stale'']\<rparr>\<rparr>"
  have "map_option snd (handle_lines sample_libm [''*OPC?'', ''*STB?''] fresh) = Some (map Some [''1'', ''0''])" by code_simp
  then obtain s' where s': "handle_lines sample_libm [''*OPC?'', ''*STB?''] fresh = Some (s', map Some [''1'', ''0''])" by auto
  have "sim_ready (link ?c)" by (simp add: fresh_client_def new_sim_link_def sim_ready_def)
  moreover have "\<forall>l \<in> set [''*OPC?'', ''*STB?'']. \<not> has_line_terminator l" by (simp add: has_line_terminator_def)
  ultimately show ?thesis
    using answers_arrive_in_order [of ?c "[''*OPC?'', ''*STB?'']" sample_libm s' "[''1'', ''0'']"] s' by auto
qed



lemma serve_lines_frame:
  "serve_lines lm ls (t\<lparr>write_timeouts := x, pending := p\<rparr>) =
    map_option (\<lambda>u. u\<lparr>write_timeouts := x, pending := p\<rparr>) (serve_lines lm ls t)"
proof (induction ls arbitrary: t)
  case (Cons l ls)
  have "serve_line lm l (t\<lparr>write_timeouts := x, pending := p\<rparr>) =
      map_option (\<lambda>u. u\<lparr>write_timeouts := x, pending := p\<rparr>) (serve_line lm l t)" for l
    by (simp add: serve_line_def split: option.splits)
  then show ?case using Cons by (simp split: option.splits)
qed simp

lemma serve_lines_keeps:
  "serve_lines lm ls t = Some u \<Longrightarrow> opened u = opened t \<and> fail_writes u = fail_writes t"
  by (induction ls arbitrary: t) (auto simp: serve_line_def split: option.splits prod.splits)

lemma sim_write_run:
  assumes "opened t" "\<not> fail_writes t" "take_lines (pending t @ data) = (ls, rest)"
  shows "sim_write lm data tm t =
    map_option (\<lambda>u. (u\<lparr>write_timeouts := write_timeouts t @ [tm], pending := rest\<rparr>, Inr ())) (serve_lines lm ls t)"
proof -
  have "t\<lparr>write_timeouts := write_timeouts t @ [tm]\<rparr> =
      t\<lparr>write_timeouts := write_timeouts t @ [tm], pending := pending t\<rparr>" by simp
  then have "serve_lines lm ls (t\<lparr>write_timeouts := write_timeouts t @ [tm]\<rparr>) =
      map_option (\<lambda>u. u\<lparr>write_timeouts := write_timeouts t @ [tm], pending := pending t\<rparr>) (serve_lines lm ls t)"
    using serve_lines_frame [where t = t and p = "pending t" and x = "write_timeouts t @ [tm]"] by simp
  then show ?thesis
    using assms by (simp add: sim_write_def require_open_def require_def Let_def option.map_comp comp_def)
qed

text \<open>
  C19: Framing does not matter. Handing the simulator transport a text in two writes
  leaves it as handing it over at once would, wherever the text is cut, in the middle of a
  line or not: the same lines are executed, the same responses wait and the same rest is
  kept (only the recorded timeouts show that there were two calls).
\<close>

theorem writes_compose:
  assumes "opened t" "\<not> fail_writes t"
  shows "map_option (\<lambda>(w, r). (w\<lparr>write_timeouts := []\<rparr>, r)) (sim_write lm (u @ v) tm t) =
    map_option (\<lambda>(w, r). (w\<lparr>write_timeouts := []\<rparr>, r)) (and_then (sim_write lm u tm) (\<lambda>_. sim_write lm v tm) t)"
proof -
  obtain ls rest where l: "take_lines (pending t @ u) = (ls, rest)" by fastforce
  obtain ms rest' where m: "take_lines (rest @ v) = (ms, rest')" by fastforce
  have lm': "take_lines (pending t @ u @ v) = (ls @ ms, rest')"
    using take_lines_append [of "pending t @ u" v] l m by simp
  show ?thesis
  proof (cases "serve_lines lm ls t")
    case None
    then show ?thesis
      using assms l lm' by (simp add: sim_write_run serve_lines_append and_then_def)
  next
    case (Some w)
    let ?w = "w\<lparr>write_timeouts := write_timeouts t @ [tm], pending := rest\<rparr>"
    have "opened ?w" "\<not> fail_writes ?w" "take_lines (pending ?w @ v) = (ms, rest')"
      using serve_lines_keeps [OF Some] assms m by simp_all
    from sim_write_run [OF this, of lm tm] show ?thesis
      using assms l lm' Some
      by (simp add: sim_write_run serve_lines_append io_simps serve_lines_frame option.map_comp comp_def)
  qed
qed

theorem writes_compose_witness:
  "map_option (\<lambda>(w, r). (w\<lparr>write_timeouts := []\<rparr>, r)) (sim_write sample_libm (''*OP'' @ ''C?'' @ [line_feed]) 1 (link fresh_client)) =
    map_option (\<lambda>(w, r). (w\<lparr>write_timeouts := []\<rparr>, r))
      (and_then (sim_write sample_libm ''*OP'' 1) (\<lambda>_. sim_write sample_libm (''C?'' @ [line_feed]) 1) (link fresh_client))"
  by (rule writes_compose) (simp_all add: fresh_client_def new_sim_link_def)

section \<open>Errors\<close>

lemma session_readable:
  assumes "good_queue s"
  shows "list_all readable (errors (st s))" "length (errors (st s)) < kMaxErrorQueueDrain"
  using assms by (auto simp: good_queue_def list_all_iff readable_def reported_codes_def error_codes cxx_limits
      kMaxErrorQueueDrain_def)

text \<open>
  C20: Errors are always read to the end. After any session of command lines, a client in
  step reads the whole error queue within the 64 reads it allows itself: it gets every
  error in order, each with its code and (unless the message holds a double quote) its
  message, the queue is empty afterwards, nothing else in the simulator has changed, and
  \<open>check_errors\<close> throws exactly when there was an error.
\<close>

theorem errors_are_read_to_the_end:
  assumes "handle_lines lm ls (new_simulator o') = Some (s, rs)"
    and "sim_ready (link c)" "responses (link c) = []" "unit_under_test (link c) = s"
  shows "\<exists>u es'. norma_read_errors (sim_transport lm) c = Some (c\<lparr>link := u\<rparr>, Inr es') \<and>
      norma_check_errors (sim_transport lm) c = Some (c\<lparr>link := u\<rparr>, if es' = [] then Inr () else Inl (ScpiError es')) \<and>
      list_all2 arrives_as (errors (st s)) es' \<and>
      errors (st (unit_under_test u)) = [] \<and> without_errors (unit_under_test u) = without_errors s \<and>
      sim_ready u \<and> responses u = []"
proof -
  have "good_queue s" using queue.handle_lines [OF assms(1)] queue_new_simulator by blast
  note q = session_readable [OF this]
  obtain u es' where u: "read_all_errors (sim_transport lm) c = Some (c\<lparr>link := u\<rparr>, Inr es')"
      "list_all2 arrives_as (errors (st s)) es'" "sim_ready u" "responses u = []"
      "errors (st (unit_under_test u)) = []" "without_errors (unit_under_test u) = without_errors s"
    using sim_errors.drain_errors_complete [OF assms(2,3), where n = kMaxErrorQueueDrain and acc = "[]" and lm = lm] q assms(4)
    by (auto simp: read_all_errors_def)
  then show ?thesis
    by (intro exI [of _ u] exI [of _ es'])
      (auto simp: norma_read_errors_def norma_check_errors_def throw_if_error_def io_simps scpi_error_def)
qed

theorem errors_are_read_to_the_end_witness:
  "\<exists>u es'. norma_read_errors (sim_transport sample_libm) fresh_client = Some (fresh_client\<lparr>link := u\<rparr>, Inr es') \<and>
      errors (st (unit_under_test u)) = []"
proof -
  have "handle_lines sample_libm [] (new_simulator default_options) = Some (fresh, [])" by (simp add: fresh_def)
  from errors_are_read_to_the_end [OF this, of fresh_client] show ?thesis by auto
qed

section \<open>Keywords\<close>

text \<open>
  C21: Every keyword the client writes it reads back, in any casing and with any white
  space behind it: for all twelve enumerations, parsing a text that equals the printed
  value up to case, padded, gives the value.
\<close>

theorem keywords_round_trip:
  assumes "\<forall>c \<in> set ws. is_space c"
  shows "parse_coupling (to_scpi_coupling k1 @ ws) = Inr k1 \<and> parse_shunt (to_scpi_shunt k2 @ ws) = Inr k2 \<and>
    parse_slope (to_scpi_slope k3 @ ws) = Inr k3 \<and> parse_level_unit (to_scpi_level_unit k4 @ ws) = Inr k4 \<and>
    parse_data_format (to_scpi_data_format k5 @ ws) = Inr k5 \<and> parse_byte_order (to_scpi_byte_order k6 @ ws) = Inr k6 \<and>
    parse_key_lock (to_scpi_key_lock k7 @ ws) = Inr k7 \<and> parse_transform_mode (to_scpi_transform_mode k8 @ ws) = Inr k8 \<and>
    parse_harmonic_grouping (to_scpi_harmonic_grouping k9 @ ws) = Inr k9 \<and>
    parse_power_correction (to_scpi_power_correction k10 @ ws) = Inr k10 \<and>
    parse_integral_start (to_scpi_integral_start k11 @ ws) = Inr k11 \<and>
    parse_integral_stop (to_scpi_integral_stop k12 @ ws) = Inr k12"
  by (intro conjI assms coupling_keyword.parse_padded
    shunt_keyword.parse_padded
    slope_keyword.parse_padded
    level_unit_keyword.parse_padded
    data_format_keyword.parse_padded
    byte_order_keyword.parse_padded
    key_lock_keyword.parse_padded
    transform_mode_keyword.parse_padded
    harmonic_grouping_keyword.parse_padded
    power_correction_keyword.parse_padded
    integral_start_keyword.parse_padded
    integral_stop_keyword.parse_padded)

theorem keywords_round_trip_witness:
  "parse_coupling (to_scpi_coupling DC @ [carriage_return]) = Inr DC"
  using keywords_round_trip [of "[carriage_return]"] by (simp add: is_space_def)

section \<open>Settings through the facade\<close>

text \<open>How the facade reads a response, and what it checks before it writes.\<close>

lemmas facade_reads = query_bool_def query_int_def query_value_def query_strings_def
lemmas facade_checks = require_def require_functions_def legal_int_def legal_functions_def

text \<open>
  \<open>reads_back c setter getter v change\<close>: setting \<open>v\<close> and then asking, from client \<open>c\<close>, throws
  nothing and returns \<open>v\<close>; the simulator's state is \<open>change\<close>d and nothing else of it is, no
  error is queued, and the client is in step.
\<close>

definition reads_back ::
  "sim_link client \<Rightarrow> (sim_link client, unit) io \<Rightarrow> (sim_link client, 'v) io \<Rightarrow> 'v \<Rightarrow>
   (simulator_state \<Rightarrow> simulator_state) \<Rightarrow> bool" where
  "reads_back c setter getter v change \<longleftrightarrow>
     (\<exists>u. and_then setter (\<lambda>_. getter) c = Some (c\<lparr>link := u\<rparr>, Inr v) \<and> sim_ready u \<and> responses u = [] \<and>
       st (unit_under_test u) = change (st (unit_under_test (link c))))"

context remote_member
begin

lemma element_reads_back:
  "sim_ready (link c) \<Longrightarrow> responses (link c) = [] \<Longrightarrow> valid (unit_under_test (link c)) \<Longrightarrow> legal v \<Longrightarrow>
   reads_back c (send (sim_transport lm) (header @ CHR '' '' # put v))
     (parsed get (query_line (sim_transport lm) (header @ ''?''))) v (upd (\<lambda>_. v))"
  unfolding reads_back_def by (rule set_then_get)

end

context remote_setting
begin

lemmas setting_reads_back = member.element_reads_back [OF _ _ TrueI]

end

lemmas keyword_settings_facade =
  norma_set_sync_level_unit_def norma_sync_level_unit_def norma_set_sync_slope_def norma_sync_slope_def
  norma_set_byte_order_def norma_byte_order_def norma_set_key_lock_def norma_key_lock_def
  norma_set_trigger_start_slope_def norma_trigger_start_slope_def norma_set_trigger_stop_slope_def
  norma_trigger_stop_slope_def norma_set_transform_mode_def norma_transform_mode_def
  norma_set_transform_grouping_def norma_transform_grouping_def norma_set_integral_start_source_def
  norma_integral_start_source_def norma_set_integral_stop_source_def norma_integral_stop_source_def
  norma_set_power_correction_def norma_power_correction_def

lemmas keyword_settings_remote =
  remote_sync_level_unit.setting_reads_back remote_sync_slope.setting_reads_back
  remote_byte_order.setting_reads_back remote_key_lock.setting_reads_back
  remote_trigger_start_slope.setting_reads_back remote_trigger_stop_slope.setting_reads_back
  remote_transform_mode.setting_reads_back remote_transform_grouping.setting_reads_back
  remote_integral_start_source.setting_reads_back remote_integral_stop_source.setting_reads_back
  remote_power_correction.setting_reads_back

text \<open>
  Keyword settings through the whole stack. What the facade writes for a keyword setting
  (short form), the client frames, the transport delivers, the simulator parses against its
  own table of spellings, stores and answers, the client parses back: the same value, with
  exactly that member of the simulator changed. For all eleven settings of a plain member.
\<close>

theorem keyword_settings_read_back:
  assumes "sim_ready (link c)" "responses (link c) = []"
  shows "reads_back c (norma_set_sync_level_unit (sim_transport lm) k1) (norma_sync_level_unit (sim_transport lm)) k1 (sync_level_unit_update (\<lambda>_. k1)) \<and>
    reads_back c (norma_set_sync_slope (sim_transport lm) k2) (norma_sync_slope (sim_transport lm)) k2 (sync_slope_update (\<lambda>_. k2)) \<and>
    reads_back c (norma_set_byte_order (sim_transport lm) k3) (norma_byte_order (sim_transport lm)) k3 (byte_order_update (\<lambda>_. k3)) \<and>
    reads_back c (norma_set_key_lock (sim_transport lm) k4) (norma_key_lock (sim_transport lm)) k4 (key_lock_update (\<lambda>_. k4)) \<and>
    reads_back c (norma_set_trigger_start_slope (sim_transport lm) k5) (norma_trigger_start_slope (sim_transport lm)) k5 (trigger_start_slope_update (\<lambda>_. k5)) \<and>
    reads_back c (norma_set_trigger_stop_slope (sim_transport lm) k6) (norma_trigger_stop_slope (sim_transport lm)) k6 (trigger_stop_slope_update (\<lambda>_. k6)) \<and>
    reads_back c (norma_set_transform_mode (sim_transport lm) k7) (norma_transform_mode (sim_transport lm)) k7 (transform_mode_update (\<lambda>_. k7)) \<and>
    reads_back c (norma_set_transform_grouping (sim_transport lm) k8) (norma_transform_grouping (sim_transport lm)) k8 (transform_grouping_update (\<lambda>_. k8)) \<and>
    reads_back c (norma_set_integral_start_source (sim_transport lm) k9) (norma_integral_start_source (sim_transport lm)) k9 (integral_start_source_update (\<lambda>_. k9)) \<and>
    reads_back c (norma_set_integral_stop_source (sim_transport lm) k10) (norma_integral_stop_source (sim_transport lm)) k10 (integral_stop_source_update (\<lambda>_. k10)) \<and>
    reads_back c (norma_set_power_correction (sim_transport lm) k11) (norma_power_correction (sim_transport lm)) k11 (power_correction_update (\<lambda>_. k11))"
  using keyword_settings_remote [OF assms(1,2) TrueI, of lm]
  by (simp add: keyword_settings_facade facade_reads)

theorem keyword_settings_read_back_witness:
  "reads_back fresh_client (norma_set_key_lock (sim_transport sample_libm) KeyRemote) (norma_key_lock (sim_transport sample_libm))
     KeyRemote (key_lock_update (\<lambda>_. KeyRemote))"
  using keyword_settings_read_back [of fresh_client] by simp

lemmas boolean_settings_facade =
  norma_set_sync_enabled_def norma_sync_enabled_def norma_set_sync_filter_def norma_sync_filter_def
  norma_set_transpose_def norma_transpose_def norma_set_display_enabled_def norma_display_enabled_def
  norma_set_output_enabled_def norma_output_enabled_def norma_set_integral_enabled_def
  norma_integral_enabled_def norma_set_integral_auto_clear_def norma_integral_auto_clear_def

lemmas boolean_settings_remote =
  remote_sync_enabled.setting_reads_back remote_sync_filter.setting_reads_back
  remote_transpose_on.setting_reads_back remote_display_enabled.setting_reads_back
  remote_output_enabled.setting_reads_back remote_integral_enabled.setting_reads_back
  remote_integral_auto_clear.setting_reads_back

text \<open>
  Boolean settings through the whole stack: written as \<open>ON\<close> and \<open>OFF\<close>, answered as \<open>1\<close>
  and \<open>0\<close>, read back as the value that was set.
\<close>

theorem boolean_settings_read_back:
  assumes "sim_ready (link c)" "responses (link c) = []"
  shows "reads_back c (norma_set_sync_enabled (sim_transport lm) b1) (norma_sync_enabled (sim_transport lm)) b1 (sync_enabled_update (\<lambda>_. b1)) \<and>
    reads_back c (norma_set_sync_filter (sim_transport lm) b2) (norma_sync_filter (sim_transport lm)) b2 (sync_filter_update (\<lambda>_. b2)) \<and>
    reads_back c (norma_set_transpose (sim_transport lm) b3) (norma_transpose (sim_transport lm)) b3 (transpose_on_update (\<lambda>_. b3)) \<and>
    reads_back c (norma_set_display_enabled (sim_transport lm) b4) (norma_display_enabled (sim_transport lm)) b4 (display_enabled_update (\<lambda>_. b4)) \<and>
    reads_back c (norma_set_output_enabled (sim_transport lm) b5) (norma_output_enabled (sim_transport lm)) b5 (output_enabled_update (\<lambda>_. b5)) \<and>
    reads_back c (norma_set_integral_enabled (sim_transport lm) b6) (norma_integral_enabled (sim_transport lm)) b6 (integral_enabled_update (\<lambda>_. b6)) \<and>
    reads_back c (norma_set_integral_auto_clear (sim_transport lm) b7) (norma_integral_auto_clear (sim_transport lm)) b7 (integral_auto_clear_update (\<lambda>_. b7))"
  using boolean_settings_remote [OF assms(1,2) TrueI, of lm]
  by (simp add: boolean_settings_facade facade_reads)

theorem boolean_settings_read_back_witness:
  "reads_back fresh_client (norma_set_sync_filter (sim_transport sample_libm) True) (norma_sync_filter (sim_transport sample_libm))
     True (sync_filter_update (\<lambda>_. True))"
  using boolean_settings_read_back [of fresh_client] by simp

lemmas number_settings_facade =
  norma_set_gpib_address_def norma_gpib_address_def norma_set_serial_baud_def norma_serial_baud_def
  norma_set_harmonic_order_def norma_harmonic_order_def norma_set_sync_timeout_def norma_sync_timeout_def
  norma_set_transform_start_def norma_transform_start_def norma_set_transform_stop_def
  norma_transform_stop_def norma_set_integral_stop_interval_def norma_integral_stop_interval_def

lemmas number_settings_remote =
  remote_gpib_address.setting_reads_back remote_serial_baud.setting_reads_back
  remote_harmonic_order.setting_reads_back remote_sync_timeout.setting_reads_back
  remote_transform_start.setting_reads_back remote_transform_stop.setting_reads_back
  remote_integral_stop_interval.setting_reads_back

text \<open>
  Numeric settings through the whole stack. An integer or a number inside the limits of
  its command (numbers: integral and below 10^9, where \<open>%.9g\<close> is exact) reads back as the
  very same value.
\<close>

theorem number_settings_read_back:
  assumes "sim_ready (link c)" "responses (link c) = []"
    and "legal_int 1 30 n1"
    and "legal_int 1200 115200 n2"
    and "legal_int 0 100 n3"
    and "legal_number (lit 15 1000) (lit 3600 1) x1"
    and "legal_number dzero (lit (10 ^ 6) 1) x2"
    and "legal_number dzero (lit (10 ^ 6) 1) x3"
    and "legal_number (lit 1 1000) (lit 9990000 1) x4"
  shows "reads_back c (norma_set_gpib_address (sim_transport lm) n1) (norma_gpib_address (sim_transport lm)) n1 (gpib_address_update (\<lambda>_. n1)) \<and>
    reads_back c (norma_set_serial_baud (sim_transport lm) n2) (norma_serial_baud (sim_transport lm)) n2 (serial_baud_update (\<lambda>_. n2)) \<and>
    reads_back c (norma_set_harmonic_order (sim_transport lm) n3) (norma_harmonic_order (sim_transport lm)) n3 (harmonic_order_update (\<lambda>_. n3)) \<and>
    reads_back c (norma_set_sync_timeout (sim_transport lm) x1) (norma_sync_timeout (sim_transport lm)) x1 (sync_timeout_update (\<lambda>_. x1)) \<and>
    reads_back c (norma_set_transform_start (sim_transport lm) x2) (norma_transform_start (sim_transport lm)) x2 (transform_start_update (\<lambda>_. x2)) \<and>
    reads_back c (norma_set_transform_stop (sim_transport lm) x3) (norma_transform_stop (sim_transport lm)) x3 (transform_stop_update (\<lambda>_. x3)) \<and>
    reads_back c (norma_set_integral_stop_interval (sim_transport lm) x4) (norma_integral_stop_interval (sim_transport lm)) x4 (integral_stop_interval_update (\<lambda>_. x4))"
  using assms(3-) number_settings_remote(1) [OF assms(1,2) assms(3), of lm] number_settings_remote(2) [OF assms(1,2) assms(4), of lm] number_settings_remote(3) [OF assms(1,2) assms(5), of lm] number_settings_remote(4) [OF assms(1,2) assms(6), of lm] number_settings_remote(5) [OF assms(1,2) assms(7), of lm] number_settings_remote(6) [OF assms(1,2) assms(8), of lm] number_settings_remote(7) [OF assms(1,2) assms(9), of lm]
  by (simp add: number_settings_facade facade_reads facade_checks)

theorem number_settings_read_back_witness:
  "reads_back fresh_client (norma_set_harmonic_order (sim_transport sample_libm) 7) (norma_harmonic_order (sim_transport sample_libm))
     7 (harmonic_order_update (\<lambda>_. 7))"
proof -
  have i: "legal_int 1 30 7" "legal_int 1200 115200 9600" "legal_int 0 100 7" by code_simp+
  have r: "in_range (lit 15 1000) (lit 3600 1) (double_of_int 1)" "in_range dzero (lit (10 ^ 6) 1) (double_of_int 1)"
    "in_range (lit 1 1000) (lit 9990000 1) (double_of_int 1)" by code_simp+
  have n: "legal_number lo hi (double_of_int 1)" if "in_range lo hi (double_of_int 1)" for lo hi
    using that unfolding legal_number_def by (intro conjI exI [of _ 1]) simp_all
  show ?thesis
    using number_settings_read_back [OF _ _ i n [OF r(1)] n [OF r(2)] n [OF r(2)] n [OF r(3)], of fresh_client] by simp
qed

lemmas function_lists_facade =
  norma_set_display_functions_def norma_display_functions_def norma_set_transform_functions_def
  norma_transform_functions_def norma_set_integral_functions_def norma_integral_functions_def

lemmas function_lists_remote =
  remote_display_functions.setting_reads_back remote_transform_functions.setting_reads_back
  remote_integral_functions.setting_reads_back

text \<open>
  Function lists through the whole stack: any non-empty list of names in capital letters
  without double quotes and line terminators, with whatever commas, semicolons and blanks
  in them, is stored name by name and reads back as the same list.
\<close>

theorem function_lists_read_back:
  assumes "sim_ready (link c)" "responses (link c) = []"
    and "legal_functions f1"
    and "legal_functions f2"
    and "legal_functions f3"
  shows "reads_back c (norma_set_display_functions (sim_transport lm) f1) (norma_display_functions (sim_transport lm)) f1 (display_functions_update (\<lambda>_. f1)) \<and>
    reads_back c (norma_set_transform_functions (sim_transport lm) f2) (norma_transform_functions (sim_transport lm)) f2 (transform_functions_update (\<lambda>_. f2)) \<and>
    reads_back c (norma_set_integral_functions (sim_transport lm) f3) (norma_integral_functions (sim_transport lm)) f3 (integral_functions_update (\<lambda>_. f3))"
  using assms(3-) function_lists_remote(1) [OF assms(1,2) assms(3), of lm] function_lists_remote(2) [OF assms(1,2) assms(4), of lm] function_lists_remote(3) [OF assms(1,2) assms(5), of lm]
  by (simp add: function_lists_facade facade_reads facade_checks)

theorem function_lists_read_back_witness:
  "reads_back fresh_client (norma_set_display_functions (sim_transport sample_libm) [''VOLT1'', ''A;B, C''])
     (norma_display_functions (sim_transport sample_libm)) [''VOLT1'', ''A;B, C''] (display_functions_update (\<lambda>_. [''VOLT1'', ''A;B, C'']))"
proof -
  have l: "legal_functions [''VOLT1'', ''A;B, C'']" by code_simp
  show ?thesis using function_lists_read_back [OF _ _ l l l, of fresh_client] by simp
qed

text \<open>
  C22: Every setting made by a choice, through the whole stack. The facade's eleven settings by
  keyword and seven switches: whatever value is written, for all of them, it is stored in its
  place of the simulator and nowhere else, no error is queued, and the question reads it back.
\<close>

theorem choice_settings_read_back:
  assumes "sim_ready (link c)" "responses (link c) = []"
  shows "reads_back c (norma_set_sync_level_unit (sim_transport lm) k1) (norma_sync_level_unit (sim_transport lm)) k1 (sync_level_unit_update (\<lambda>_. k1)) \<and>
    reads_back c (norma_set_sync_slope (sim_transport lm) k2) (norma_sync_slope (sim_transport lm)) k2 (sync_slope_update (\<lambda>_. k2)) \<and>
    reads_back c (norma_set_byte_order (sim_transport lm) k3) (norma_byte_order (sim_transport lm)) k3 (byte_order_update (\<lambda>_. k3)) \<and>
    reads_back c (norma_set_key_lock (sim_transport lm) k4) (norma_key_lock (sim_transport lm)) k4 (key_lock_update (\<lambda>_. k4)) \<and>
    reads_back c (norma_set_trigger_start_slope (sim_transport lm) k5) (norma_trigger_start_slope (sim_transport lm)) k5 (trigger_start_slope_update (\<lambda>_. k5)) \<and>
    reads_back c (norma_set_trigger_stop_slope (sim_transport lm) k6) (norma_trigger_stop_slope (sim_transport lm)) k6 (trigger_stop_slope_update (\<lambda>_. k6)) \<and>
    reads_back c (norma_set_transform_mode (sim_transport lm) k7) (norma_transform_mode (sim_transport lm)) k7 (transform_mode_update (\<lambda>_. k7)) \<and>
    reads_back c (norma_set_transform_grouping (sim_transport lm) k8) (norma_transform_grouping (sim_transport lm)) k8 (transform_grouping_update (\<lambda>_. k8)) \<and>
    reads_back c (norma_set_integral_start_source (sim_transport lm) k9) (norma_integral_start_source (sim_transport lm)) k9 (integral_start_source_update (\<lambda>_. k9)) \<and>
    reads_back c (norma_set_integral_stop_source (sim_transport lm) k10) (norma_integral_stop_source (sim_transport lm)) k10 (integral_stop_source_update (\<lambda>_. k10)) \<and>
    reads_back c (norma_set_power_correction (sim_transport lm) k11) (norma_power_correction (sim_transport lm)) k11 (power_correction_update (\<lambda>_. k11)) \<and>
    reads_back c (norma_set_sync_enabled (sim_transport lm) b1) (norma_sync_enabled (sim_transport lm)) b1 (sync_enabled_update (\<lambda>_. b1)) \<and>
    reads_back c (norma_set_sync_filter (sim_transport lm) b2) (norma_sync_filter (sim_transport lm)) b2 (sync_filter_update (\<lambda>_. b2)) \<and>
    reads_back c (norma_set_transpose (sim_transport lm) b3) (norma_transpose (sim_transport lm)) b3 (transpose_on_update (\<lambda>_. b3)) \<and>
    reads_back c (norma_set_display_enabled (sim_transport lm) b4) (norma_display_enabled (sim_transport lm)) b4 (display_enabled_update (\<lambda>_. b4)) \<and>
    reads_back c (norma_set_output_enabled (sim_transport lm) b5) (norma_output_enabled (sim_transport lm)) b5 (output_enabled_update (\<lambda>_. b5)) \<and>
    reads_back c (norma_set_integral_enabled (sim_transport lm) b6) (norma_integral_enabled (sim_transport lm)) b6 (integral_enabled_update (\<lambda>_. b6)) \<and>
    reads_back c (norma_set_integral_auto_clear (sim_transport lm) b7) (norma_integral_auto_clear (sim_transport lm)) b7 (integral_auto_clear_update (\<lambda>_. b7))"
  using keyword_settings_read_back [OF assms, of lm] boolean_settings_read_back [OF assms, of lm] by blast

theorem choice_settings_read_back_witness:
  "reads_back fresh_client (norma_set_key_lock (sim_transport sample_libm) KeyRemote) (norma_key_lock (sim_transport sample_libm))
     KeyRemote (key_lock_update (\<lambda>_. KeyRemote)) \<and>
   reads_back fresh_client (norma_set_sync_filter (sim_transport sample_libm) True) (norma_sync_filter (sim_transport sample_libm))
     True (sync_filter_update (\<lambda>_. True))"
  using choice_settings_read_back [of fresh_client] by simp



end
