(* ===== verification/Number_Chars.thy ===== *)
theory Number_Chars
  imports Number_Text
begin

text \<open>The characters of a formatted number: none that separates, quotes or ends anything.\<close>

definition number_char :: "char \<Rightarrow> bool" where
  "number_char c \<longleftrightarrow> is_digit c \<or> c \<in> set ''+-.EINFAeinfa''"

lemma number_char_bare: "number_char c \<Longrightarrow> \<not> is_quote c \<and> \<not> is_space c \<and> c \<noteq> CHR '';'' \<and> c \<noteq> CHR '','' \<and> c \<noteq> CHR 0x00"
proof -
  have "list_all (\<lambda>c. \<not> is_quote c \<and> \<not> is_space c \<and> c \<noteq> CHR '';'' \<and> c \<noteq> CHR '','' \<and> c \<noteq> CHR 0x00) ''+-.EINFAeinfa''"
    by code_simp
  moreover have "\<not> is_quote c \<and> \<not> is_space c \<and> c \<noteq> CHR '';'' \<and> c \<noteq> CHR '','' \<and> c \<noteq> CHR 0x00" if "is_digit c"
    using digit_not_special [OF that] digit_not_space [OF that] by (simp add: is_quote_def)
  ultimately show "number_char c \<Longrightarrow> \<not> is_quote c \<and> \<not> is_space c \<and> c \<noteq> CHR '';'' \<and> c \<noteq> CHR '','' \<and> c \<noteq> CHR 0x00"
    unfolding number_char_def list_all_iff by blast
qed

abbreviation numeric :: "string \<Rightarrow> bool" where
  "numeric s \<equiv> list_all number_char s"

lemma numeric_take [intro]: "numeric s \<Longrightarrow> numeric (take n s)"
  and numeric_drop [intro]: "numeric s \<Longrightarrow> numeric (drop n s)"
  by (auto simp: list_all_iff dest: in_set_takeD in_set_dropD)

lemma numeric_marks:
  "number_char (CHR ''0'')" "number_char (CHR ''+'')" "number_char (CHR ''-'')" "number_char (CHR ''E'')"
  "number_char (CHR ''e'')" "number_char (CHR ''.'')"
  by code_simp+

lemma numeric_words:
  "numeric ''+INF''" "numeric ''-INF''" "numeric ''+NAN''" "numeric ''inf''" "numeric ''-inf''" "numeric ''nan''"
  by code_simp+

lemma numeric_digits [simp]: "numeric (dec_digits n)"
  using dec_digits_digits by (auto simp: list_all_iff number_char_def)

lemma numeric_zeros [simp]: "numeric (replicate n (CHR ''0''))"
  using numeric_marks(1) by (simp add: list_all_iff)

lemma numeric_with_point: "numeric u \<Longrightarrow> numeric v \<Longrightarrow> numeric (with_point u v)"
  by (simp add: with_point_def numeric_marks)

lemma numeric_strip_zeros: "numeric s \<Longrightarrow> numeric (strip_zeros s)"
  by (auto simp: strip_zeros_def list_all_iff dest: set_dropWhileD)

lemma numeric_exponent: "number_char m \<Longrightarrow> numeric (exponent_text m n)"
  by (simp add: exponent_text_def numeric_marks)

lemma numeric_zero: "numeric ''0''"
  using numeric_marks(1) by simp

lemmas numeric_parts = numeric_with_point numeric_strip_zeros numeric_exponent numeric_zero numeric_take numeric_drop
  numeric_digits numeric_zeros

lemma numeric_to_string: "numeric (to_string n)"
  by (simp add: to_string_def numeric_marks)

lemma sign_chars: "numeric (if s then ''-'' else ''+'')" "numeric (if s then ''-'' else [])"
  by (simp_all add: numeric_marks)

lemma format_E_chars: "numeric (format_E k x)"
proof (cases x)
  case (Fin s m ex)
  show ?thesis
    unfolding Fin format_E_def double.case Let_def list_all_append
    by (intro conjI sign_chars) (cases "m = 0"; simp add: numeric_marks numeric_parts split: prod.splits)
next
  case (Inf s)
  then show ?thesis unfolding Inf format_E_def double.case using numeric_words by (cases s) (simp_all only: if_True if_False)
next
  case NaN
  show ?thesis unfolding NaN format_E_def double.case by (rule numeric_words)
qed

lemma format_g9_chars: "numeric (format_g9 x)"
proof (cases x)
  case (Fin s m ex)
  show ?thesis
    unfolding Fin format_g9_def double.case Let_def list_all_append
    by (intro conjI sign_chars) (cases "m = 0"; simp add: numeric_marks numeric_parts split: prod.splits)
next
  case (Inf s)
  then show ?thesis unfolding Inf format_g9_def double.case using numeric_words by (cases s) (simp_all only: if_True if_False)
next
  case NaN
  show ?thesis unfolding NaN format_g9_def double.case by (rule numeric_words)
qed

lemma snprintf64_chars: "numeric s \<Longrightarrow> numeric (snprintf64 s)"
  by (auto simp: snprintf64_def)

end
