(* ===== verification/Data_Properties.thy ===== *)
theory Data_Properties
  imports Client_Properties Number_Chars
begin

text \<open>
  Queries with several values through client and simulator: windows of the data queries,
  measurement values with their status, the whole error queue on one line, and what
  \<open>prepare\<close> leaves behind.
\<close>

section \<open>Integers and windows\<close>

text \<open>
  C26: An integer response is read modulo the two conversions of the code, never as an
  error: \<open>strtol\<close> saturates at the limits of \<open>long\<close>, the cast to \<open>int\<close> keeps the low 32
  bits. So exactly the values an \<open>int\<close> can hold are read faithfully.
\<close>

theorem integers_read_back:
  "to_int (to_string n) = Inr (wrap32 (max long_min (min long_max n))) \<and>
   (to_int (to_string n) = Inr n \<longleftrightarrow> int_min \<le> n \<and> n \<le> int_max)"
proof -
  have r: "to_int (to_string n) = Inr (wrap32 (max long_min (min long_max n)))"
    by (simp add: to_int_def)
  have "wrap32 (max long_min (min long_max n)) = n \<longleftrightarrow> int_min \<le> n \<and> n \<le> int_max"
    using wrap32_range [of "max long_min (min long_max n)"] by (auto simp: cxx_limits)
  then show ?thesis using r by simp
qed

lemma join_ints_parameters: "ns \<noteq> [] \<Longrightarrow> parameters_of (join_with '','' (map to_string ns)) = map to_string ns"
proof -
  assume "ns \<noteq> []"
  moreover have "\<forall>x \<in> set (map to_string ns). field_ok (CHR '','') x"
    using plain_digits_comma by auto
  ultimately have "split_unquoted (join_with '','' (map to_string ns)) (CHR '','') = map to_string ns"
    by (intro split_unquoted_join) (simp_all add: is_quote_def)
  then show ?thesis by (simp add: parameters_of_def)
qed

lemma not_negative: "0 \<le> n \<Longrightarrow> n < 2 ^ 53 \<Longrightarrow> \<not> dlt (double_of_int n) dzero"
proof -
  have z: "dzero = double_of_int 0" by code_simp
  show "0 \<le> n \<Longrightarrow> n < 2 ^ 53 \<Longrightarrow> \<not> dlt (double_of_int n) dzero"
    unfolding z by (subst dlt_finite) simp_all
qed

lemma scan_window_ints:
  "\<forall>n \<in> set ns. 0 \<le> n \<and> n \<le> int_max \<Longrightarrow> scan_window k (map to_string ns) = Inr (take k ns)"
proof (induction k "map to_string ns" arbitrary: ns rule: scan_window.induct)
  case (3 k x xs)
  then obtain n ms where ns: "ns = n # ms" "x = to_string n" "xs = map to_string ms" by auto
  have "0 \<le> n" "n \<le> int_max" using 3(3) ns by auto
  then have "parse_number x = Some (double_of_int n)" "\<not> dlt (double_of_int n) dzero" "lround_int (double_of_int n) = n"
    using parse_to_string [of n] not_negative [of n] by (auto simp: ns cxx_limits)
  moreover have "scan_window k (map to_string ms) = Inr (take k ms)"
    using 3 ns calculation by auto
  ultimately show ?case by (simp add: ns)
qed auto

definition block_number :: "sweep_block \<Rightarrow> int" where
  "block_number block = (if block = Block2 then 2 else 1)"

lemma trace_arguments_ints:
  "trace_arguments block count offset sparsing = join_with '','' (map to_string (block_number block #
     (if count \<le> 0 then [] else count # (if 0 < offset \<or> 0 < sparsing then [offset] else []) @
       (if 0 < sparsing then [sparsing] else []))))"
proof -
  have "to_string 1 = ''1''" "to_string 2 = ''2''" by code_simp+
  then show ?thesis by (simp add: trace_arguments_def trace_block_def block_number_def)
qed

text \<open>
  C27: Client and simulator agree on the optional window. Whatever count, offset and
  sparsing the caller of a trace query gives, the simulator reads the block it was meant
  for and the same window; with no count the window is the whole memory, and then the code
  drops offset and sparsing with it.
\<close>

theorem window_arguments_agree:
  assumes "args (snd a) = parameters_of (trace_arguments block count offset sparsing)"
    and "count \<le> int_max" "0 \<le> offset" "offset \<le> int_max" "0 \<le> sparsing" "sparsing \<le> int_max"
  shows "block_argument (args (snd a) ! 0) = Some (if block = Block2 then 2 else 1) \<and>
    read_window 1 a = (a, Some (if 0 < count
      then \<lparr>win_count = count, win_offset = offset, win_sparsing = sparsing\<rparr>
      else \<lparr>win_count = 0, win_offset = 0, win_sparsing = 0\<rparr>))"
proof -
  let ?ns = "if count \<le> 0 then [] else count # (if 0 < offset \<or> 0 < sparsing then [offset] else []) @
       (if 0 < sparsing then [sparsing] else [])"
  have args: "args (snd a) = to_string (block_number block) # map to_string ?ns"
    using assms(1) join_ints_parameters [of "block_number block # ?ns"]
    unfolding trace_arguments_ints by simp
  have b: "block_argument (to_string 1) = Some 1" "block_argument (to_string 2) = Some 2" by code_simp+
  have "scan_window 3 (map to_string ?ns) = Inr (take 3 ?ns)"
    by (rule scan_window_ints) (use assms in auto)
  moreover have "take 3 ?ns = ?ns" by simp
  ultimately have "read_window 1 a = (a, Some (window_of ?ns))"
    by (simp add: read_window_def args)
  moreover have "window_of ?ns = (if 0 < count
      then \<lparr>win_count = count, win_offset = offset, win_sparsing = sparsing\<rparr>
      else \<lparr>win_count = 0, win_offset = 0, win_sparsing = 0\<rparr>)"
    using assms by (auto simp: window_of_def)
  ultimately show ?thesis using b by (simp add: args block_number_def)
qed

theorem window_arguments_agree_witness:
  "read_window 1 (fresh, empty_command\<lparr>args := parameters_of (trace_arguments Block2 16 0 4)\<rparr>) =
    ((fresh, empty_command\<lparr>args := parameters_of (trace_arguments Block2 16 0 4)\<rparr>),
     Some \<lparr>win_count = 16, win_offset = 0, win_sparsing = 4\<rparr>)"
  using window_arguments_agree [of "(fresh, empty_command\<lparr>args := parameters_of (trace_arguments Block2 16 0 4)\<rparr>)" Block2 16 0 4]
  by (simp add: cxx_limits empty_command_def)

section \<open>Measurement values\<close>

text \<open>A formatted value is a bare word that \<open>strtod\<close> converts: a sign, then a digit or \<open>INF\<close>.\<close>

definition signed_number :: "string \<Rightarrow> bool" where
  "signed_number s \<longleftrightarrow> (\<exists>c r. s = c # r \<and> (c = CHR ''+'' \<or> c = CHR ''-'') \<and>
     (r = ''INF'' \<or> r \<noteq> [] \<and> is_digit (hd r)))"

lemma signed_numberI: "r \<noteq> [] \<Longrightarrow> is_digit (hd r) \<Longrightarrow> signed_number ((if s then ''-'' else ''+'') @ r)"
  by (simp add: signed_number_def)

lemma with_point_digit:
  assumes "u \<noteq> []" "is_digit (hd u)" shows "with_point u v \<noteq> [] \<and> is_digit (hd (with_point u v))"
  using assms by (simp add: with_point_def)

lemma format_E_signed: "x \<noteq> NaN \<Longrightarrow> signed_number (format_E k x)"
proof (cases x)
  case (Fin s m e)
  have "take 1 (dec_digits n) \<noteq> []" "is_digit (hd (take 1 (dec_digits n)))" for n
    using hd_dec_digits [of n] by (simp_all add: hd_take)
  then have h: "with_point (take 1 (dec_digits n)) v \<noteq> [] \<and> is_digit (hd (with_point (take 1 (dec_digits n)) v))" for n v
    by (rule with_point_digit)
  have z: "with_point ''0'' v \<noteq> [] \<and> is_digit (hd (with_point ''0'' v))" for v
    by (rule with_point_digit) code_simp+
  obtain d ex where sci: "sci_digits (k + 1) \<bar>numer x\<bar> (denom x) = (d, ex)" by fastforce
  show ?thesis
    using h [of d "drop 1 (dec_digits d)"] z [of "replicate (nat k) (CHR ''0'')"]
    unfolding Fin format_E_def double.case Let_def sci [unfolded Fin] prod.case
    by (intro signed_numberI; cases "m = 0"; simp add: hd_append)
qed (auto simp: format_E_def signed_number_def)

lemma signed_number_truncated: "signed_number s \<Longrightarrow> signed_number (snprintf64 s)"
proof -
  have t: "is_digit (hd (take 62 r)) \<and> take 62 r \<noteq> []" if "r \<noteq> []" "is_digit (hd r)" for r :: string
    using that by (cases r) auto
  assume "signed_number s"
  then show ?thesis
    using t by (auto simp: signed_number_def snprintf64_def numeral_eq_Suc)
qed

lemma strtod_signed:
  assumes "signed_number s" "list_all number_char s"
  shows "strtod s \<noteq> None"
proof -
  obtain c r where s: "s = c # r" "c = CHR ''+'' \<or> c = CHR ''-''" "r = ''INF'' \<or> r \<noteq> [] \<and> is_digit (hd r)"
    using assms(1) by (auto simp: signed_number_def)
  have "c_str s = s"
    using assms(2) number_char_bare unfolding c_str_def takeWhile_eq_all_conv by (auto simp: list_all_iff)
  moreover have "dropWhile is_space s = s" using s by (auto simp: is_space_def)
  moreover have "strip_sign s = (c = CHR ''-'', r)" using s by (auto simp: strip_sign_def)
  moreover have "read_decimal neg r \<noteq> None" if "r \<noteq> []" "is_digit (hd r)" for neg
    using that by (cases r) (auto simp: read_decimal_def read_mantissa_def Let_def split: list.splits prod.splits)
  moreover have "prefix_ci ''INF'' ''INF''" by code_simp
  ultimately show ?thesis using s(3) by (auto simp: strtod_def split: option.splits)
qed

lemma format_value_word:
  "list_all number_char (format_value x v) \<and> signed_number (format_value x v)"
proof -
  have E: "list_all number_char (snprintf64 (format_E k w)) \<and> signed_number (snprintf64 (format_E k w))"
    if "w \<noteq> NaN" for k w
    using format_E_chars [of k w] signed_number_truncated [OF format_E_signed [OF that]]
    by (auto simp: snprintf64_def list_all_iff dest: in_set_takeD)
  have "kScpiNan \<noteq> NaN" by code_simp
  then show ?thesis
    using E by (cases v) (simp_all add: format_value_def Let_def)
qed

lemma format_value_bare: "bare (format_value x v)"
  using format_value_word [of x v] number_char_bare
  by (auto simp: bare_def list_all_iff signed_number_def)

lemma to_double_format_value: "\<exists>y. to_double (format_value x v) = Inr y"
  using strtod_signed [of "format_value x v"] format_value_word [of x v] bare_facts(1,2) [OF format_value_bare]
  by (auto simp: to_double_def)

lemma to_double_invalid: "to_double (format_value x NaN) = Inr NaN"
proof -
  have "to_double (snprintf64 (format_E 5 kScpiNan)) = Inr NaN" by code_simp
  then show ?thesis by (simp add: format_value_def)
qed

lemma cast_int_double_of_int:
  assumes "int_min \<le> n" "n \<le> int_max" shows "cast_int (double_of_int n) = Some n"
proof -
  have b: "\<bar>n\<bar> < 2 ^ 53" using assms by (auto simp: cxx_limits)
  obtain m e where d: "double_of_int n = Fin (n < 0) m e" by (rule double_of_int_exact [OF b]) blast
  have p: "0 < denom (double_of_int n)" by simp
  have q: "numer (double_of_int n) = n * denom (double_of_int n)" by (rule numer_double_of_int [OF b])
  have "\<bar>numer (double_of_int n)\<bar> div denom (double_of_int n) = \<bar>n\<bar>"
    unfolding q abs_mult abs_of_pos [OF p] by (metis denom_pos less_irrefl nonzero_mult_div_cancel_right)
  moreover have "numer (double_of_int n) < 0 \<longleftrightarrow> n < 0"
    using denom_pos [of "double_of_int n"] unfolding q mult_less_0_iff by linarith
  ultimately show ?thesis
    using assms unfolding cast_int_def truncate_to_def d double.case by (auto simp: Let_def)
qed

lemma to_ints_double_of_int:
  "\<forall>n \<in> set ns. int_min \<le> n \<and> n \<le> int_max \<Longrightarrow> to_ints (map double_of_int ns) = Some ns"
  by (induction ns) (simp_all add: cast_int_double_of_int)

lemma measure_all_status: "measure_all lm x sg fs = Some ms \<Longrightarrow> list_all status_ok ms \<and> length ms = length fs"
  by (induction fs arbitrary: ms) (auto split: option.splits dest: measure_status)

lemma join_with_Cons: "join_with sep (x # ys) = x @ concat (map (\<lambda>y. sep @ y) ys)"
proof (induction ys arbitrary: x)
  case (Cons y ys)
  show ?case by (simp add: Cons)
qed simp

lemma join_with_append:
  "xs \<noteq> [] \<Longrightarrow> join_with sep (xs @ ys) = join_with sep xs @ concat (map (\<lambda>y. sep @ y) ys)"
  by (cases xs) (simp_all add: join_with_Cons del: join_with.simps)

lemma split_csv_bare:
  assumes "\<forall>x \<in> set xs. bare x" "xs \<noteq> []" shows "split_csv (join_with '','' xs) = xs"
proof -
  obtain x ys where x: "xs = x # ys" using assms(2) by (cases xs) auto
  then have "bare x" using assms(1) by simp
  then have "trim x \<noteq> []" using bare_facts(1,2) [of x] by simp
  then have "trim (join_with '','' xs) \<noteq> []" unfolding x by (rule trim_join_not_Nil)
  moreover have "\<forall>x \<in> set xs. field_ok (CHR '','') x \<and> trimmed x"
    using assms(1) bare_facts(2,4) by blast
  ultimately show ?thesis
    unfolding split_csv_def using assms(2) by (intro split_fields_join) (simp_all add: is_quote_def)
qed

text \<open>The text of an ASCII response with status, read back.\<close>

lemma status_response_parsed:
  assumes "list_all status_ok ms" "ms \<noteq> []"
  shows "\<exists>vs. parse_values (join_with '','' (map (\<lambda>m. format_value x (m_value m)) ms) @
        concat (map (\<lambda>m. '','' @ to_string (m_status m)) ms)) = Inr (vs @ map (\<lambda>m. double_of_int (m_status m)) ms) \<and>
      length vs = length ms \<and> (\<forall>i < length ms. m_value (ms ! i) = NaN \<longrightarrow> vs ! i = NaN)"
proof -
  let ?v = "\<lambda>m. format_value x (m_value m)" and ?s = "\<lambda>m. to_string (m_status m)"
  obtain g where v: "\<And>m :: simulated_measurement. to_double (?v m) = Inr (g m)"
    using choice [of "\<lambda>(m :: simulated_measurement) y. to_double (?v m) = Inr y"] to_double_format_value [of x] by blast
  define vs where "vs = map g ms"
  have st: "to_double (?s m) = Inr (double_of_int (m_status m))" if "m \<in> set ms" for m
    using assms(1) that by (intro to_double_to_string) (auto simp: list_all_iff status_ok_def)
  have joined: "join_with '','' (map ?v ms) @ concat (map (\<lambda>m. '','' @ ?s m) ms) = join_with '','' (map ?v ms @ map ?s ms)"
    using assms(2) by (simp add: join_with_append comp_def)
  have "split_csv (join_with '','' (map ?v ms @ map ?s ms)) = map ?v ms @ map ?s ms"
    by (rule split_csv_bare) (use assms(2) format_value_bare bare_to_string in auto)
  then have "parse_values (join_with '','' (map ?v ms @ map ?s ms)) = collect to_double (map ?v ms @ map ?s ms)"
    by (simp add: parse_values_def)
  also have "\<dots> = Inr (vs @ map (\<lambda>m. double_of_int (m_status m)) ms)"
    unfolding collect_Inr_iff vs_def using v st
    by (auto intro!: list_all2_appendI simp: list_all2_map1 list_all2_map2 list_all2_same)
  finally have "parse_values (join_with '','' (map ?v ms) @ concat (map (\<lambda>m. '','' @ ?s m) ms)) =
      Inr (vs @ map (\<lambda>m. double_of_int (m_status m)) ms)" unfolding joined .
  moreover have "vs ! i = NaN" if "i < length ms" "m_value (ms ! i) = NaN" for i
    using that to_double_invalid [of x] v [of "ms ! i"] by (simp add: vs_def)
  ultimately show ?thesis by (intro exI [of _ vs]) (simp add: vs_def)
qed

lemma status_query_parts:
  "word ''DATA:STAT''" "lookup_spec (header_tokens [] ''DATA:STAT'') = Some (''DATA:STAT'', [])"
  by code_simp+

lemma status_query_line:
  assumes "measurement_response lm (st s) (signal s) (meas_functions (st s)) True = Some txt"
  shows "handle_line lm ''DATA:STAT?'' s = Some (counted s, Some txt)"
proof -
  let ?c = "empty_command\<lparr>query := True, tokens := header_tokens [] ''DATA:STAT'', key := ''DATA:STAT'', suffixes := []\<rparr>"
  have "execute lm (counted s, ?c) = Some (counted s, ?c\<lparr>response := Some txt\<rparr>)"
    using assms by (simp add: handler_defs handle_data_def respond_data_def respond_def empty_command_def Let_def)
  then show ?thesis
    using handle_query [OF status_query_parts(1) _ status_query_parts(2), of lm s] by simp
qed

text \<open>
  C28: Readings arrive whole. For every list of selected functions that the simulator can
  measure, in the ASCII format, \<open>data_with_status\<close> returns one value and one status per
  function; the status words are exactly those of the simulator's measurement, a value it
  calls undefined or unavailable arrives as NaN, and asking changes nothing.
\<close>

theorem readings_arrive_whole:
  assumes "sim_ready (link c)" "responses (link c) = []" "unit_under_test (link c) = s"
    and "fmt_format (data_format (st s)) = Ascii" "meas_functions (st s) \<noteq> []"
    and "measure_all lm (st s) (signal s) (meas_functions (st s)) = Some ms"
  shows "\<exists>u r. norma_data_with_status (sim_transport lm) [] c = Some (c\<lparr>link := u\<rparr>, Inr r) \<and>
      reading_status r = map m_status ms \<and> length (reading_values r) = length (meas_functions (st s)) \<and>
      (\<forall>i < length ms. m_value (ms ! i) = NaN \<longrightarrow> reading_values r ! i = NaN) \<and>
      st (unit_under_test u) = st s \<and> sim_ready u \<and> responses u = []"
proof -
  have ms: "list_all status_ok ms" "length ms = length (meas_functions (st s))"
    using measure_all_status [OF assms(6)] by simp_all
  then have ne: "ms \<noteq> []" using assms(5) by auto
  let ?txt = "join_with '','' (map (\<lambda>m. format_value (st s) (m_value m)) ms) @ concat (map (\<lambda>m. '','' @ to_string (m_status m)) ms)"
  have "measurement_response lm (st s) (signal s) (meas_functions (st s)) True = Some ?txt"
    using assms(4-6) by (simp add: measurement_response_def)
  then have at: "handle_line lm ''DATA:STAT?'' (unit_under_test (link c)) = Some (counted s, Some ?txt)"
    unfolding assms(3) by (rule status_query_line)
  have clean: "\<not> has_line_terminator ''DATA:STAT?''" by (simp add: has_line_terminator_def)
  obtain vs where vs: "parse_values ?txt = Inr (vs @ map (\<lambda>m. double_of_int (m_status m)) ms)" "length vs = length ms"
      "\<forall>i < length ms. m_value (ms ! i) = NaN \<longrightarrow> vs ! i = NaN"
    using status_response_parsed [OF ms(1) ne, of "st s"] by blast
  obtain u where u: "query_line (sim_transport lm) ''DATA:STAT?'' c = Some (c\<lparr>link := u\<rparr>, Inr ?txt)" "sim_ready u"
      "unit_under_test u = counted s" "responses u = []"
    using sim_link.query_in_step [OF assms(1,2) clean at] by blast
  have "\<forall>n \<in> set (map m_status ms). int_min \<le> n \<and> n \<le> int_max"
    using ms(1) by (auto simp: list_all_iff status_ok_def cxx_limits)
  from to_ints_double_of_int [OF this]
  have "to_ints (map (\<lambda>m. double_of_int (m_status m)) ms) = Some (map m_status ms)" by (simp add: comp_def)
  then have "norma_data_with_status (sim_transport lm) [] c =
      Some (c\<lparr>link := u\<rparr>, Inr \<lparr>reading_values = vs, reading_status = map m_status ms\<rparr>)"
    using u(1) vs(1,2) by (simp add: norma_data_with_status_def query_values_def io_simps split_reading_def)
  then show ?thesis
    using u vs ms by (intro exI [of _ u] exI [of _ "\<lparr>reading_values = vs, reading_status = map m_status ms\<rparr>"]) simp
qed

theorem readings_arrive_whole_witness:
  "\<exists>u r. norma_data_with_status (sim_transport sample_libm) []
        (fresh_client\<lparr>link := (link fresh_client)\<lparr>unit_under_test := fresh\<lparr>st := (st fresh)\<lparr>meas_functions := [''POW3:BAD'']\<rparr>\<rparr>\<rparr>\<rparr>) =
      Some (fresh_client\<lparr>link := u\<rparr>, Inr r) \<and> reading_status r = [kNotAvailable] \<and> length (reading_values r) = 1"
proof -
  let ?s = "fresh\<lparr>st := (st fresh)\<lparr>meas_functions := [''POW3:BAD'']\<rparr>\<rparr>"
  let ?c = "fresh_client\<lparr>link := (link fresh_client)\<lparr>unit_under_test := ?s\<rparr>\<rparr>"
  have m: "measure_all sample_libm (st ?s) (signal ?s) (meas_functions (st ?s)) = Some [unavailable]"
    "fmt_format (data_format (st ?s)) = Ascii" "meas_functions (st ?s) \<noteq> []" "m_status unavailable = kNotAvailable"
    by code_simp+
  have "sim_ready (link ?c)" "responses (link ?c) = []" "unit_under_test (link ?c) = ?s"
    by (simp_all add: fresh_client_def new_sim_link_def sim_ready_def)
  from readings_arrive_whole [OF this m(2,3,1)] show ?thesis using m(4) by auto
qed

section \<open>The whole queue at once\<close>






section \<open>Preparing the instrument\<close>

text \<open>A setting command whose handler answers nothing.\<close>

lemma setting_line:
  assumes "word h \<and> hd h \<noteq> CHR ''*'' \<and> lookup_spec (header_tokens [] h) = Some (k, sfx)"
    and "p \<noteq> [] \<and> trimmed p \<and> plain (CHR '';'') p \<and> map trim (split_unquoted p (CHR '','')) = ps"
    and "\<And>c :: command. key c = k \<Longrightarrow> args c = ps \<Longrightarrow> \<not> query c \<Longrightarrow> execute lm (counted s, c) = Some (t, c)"
  shows "handle_line lm (h @ CHR '' '' # p) s = Some (t, None)"
proof -
  have "execute lm (counted s, empty_command\<lparr>args := ps, tokens := header_tokens [] h, key := k, suffixes := sfx\<rparr>) =
      Some (t, empty_command\<lparr>args := ps, tokens := header_tokens [] h, key := k, suffixes := sfx\<rparr>)"
    by (rule assms(3)) (simp_all add: empty_command_def)
  then show ?thesis
    using handle_setting [of h p k sfx lm s] assms(1,2) field_ok_plain by (simp add: empty_command_def)
qed

lemma prepare_parts:
  "word ''FORM'' \<and> hd ''FORM'' \<noteq> CHR ''*'' \<and> lookup_spec (header_tokens [] ''FORM'') = Some (''FORM'', [])"
  "word ''FUNC:CONC'' \<and> hd ''FUNC:CONC'' \<noteq> CHR ''*'' \<and> lookup_spec (header_tokens [] ''FUNC:CONC'') = Some (''FUNC:CONC'', [])"
  "''ASC,6'' \<noteq> [] \<and> trimmed ''ASC,6'' \<and> plain (CHR '';'') ''ASC,6'' \<and> map trim (split_unquoted ''ASC,6'' (CHR '','')) = [''ASC'', ''6'']"
  "''ON'' \<noteq> [] \<and> trimmed ''ON'' \<and> plain (CHR '';'') ''ON'' \<and> map trim (split_unquoted ''ON'' (CHR '','')) = [''ON'']"
  "unquote ''ASC'' = ''ASC''" "unquote ''ON'' = ''ON''"
  "read_format (upper ''ASC'') = Some Ascii" "parse_boolean ''ON'' = Some True"
  "map_option lround_int (parse_number ''6'') = Some 6"
  "''FORM ASC,6'' = ''FORM'' @ CHR '' '' # ''ASC,6''" "''FUNC:CONC ON'' = ''FUNC:CONC'' @ CHR '' '' # ''ON''"
  by code_simp+

lemma format_line:
  "handle_line lm ''FORM ASC,6'' s = Some (set_st (set_format True \<lparr>fmt_format = Ascii, fmt_length = 6\<rparr>) (counted s), None)"
  unfolding prepare_parts(10)
proof (rule setting_line [OF prepare_parts(1,3)])
  fix c :: command assume c: "key c = ''FORM''" "args c = [''ASC'', ''6'']" "\<not> query c"
  have "execute lm (counted s, c) = Some (handle_format_setting True (counted s, c))"
    using c(1) by (simp add: handler_defs Let_def)
  then show "execute lm (counted s, c) = Some (set_st (set_format True \<lparr>fmt_format = Ascii, fmt_length = 6\<rparr>) (counted s), c)"
    using c prepare_parts(5,7,9)
    by (auto simp: handle_format_setting_def with_parameter_def parameter_def argument_def read_length_def assign_def)
qed

lemma concurrent_line:
  "handle_line lm ''FUNC:CONC ON'' s = Some (set_st (concurrent_update (\<lambda>_. True)) (counted s), None)"
  unfolding prepare_parts(11)
proof (rule setting_line [OF prepare_parts(2,4)])
  fix c :: command assume c: "key c = ''FUNC:CONC''" "args c = [''ON'']" "\<not> query c"
  have "execute lm (counted s, c) = Some (set_concurrent (counted s, c))"
    using c(1) by (simp add: handler_defs Let_def)
  then show "execute lm (counted s, c) = Some (set_st (concurrent_update (\<lambda>_. True)) (counted s), c)"
    using c prepare_parts(6,8)
    by (simp add: set_concurrent_def on_field_def boolean_def parameter_def argument_def Let_def)
qed

text \<open>One command of the facade that the simulator accepts without an answer.\<close>

lemma command_in_step:
  assumes "sim_ready (link c)" "responses (link c) = []" "\<not> has_line_terminator l"
    and "handle_line lm l (unit_under_test (link c)) = Some (d, None)"
  obtains u where "send (sim_transport lm) l c = Some (c\<lparr>link := u\<rparr>, Inr ())" "sim_ready u" "responses u = []"
    "unit_under_test u = d"
  using sim_link.send_served [OF assms(1,3,4)] assms(2) by auto

text \<open>
  C30: \<open>prepare\<close> makes any instrument usable. Whatever state the previous session left the
  simulator in, with binary formats, errors queued and functions one at a time, \<open>prepare\<close>
  throws nothing, and afterwards both formats are text, the data format has six digits,
  functions are concurrent, the error queue and the event status are empty and the client
  is in step.
\<close>

theorem prepare_makes_usable:
  assumes "sim_ready (link c)" "responses (link c) = []"
  shows "\<exists>u. norma_prepare (sim_transport lm) c = Some (c\<lparr>link := u\<rparr>, Inr ()) \<and> sim_ready u \<and> responses u = [] \<and>
    (let x = st (unit_under_test u) in data_format x = \<lparr>fmt_format = Ascii, fmt_length = 6\<rparr> \<and>
      fmt_format (status_format x) = Ascii \<and> concurrent x \<and> errors x = [] \<and> event_status x = 0)"
proof -
  obtain u1 where u1: "send (sim_transport lm) ''*CLS'' c = Some (c\<lparr>link := u1\<rparr>, Inr ())" "sim_ready u1" "responses u1 = []"
      "unit_under_test u1 = clear_status (counted (unit_under_test (link c)))"
    by (rule command_in_step [OF assms _ handle_clear]) (simp add: has_line_terminator_def)
  obtain u2 where u2: "send (sim_transport lm) ''FORM ASC,6'' (c\<lparr>link := u1\<rparr>) = Some (c\<lparr>link := u2\<rparr>, Inr ())" "sim_ready u2" "responses u2 = []"
      "unit_under_test u2 = set_st (set_format True \<lparr>fmt_format = Ascii, fmt_length = 6\<rparr>) (counted (unit_under_test u1))"
    using command_in_step [of "c\<lparr>link := u1\<rparr>", OF _ _ _ format_line] u1(2,3) by (auto simp: has_line_terminator_def)
  obtain u3 where u3: "send (sim_transport lm) ''FUNC:CONC ON'' (c\<lparr>link := u2\<rparr>) = Some (c\<lparr>link := u3\<rparr>, Inr ())" "sim_ready u3" "responses u3 = []"
      "unit_under_test u3 = set_st (concurrent_update (\<lambda>_. True)) (counted (unit_under_test u2))"
    using command_in_step [of "c\<lparr>link := u2\<rparr>", OF _ _ _ concurrent_line] u2(2,3) by (auto simp: has_line_terminator_def)
  let ?x = "st (unit_under_test u3)"
  have x: "data_format ?x = \<lparr>fmt_format = Ascii, fmt_length = 6\<rparr>" "fmt_format (status_format ?x) = Ascii" "concurrent ?x"
    "errors ?x = []" "event_status ?x = 0"
    using u1(4) u2(4) u3(4) by (simp_all add: set_format_def clear_status_def Let_def)
  obtain u4 es where u4: "read_all_errors (sim_transport lm) (c\<lparr>link := u3\<rparr>) = Some (c\<lparr>link := u4\<rparr>, Inr es)" "sim_ready u4"
      "responses u4 = []" "errors (st (unit_under_test u4)) = []" "without_errors (unit_under_test u4) = without_errors (unit_under_test u3)"
    using sim_errors.drain_errors_complete [of "c\<lparr>link := u3\<rparr>" "[]" kMaxErrorQueueDrain lm "[]"] u3(2,3) x(4)
    by (auto simp: read_all_errors_def kMaxErrorQueueDrain_def)
  have same: "(st (unit_under_test u4))\<lparr>errors := []\<rparr> = ?x\<lparr>errors := []\<rparr>" using u4(5) by (simp add: without_errors_def)
  have y: "data_format (st (unit_under_test u4)) = data_format ?x" "status_format (st (unit_under_test u4)) = status_format ?x"
    "concurrent (st (unit_under_test u4)) = concurrent ?x" "event_status (st (unit_under_test u4)) = event_status ?x"
    using arg_cong [OF same, of data_format] arg_cong [OF same, of status_format] arg_cong [OF same, of concurrent]
      arg_cong [OF same, of event_status] by simp_all
  have "format_parameter Ascii 6 = ''ASC,6''" "client_format_bool True = ''ON''" by code_simp+
  then have "norma_prepare (sim_transport lm) c = Some (c\<lparr>link := u4\<rparr>, Inr ())"
    using u1(1) u2(1) u3(1) u4(1)
    by (simp add: norma_prepare_def norma_clear_status_def norma_set_data_format_def norma_set_concurrent_def
        norma_read_errors_def io_simps)
  then show ?thesis using u4(2-4) x y by (intro exI [of _ u4]) (simp add: Let_def)
qed

theorem prepare_makes_usable_witness:
  "\<exists>u. norma_prepare (sim_transport sample_libm) fresh_client = Some (fresh_client\<lparr>link := u\<rparr>, Inr ())"
  using prepare_makes_usable [of fresh_client sample_libm] by auto

end
