(* ===== verification/Remote_Elements.thy ===== *)
theory Remote_Elements
  imports Remote_Settings
begin

text \<open>
  The settings of one input channel, phase or sweep block: elements of the simulator's
  arrays, addressed by the number in the header. Each is an instance of \<open>remote_member\<close> in
  every simulator that has the channel.
\<close>

section \<open>The headers, for every channel, phase and block there is\<close>

lemma input_headers:
  "list_all (\<lambda>n. heads (input_node n @ '':COUP'') ''INP#:COUP'' ''INPut#:COUPling'' [n]) [1..12]"
  "list_all (\<lambda>n. heads (input_node n @ '':FILT:STAT'') ''INP#:FILT:STAT'' ''INPut#:FILTer:[STATe]'' [n]) [1..12]"
  "list_all (\<lambda>n. heads (input_node n @ '':GAIN'') ''INP#:GAIN'' ''INPut#:GAIN'' [n]) [1..12]"
  "list_all (\<lambda>n. heads (input_node n @ '':SHUN'') ''INP#:SHUN'' ''INPut#:SHUNt'' [n]) [1..12]"
  by code_simp+

lemma phase_headers:
  "list_all (\<lambda>n. heads (''VOLT'' @ to_string n @ '':RANG:AUTO'') ''VOLT#:RANG:AUTO'' ''[SENSe]:VOLTage#:[AC|DC]:RANGe:[UPPer]:AUTO'' [n]) [1..6]"
  "list_all (\<lambda>n. heads (''VOLT'' @ to_string n @ '':SCAL'') ''VOLT#:SCAL'' ''[SENSe]:VOLTage#:[AC|DC]:SCALe'' [n]) [1..6]"
  "list_all (\<lambda>n. heads (''CURR'' @ to_string n @ '':RANG:AUTO'') ''CURR#:RANG:AUTO'' ''[SENSe]:CURRent#:[AC|DC]:RANGe:[UPPer]:AUTO'' [n]) [1..6]"
  "list_all (\<lambda>n. heads (''CURR'' @ to_string n @ '':SCAL'') ''CURR#:SCAL'' ''[SENSe]:CURRent#:[AC|DC]:SCALe'' [n]) [1..6]"
  by code_simp+

lemma sweep_headers:
  "list_all (\<lambda>n. heads (''SWE'' @ to_string n @ '':STAT'') ''SWE#:STAT'' ''[SENSe]:SWEep#:[STATe]'' [n]) [1..2]"
  "list_all (\<lambda>n. heads (''SWE'' @ to_string n @ '':TIME'') ''SWE#:TIME'' ''[SENSe]:SWEep#:TIME'' [n]) [1..2]"
  "list_all (\<lambda>n. heads (''SWE'' @ to_string n @ '':OFFS:TIME'') ''SWE#:OFFS:TIME'' ''[SENSe]:SWEep#:OFFSet:TIME'' [n]) [1..2]"
  "list_all (\<lambda>n. heads (''SWE'' @ to_string n @ '':COUN'') ''SWE#:COUN'' ''[SENSe]:SWEep#:COUNt'' [n]) [1..2]"
  "list_all (\<lambda>n. heads (''SWE'' @ to_string n @ '':SFAC'') ''SWE#:SFAC'' ''[SENSe]:SWEep#:SFACtor'' [n]) [1..2]"
  "list_all (\<lambda>n. heads (''SWE'' @ to_string n @ '':FUNC'') ''SWE#:FUNC'' ''[SENSe]:SWEep#:FUNCtion'' [n]) [1..2]"
  by code_simp+

lemma header_of: "list_all P [1..m] \<Longrightarrow> 1 \<le> n \<Longrightarrow> n \<le> m \<Longrightarrow> P n" for n m :: int
  by (simp add: list_all_iff)

section \<open>The members\<close>

lemmas member_simps = handler_defs Let_def command_suffix_def has_channel_def has_arrays_def element_defs

lemma coupling_member:
  assumes "1 \<le> n" "n \<le> 12"
  shows "remote_member (\<lambda>x. coupling x ! nat n) (element_update coupling_update (nat n)) (keyword coupling_spellings)
    to_scpi_coupling parse_coupling (\<lambda>_. True) (input_node n @ '':COUP'') ''INP#:COUP'' [n] (has_channel n)"
  using assms
  by (intro remote_memberI [OF header_of [OF input_headers(1)]] element_fields coupling_access.access_codec_axioms)
    (auto simp: member_simps)

lemma filter_member:
  assumes "1 \<le> n" "n \<le> 12"
  shows "remote_member (\<lambda>x. filter_on x ! nat n) (element_update filter_on_update (nat n)) (boolean)
    client_format_bool to_bool (\<lambda>_. True) (input_node n @ '':FILT:STAT'') ''INP#:FILT:STAT'' [n] (has_channel n)"
  using assms
  by (intro remote_memberI [OF header_of [OF input_headers(2)]] element_fields boolean_access.access_codec_axioms)
    (auto simp: member_simps)

lemma gain_member:
  assumes "1 \<le> n" "n \<le> 12" "odd n"
  shows "remote_member (\<lambda>x. gain x ! nat n) (element_update gain_update (nat n)) (number dzero (lit (10 ^ 12) 1))
    format_double to_double (legal_number dzero (lit (10 ^ 12) 1)) (input_node n @ '':GAIN'') ''INP#:GAIN'' [n] (has_channel n)"
  using assms
  by (intro remote_memberI [OF header_of [OF input_headers(3)]] element_fields number_access.access_codec_axioms)
    (auto simp: member_simps odd_iff_mod_2_eq_one)

lemma shunt_member:
  assumes "1 \<le> n" "n \<le> 12" "odd n"
  shows "remote_member (\<lambda>x. shunt x ! nat n) (element_update shunt_update (nat n)) (keyword shunt_spellings)
    to_scpi_shunt parse_shunt (\<lambda>_. True) (input_node n @ '':SHUN'') ''INP#:SHUN'' [n] (has_channel n)"
  using assms
  by (intro remote_memberI [OF header_of [OF input_headers(4)]] element_fields shunt_access.access_codec_axioms)
    (auto simp: member_simps odd_iff_mod_2_eq_one)

lemma voltage_autorange_member:
  assumes "1 \<le> n" "n \<le> 6"
  shows "remote_member (\<lambda>x. ch_autorange (channel_of True (nat n) x)) (\<lambda>f. channel_update True (nat n) (ch_autorange_update f)) (boolean)
    client_format_bool to_bool (\<lambda>_. True) (''VOLT'' @ to_string n @ '':RANG:AUTO'') ''VOLT#:RANG:AUTO'' [n] has_arrays"
  using assms
  by (intro remote_memberI [OF header_of [OF phase_headers(1)]] element_fields boolean_access.access_codec_axioms)
    (auto simp: member_simps handle_channel_def kMaxPhase_def)

lemma voltage_scale_member:
  assumes "1 \<le> n" "n \<le> 6"
  shows "remote_member (\<lambda>x. ch_scale (channel_of True (nat n) x)) (\<lambda>f. channel_update True (nat n) (ch_scale_update f)) (number (lit 9 10) (lit (10 ^ 7) 1))
    format_double to_double (legal_number (lit 9 10) (lit (10 ^ 7) 1)) (''VOLT'' @ to_string n @ '':SCAL'') ''VOLT#:SCAL'' [n] has_arrays"
  using assms
  by (intro remote_memberI [OF header_of [OF phase_headers(2)]] element_fields number_access.access_codec_axioms)
    (auto simp: member_simps handle_channel_def kMaxPhase_def)

lemma current_autorange_member:
  assumes "1 \<le> n" "n \<le> 6"
  shows "remote_member (\<lambda>x. ch_autorange (channel_of False (nat n) x)) (\<lambda>f. channel_update False (nat n) (ch_autorange_update f)) (boolean)
    client_format_bool to_bool (\<lambda>_. True) (''CURR'' @ to_string n @ '':RANG:AUTO'') ''CURR#:RANG:AUTO'' [n] has_arrays"
  using assms
  by (intro remote_memberI [OF header_of [OF phase_headers(3)]] element_fields boolean_access.access_codec_axioms)
    (auto simp: member_simps handle_channel_def kMaxPhase_def)

lemma current_scale_member:
  assumes "1 \<le> n" "n \<le> 6"
  shows "remote_member (\<lambda>x. ch_scale (channel_of False (nat n) x)) (\<lambda>f. channel_update False (nat n) (ch_scale_update f)) (number (lit 9 10) (lit (10 ^ 7) 1))
    format_double to_double (legal_number (lit 9 10) (lit (10 ^ 7) 1)) (''CURR'' @ to_string n @ '':SCAL'') ''CURR#:SCAL'' [n] has_arrays"
  using assms
  by (intro remote_memberI [OF header_of [OF phase_headers(4)]] element_fields number_access.access_codec_axioms)
    (auto simp: member_simps handle_channel_def kMaxPhase_def)

lemma number_is_not_MAX:
  assumes "legal_number lo hi v" "args c = parameters_of (format_double v)" "argument c 0 = Some t"
  shows "upper t \<noteq> ''MAX''"
proof
  assume m: "upper t = ''MAX''"
  obtain n where n: "format_double v = to_string n"
    using assms(1) by (auto simp: legal_number_def format_double_def format_g9_int to_string_short no_exponent)
  then have "t = to_string n"
    using assms(2,3) argument_to_string [of c n] bare_parameters [OF bare_to_string, of n] by simp
  then have "hd t \<in> set (to_string n)" "hd (upper t) = to_upper (hd t)"
    using m by (auto simp: upper_def hd_map)
  then have "is_digit (hd t) \<or> hd t = CHR ''-''" "to_upper (hd t) = CHR ''M''"
    using to_string_chars m by auto
  moreover have "to_upper (CHR ''-'') = CHR ''-''" "\<not> is_digit (CHR ''M'')" by code_simp+
  ultimately show False by (auto simp: to_upper_digit)
qed

lemma sweep_enabled_member:
  assumes "1 \<le> n" "n \<le> 2"
  shows "remote_member (\<lambda>x. sweep_enabled (sweep_of (nat n) x)) (\<lambda>f. sweep_at (nat n) (sweep_enabled_update f)) (boolean)
    client_format_bool to_bool (\<lambda>_. True) (''SWE'' @ to_string n @ '':STAT'') ''SWE#:STAT'' [n] has_arrays"
  using assms
  by (intro remote_memberI [OF header_of [OF sweep_headers(1)]] element_fields boolean_access.access_codec_axioms)
    (auto simp: member_simps handle_sweep_def)

lemma sweep_time_member:
  assumes "1 \<le> n" "n \<le> 2"
  shows "remote_member (\<lambda>x. sweep_time (sweep_of (nat n) x)) (\<lambda>f. sweep_at (nat n) (sweep_time_update f)) (number (lit 1 1000) (lit 3600 1))
    format_double to_double (legal_number (lit 1 1000) (lit 3600 1)) (''SWE'' @ to_string n @ '':TIME'') ''SWE#:TIME'' [n] has_arrays"
  using assms
  by (intro remote_memberI [OF header_of [OF sweep_headers(2)]] element_fields number_access.access_codec_axioms)
    (auto simp: member_simps handle_sweep_def dest: number_is_not_MAX split: option.splits)

lemma sweep_offset_time_member:
  assumes "1 \<le> n" "n \<le> 2"
  shows "remote_member (\<lambda>x. sweep_offset_time (sweep_of (nat n) x)) (\<lambda>f. sweep_at (nat n) (sweep_offset_time_update f)) (number (lit (- 3600) 1) (lit 3600 1))
    format_double to_double (legal_number (lit (- 3600) 1) (lit 3600 1)) (''SWE'' @ to_string n @ '':OFFS:TIME'') ''SWE#:OFFS:TIME'' [n] has_arrays"
  using assms
  by (intro remote_memberI [OF header_of [OF sweep_headers(3)]] element_fields number_access.access_codec_axioms)
    (auto simp: member_simps handle_sweep_def)

lemma sweep_count_member:
  assumes "1 \<le> n" "n \<le> 2"
  shows "remote_member (\<lambda>x. sweep_count (sweep_of (nat n) x)) (\<lambda>f. sweep_at (nat n) (sweep_count_update f)) (integer 1 1000000)
    to_string to_int (legal_int 1 1000000) (''SWE'' @ to_string n @ '':COUN'') ''SWE#:COUN'' [n] has_arrays"
  using assms
  by (intro remote_memberI [OF header_of [OF sweep_headers(4)]] element_fields integer_access.access_codec_axioms)
    (auto simp: member_simps handle_sweep_def)

lemma sweep_sparsing_member:
  assumes "1 \<le> n" "n \<le> 2"
  shows "remote_member (\<lambda>x. sweep_sparsing (sweep_of (nat n) x)) (\<lambda>f. sweep_at (nat n) (sweep_sparsing_update f)) (integer 1 65535)
    to_string to_int (legal_int 1 65535) (''SWE'' @ to_string n @ '':SFAC'') ''SWE#:SFAC'' [n] has_arrays"
  using assms
  by (intro remote_memberI [OF header_of [OF sweep_headers(5)]] element_fields integer_access.access_codec_axioms)
    (auto simp: member_simps handle_sweep_def)

lemma sweep_functions_member:
  assumes "1 \<le> n" "n \<le> 2"
  shows "remote_member (\<lambda>x. sweep_functions (sweep_of (nat n) x)) (\<lambda>f. sweep_at (nat n) (sweep_functions_update f)) (function_list)
    client_quote_join (\<lambda>t. Inr (read_strings t)) legal_functions (''SWE'' @ to_string n @ '':FUNC'') ''SWE#:FUNC'' [n] has_arrays"
  using assms
  by (intro remote_memberI [OF header_of [OF sweep_headers(6)]] element_fields functions_access.access_codec_axioms)
    (auto simp: member_simps handle_sweep_def)

end
