(* ===== verification/Element_Properties.thy ===== *)
theory Element_Properties
  imports Client_Properties Remote_Elements
begin









end
