(* ===== verification/Tcp_Transport.thy ===== *)
theory Tcp_Transport
  imports Transport
begin

text \<open>
  \<open>TcpTransport\<close> (\<open>module/src/tcp_transport.cpp\<close>). The asio library is a parameter: the
  record \<open>asio\<close> holds the operations of its socket and resolver that the transport calls,
  over the type of the socket's state, which includes the network and the peer behind it.
  An asynchronous operation is run by \<open>io_context::run_for\<close> up to a deadline; its result is
  the argument its completion handler was called with, or \<open>None\<close> if it has not completed. An
  \<open>error_code\<close> is \<open>None\<close> for success and otherwise its message.

  The second part is the contract of a live connection (\<open>byte_stream\<close>) and the proof that
  the transport over it keeps \<open>line_transport\<close>, however the bytes are cut into segments.
\<close>

type_synonym error_code = "string option"

record ('k, 'e) asio =
  sock_is_open :: "'k \<Rightarrow> bool"
  sock_close :: "'k \<Rightarrow> 'k"
  sock_shutdown :: "'k \<Rightarrow> 'k"
  sock_no_delay :: "'k \<Rightarrow> 'k"
  resolve :: "string \<Rightarrow> string \<Rightarrow> 'k \<Rightarrow> string + 'e"
  async_connect :: "'e \<Rightarrow> int \<Rightarrow> 'k \<Rightarrow> ('k \<times> error_code option) option"
  async_write :: "string \<Rightarrow> int \<Rightarrow> 'k \<Rightarrow> ('k \<times> error_code option) option"
  async_read_until :: "string \<Rightarrow> int \<Rightarrow> 'k \<Rightarrow> ('k \<times> string \<times> (error_code \<times> nat) option) option"

section \<open>The transport\<close>

record 'k tcp =
  tcp_host :: string
  tcp_port :: int
  connect_timeout :: int
  socket :: 'k
  rx :: string

definition new_tcp :: "string \<Rightarrow> int \<Rightarrow> 'k \<Rightarrow> 'k tcp" where
  "new_tcp host port k = \<lparr>tcp_host = host, tcp_port = port, connect_timeout = 5000, socket = k, rx = []\<rparr>"

definition endpoint :: "'k tcp \<Rightarrow> string" where
  "endpoint t = ''tcp://'' @ tcp_host t @ '':'' @ to_string (tcp_port t)"

definition timed_out_text :: "string \<Rightarrow> int \<Rightarrow> 'k tcp \<Rightarrow> string" where
  "timed_out_text what timeout t =
     what @ '' timed out after '' @ to_string timeout @ '' ms ('' @ endpoint t @ '')''"

text \<open>The deadline passes: the socket is closed, which cancels the operation, then the exception.\<close>

definition run_operation ::
  "('k, 'e) asio \<Rightarrow> int \<Rightarrow> string \<Rightarrow> ('k tcp \<Rightarrow> ('k tcp \<times> 'c option) option) \<Rightarrow> ('k tcp, 'c) io" where
  "run_operation a timeout what job t = (case job t of
     None \<Rightarrow> None
   | Some (u, Some c) \<Rightarrow> Some (u, Inr c)
   | Some (u, None) \<Rightarrow>
       Some (u\<lparr>socket := sock_close a (socket u)\<rparr>, Inl (TimeoutError (timed_out_text what timeout u))))"

text \<open>An operation of the socket alone.\<close>

definition on_socket :: "('k \<Rightarrow> ('k \<times> 'c option) option) \<Rightarrow> 'k tcp \<Rightarrow> ('k tcp \<times> 'c option) option" where
  "on_socket job t = map_option (\<lambda>(k, r). (t\<lparr>socket := k\<rparr>, r)) (job (socket t))"

definition resolve_text :: "string \<Rightarrow> 'k tcp \<Rightarrow> string" where
  "resolve_text reason t = ''cannot resolve host '' @ [dquote] @ tcp_host t @ [dquote] @ '': '' @ reason"

definition finish_open :: "('k, 'e) asio \<Rightarrow> error_code \<Rightarrow> ('k tcp, unit) io" where
  "finish_open a ec t = (case ec of
     Some reason \<Rightarrow> Some (t\<lparr>socket := sock_close a (socket t)\<rparr>,
       Inl (ConnectionError (''cannot connect to '' @ endpoint t @ '': '' @ reason)))
   | None \<Rightarrow> Some (t\<lparr>socket := sock_no_delay a (socket t)\<rparr>, Inr ()))"

definition tcp_open :: "('k, 'e) asio \<Rightarrow> ('k tcp, unit) io" where
  "tcp_open a t =
     (if sock_is_open a (socket t) then Some (t, Inr ())
      else case resolve a (tcp_host t) (to_string (tcp_port t)) (socket t) of
        Inl reason \<Rightarrow> Some (t, Inl (ConnectionError (resolve_text reason t)))
      | Inr endpoints \<Rightarrow>
          and_then (run_operation a (connect_timeout t) ''connect'' (on_socket (async_connect a endpoints (connect_timeout t))))
            (finish_open a) t)"

definition tcp_close :: "('k, 'e) asio \<Rightarrow> ('k tcp, unit) io" where
  "tcp_close a t = (let
       k = (if sock_is_open a (socket t) then sock_close a (sock_shutdown a (socket t)) else socket t) in
     Some (t\<lparr>socket := k, rx := []\<rparr>, Inr ()))"

definition tcp_destroy :: "('k, 'e) asio \<Rightarrow> 'k tcp \<Rightarrow> 'k tcp" where
  "tcp_destroy a t = (if sock_is_open a (socket t) then t\<lparr>socket := sock_close a (socket t)\<rparr> else t)"

definition tcp_is_open :: "('k, 'e) asio \<Rightarrow> 'k tcp \<Rightarrow> bool" where
  "tcp_is_open a t = sock_is_open a (socket t)"

definition not_connected_text :: "'k tcp \<Rightarrow> string" where
  "not_connected_text t = ''not connected ('' @ endpoint t @ '')''"

definition require_connected :: "('k, 'e) asio \<Rightarrow> ('k tcp, 'r) io \<Rightarrow> ('k tcp, 'r) io" where
  "require_connected a m t =
     require (sock_is_open a (socket t)) (ConnectionError (not_connected_text t)) m t"

definition tcp_write :: "('k, 'e) asio \<Rightarrow> string \<Rightarrow> int \<Rightarrow> ('k tcp, unit) io" where
  "tcp_write a data timeout = require_connected a
     (and_then (run_operation a timeout ''write'' (on_socket (async_write a data timeout)))
       (\<lambda>ec t. case ec of
          Some reason \<Rightarrow> throw (ConnectionError (''write to '' @ endpoint t @ '' failed: '' @ reason)) t
        | None \<Rightarrow> ret () t))"

definition read_job :: "('k, 'e) asio \<Rightarrow> int \<Rightarrow> 'k tcp \<Rightarrow> ('k tcp \<times> (error_code \<times> nat) option) option" where
  "read_job a timeout t =
     map_option (\<lambda>(k, buffer, r). (t\<lparr>socket := k, rx := buffer\<rparr>, r)) (async_read_until a (rx t) timeout (socket t))"

definition tcp_read_line :: "('k, 'e) asio \<Rightarrow> int \<Rightarrow> ('k tcp, string) io" where
  "tcp_read_line a timeout = require_connected a
     (and_then (run_operation a timeout ''read'' (read_job a timeout))
       (\<lambda>(ec, len) t. case ec of
          Some reason \<Rightarrow> throw (ConnectionError (''read from '' @ endpoint t @ '' failed: '' @ reason)) t
        | None \<Rightarrow> Some (t\<lparr>rx := drop len (rx t)\<rparr>, Inr (strip_terminators (take len (rx t))))))"

definition set_connect_timeout :: "int \<Rightarrow> 'k tcp \<Rightarrow> 'k tcp" where
  "set_connect_timeout timeout t = t\<lparr>connect_timeout := timeout\<rparr>"

definition tcp_transport :: "('k, 'e) asio \<Rightarrow> 'k tcp transport" where
  "tcp_transport a = \<lparr>t_open = tcp_open a, t_close = tcp_close a, t_is_open = tcp_is_open a, t_write = tcp_write a,
     t_read_line = tcp_read_line a, t_description = endpoint\<rparr>"

lemma tcp_transport_simps [simp]:
  "t_open (tcp_transport a) = tcp_open a" "t_close (tcp_transport a) = tcp_close a"
  "t_is_open (tcp_transport a) = tcp_is_open a" "t_write (tcp_transport a) = tcp_write a"
  "t_read_line (tcp_transport a) = tcp_read_line a"
  by (simp_all add: tcp_transport_def)

lemma run_operation_run [io_simps]:
  "job t = Some (u, Some c) \<Longrightarrow> run_operation a tm what job t = Some (u, Inr c)"
  "job t = Some (u, None) \<Longrightarrow> run_operation a tm what job t =
     Some (u\<lparr>socket := sock_close a (socket u)\<rparr>, Inl (TimeoutError (timed_out_text what tm u)))"
  by (simp_all add: run_operation_def)

lemma require_connected_run [io_simps]:
  "sock_is_open a (socket t) \<Longrightarrow> require_connected a m t = m t"
  by (simp add: require_connected_def require_def)

section \<open>Over a live connection\<close>

text \<open>What the device behind the peer does with a line, and the bytes of an answer.\<close>

locale line_device =
  fixes serve :: "string \<Rightarrow> 'd \<Rightarrow> ('d \<times> string option) option"
    and good :: "'d \<Rightarrow> bool"
  assumes serve_good: "good d \<Longrightarrow> \<not> has_line_terminator l \<Longrightarrow> serve l d = Some (d', r) \<Longrightarrow>
      good d' \<and> (\<forall>answer. r = Some answer \<longrightarrow> \<not> has_line_terminator answer)"

definition answer_bytes :: "string option \<Rightarrow> string" where
  "answer_bytes r = (case r of None \<Rightarrow> [] | Some answer \<Rightarrow> answer @ [line_feed])"

text \<open>
  A connected socket with a device at the other end. \<open>arriving\<close> is what the peer has sent and
  the socket has not delivered. A line that is written is served and its answer starts to
  arrive; a read delivers some of what is arriving, enough for a line if there is one, and
  without a complete line it runs into its deadline. How much a read takes is open.
\<close>

locale byte_stream = line_device serve good
  for serve :: "string \<Rightarrow> 'd \<Rightarrow> ('d \<times> string option) option" and good :: "'d \<Rightarrow> bool" +
  fixes a :: "('k, 'e) asio"
    and live :: "'k \<Rightarrow> bool" and peer :: "'k \<Rightarrow> 'd" and arriving :: "'k \<Rightarrow> string"
  assumes live_open: "live k \<Longrightarrow> sock_is_open a k"
    and close_keeps_peer: "peer (sock_close a k) = peer k"
    and writes: "live k \<Longrightarrow> \<not> has_line_terminator l \<Longrightarrow> serve l (peer k) = Some (d, r) \<Longrightarrow>
      \<exists>k'. async_write a (l @ [line_feed]) tm k = Some (k', Some None) \<and> live k' \<and> peer k' = d \<and>
        arriving k' = arriving k @ answer_bytes r"
    and reads: "live k \<Longrightarrow> line_feed \<in> set (buffer @ arriving k) \<Longrightarrow>
      \<exists>k' got. async_read_until a buffer tm k = Some (k', buffer @ got, Some (None, line_length (buffer @ got))) \<and>
        line_feed \<in> set (buffer @ got) \<and> arriving k = got @ arriving k' \<and> live k' \<and> peer k' = peer k"
    and waits: "live k \<Longrightarrow> line_feed \<notin> set (buffer @ arriving k) \<Longrightarrow>
      \<exists>k' got. async_read_until a buffer tm k = Some (k', buffer @ got, None) \<and> peer k' = peer k"

text \<open>Ready: connected, and all that is unread is complete lines.\<close>

definition stream_lines :: "('k \<Rightarrow> string) \<Rightarrow> 'k tcp \<Rightarrow> string list" where
  "stream_lines arriving t = fst (take_lines (rx t @ arriving (socket t)))"

definition stream_ready :: "('k \<Rightarrow> bool) \<Rightarrow> ('d \<Rightarrow> bool) \<Rightarrow> ('k \<Rightarrow> 'd) \<Rightarrow> ('k \<Rightarrow> string) \<Rightarrow> 'k tcp \<Rightarrow> bool" where
  "stream_ready live good peer arriving t \<longleftrightarrow> live (socket t) \<and> good (peer (socket t)) \<and>
     snd (take_lines (rx t @ arriving (socket t))) = [] \<and>
     (\<forall>l \<in> set (stream_lines arriving t). \<not> has_line_terminator l)"

lemma take_lines_answer:
  assumes "snd (take_lines s) = []" "\<forall>answer. r = Some answer \<longrightarrow> \<not> has_line_terminator answer"
  shows "take_lines (s @ answer_bytes r) = (fst (take_lines s) @ answer_list r, [])"
  using assms take_lines_append [of s "answer_bytes r"] take_lines_one [of "the r"]
  by (cases r) (auto simp: answer_bytes_def has_line_terminator_def split: prod.splits)

context byte_stream
begin

abbreviation tcp_ready :: "'k tcp \<Rightarrow> bool" where
  "tcp_ready \<equiv> stream_ready live good peer arriving"

lemma tcp_write_served:
  assumes "tcp_ready t" "\<not> has_line_terminator l" "serve l (peer (socket t)) = Some (d, r)"
  shows "\<exists>u. tcp_write a (l @ [line_feed]) tm t = Some (u, Inr ()) \<and> tcp_ready u \<and> peer (socket u) = d \<and>
    stream_lines arriving u = stream_lines arriving t @ answer_list r"
proof -
  have t: "live (socket t)" "good (peer (socket t))" "snd (take_lines (rx t @ arriving (socket t))) = []"
    using assms(1) by (simp_all add: stream_ready_def)
  obtain k where k: "async_write a (l @ [line_feed]) tm (socket t) = Some (k, Some None)" "live k" "peer k = d"
      "arriving k = arriving (socket t) @ answer_bytes r"
    using writes [OF t(1) assms(2,3)] by blast
  note served = serve_good [OF t(2) assms(2,3)]
  let ?u = "t\<lparr>socket := k\<rparr>"
  have lines: "take_lines (rx ?u @ arriving (socket ?u)) = (stream_lines arriving t @ answer_list r, [])"
    using take_lines_answer [OF t(3), of r] served by (simp add: k(4) stream_lines_def)
  have "\<not> has_line_terminator x" if "x \<in> set (answer_list r)" for x
    using that served by (cases r) auto
  then have "tcp_ready ?u"
    using k served assms(1) lines by (auto simp: stream_ready_def stream_lines_def)
  moreover have "tcp_write a (l @ [line_feed]) tm t = Some (?u, Inr ())"
    using live_open [OF t(1)] k(1) by (simp add: tcp_write_def on_socket_def io_simps)
  ultimately show ?thesis using k(3) lines by (intro exI [of _ ?u]) (simp add: stream_lines_def)
qed

lemma tcp_read_answer:
  assumes "tcp_ready t" "stream_lines arriving t = x # xs"
  shows "\<exists>u. tcp_read_line a tm t = Some (u, Inr x) \<and> tcp_ready u \<and> peer (socket u) = peer (socket t) \<and>
    stream_lines arriving u = xs"
proof -
  let ?s = "rx t @ arriving (socket t)"
  have t: "live (socket t)" "good (peer (socket t))" "snd (take_lines ?s) = []" "\<not> has_line_terminator x"
    using assms by (simp_all add: stream_ready_def)
  have lf: "line_feed \<in> set ?s" using assms(2) take_lines_has_line [of ?s] by (auto simp: stream_lines_def)
  obtain k got where k: "async_read_until a (rx t) tm (socket t) =
        Some (k, rx t @ got, Some (None, line_length (rx t @ got)))" "line_feed \<in> set (rx t @ got)"
      "arriving (socket t) = got @ arriving k" "live k" "peer k = peer (socket t)"
    using reads [OF t(1) lf] by blast
  define n where "n = line_length (rx t @ got)"
  have n: "n = line_length ?s" "n \<le> length (rx t @ got)"
    using line_length_append [OF k(2), of "arriving k"] line_length_bounds [OF k(2)] by (simp_all add: n_def k(3))
  let ?u = "t\<lparr>socket := k, rx := drop n (rx t @ got)\<rparr>"
  have split: "drop n ?s = rx ?u @ arriving (socket ?u)" "take n ?s = take n (rx t @ got)"
    using n(2) by (simp_all add: k(3))
  note first = take_lines_first [OF lf, folded n(1)]
  have x: "x = take (n - 1) ?s" "xs = fst (take_lines (drop n ?s))" "snd (take_lines (drop n ?s)) = []"
    using assms(2) t(3) first(1) by (simp_all add: stream_lines_def)
  have "strip_terminators (take n (rx t @ got)) = x"
    using strip_terminators_id [OF t(4)] first(2) x(1) split(2) by simp
  then have "tcp_read_line a tm t = Some (?u, Inr x)"
    using live_open [OF t(1)] k(1) by (simp add: tcp_read_line_def read_job_def n_def io_simps)
  moreover have "tcp_ready ?u"
    using k(4,5) t(2) x(2,3) assms unfolding stream_ready_def stream_lines_def split(1) [symmetric] by simp
  ultimately show ?thesis
    using k(5) x(2) unfolding stream_lines_def split(1) by (intro exI [of _ ?u]) simp
qed

lemma tcp_read_nothing:
  assumes "tcp_ready t" "stream_lines arriving t = []"
  shows "\<exists>u m. tcp_read_line a tm t = Some (u, Inl (TimeoutError m)) \<and> peer (socket u) = peer (socket t)"
proof -
  have t: "live (socket t)" "line_feed \<notin> set (rx t @ arriving (socket t))"
    using assms take_lines_has_line [of "rx t @ arriving (socket t)"] by (simp_all add: stream_ready_def stream_lines_def)
  obtain k got where k: "async_read_until a (rx t) tm (socket t) = Some (k, rx t @ got, None)" "peer k = peer (socket t)"
    using waits [OF t] by blast
  then show ?thesis
    using live_open [OF t(1)] close_keeps_peer [of k]
    by (simp add: tcp_read_line_def read_job_def io_simps)
qed

end

sublocale byte_stream \<subseteq> tcp: line_transport "tcp_transport a" "stream_ready live good peer arriving"
    "stream_lines arriving" "\<lambda>t. peer (socket t)" serve
  by unfold_locales (simp_all add: tcp_write_served tcp_read_answer, metis tcp_read_nothing)

section \<open>After a deadline\<close>

text \<open>A socket that is closed answers so, whatever it was.\<close>

lemma closed_rejects:
  assumes "\<not> sock_is_open a (socket t)"
  shows "tcp_write a data tm t = Some (t, Inl (ConnectionError (not_connected_text t)))"
    and "tcp_read_line a tm t = Some (t, Inl (ConnectionError (not_connected_text t)))"
  using assms by (simp_all add: tcp_write_def tcp_read_line_def require_connected_def require_def throw_run)

end
