(* ===== verification/Sim_Server.thy ===== *)
theory Sim_Server
  imports Tcp_Transport Simulator
begin

text \<open>
  The TCP server of the simulator (\<open>module/simulator/src/simulator_server.cpp\<close>): one thread
  runs the completion handlers of one acceptor and one client socket, other threads ask it to
  stop, to drop its client, to stall or to let them at the simulator. A handler is a function
  from the server's state to the next; which handler runs, and with what result of asio, is
  the step relation \<open>server_step\<close>. \<open>waiting\<close> is the one asynchronous operation that is
  outstanding, \<open>sent\<close> what the current client has been sent.
\<close>

datatype pending_operation = Idle | Accepting | Reading

text \<open>\<open>client\<close>: absent, connected, or present with its socket already closed.\<close>

datatype client_slot = NoClient | Linked | Dropped

record server =
  hosted :: simulator
  client_slot :: client_slot
  received :: string
  sent :: string
  stalled :: bool
  stopping :: bool
  connections :: int
  acceptor_open :: bool
  waiting :: pending_operation

section \<open>The handlers\<close>

definition accept_next :: "server \<Rightarrow> server" where
  "accept_next sv = sv\<lparr>waiting := Accepting\<rparr>"

definition read_next :: "server \<Rightarrow> server" where
  "read_next sv = (if client_slot sv = NoClient then accept_next sv else sv\<lparr>waiting := Reading\<rparr>)"

definition on_accept :: "bool \<Rightarrow> server \<Rightarrow> server" where
  "on_accept ec sv =
     (if ec then sv\<lparr>waiting := Idle\<rparr>
      else read_next (sv\<lparr>client_slot := Linked, sent := [], received := [],
             connections := (connections sv + 1) mod 2 ^ 64\<rparr>))"

text \<open>\<open>if (!stopping) accept_next();\<close> and the return that leaves the thread with nothing to do.\<close>

definition next_client :: "server \<Rightarrow> server" where
  "next_client sv = (if \<not> stopping sv then accept_next sv else sv\<lparr>waiting := Idle\<rparr>)"

definition on_line :: "libm \<Rightarrow> bool \<Rightarrow> nat \<Rightarrow> bool \<Rightarrow> server \<Rightarrow> server option" where
  "on_line lm ec len write_ec sv =
     (if ec then Some (next_client (sv\<lparr>client_slot := NoClient, received := []\<rparr>))
      else case handle_line lm (strip_terminators (take len (received sv))) (hosted sv) of
        None \<Rightarrow> None
      | Some (s, answer) \<Rightarrow> (let sv1 = sv\<lparr>hosted := s, received := drop len (received sv)\<rparr> in
          if answer_bytes answer \<noteq> [] \<and> \<not> stalled sv1 \<and> client_slot sv1 \<noteq> NoClient then
            if write_ec then Some (next_client (sv1\<lparr>client_slot := NoClient\<rparr>))
            else Some (read_next (sv1\<lparr>sent := sent sv1 @ answer_bytes answer\<rparr>))
          else Some (read_next sv1)))"

text \<open>A server that listens, with its first accept outstanding.\<close>

definition new_server :: "simulator \<Rightarrow> server" where
  "new_server s = accept_next \<lparr>hosted = s, client_slot = NoClient, received = [], sent = [], stalled = False,
     stopping = False, connections = 0, acceptor_open = True, waiting = Idle\<rparr>"

text \<open>
  The constructor: the listen address is parsed, then the acceptor is opened, allowed to reuse
  the address, bound and set to listen, up to the first error. What asio does there is the
  parameter \<open>listening\<close>, over the type of a parsed address; the port is the one it was bound to.
\<close>

record 'a listening =
  make_address :: "string \<Rightarrow> string + 'a"
  open_acceptor :: "'a \<Rightarrow> int \<Rightarrow> error_code"
  reuse_address :: "'a \<Rightarrow> int \<Rightarrow> error_code"
  bind_acceptor :: "'a \<Rightarrow> int \<Rightarrow> error_code"
  listen_acceptor :: "'a \<Rightarrow> int \<Rightarrow> error_code"
  local_port :: "'a \<Rightarrow> int \<Rightarrow> int"

fun first_error :: "error_code list \<Rightarrow> error_code" where
  "first_error [] = None"
| "first_error (Some reason # _) = Some reason"
| "first_error (None # ecs) = first_error ecs"

text \<open>\<open>std::invalid_argument\<close> and \<open>std::runtime_error\<close>.\<close>

datatype server_failure = BadAddress string | CannotListen string

definition start_server :: "'a listening \<Rightarrow> simulator \<Rightarrow> int \<Rightarrow> string \<Rightarrow> server_failure + server \<times> int" where
  "start_server a s port address = (case make_address a address of
     Inl reason \<Rightarrow> Inl (BadAddress (''simulator server: bad listen address '' @ [dquote] @ address @ [dquote] @ '': '' @ reason))
   | Inr ip \<Rightarrow>
       (case first_error [open_acceptor a ip port, reuse_address a ip port, bind_acceptor a ip port, listen_acceptor a ip port] of
         Some reason \<Rightarrow> Inl (CannotListen
           (''simulator server: cannot listen on '' @ address @ '':'' @ to_string port @ '': '' @ reason))
       | None \<Rightarrow> Inr (new_server s, local_port a ip port)))"

text \<open>The calls from other threads; \<open>stop\<close> is the flag and the task it posts.\<close>

definition request_stop :: "server \<Rightarrow> server" where
  "request_stop sv = sv\<lparr>stopping := True\<rparr>"

definition close_down :: "server \<Rightarrow> server" where
  "close_down sv = sv\<lparr>acceptor_open := False, client_slot := NoClient\<rparr>"

definition disconnect_client :: "server \<Rightarrow> server" where
  "disconnect_client sv = (if client_slot sv \<noteq> NoClient then sv\<lparr>client_slot := Dropped\<rparr> else sv)"

definition set_stalled :: "bool \<Rightarrow> server \<Rightarrow> server" where
  "set_stalled b sv = sv\<lparr>stalled := b\<rparr>"

definition with_simulator :: "(simulator \<Rightarrow> simulator) \<Rightarrow> server \<Rightarrow> server" where
  "with_simulator f sv = sv\<lparr>hosted := f (hosted sv)\<rparr>"

section \<open>The server as a state machine\<close>

text \<open>
  A pending read completes when a line is there or with an error, whatever has come in by then;
  a pending accept succeeds only while the acceptor is open. The last five steps are the
  other threads' and the task that \<open>stop\<close> posts.
\<close>

inductive server_step :: "libm \<Rightarrow> server \<Rightarrow> server \<Rightarrow> bool" for lm :: libm where
  accepts: "waiting sv = Accepting \<Longrightarrow> acceptor_open sv \<Longrightarrow> server_step lm sv (on_accept False sv)"
| accept_fails: "waiting sv = Accepting \<Longrightarrow> server_step lm sv (on_accept True sv)"
| reads_line: "waiting sv = Reading \<Longrightarrow> line_feed \<in> set (received sv @ got) \<Longrightarrow>
    on_line lm False (line_length (received sv @ got)) write_ec (sv\<lparr>received := received sv @ got\<rparr>) = Some sv' \<Longrightarrow>
    server_step lm sv sv'"
| read_fails: "waiting sv = Reading \<Longrightarrow> on_line lm True 0 False (sv\<lparr>received := received sv @ got\<rparr>) = Some sv' \<Longrightarrow>
    server_step lm sv sv'"
| stop_requested: "server_step lm sv (request_stop sv)"
| stop_posted: "stopping sv \<Longrightarrow> server_step lm sv (close_down sv)"
| disconnected: "server_step lm sv (disconnect_client sv)"
| stall_switched: "server_step lm sv (set_stalled b sv)"
| simulator_used: "server_step lm sv (with_simulator f sv)"

inductive_cases server_step_cases: "server_step lm sv sv'"

definition server_reachable :: "libm \<Rightarrow> simulator \<Rightarrow> server \<Rightarrow> bool" where
  "server_reachable lm s sv \<longleftrightarrow> (server_step lm)\<^sup>*\<^sup>* (new_server s) sv"

lemmas handler_results = on_accept_def read_next_def accept_next_def next_client_def request_stop_def close_down_def
  disconnect_client_def set_stalled_def with_simulator_def

text \<open>What \<open>on_line\<close> leaves.\<close>

lemma on_line_frame:
  assumes "on_line lm ec len we sv = Some sv'"
  shows "stopping sv' = stopping sv" "acceptor_open sv' = acceptor_open sv" "stalled sv' = stalled sv"
    "connections sv' = connections sv"
  using assms by (auto simp: on_line_def handler_results Let_def split: if_splits option.splits)

lemma on_line_waiting:
  assumes "on_line lm ec len we sv = Some sv'"
  shows "client_slot sv' = client_slot sv \<and> client_slot sv \<noteq> NoClient \<and> waiting sv' = Reading \<or>
    client_slot sv' = NoClient \<and> waiting sv' = Accepting \<or>
    client_slot sv' = NoClient \<and> waiting sv' = Idle \<and> stopping sv"
  using assms by (auto simp: on_line_def handler_results Let_def split: if_splits option.splits)

section \<open>It is never stuck\<close>

text \<open>
  There is at most one client; an accept is outstanding only without one; a client is always
  being read from; only a stop closes the acceptor.
\<close>

definition server_ok :: "server \<Rightarrow> bool" where
  "server_ok sv \<longleftrightarrow> (waiting sv \<noteq> Reading \<longrightarrow> client_slot sv = NoClient) \<and>
     (waiting sv = Reading \<longrightarrow> client_slot sv \<noteq> NoClient \<or> \<not> acceptor_open sv) \<and>
     (\<not> acceptor_open sv \<longrightarrow> stopping sv)"

lemma server_ok_step: "server_step lm sv sv' \<Longrightarrow> server_ok sv \<Longrightarrow> server_ok sv'"
proof (induction rule: server_step.induct)
  case (reads_line sv got write_ec sv')
  then show ?case using on_line_waiting [OF reads_line(3)] on_line_frame [OF reads_line(3)] by (auto simp: server_ok_def)
next
  case (read_fails sv got sv')
  then show ?case using on_line_waiting [OF read_fails(2)] on_line_frame [OF read_fails(2)] by (auto simp: server_ok_def)
qed (auto simp: server_ok_def handler_results)

lemma server_ok_reachable: "server_reachable lm s sv \<Longrightarrow> server_ok sv"
  unfolding server_reachable_def
proof (induction rule: rtranclp_induct)
  case base
  then show ?case by (simp add: server_ok_def new_server_def accept_next_def)
qed (rule server_ok_step)

text \<open>Only a stop or a failed accept leaves the thread without an operation, and then for good.\<close>

lemma becomes_idle:
  assumes "server_step lm sv sv'" "waiting sv \<noteq> Idle" "waiting sv' = Idle"
  shows "stopping sv \<or> waiting sv = Accepting \<and> sv' = on_accept True sv"
  using assms
proof (induction rule: server_step.induct)
  case (reads_line sv got write_ec sv')
  then show ?case using on_line_waiting [OF reads_line(3)] by auto
next
  case (read_fails sv got sv')
  then show ?case using on_line_waiting [OF read_fails(2)] by auto
qed (auto simp: handler_results split: if_splits)

lemma idle_forever: "server_step lm sv sv' \<Longrightarrow> waiting sv = Idle \<Longrightarrow> waiting sv' = Idle \<and> connections sv' = connections sv"
  by (elim server_step_cases) (auto simp: handler_results)

section \<open>It stops\<close>

text \<open>Once the task of \<open>stop\<close> has run, at most two more handlers do.\<close>

definition closing :: "server \<Rightarrow> bool" where
  "closing sv \<longleftrightarrow> stopping sv \<and> \<not> acceptor_open sv \<and> client_slot sv = NoClient"

fun handlers_left :: "pending_operation \<Rightarrow> nat" where
  "handlers_left Idle = 0"
| "handlers_left Accepting = 1"
| "handlers_left Reading = 2"

text \<open>\<open>Reading\<close> may be followed by \<open>Accepting\<close>, and that by \<open>Idle\<close>.\<close>

instantiation pending_operation :: linorder
begin

definition less_eq_pending_operation :: "pending_operation \<Rightarrow> pending_operation \<Rightarrow> bool" where
  "p \<le> q \<longleftrightarrow> handlers_left p \<le> handlers_left q"

definition less_pending_operation :: "pending_operation \<Rightarrow> pending_operation \<Rightarrow> bool" where
  "p < q \<longleftrightarrow> handlers_left p < handlers_left q"

instance
proof
  fix p q :: pending_operation
  show "p = q" if "p \<le> q" "q \<le> p"
    using that by (cases p; cases q) (simp_all add: less_eq_pending_operation_def)
qed (auto simp: less_eq_pending_operation_def less_pending_operation_def)

end

lemma closing_close_down: "stopping sv \<Longrightarrow> closing (close_down sv)"
  by (simp add: closing_def close_down_def)

lemma closing_step:
  assumes "server_step lm sv sv'" "closing sv"
  shows "closing sv' \<and> connections sv' = connections sv \<and>
    waiting sv' \<le> waiting sv"
  using assms
proof (induction rule: server_step.induct)
  case (reads_line sv got write_ec sv')
  then show ?case
    using on_line_waiting [OF reads_line(3)] on_line_frame [OF reads_line(3)] by (auto simp: closing_def less_eq_pending_operation_def)
next
  case (read_fails sv got sv')
  then show ?case
    using on_line_waiting [OF read_fails(2)] on_line_frame [OF read_fails(2)] by (auto simp: closing_def less_eq_pending_operation_def)
qed (auto simp: closing_def handler_results less_eq_pending_operation_def)

text \<open>What can only change by getting smaller changes no more often than its size says.\<close>

lemma rarely_changes:
  fixes f :: "nat \<Rightarrow> 'a :: linorder" and size_of :: "'a \<Rightarrow> nat"
  assumes "\<And>n. f (Suc (Suc n)) \<le> f (Suc n)" "\<And>x y. x < y \<Longrightarrow> size_of x < size_of y"
  shows "finite {i. 0 < i \<and> f (Suc i) \<noteq> f i} \<and> card {i. 0 < i \<and> f (Suc i) \<noteq> f i} \<le> size_of (f 1)"
proof -
  let ?S = "{i. 0 < i \<and> f (Suc i) \<noteq> f i}"
  have b: "card (?S \<inter> {..n}) + size_of (f (Suc n)) \<le> size_of (f 1)" for n
  proof (induction n)
    case 0
    have "?S \<inter> {..0} = {}" by auto
    then show ?case by simp
  next
    case (Suc n)
    have S: "?S \<inter> {..Suc n} = (if Suc n \<in> ?S then insert (Suc n) (?S \<inter> {..n}) else ?S \<inter> {..n})"
      by (auto simp: le_Suc_eq)
    have "card (?S \<inter> {..Suc n}) = card (?S \<inter> {..n}) + (if Suc n \<in> ?S then 1 else 0)"
      unfolding S by simp
    moreover have "f (Suc (Suc n)) = f (Suc n) \<or> size_of (f (Suc (Suc n))) < size_of (f (Suc n))"
      using assms(1) [of n] assms(2) by (auto simp: le_less)
    ultimately show ?case using Suc by (cases "Suc n \<in> ?S") auto
  qed
  have "card G \<le> size_of (f 1)" if "G \<subseteq> ?S" "finite G" for G
  proof -
    obtain n where "G \<subseteq> {..n}" using \<open>finite G\<close> by (auto simp: finite_nat_set_iff_bounded_le)
    then have "card G \<le> card (?S \<inter> {..n})" using \<open>G \<subseteq> ?S\<close> by (intro card_mono) auto
    then show ?thesis using b [of n] by simp
  qed
  then show ?thesis by (intro finite_if_finite_subsets_card_bdd) auto
qed

section \<open>What it does with a stream of bytes\<close>

text \<open>
  Bytes arrive from the client: as long as there is a line, the read completes and its
  handler starts the next one. The writes succeed.
\<close>

lemma on_line_shorter:
  "on_line lm False len we sv = Some sv' \<Longrightarrow> 0 < len \<Longrightarrow> len \<le> length (received sv) \<Longrightarrow>
   length (received sv') < length (received sv)"
  by (auto simp: on_line_def handler_results Let_def split: if_splits option.splits)

function serve_received :: "libm \<Rightarrow> server \<Rightarrow> server option" where
  "serve_received lm sv =
     (if waiting sv = Reading \<and> line_feed \<in> set (received sv) then
        (case on_line lm False (line_length (received sv)) False sv of
          None \<Rightarrow> None
        | Some sv' \<Rightarrow> serve_received lm sv')
      else Some sv)"
  by pat_completeness auto
termination
  by (relation "measure (\<lambda>(lm, sv). length (received sv))")
    (auto dest: on_line_shorter line_length_bounds)

declare serve_received.simps [simp del]

definition arrive :: "libm \<Rightarrow> string \<Rightarrow> server \<Rightarrow> server option" where
  "arrive lm data sv = serve_received lm (sv\<lparr>received := received sv @ data\<rparr>)"

definition serving :: "server \<Rightarrow> bool" where
  "serving sv \<longleftrightarrow> waiting sv = Reading \<and> client_slot sv = Linked \<and> \<not> stalled sv"

lemma strip_terminators_line: "strip_terminators (l @ [line_feed]) = strip_terminators l"
  by (simp add: strip_terminators_def)

lemma on_line_serving:
  assumes "serving sv"
  shows "on_line lm False len False sv =
    (case handle_line lm (strip_terminators (take len (received sv))) (hosted sv) of
       None \<Rightarrow> None
     | Some (s, answer) \<Rightarrow> Some (sv\<lparr>hosted := s, received := drop len (received sv), sent := sent sv @ answer_bytes answer\<rparr>))"
  using assms
  by (auto simp: on_line_def serving_def read_next_def Let_def split: option.splits)

text \<open>The lines are handled in order, each answer is sent as a line, the rest is kept.\<close>

lemma serve_received_lines:
  assumes "serving sv" "take_lines (received sv) = (ls, rest)"
  shows "serve_received lm sv = map_option (\<lambda>(s, answers).
      sv\<lparr>hosted := s, received := rest, sent := sent sv @ concat (map answer_bytes answers)\<rparr>)
    (handle_lines lm (map strip_terminators ls) (hosted sv))"
  using assms
proof (induction ls arbitrary: sv)
  case Nil
  then have "line_feed \<notin> set (received sv)" "received sv = rest"
    using take_lines_has_line [of "received sv"] take_lines_none [of "received sv"] by auto
  then show ?case by (subst serve_received.simps) (simp add: serving_def)
next
  case (Cons l ls)
  let ?r = "received sv"
  have lf: "line_feed \<in> set ?r" using Cons.prems(2) take_lines_has_line [of ?r] by auto
  note first = take_lines_first [OF lf]
  have l: "l = take (line_length ?r - 1) ?r" "take_lines (drop (line_length ?r) ?r) = (ls, rest)"
    using first(1) Cons.prems(2) by (simp_all add: prod_eq_iff)
  have s: "strip_terminators (take (line_length ?r) ?r) = strip_terminators l"
    unfolding first(2) strip_terminators_line l(1) ..
  show ?case
  proof (cases "handle_line lm (strip_terminators l) (hosted sv)")
    case None
    then show ?thesis
      using Cons.prems(1) lf by (subst serve_received.simps) (simp add: on_line_serving s serving_def)
  next
    case (Some d)
    obtain t answer where d: "d = (t, answer)" by fastforce
    let ?sv = "sv\<lparr>hosted := t, received := drop (line_length ?r) ?r, sent := sent sv @ answer_bytes answer\<rparr>"
    have "serve_received lm sv = serve_received lm ?sv"
      using Cons.prems(1) lf Some d
      by (subst serve_received.simps) (simp add: on_line_serving s, simp add: serving_def)
    moreover have "serving ?sv" using Cons.prems(1) by (simp add: serving_def)
    ultimately show ?thesis
      using Cons.IH [of ?sv] l(2) Some d
      by (cases "handle_lines lm (map strip_terminators ls) t") auto
  qed
qed

lemma handle_lines_append:
  "handle_lines lm (ls @ ms) s = (case handle_lines lm ls s of None \<Rightarrow> None
     | Some (t, rs) \<Rightarrow> map_option (\<lambda>(u, qs). (u, rs @ qs)) (handle_lines lm ms t))"
proof (induction ls arbitrary: s)
  case Nil
  show ?case by (cases "handle_lines lm ms s") auto
next
  case (Cons l ls)
  then show ?case
    by (auto split: option.splits simp: option.map_comp comp_def case_prod_beta)
qed

lemma arrive_append:
  assumes "serving sv"
  shows "arrive lm (u @ v) sv = (case arrive lm u sv of None \<Rightarrow> None | Some sv' \<Rightarrow> arrive lm v sv')"
proof -
  obtain ls rest where l: "take_lines (received sv @ u) = (ls, rest)" by fastforce
  obtain ms rest' where m: "take_lines (rest @ v) = (ms, rest')" by fastforce
  have lm': "take_lines (received sv @ u @ v) = (ls @ ms, rest')"
    using take_lines_append [of "received sv @ u" v] l m by simp
  have sv: "serving (sv\<lparr>received := w\<rparr>)" for w using assms by (simp add: serving_def)
  have now: "arrive lm w sv = map_option (\<lambda>(s, answers).
      sv\<lparr>hosted := s, received := z, sent := sent sv @ concat (map answer_bytes answers)\<rparr>)
    (handle_lines lm (map strip_terminators ks) (hosted sv))" if "take_lines (received sv @ w) = (ks, z)" for w ks z
    using serve_received_lines [OF sv, of "received sv @ w" ks z lm] that by (simp add: arrive_def)
  show ?thesis
  proof (cases "handle_lines lm (map strip_terminators ls) (hosted sv)")
    case None
    then show ?thesis using now [OF l] now [OF lm'] by (simp add: handle_lines_append)
  next
    case (Some d)
    obtain t answers where d: "d = (t, answers)" by fastforce
    let ?sv = "sv\<lparr>hosted := t, received := rest, sent := sent sv @ concat (map answer_bytes answers)\<rparr>"
    have "serving (?sv\<lparr>received := rest @ v\<rparr>)" using assms by (simp add: serving_def)
    from serve_received_lines [OF this, of ms rest' lm] m
    have "arrive lm v ?sv = map_option (\<lambda>(s, qs). ?sv\<lparr>hosted := s, received := rest', sent := sent ?sv @ concat (map answer_bytes qs)\<rparr>)
        (handle_lines lm (map strip_terminators ms) t)"
      by (simp add: arrive_def)
    then show ?thesis
      using now [OF l] now [OF lm'] Some d
      by (cases "handle_lines lm (map strip_terminators ms) t") (auto simp: handle_lines_append)
  qed
qed

end
