(* ===== verification/Sim_One_Line.thy ===== *)
theory Sim_One_Line
  imports Sim_Invariants Number_Chars
begin

unbundle bit_operations_syntax

text \<open>
  The framing of the protocol: a response of the simulator is one line. Everything it may
  put into a response comes from a command line, from its options or from its own tables,
  and none of these holds a line terminator. The invariant is on all texts the state
  remembers (function names, sources, the language, queued messages), the rules are one per
  piece of plumbing, and each handler follows.
\<close>

section \<open>Texts without line terminators\<close>

definition one_line :: "string \<Rightarrow> bool" where
  "one_line s \<longleftrightarrow> list_all (\<lambda>c. c \<noteq> CHR 0x0A \<and> c \<noteq> CHR 0x0D) s"

named_theorems one_line_texts

lemma one_line_Nil [simp]: "one_line []"
  by (simp add: one_line_def)

lemma one_line_Cons [simp]: "one_line (c # s) \<longleftrightarrow> c \<noteq> CHR 0x0A \<and> c \<noteq> CHR 0x0D \<and> one_line s"
  by (simp add: one_line_def)

lemma one_line_append [simp]: "one_line (s @ t) \<longleftrightarrow> one_line s \<and> one_line t"
  by (simp add: one_line_def)

lemma one_line_subset: "one_line s \<Longrightarrow> set t \<subseteq> set s \<Longrightarrow> one_line t"
  by (auto simp: one_line_def list_all_iff)

lemma one_line_numeric: "numeric s \<Longrightarrow> one_line s"
  using number_char_bare by (auto simp: one_line_def list_all_iff is_space_def)

lemma one_line_to_string [simp]: "one_line (to_string n)"
  by (rule one_line_numeric) (rule numeric_to_string)

lemma to_upper_terminator: "to_upper c = CHR 0x0A \<longleftrightarrow> c = CHR 0x0A" "to_upper c = CHR 0x0D \<longleftrightarrow> c = CHR 0x0D"
  by (rule to_upper_eq_other; simp add: is_upper_code is_lower_code)+

lemma one_line_upper [simp]: "one_line (upper s) \<longleftrightarrow> one_line s"
  by (simp add: one_line_def upper_def list.pred_map comp_def to_upper_terminator)

lemma set_trim: "set (trim s) \<subseteq> set s"
  by (auto simp: trim_def dest!: set_dropWhileD)

lemma one_line_trim [one_line_texts]: "one_line s \<Longrightarrow> one_line (trim s)"
  by (erule one_line_subset) (rule set_trim)

lemma set_unquote: "set (unquote s) \<subseteq> set s"
proof -
  have "set (butlast (tl t)) \<subseteq> set t" for t :: string
    by (cases t) (auto dest: in_set_butlastD)
  then have "set (butlast (tl (trim s))) \<subseteq> set s" using set_trim [of s] by blast
  then show ?thesis using set_trim [of s] by (auto simp: unquote_def Let_def)
qed

lemma one_line_unquote [one_line_texts]: "one_line s \<Longrightarrow> one_line (unquote s)"
  by (erule one_line_subset) (rule set_unquote)

lemma one_line_quote [simp]: "one_line (quote s) \<longleftrightarrow> one_line s"
  by (simp add: quote_def)

lemma one_line_join: "one_line sep \<Longrightarrow> list_all one_line xs \<Longrightarrow> one_line (join_with sep xs)"
  by (induction sep xs rule: join_with.induct) simp_all

lemma one_line_quote_join [simp]: "list_all one_line fs \<Longrightarrow> one_line (quote_join fs)"
  by (simp add: quote_join_def one_line_join list.pred_map comp_def)

lemma one_line_format_setting [simp]: "one_line (format_setting v)"
proof -
  have "one_line (snprintf64 (format_g9 v))"
    by (intro one_line_numeric snprintf64_chars format_g9_chars)
  then show ?thesis by (auto simp: format_setting_def one_line_def list.pred_map comp_def list_all_iff)
qed

lemma one_line_join_values [simp]: "one_line (join_values vs)"
  by (simp add: join_values_def one_line_join list.pred_map comp_def list_all_iff)

lemma one_line_format_value [simp]: "one_line (format_value x v)"
  by (auto simp: format_value_def Let_def intro!: one_line_numeric snprintf64_chars format_E_chars)

lemma one_line_format_values [simp]: "one_line (format_values x vs)"
  by (simp add: format_values_def one_line_join list.pred_map comp_def list_all_iff)

lemma split_scan_sets:
  "s' \<in> set (split_scan sep s cur q) \<Longrightarrow> set s' \<subseteq> set s \<union> set cur"
  by (induction sep s cur q arbitrary: s' rule: split_scan.induct) (fastforce split: if_splits)+

lemma one_line_split: "one_line s \<Longrightarrow> list_all one_line (split_unquoted s sep)"
  using split_scan_sets [of _ sep s "[]" None]
  by (fastforce simp: list_all_iff split_unquoted_def intro: one_line_subset)

lemma header_scan_sets: "header_scan s q = (h, r) \<Longrightarrow> set h \<subseteq> set s \<and> (\<forall>t. r = Some t \<longrightarrow> set t \<subseteq> set s)"
  by (induction s q arbitrary: h r rule: header_scan.induct) (fastforce split: if_splits prod.splits)+

section \<open>The texts the simulator remembers\<close>

definition state_texts :: "simulator_state \<Rightarrow> string list" where
  "state_texts x = [sync_source x, trigger_start_source x, trigger_stop_source x, efficiency_input x,
     efficiency_output x, language x] @ meas_functions x @ transform_functions x @ integral_functions x @
     display_functions x @ concat (map sweep_functions (sweep x)) @ map message (errors x)"

definition one_line_state :: "simulator_state \<Rightarrow> bool" where
  "one_line_state x \<longleftrightarrow> length (sweep x) = 3 \<and> list_all one_line (state_texts x)"

definition one_line_options :: "simulator_options \<Rightarrow> bool" where
  "one_line_options o' \<longleftrightarrow> list_all one_line [manufacturer (identification o'), model (identification o'),
     serial_number (identification o'), firmware_version (identification o'), scpi_version o', options_response o']"

definition one_line_simulator :: "simulator \<Rightarrow> bool" where
  "one_line_simulator s \<longleftrightarrow> one_line_state (st s) \<and> one_line_options (opts s)"

definition one_line_command :: "command \<Rightarrow> bool" where
  "one_line_command c \<longleftrightarrow> list_all one_line (args c) \<and> one_line (key c) \<and> (\<forall>r. response c = Some r \<longrightarrow> one_line r)"

definition clean :: "access \<Rightarrow> bool" where
  "clean a \<longleftrightarrow> one_line_simulator (fst a) \<and> one_line_command (snd a)"

lemmas one_line_state_simps = one_line_state_def state_texts_def

lemma clean_state: "clean a \<Longrightarrow> one_line_state (st (fst a))"
  by (simp add: clean_def one_line_simulator_def)

lemma remembered [dest]:
  assumes "one_line_state x"
  shows "one_line (sync_source x)" "one_line (trigger_start_source x)" "one_line (trigger_stop_source x)"
    "one_line (efficiency_input x)" "one_line (efficiency_output x)" "one_line (language x)"
    "list_all one_line (meas_functions x)" "list_all one_line (transform_functions x)"
    "list_all one_line (integral_functions x)" "list_all one_line (display_functions x)"
    "list_all (\<lambda>e. one_line (message e)) (errors x)"
  using assms by (simp_all add: one_line_state_simps list.pred_map comp_def)

lemma remembered_sweep: "one_line_state x \<Longrightarrow> b < 3 \<Longrightarrow> list_all one_line (sweep_functions (sweep x ! b))"
  by (auto simp: one_line_state_simps list_all_iff) (metis UN_I Un_iff nth_mem)

section \<open>Plumbing\<close>

named_theorems clean_intros

lemma clean_respond [clean_intros]: "one_line t \<Longrightarrow> clean a \<Longrightarrow> clean (respond t a)"
  by (simp add: clean_def one_line_command_def)

lemma one_line_push: "one_line m \<Longrightarrow> one_line_simulator s \<Longrightarrow> one_line_simulator (push_error e m s)"
  by (auto simp: one_line_simulator_def push_error_def one_line_state_simps list_all_iff dest: in_set_butlastD)

lemma clean_fail [clean_intros]: "one_line m \<Longrightarrow> clean a \<Longrightarrow> clean (fail e m a)"
  by (simp add: clean_def one_line_push one_line_command_def)

lemma clean_assign [clean_intros]: "one_line_state (f (st (fst a))) \<Longrightarrow> clean a \<Longrightarrow> clean (assign f a)"
  by (simp add: clean_def one_line_simulator_def)

lemma clean_argument: "clean a \<Longrightarrow> argument (snd a) i = Some t \<Longrightarrow> one_line t"
  by (auto simp: clean_def one_line_command_def argument_def list_all_iff one_line_texts split: if_splits)

lemma clean_parameter: "clean a \<Longrightarrow> parameter a = (b, r) \<Longrightarrow> clean b \<and> (\<forall>t. r = Some t \<longrightarrow> one_line t)"
  using clean_argument [of a 0] clean_fail [of "''Missing parameter''" a kMissingParameter]
  by (auto simp: parameter_def split: option.splits)

lemma clean_with_parameter [clean_intros]:
  assumes "clean a" "\<And>t. one_line t \<Longrightarrow> clean a \<Longrightarrow> clean (k t a)"
  shows "clean (with_parameter k a)"
  using assms parameter_cases [of a] clean_argument [of a 0] clean_fail [of "''Missing parameter''" a kMissingParameter]
  by (auto simp: with_parameter_def)

lemma clean_key: "clean a \<Longrightarrow> one_line (key (snd a))"
  by (simp add: clean_def one_line_command_def)

lemma clean_query_only [clean_intros]: "clean a \<Longrightarrow> (query (snd a) \<Longrightarrow> clean (k a)) \<Longrightarrow> clean (query_only k a)"
  by (simp add: query_only_def clean_fail clean_key)

lemma clean_command_only [clean_intros]:
  "clean a \<Longrightarrow> (\<not> query (snd a) \<Longrightarrow> clean (k a)) \<Longrightarrow> clean (command_only k a)"
  by (simp add: command_only_def clean_fail clean_key)

lemma clean_if [clean_intros]: "(c \<Longrightarrow> clean x) \<Longrightarrow> (\<not> c \<Longrightarrow> clean y) \<Longrightarrow> clean (if c then x else y)"
  by simp

lemma clean_option [clean_intros]:
  "(o' = None \<Longrightarrow> clean x) \<Longrightarrow> (\<And>v. o' = Some v \<Longrightarrow> clean (f v)) \<Longrightarrow> clean (case o' of None \<Rightarrow> x | Some v \<Rightarrow> f v)"
  by (simp split: option.splits)

text \<open>An operation on a reference: \<open>V\<close> is what is known of the value stored.\<close>

definition clean_op :: "('v \<Rightarrow> bool) \<Rightarrow> ('v \<Rightarrow> access \<Rightarrow> 'v \<times> access) \<Rightarrow> bool" where
  "clean_op V f \<longleftrightarrow> (\<forall>v a. V v \<longrightarrow> clean a \<longrightarrow> V (fst (f v a)) \<and> clean (snd (f v a)))"

lemma clean_on_field:
  assumes "clean_op V f" "clean a" "V (rd (st (fst a)))" "\<And>v x. V v \<Longrightarrow> one_line_state x \<Longrightarrow> one_line_state (upd (\<lambda>_. v) x)"
  shows "clean (on_field rd upd f a)"
proof -
  obtain v s c where f: "f (rd (st (fst a))) a = (v, (s, c))" by (metis prod.collapse)
  moreover have "V (fst (f (rd (st (fst a))) a)) \<and> clean (snd (f (rd (st (fst a))) a))"
    using assms(1-3) unfolding clean_op_def by blast
  ultimately have "V v" "clean (s, c)" by simp_all
  then show ?thesis
    using assms(4) [of v "st s"] f by (simp add: on_field_def clean_def one_line_simulator_def)
qed

lemma clean_opI:
  assumes "\<And>v a. V v \<Longrightarrow> clean a \<Longrightarrow> query (snd a) \<Longrightarrow> V (fst (f v a)) \<and> clean (snd (f v a))"
    and "\<And>v a. V v \<Longrightarrow> clean a \<Longrightarrow> \<not> query (snd a) \<Longrightarrow> V (fst (f v a)) \<and> clean (snd (f v a))"
  shows "clean_op V f"
  using assms unfolding clean_op_def by blast

text \<open>A parameter that is missing, or a text of one line.\<close>

lemma parameter_clean_cases:
  assumes "clean a"
  obtains (missing) "parameter a = (fail kMissingParameter ''Missing parameter'' a, None)"
    "clean (fail kMissingParameter ''Missing parameter'' a)"
  | (given) t where "parameter a = (a, Some t)" "one_line t"
  using assms parameter_cases [of a] clean_argument [of a 0] clean_fail [of "''Missing parameter''" a kMissingParameter]
  by auto

lemma clean_number: "clean_op (\<lambda>_. True) (number lo hi)"
proof (rule clean_opI)
  fix v a assume a: "clean a" "\<not> query (snd a)"
  from a(1) show "True \<and> clean (snd (number lo hi v a))"
    by (cases rule: parameter_clean_cases) (use a in \<open>auto simp: number_def clean_fail split: option.splits\<close>)
qed (simp add: number_def clean_respond)

lemma clean_integer: "clean_op (\<lambda>_. True) (integer lo hi)"
proof (rule clean_opI)
  fix v a assume a: "clean a" "\<not> query (snd a)"
  from a(1) show "True \<and> clean (snd (integer lo hi v a))"
    by (cases rule: parameter_clean_cases) (use a in \<open>auto simp: integer_def clean_fail Let_def split: option.splits\<close>)
qed (simp add: integer_def clean_respond)

lemma clean_boolean: "clean_op (\<lambda>_. True) boolean"
proof (rule clean_opI)
  fix v a assume a: "clean a" "\<not> query (snd a)"
  from a(1) show "True \<and> clean (snd (boolean v a))"
    by (cases rule: parameter_clean_cases) (use a in \<open>auto simp: boolean_def clean_fail split: option.splits\<close>)
qed (simp add: boolean_def clean_respond format_bool_def)

lemma clean_keyword:
  assumes "list_all (\<lambda>(v, names). list_all one_line names \<and> names \<noteq> []) spellings"
  shows "clean_op (\<lambda>_. True) (keyword spellings)"
proof (rule clean_opI)
  fix v a assume a: "clean a" "\<not> query (snd a)"
  from a(1) show "True \<and> clean (snd (keyword spellings v a))"
    by (cases rule: parameter_clean_cases) (use a in \<open>auto simp: keyword_def clean_fail split: option.splits\<close>)
next
  fix v a assume a: "clean a" "query (snd a)"
  have "one_line (hd names)" if "map_of spellings v = Some names" for names
    using assms map_of_SomeD [OF that] by (auto simp: list_all_iff)
  then show "True \<and> clean (snd (keyword spellings v a))"
    using a by (auto simp: keyword_def clean_respond split: option.splits)
qed

lemma scan_functions_one_line:
  "list_all one_line xs \<Longrightarrow> (case scan_function_list xs of Inl bad \<Rightarrow> one_line bad | Inr fs \<Rightarrow> list_all one_line fs)"
  by (induction xs) (auto simp: Let_def one_line_texts split: sum.splits)

lemma function_list_clean_cases:
  assumes "clean a"
  obtains (rejected) b where "read_function_list a = (b, None)" "clean b"
  | (listed) fs where "read_function_list a = (a, Some fs)" "list_all one_line fs"
  using assms scan_functions_one_line [of "args (snd a)"] that
  by (cases "args (snd a) = []"; cases "scan_function_list (args (snd a))")
    (auto simp: read_function_list_def clean_fail clean_def one_line_command_def one_line_push)

lemma clean_function_list: "clean_op (list_all one_line) function_list"
proof (rule clean_opI)
  fix v a assume a: "clean a" "\<not> query (snd a)" "list_all one_line v"
  from a(1) show "list_all one_line (fst (function_list v a)) \<and> clean (snd (function_list v a))"
    by (cases rule: function_list_clean_cases) (use a in \<open>simp_all add: function_list_def\<close>)
qed (simp add: function_list_def clean_respond)

lemmas clean_fields [clean_intros] =
  clean_on_field [OF clean_number] clean_on_field [OF clean_integer] clean_on_field [OF clean_boolean]
  clean_on_field [OF clean_keyword] clean_on_field [OF clean_function_list]

definition clean_outcome :: "outcome \<Rightarrow> bool" where
  "clean_outcome out \<longleftrightarrow> (\<forall>b. out = Done b \<longrightarrow> clean b)"

lemma clean_outcome_basic [clean_intros]:
  "clean_outcome Declined" "clean_outcome Undefined" "clean b \<Longrightarrow> clean_outcome (Done b)"
  by (simp_all add: clean_outcome_def)

lemma clean_outcome_if [clean_intros]:
  "(c \<Longrightarrow> clean_outcome x) \<Longrightarrow> (\<not> c \<Longrightarrow> clean_outcome y) \<Longrightarrow> clean_outcome (if c then x else y)"
  by simp

lemma clean_outcome_option [clean_intros]:
  "(o' = None \<Longrightarrow> clean_outcome x) \<Longrightarrow> (\<And>v. o' = Some v \<Longrightarrow> clean_outcome (f v)) \<Longrightarrow>
   clean_outcome (case o' of None \<Rightarrow> x | Some v \<Rightarrow> f v)"
  by (simp split: option.splits)

section \<open>The handlers\<close>

lemma handle_route_clean: "clean a \<Longrightarrow> clean_outcome (handle_route a)"
  unfolding handle_route_def
  by (intro clean_intros) (use clean_state [of a] in \<open>simp_all add: one_line_state_simps\<close>)

lemma handle_input_clean: "clean a \<Longrightarrow> clean_outcome (handle_input a)"
  unfolding handle_input_def Let_def
  by (intro clean_intros) (simp_all add: one_line_state_simps element_update_def coupling_spellings_def shunt_spellings_def)

lemma handle_channel_clean: "clean a \<Longrightarrow> clean_outcome (handle_channel v a)"
  unfolding handle_channel_def set_range_def Let_def
  by (intro clean_intros)
    (use clean_state [of a] in \<open>simp_all add: one_line_state_simps channel_update_def element_update_def\<close>)

lemma respond_points_clean: "clean a \<Longrightarrow> clean_outcome (respond_points t u a)"
  unfolding respond_points_def by (intro clean_intros) simp_all

text \<open>A sweep block is replaced by one with the texts of the old one, or with given ones.\<close>

lemma one_line_sweep_at:
  assumes "one_line_state x" "\<And>y. list_all one_line (sweep_functions y) \<Longrightarrow> list_all one_line (sweep_functions (f y))"
  shows "one_line_state (sweep_at b f x)"
proof (cases "b < 3")
  case True
  then have "list_all one_line (sweep_functions (f (sweep x ! b)))" using assms remembered_sweep by blast
  moreover have "list_all one_line (concat (map sweep_functions (sweep x)))"
    using assms(1) by (simp add: one_line_state_simps)
  ultimately have "list_all one_line (concat (map sweep_functions ((sweep x)[b := f (sweep x ! b)])))"
    by (auto simp: list_all_iff dest!: set_update_subset_insert [THEN subsetD])
  then show ?thesis using assms(1) by (simp add: sweep_at_def element_update_def one_line_state_simps)
next
  case False
  then have "sweep_at b f x = x"
    using assms(1) by (simp add: one_line_state_def sweep_at_def element_update_def list_update_beyond)
  then show ?thesis using assms(1) by simp
qed

lemma handle_sweep_clean: "clean a \<Longrightarrow> clean_outcome (handle_sweep a)"
  unfolding handle_sweep_def Let_def
  by (intro clean_intros respond_points_clean)
    (use clean_state [of a] in \<open>auto simp: sweep_of_def intro!: one_line_sweep_at remembered_sweep\<close>)

lemma one_line_functions:
  "one_line_state x \<Longrightarrow> list_all one_line fs \<Longrightarrow> one_line_state (meas_functions_update (\<lambda>_. fs) x)"
  by (simp add: one_line_state_simps)

lemma set_functions_clean: "clean a \<Longrightarrow> clean (set_functions a)"
  by (cases a rule: function_list_clean_cases)
    (simp_all add: set_functions_def clean_fail clean_assign one_line_functions clean_state)

lemma set_concurrent_clean: "clean a \<Longrightarrow> clean (set_concurrent a)"
proof -
  assume "clean a"
  then have b: "clean (on_field concurrent concurrent_update boolean a)"
    by (intro clean_intros) (simp_all add: one_line_state_simps)
  moreover have "list_all one_line (take 1 fs)" if "list_all one_line fs" for fs
    using that by (auto simp: list_all_iff dest: in_set_takeD)
  ultimately have "clean (assign (meas_functions_update (take 1)) (on_field concurrent concurrent_update boolean a))"
    using clean_state [OF b] by (intro clean_assign) (simp_all add: one_line_state_simps)
  with b show ?thesis by (simp add: set_concurrent_def Let_def)
qed

lemma one_line_measurement:
  "measurement_response lm x sg fs ws = Some txt \<Longrightarrow> one_line txt"
proof -
  have statuses: "one_line (concat (map (\<lambda>m :: simulated_measurement. '','' @ to_string (m_status m)) ms))" for ms
    by (induction ms) simp_all
  have "list_all one_line (map (\<lambda>m :: simulated_measurement. format_value x (m_value m)) ms)" for ms
    by (simp add: list_all_iff)
  then have joined: "one_line (join_with '','' (map (\<lambda>m :: simulated_measurement. format_value x (m_value m)) ms))" for ms
    by (simp add: one_line_join)
  have "one_line (replicate n (CHR 0x00))" for n by (simp add: one_line_def list_all_iff)
  then show "measurement_response lm x sg fs ws = Some txt \<Longrightarrow> one_line txt"
    using statuses joined by (auto simp: measurement_response_def Let_def split: if_splits)
qed

lemma respond_data_clean: "clean a \<Longrightarrow> clean_outcome (respond_data lm a)"
  unfolding respond_data_def by (intro clean_intros one_line_measurement) simp_all

lemma handle_data_clean: "clean a \<Longrightarrow> clean_outcome (handle_data lm a)"
proof -
  assume a: "clean a"
  have q: "clean_outcome (Done (query_only (\<lambda>b. b) a))" using a by (intro clean_intros)
  from a show ?thesis
  proof (cases rule: function_list_clean_cases)
    case (rejected b)
    then show ?thesis using a q by (simp add: handle_data_def respond_data_clean clean_intros)
  next
    case (listed fs)
    then have "clean (assign (meas_functions_update (\<lambda>_. fs)) a)"
      using a by (simp add: clean_assign one_line_functions clean_state)
    then show ?thesis using a q listed by (simp add: handle_data_def respond_data_clean)
  qed
qed

lemma one_line_all_functions: "list_all one_line all_functions"
  by code_simp

lemma handle_sense_clean: "clean a \<Longrightarrow> clean_outcome (handle_sense lm a)"
  unfolding handle_sense_def Let_def
  by (intro clean_intros handle_channel_clean handle_sweep_clean handle_data_clean set_concurrent_clean set_functions_clean)
    (use clean_state [of a] one_line_all_functions in \<open>auto simp: one_line_state_simps\<close>)

lemma set_sync_source_clean: "clean a \<Longrightarrow> clean (set_sync_source a)"
  unfolding set_sync_source_def Let_def
  by (intro clean_intros) (auto simp: one_line_state_simps dest: clean_state)

lemma set_sync_filter_frequency_clean: "clean a \<Longrightarrow> clean (set_sync_filter_frequency a)"
  unfolding set_sync_filter_frequency_def
  by (intro clean_intros) (auto simp: one_line_state_simps dest: clean_state)

lemma handle_sync_clean: "clean a \<Longrightarrow> clean_outcome (handle_sync a)"
  unfolding handle_sync_def Let_def
  by (intro clean_intros set_sync_source_clean set_sync_filter_frequency_clean)
    (use clean_state [of a] in \<open>auto simp: one_line_state_simps level_unit_spellings_def slope_spellings_def\<close>)

lemma one_line_stop_sweeps: "one_line_state x \<Longrightarrow> one_line_state (stop_sweeps x)"
  unfolding stop_sweeps_def by (intro one_line_sweep_at) simp_all

lemma acquisition_texts:
  "one_line_state (initiated_update f x) \<longleftrightarrow> one_line_state x" "one_line_state (continuous_update f x) \<longleftrightarrow> one_line_state x"
  by (simp_all add: one_line_state_simps)

lemma handle_acquisition_clean: "clean a \<Longrightarrow> clean_outcome (handle_acquisition a)"
  unfolding handle_acquisition_def Let_def
  by (intro clean_intros one_line_stop_sweeps one_line_sweep_at) (simp_all add: acquisition_texts clean_state)

lemma require_timestamp_clean: "clean a \<Longrightarrow> clean (require_timestamp a)"
  unfolding require_timestamp_def by (intro clean_intros) simp_all

lemma handle_trigger_clean: "clean a \<Longrightarrow> clean_outcome (handle_trigger a)"
  unfolding handle_trigger_def Let_def
  by (intro clean_intros require_timestamp_clean)
    (auto simp: one_line_state_simps slope_spellings_def dest!: clean_state)

lemma format_name_one_line [simp]: "one_line (format_name f)"
  by (cases f) (simp_all add: format_name_def)

lemma set_format_texts: "one_line_state (set_format d v x) \<longleftrightarrow> one_line_state x"
  by (simp add: set_format_def Let_def one_line_state_simps)

lemma read_length_one_line: "clean a \<Longrightarrow> read_length (snd a) n = Inl bad \<Longrightarrow> one_line bad"
  by (auto simp: read_length_def clean_def one_line_command_def list_all_length split: if_splits option.splits)

lemma handle_format_setting_clean: "clean a \<Longrightarrow> clean (handle_format_setting d a)"
  unfolding handle_format_setting_def Let_def
  by (intro clean_intros)
    (auto simp: set_format_texts clean_state dest: read_length_one_line intro!: clean_intros split: sum.splits)

lemma handle_format_clean: "clean a \<Longrightarrow> clean_outcome (handle_format a)"
  unfolding handle_format_def Let_def
  by (intro clean_intros handle_format_setting_clean) (simp_all add: one_line_state_simps byte_order_spellings_def)

lemma handle_display_output_clean: "clean a \<Longrightarrow> clean_outcome (handle_display_output a)"
  unfolding handle_display_output_def Let_def
  by (intro clean_intros) (use clean_state [of a] in \<open>simp_all add: one_line_state_simps\<close>)

lemma error_text_one_line: "one_line (error_text e) \<longleftrightarrow> one_line (message e)"
  by (simp add: error_text_def)

lemma one_line_fewer_errors:
  "one_line_state x \<Longrightarrow> set es \<subseteq> set (errors x) \<Longrightarrow> one_line_state (errors_update (\<lambda>_. es) x)"
  by (auto simp: one_line_state_simps list_all_iff)

lemma next_error_clean: "clean a \<Longrightarrow> clean (next_error a)"
proof (cases "errors (st (fst a))")
  case Nil
  then show "clean a \<Longrightarrow> clean (next_error a)" by (auto simp: next_error_def no_error_text_def intro!: clean_intros)
next
  case (Cons e es)
  assume a: "clean a"
  have "one_line (message e)" using remembered(11) [OF clean_state [OF a]] Cons by simp
  then show "clean (next_error a)"
    using a Cons clean_state [OF a]
    by (auto simp: next_error_def error_text_one_line intro!: clean_intros one_line_fewer_errors)
qed

lemma all_errors_clean: "clean a \<Longrightarrow> clean (all_errors a)"
proof -
  assume a: "clean a"
  have "list_all one_line (map error_text (errors (st (fst a))))"
    using remembered(11) [OF clean_state [OF a]] by (simp add: list.pred_map comp_def error_text_one_line)
  then have "one_line (join_with '','' (map error_text (errors (st (fst a)))))" by (simp add: one_line_join)
  then show "clean (all_errors a)"
    using a clean_state [OF a]
    by (auto simp: all_errors_def no_error_text_def intro!: clean_intros one_line_fewer_errors split: list.splits)
qed

lemma handle_date_clean: "clean a \<Longrightarrow> clean_outcome (handle_date a)"
  by (auto simp: handle_date_def Let_def one_line_state_simps intro!: clean_intros dest: clean_state
      split: option.splits prod.splits)

lemma handle_time_clean: "clean a \<Longrightarrow> clean_outcome (handle_time a)"
  by (auto simp: handle_time_def Let_def one_line_state_simps intro!: clean_intros dest: clean_state
      split: option.splits prod.splits)

lemma clean_options: "clean a \<Longrightarrow> one_line_options (opts (fst a))"
  by (simp add: clean_def one_line_simulator_def)

lemma handle_system_clean: "clean a \<Longrightarrow> clean_outcome (handle_system a)"
  unfolding handle_system_def Let_def
  by (intro clean_intros next_error_clean all_errors_clean handle_date_clean handle_time_clean)
    (use clean_state [of a] clean_options [of a] in
      \<open>auto simp: one_line_state_simps one_line_options_def key_lock_spellings_def\<close>)

lemma handle_timer_clean: "clean a \<Longrightarrow> clean_outcome (handle_timer a)"
  unfolding handle_timer_def Let_def
  by (intro clean_intros) (use clean_state [of a] in \<open>simp_all add: one_line_state_simps\<close>)

section \<open>CALCulate, TRACe, STATus and the common commands\<close>

lemma transform_once_clean: "clean a \<Longrightarrow> clean (transform_once a)"
  unfolding transform_once_def by (intro clean_intros) (simp_all add: clean_key)

lemma set_cycles_clean: "clean a \<Longrightarrow> clean (set_cycles a)"
proof -
  assume a: "clean a"
  obtain n s c where i: "integer 4 12 (transform_cycles (st (fst a))) a = (n, (s, c))" by (metis prod.collapse)
  then have "clean (s, c)" using a clean_integer [of 4 12] unfolding clean_op_def by (metis snd_conv)
  then show ?thesis using clean_state [of "(s, c)"] i
    by (auto simp: set_cycles_def one_line_state_simps intro!: clean_intros)
qed

lemma scan_window_one_line: "list_all one_line xs \<Longrightarrow> scan_window n xs = Inl bad \<Longrightarrow> one_line bad"
  by (induction n xs rule: scan_window.induct) (auto split: if_splits option.splits sum.splits)

lemma read_window_clean:
  assumes "clean a" "read_window n a = (b, w)"
  shows "clean b"
proof -
  have "list_all one_line (drop n (args (snd a)))"
    using assms(1) by (auto simp: clean_def one_line_command_def list_all_iff dest: in_set_dropD)
  then show ?thesis
    using assms scan_window_one_line [of "drop n (args (snd a))" 3]
    by (auto simp: read_window_def clean_fail split: sum.splits)
qed

lemma respond_window_clean: "(\<And>vs. one_line (show_values vs)) \<Longrightarrow> clean a \<Longrightarrow> clean_outcome (respond_window show_values src w a)"
  unfolding respond_window_def by (intro clean_intros)

lemma handle_spectrum_clean: "clean a \<Longrightarrow> clean_outcome (handle_spectrum a)"
  unfolding handle_spectrum_def
  by (auto intro!: clean_intros respond_window_clean dest: read_window_clean split: prod.splits option.splits)

lemma one_line_given: "clean a \<Longrightarrow> i < length (args (snd a)) \<Longrightarrow> one_line (args (snd a) ! i)"
  by (simp add: clean_def one_line_command_def list_all_length)

lemma handle_efficiency_clean: "clean a \<Longrightarrow> clean (handle_efficiency a)"
proof -
  have "one_line (args (snd a) ! 0)" "one_line (args (snd a) ! 1)" if "clean a" "\<not> length (args (snd a)) < 2"
    using that one_line_given [of a 0] one_line_given [of a 1] by linarith+
  then show "clean a \<Longrightarrow> clean (handle_efficiency a)"
    unfolding handle_efficiency_def Let_def
    by (intro clean_intros) (use clean_state [of a] in \<open>simp_all add: one_line_state_simps one_line_unquote\<close>)
qed

lemma handle_calculate_clean: "clean a \<Longrightarrow> clean_outcome (handle_calculate a)"
  unfolding handle_calculate_def respond_preamble_def respond_thd_def start_integral_def Let_def
  by (intro clean_intros transform_once_clean set_cycles_clean handle_spectrum_clean require_timestamp_clean handle_efficiency_clean)
    (use clean_state [of a] in \<open>auto simp: one_line_state_simps transform_mode_spellings_def harmonic_grouping_spellings_def
      integral_start_spellings_def integral_stop_spellings_def power_correction_spellings_def\<close>)

lemma respond_trace_clean: "clean a \<Longrightarrow> clean_outcome (respond_trace lm sw a)"
  unfolding respond_trace_def Let_def
  by (auto intro!: clean_intros respond_window_clean dest: read_window_clean split: prod.splits option.splits)

lemma handle_trace_query_clean: "clean a \<Longrightarrow> clean_outcome (handle_trace_query lm a)"
proof -
  have "one_line (args (snd a) ! 0)" if "clean a" "args (snd a) \<noteq> []"
    using that one_line_given [of a 0] by simp
  then show "clean a \<Longrightarrow> clean_outcome (handle_trace_query lm a)"
    unfolding handle_trace_query_def respond_trace_preamble_def Let_def
    by (intro clean_intros respond_trace_clean) simp_all
qed

lemma handle_trace_clean: "clean a \<Longrightarrow> clean_outcome (handle_trace lm a)"
  unfolding handle_trace_def respond_trace_points_def Let_def
  by (intro clean_intros handle_trace_query_clean) (use clean_state [of a] in \<open>simp_all add: one_line_stop_sweeps\<close>)

lemma register_update_texts: "one_line_state (register_update reg f x) \<longleftrightarrow> one_line_state x"
  by (cases reg) (simp_all add: one_line_state_simps)

lemma latch_event_one_line: "one_line_simulator s \<Longrightarrow> one_line_simulator (snd (latch_event reg s))"
  by (simp add: latch_event_def Let_def one_line_simulator_def register_update_texts)

lemma read_event_clean: "clean a \<Longrightarrow> clean (read_event reg a)"
proof -
  assume a: "clean a"
  obtain ev s1 where l: "latch_event reg (fst a) = (ev, s1)" by fastforce
  then have "clean (s1, snd a)" using a latch_event_one_line [of "fst a" reg] by (simp add: clean_def)
  then show ?thesis
    using l clean_state [of "(s1, snd a)"]
    by (auto simp: read_event_def register_update_texts intro!: clean_intros split: prod.splits)
qed

lemma handle_status_clean: "clean a \<Longrightarrow> clean_outcome (handle_status a)"
  by (auto simp: handle_status_def handle_part_def register_update_texts intro!: clean_intros read_event_clean
      split: option.splits register_part.splits)

lemma reset_one_line: "one_line_simulator s \<Longrightarrow> one_line_simulator (reset s)"
  by (simp add: one_line_simulator_def reset_def one_line_state_simps initial_state_def default_sweep_config_def numeral_3_eq_3)

lemma clear_status_one_line: "one_line_simulator s \<Longrightarrow> one_line_simulator (clear_status s)"
  by (simp add: one_line_simulator_def clear_status_def one_line_state_simps)

lemma save_setup_clean: "clean a \<Longrightarrow> clean (save_setup a)"
  and recall_setup_clean: "clean a \<Longrightarrow> clean (recall_setup a)"
proof -
  assume a: "clean a"
  obtain n s c where i: "integer 10 24 0 a = (n, (s, c))" by (metis prod.collapse)
  then have "clean (s, c)" using a clean_integer [of 10 24] unfolding clean_op_def by (metis snd_conv)
  then show "clean (save_setup a)" using clean_state [of "(s, c)"] i
    by (auto simp: save_setup_def one_line_state_simps intro!: clean_intros)
  obtain n' s' c' where i': "integer 1 24 0 a = (n', (s', c'))" by (metis prod.collapse)
  then have "clean (s', c')" using a clean_integer [of 1 24] unfolding clean_op_def by (metis snd_conv)
  then show "clean (recall_setup a)" using i'
    by (auto simp: recall_setup_def intro!: clean_intros)
qed

lemma status_byte_one_line: "one_line_simulator s \<Longrightarrow> one_line_simulator (snd (status_byte s))"
  using latch_event_one_line [of s Questionable]
  by (cases "latch_event Questionable s") (simp add: status_byte_def Let_def)

lemma handle_common_clean: "clean a \<Longrightarrow> clean_outcome (handle_common a)"
proof -
  have r: "clean (case b of (s, c) \<Rightarrow> (reset s, c))" "clean (case b of (s, c) \<Rightarrow> (clear_status s, c))"
    "clean (case b of (s, c) \<Rightarrow> case status_byte s of (stb, s1) \<Rightarrow> respond (to_string stb) (s1, c))" if "clean b" for b
    using that reset_one_line clear_status_one_line status_byte_one_line [of "fst b"]
    by (auto simp: clean_def one_line_command_def split: prod.splits)
  show "clean a \<Longrightarrow> clean_outcome (handle_common a)"
    unfolding handle_common_def Let_def
    by (intro clean_intros r save_setup_clean recall_setup_clean)
      (use clean_state [of a] clean_options [of a] in \<open>auto simp: one_line_state_simps one_line_options_def\<close>)
qed

section \<open>Lines\<close>

lemma one_line_arguments: "one_line p \<Longrightarrow> list_all one_line (read_arguments p)"
  using one_line_split [of p "CHR '',''"] by (auto simp: read_arguments_def list_all_iff one_line_trim)

lemma read_command_one_line:
  assumes "one_line txt" "read_command txt = (h, c)"
  shows "one_line h \<and> list_all one_line (args c) \<and> response c = None"
proof -
  obtain h' r where h: "header_scan txt None = (h', r)" by fastforce
  from header_scan_sets [OF this] have "one_line h'" "\<And>t. r = Some t \<Longrightarrow> one_line (trim t)"
    using one_line_subset [OF assms(1)] by (simp_all add: one_line_trim)
  moreover have "one_line (butlast h')" if "one_line h'"
    using that by (rule one_line_subset) (auto dest: in_set_butlastD)
  ultimately show ?thesis
    using assms(2) h by (auto simp: read_command_def Let_def empty_command_def one_line_arguments split: option.splits)
qed

lemma first_handler_clean: "\<forall>h \<in> set hs. clean_outcome (h a) \<Longrightarrow> clean_outcome (first_handler hs a)"
  by (induction hs) (auto simp: clean_outcome_def split: outcome.splits)

lemma execute_clean:
  assumes "clean a" "execute lm a = Some b" shows "clean b"
proof -
  have "clean_outcome (first_handler (handlers lm) a)"
    using assms(1) by (intro first_handler_clean)
      (auto simp: handlers_def handle_route_clean handle_input_clean handle_sense_clean handle_sync_clean
        handle_acquisition_clean handle_trigger_clean handle_calculate_clean handle_trace_clean handle_format_clean
        handle_display_output_clean handle_system_clean handle_status_clean handle_timer_clean)
  then show ?thesis
    using assms clean_key [OF assms(1)]
    by (auto simp: execute_def clean_outcome_def clean_fail split: outcome.splits)
qed

lemma table_keys_one_line: "k \<in> set table_keys \<Longrightarrow> one_line k"
proof -
  have "list_all one_line table_keys" by code_simp
  then show "k \<in> set table_keys \<Longrightarrow> one_line k" by (simp add: list_all_iff)
qed

definition one_line_result :: "piece_result \<Rightarrow> bool" where
  "one_line_result r \<longleftrightarrow> one_line_simulator (pr_sim r) \<and> (\<forall>t. pr_response r = Some t \<longrightarrow> one_line t)"

lemma finished_one_line: "clean a \<Longrightarrow> one_line_result (finished path a)"
  by (simp add: one_line_result_def finished_def clean_def one_line_command_def)

lemma rejected_one_line: "one_line txt \<Longrightarrow> one_line_simulator s \<Longrightarrow> one_line_result (rejected path txt s)"
  by (simp add: one_line_result_def rejected_def one_line_push)

lemma run_piece_one_line:
  assumes "one_line txt" "one_line_simulator s" "run_piece lm path txt s = Some r"
  shows "one_line_result r"
proof -
  obtain h c where c: "read_command txt = (h, c)" by fastforce
  note hc = read_command_one_line [OF assms(1) c]
  let ?k = "c\<lparr>key := upper h, tokens := [\<lparr>tok_text = upper h, tok_suffix = 0, tok_has_suffix = False\<rparr>]\<rparr>"
  have "clean (s, ?k)" using assms(2) hc by (simp add: clean_def one_line_command_def)
  from handle_common_clean [OF this] have "one_line_result r" if "run_common path txt h c s = Some r"
    using that assms(1,2)
    by (auto simp: run_common_def Let_def clean_outcome_def finished_one_line rejected_one_line split: outcome.splits)
  moreover have "one_line_result r" if sub: "run_subsystem lm path txt h c s = Some r"
  proof (cases "lookup_spec (header_tokens path h)")
    case None
    then show ?thesis using sub assms(1,2) by (auto simp: run_subsystem_def Let_def intro: rejected_one_line)
  next
    case (Some ks)
    obtain k sfx where ks: "ks = (k, sfx)" by fastforce
    have "one_line k" using lookup_spec_key table_keys_one_line Some ks by blast
    then have a: "clean (s, c\<lparr>tokens := header_tokens path h, key := k, suffixes := sfx\<rparr>)"
      using assms(2) hc by (simp add: clean_def one_line_command_def)
    obtain b where "execute lm (s, c\<lparr>tokens := header_tokens path h, key := k, suffixes := sfx\<rparr>) = Some b"
        "r = finished (butlast (header_tokens path h)) b"
      using sub Some ks by (auto simp: run_subsystem_def Let_def)
    then show ?thesis using execute_clean [OF a] finished_one_line by simp
  qed
  ultimately show ?thesis using assms(3) c by (simp add: run_piece_def split: if_splits)
qed

lemma run_pieces_one_line:
  "list_all one_line pieces \<Longrightarrow> one_line_simulator s \<Longrightarrow> run_pieces lm path pieces s = Some (t, rs) \<Longrightarrow>
   one_line_simulator t \<and> list_all one_line rs"
proof (induction lm path pieces s arbitrary: t rs rule: run_pieces.induct)
  case (2 lm path piece pieces s)
  show ?case
  proof (cases "trim piece = []")
    case True
    then show ?thesis using 2 by simp
  next
    case False
    then obtain r where r: "run_piece lm path (trim piece) s = Some r"
      using 2(5) by (auto split: option.splits)
    then have g: "one_line_result r"
      using run_piece_one_line [OF _ 2(4) r] 2(3) by (simp add: one_line_trim)
    then show ?thesis
      using 2(2) [OF False r] 2(3,5) False r
      by (fastforce simp: Let_def one_line_result_def split: if_splits option.splits)
  qed
qed simp

lemma handle_line_one_line:
  assumes "one_line l" "one_line_simulator s" "handle_line lm l s = Some (t, r)"
  shows "one_line_simulator t \<and> (\<forall>a. r = Some a \<longrightarrow> one_line a)"
proof -
  let ?s = "s\<lparr>handled_lines := (handled_lines s + 1) mod 2 ^ 64\<rparr>"
  have "one_line_simulator ?s" using assms(2) by (simp add: one_line_simulator_def)
  then show ?thesis
    using assms(3) run_pieces_one_line [OF one_line_split [OF assms(1)], where s = ?s]
    by (auto simp: handle_line_def join_responses_def intro!: one_line_join split: if_splits)
qed

lemma new_simulator_one_line: "one_line_options o' \<Longrightarrow> one_line_simulator (new_simulator o')"
  by (simp add: new_simulator_def reset_def one_line_simulator_def one_line_state_simps initial_state_def
      default_sweep_config_def numeral_3_eq_3)

lemma default_options_one_line: "one_line_options default_options"
  by code_simp

end
