(* ===== verification/Loopback.thy ===== *)
theory Loopback
  imports Sim_Server Sim_One_Line Scpi_Client
begin

text \<open>
  The loopback connection between \<open>TcpTransport\<close> and \<open>SimulatorServer\<close>, as the tests run
  it: a concrete instance of the asio parameter. Bytes are neither lost nor reordered, they
  move in segments of an arbitrary size, the server handles every line as soon as it is
  complete, and a read whose line is not there runs into its deadline. Over it the client's
  transport keeps the contract \<open>byte_stream\<close>.
\<close>

record loopback =
  remote :: server
  link_up :: bool
  delivered :: nat
  segment :: nat

section \<open>Segments\<close>

text \<open>A read takes up to \<open>n + 1\<close> bytes at a time until its buffer has a line.\<close>

function receive_segments :: "nat \<Rightarrow> string \<Rightarrow> string \<Rightarrow> string \<times> string" where
  "receive_segments n buffer stream =
     (if line_feed \<in> set buffer \<or> stream = [] then (buffer, stream)
      else receive_segments n (buffer @ take (Suc n) stream) (drop (Suc n) stream))"
  by pat_completeness auto
termination
  by (relation "measure (\<lambda>(n, buffer, stream). length stream)") auto

declare receive_segments.simps [simp del]

lemma receive_segments_spec:
  "\<exists>got rest. receive_segments n buffer stream = (buffer @ got, rest) \<and> stream = got @ rest \<and>
     (line_feed \<in> set (buffer @ got) \<longleftrightarrow> line_feed \<in> set (buffer @ stream))"
proof (induction n buffer stream rule: receive_segments.induct)
  case (1 n buffer stream)
  show ?case
  proof (cases "line_feed \<in> set buffer \<or> stream = []")
    case True
    then show ?thesis by (subst receive_segments.simps) auto
  next
    case False
    let ?t = "take (Suc n) stream" and ?d = "drop (Suc n) stream"
    obtain got rest where got: "receive_segments n (buffer @ ?t) ?d = ((buffer @ ?t) @ got, rest)" "?d = got @ rest"
        "line_feed \<in> set ((buffer @ ?t) @ got) \<longleftrightarrow> line_feed \<in> set ((buffer @ ?t) @ ?d)"
      using 1 [OF False] by blast
    have "stream = (?t @ got) @ rest" using append_take_drop_id [of "Suc n" stream] unfolding got(2) by simp
    moreover have "receive_segments n buffer stream = (buffer @ (?t @ got), rest)"
      using False got(1) by (subst receive_segments.simps) (simp only: if_False append.assoc)
    moreover have "line_feed \<in> set (buffer @ (?t @ got)) \<longleftrightarrow> line_feed \<in> set (buffer @ stream)"
      using got(3) unfolding append.assoc append_take_drop_id .
    ultimately show ?thesis by blast
  qed
qed

text \<open>What is written reaches the server in pieces of \<open>n + 1\<close> bytes.\<close>

function arrive_segments :: "libm \<Rightarrow> nat \<Rightarrow> string \<Rightarrow> server \<Rightarrow> server option" where
  "arrive_segments lm n data sv =
     (if data = [] then Some sv
      else case arrive lm (take (Suc n) data) sv of
        None \<Rightarrow> None
      | Some sv' \<Rightarrow> arrive_segments lm n (drop (Suc n) data) sv')"
  by pat_completeness auto
termination
  by (relation "measure (\<lambda>(lm, n, data, sv). length data)") auto

declare arrive_segments.simps [simp del]

lemma serve_received_serving: "serving sv \<Longrightarrow> serve_received lm sv = Some sv' \<Longrightarrow> serving sv'"
  using serve_received_lines [of sv "fst (take_lines (received sv))" "snd (take_lines (received sv))" lm]
  by (auto simp: serving_def)

lemma arrive_serving: "serving sv \<Longrightarrow> arrive lm data sv = Some sv' \<Longrightarrow> serving sv'"
  by (auto simp: arrive_def serving_def dest!: serve_received_serving [rotated])

lemma arrive_segments_Nil: "arrive_segments lm n [] sv = Some sv"
  by (simp add: arrive_segments.simps)

lemma arrive_segments_whole: "serving sv \<Longrightarrow> data \<noteq> [] \<Longrightarrow> arrive_segments lm n data sv = arrive lm data sv"
proof (induction lm n data sv rule: arrive_segments.induct)
  case (1 lm n data sv)
  let ?t = "take (Suc n) data" and ?d = "drop (Suc n) data"
  show ?case
  proof (cases "?d = []")
    case True
    then have "?t = data" by simp
    then show ?thesis
      using 1(3) True by (subst arrive_segments.simps) (simp add: arrive_segments_Nil split: option.splits)
  next
    case False
    have whole: "arrive lm data sv = (case arrive lm ?t sv of None \<Rightarrow> None | Some sv' \<Rightarrow> arrive lm ?d sv')"
      using arrive_append [OF 1(2), of lm ?t ?d] by simp
    show ?thesis
      using 1 False arrive_serving [OF 1(2), of lm ?t]
      by (subst arrive_segments.simps) (simp add: whole split: option.splits)
  qed
qed

section \<open>The socket\<close>

definition loop_close :: "loopback \<Rightarrow> loopback" where
  "loop_close k = k\<lparr>link_up := False,
     remote := (if link_up k \<and> waiting (remote k) = Reading
       then next_client ((remote k)\<lparr>client_slot := NoClient, received := []\<rparr>) else remote k)\<rparr>"

definition loop_connect :: "unit \<Rightarrow> int \<Rightarrow> loopback \<Rightarrow> (loopback \<times> error_code option) option" where
  "loop_connect endpoints timeout k = Some
     (if waiting (remote k) = Accepting \<and> acceptor_open (remote k)
      then (k\<lparr>link_up := True, delivered := 0, remote := on_accept False (remote k)\<rparr>, Some None)
      else (k, Some (Some ''Connection refused'')))"

definition loop_write :: "libm \<Rightarrow> string \<Rightarrow> int \<Rightarrow> loopback \<Rightarrow> (loopback \<times> error_code option) option" where
  "loop_write lm data timeout k =
     map_option (\<lambda>sv. (k\<lparr>remote := sv\<rparr>, Some None)) (arrive_segments lm (segment k) data (remote k))"

definition in_flight :: "loopback \<Rightarrow> string" where
  "in_flight k = drop (delivered k) (sent (remote k))"

definition loop_read_until :: "string \<Rightarrow> int \<Rightarrow> loopback \<Rightarrow> (loopback \<times> string \<times> (error_code \<times> nat) option) option" where
  "loop_read_until buffer timeout k = Some (case receive_segments (segment k) buffer (in_flight k) of
     (buffer', rest) \<Rightarrow> (k\<lparr>delivered := length (sent (remote k)) - length rest\<rparr>, buffer',
       if line_feed \<in> set buffer' then Some (None, line_length buffer') else None))"

definition loop_asio :: "libm \<Rightarrow> (loopback, unit) asio" where
  "loop_asio lm = \<lparr>sock_is_open = link_up, sock_close = loop_close, sock_shutdown = (\<lambda>k. k), sock_no_delay = (\<lambda>k. k),
     resolve = (\<lambda>host port k. Inr ()), async_connect = loop_connect, async_write = loop_write lm,
     async_read_until = loop_read_until\<rparr>"

lemma loop_asio_simps [simp]:
  "sock_is_open (loop_asio lm) = link_up" "sock_close (loop_asio lm) = loop_close"
  "sock_shutdown (loop_asio lm) k = k" "sock_no_delay (loop_asio lm) k = k"
  "resolve (loop_asio lm) h p k = Inr ()" "async_connect (loop_asio lm) = loop_connect"
  "async_write (loop_asio lm) = loop_write lm" "async_read_until (loop_asio lm) = loop_read_until"
  by (simp_all add: loop_asio_def)

section \<open>It is a live connection\<close>

definition loop_live :: "loopback \<Rightarrow> bool" where
  "loop_live k \<longleftrightarrow> link_up k \<and> serving (remote k) \<and> received (remote k) = [] \<and> delivered k \<le> length (sent (remote k))"

definition loop_peer :: "loopback \<Rightarrow> simulator" where
  "loop_peer k = hosted (remote k)"

lemma one_line_terminator: "one_line l \<longleftrightarrow> \<not> has_line_terminator l"
  by (auto simp: one_line_def has_line_terminator_def list_all_iff)

lemma loop_write_line:
  assumes "loop_live k" "\<not> has_line_terminator l" "handle_line lm l (loop_peer k) = Some (d, r)"
  shows "\<exists>k'. loop_write lm (l @ [line_feed]) tm k = Some (k', Some None) \<and> loop_live k' \<and> loop_peer k' = d \<and>
    in_flight k' = in_flight k @ answer_bytes r"
proof -
  let ?sv = "remote k"
  have sv: "serving ?sv" "received ?sv = []" "delivered k \<le> length (sent ?sv)" using assms(1) by (simp_all add: loop_live_def)
  have l: "strip_terminators l = l"
    using strip_terminators_id [OF assms(2)] by (simp add: strip_terminators_line)
  have ready: "serving (?sv\<lparr>received := l @ [line_feed]\<rparr>)" using sv by (simp add: serving_def)
  have lines: "take_lines (l @ [line_feed]) = ([l], [])"
    using assms(2) by (intro take_lines_one) (simp add: has_line_terminator_def)
  have "arrive lm (l @ [line_feed]) ?sv = Some (?sv\<lparr>hosted := d, sent := sent ?sv @ answer_bytes r\<rparr>)"
    using serve_received_lines [OF ready, of "[l]" "[]" lm] sv(2) assms(3) lines l
    by (simp add: arrive_def loop_peer_def)
  then have "loop_write lm (l @ [line_feed]) tm k =
      Some (k\<lparr>remote := ?sv\<lparr>hosted := d, sent := sent ?sv @ answer_bytes r\<rparr>\<rparr>, Some None)"
    using arrive_segments_whole [OF sv(1), of "l @ [line_feed]" lm "segment k"] by (simp add: loop_write_def)
  then show ?thesis
    using assms(1) sv by (simp add: loop_live_def loop_peer_def in_flight_def serving_def)
qed

lemma loop_read_spec:
  assumes "loop_live k"
  shows "\<exists>k' got. loop_read_until buffer tm k = Some (k', buffer @ got,
      if line_feed \<in> set (buffer @ got) then Some (None, line_length (buffer @ got)) else None) \<and>
    (line_feed \<in> set (buffer @ got) \<longleftrightarrow> line_feed \<in> set (buffer @ in_flight k)) \<and>
    in_flight k = got @ in_flight k' \<and> loop_live k' \<and> loop_peer k' = loop_peer k"
proof -
  obtain got rest where got: "receive_segments (segment k) buffer (in_flight k) = (buffer @ got, rest)"
      "in_flight k = got @ rest" "line_feed \<in> set (buffer @ got) \<longleftrightarrow> line_feed \<in> set (buffer @ in_flight k)"
    using receive_segments_spec by blast
  let ?k = "k\<lparr>delivered := length (sent (remote k)) - length rest\<rparr>"
  have "sent (remote k) = (take (delivered k) (sent (remote k)) @ got) @ rest"
    using got(2) append_take_drop_id [of "delivered k" "sent (remote k)"] by (simp add: in_flight_def)
  then obtain p where p: "sent (remote k) = p @ rest" ..
  have "in_flight ?k = rest" unfolding in_flight_def by (simp add: p)
  then show ?thesis
    using got assms by (intro exI [of _ ?k] exI [of _ got]) (auto simp: loop_read_until_def loop_live_def loop_peer_def)
qed

interpretation loop: byte_stream "handle_line lm" one_line_simulator "loop_asio lm" loop_live loop_peer in_flight for lm
proof
  fix d l d' r
  assume "one_line_simulator d" "\<not> has_line_terminator l" "handle_line lm l d = Some (d', r)"
  then show "one_line_simulator d' \<and> (\<forall>answer. r = Some answer \<longrightarrow> \<not> has_line_terminator answer)"
    using handle_line_one_line [of l d lm d' r] by (simp add: one_line_terminator)
next
  fix k l d r tm
  assume "loop_live k" "\<not> has_line_terminator l" "handle_line lm l (loop_peer k) = Some (d, r)"
  from loop_write_line [OF this] show "\<exists>k'. async_write (loop_asio lm) (l @ [line_feed]) tm k = Some (k', Some None) \<and>
      loop_live k' \<and> loop_peer k' = d \<and> in_flight k' = in_flight k @ answer_bytes r" by simp
next
  fix k tm and buffer :: string
  assume "loop_live k" "line_feed \<in> set (buffer @ in_flight k)"
  then show "\<exists>k' got. async_read_until (loop_asio lm) buffer tm k = Some (k', buffer @ got, Some (None, line_length (buffer @ got))) \<and>
      line_feed \<in> set (buffer @ got) \<and> in_flight k = got @ in_flight k' \<and> loop_live k' \<and> loop_peer k' = loop_peer k"
    using loop_read_spec [of k buffer tm] by auto
next
  fix k tm and buffer :: string
  assume "loop_live k" "line_feed \<notin> set (buffer @ in_flight k)"
  then show "\<exists>k' got. async_read_until (loop_asio lm) buffer tm k = Some (k', buffer @ got, None) \<and> loop_peer k' = loop_peer k"
    using loop_read_spec [of k buffer tm] by auto
qed (auto simp: loop_live_def loop_peer_def loop_close_def next_client_def accept_next_def)

end
