(* ===== verification/Tcp_Client.thy ===== *)
theory Tcp_Client
  imports Loopback Client_Session Instrument_Data
begin

text \<open>
  \<open>NormaInstrument::connect\<close> and the client over TCP: the contracts of \<open>Scpi_Client\<close> at
  \<open>TcpTransport\<close> with the loopback connection to the simulator's server.
\<close>

definition kDefaultPort :: int where "kDefaultPort = 23"

text \<open>
  An exception of \<open>open\<close> leaves \<open>connect\<close>, and the instrument on its stack is destroyed with
  its transport: the state that comes with it is what is left of the socket.
\<close>

definition norma_connect ::
  "('k, 'e) asio \<Rightarrow> string \<Rightarrow> int \<Rightarrow> int \<Rightarrow> 'k \<Rightarrow> ('k tcp client \<times> (cxx_error + unit)) option" where
  "norma_connect a host port timeout k =
     (case client_open (tcp_transport a)
         \<lparr>default_timeout = timeout, link = set_connect_timeout timeout (new_tcp host port k)\<rparr> of
       None \<Rightarrow> None
     | Some (c, Inr _) \<Rightarrow> Some (c, Inr ())
     | Some (c, Inl e) \<Rightarrow> Some (c\<lparr>link := tcp_destroy a (link c)\<rparr>, Inl e))"

definition norma_is_open :: "'t transport \<Rightarrow> 't client \<Rightarrow> bool" where
  "norma_is_open tr c = client_is_open tr c"

section \<open>Over the loopback connection\<close>

abbreviation loop_ready :: "loopback tcp \<Rightarrow> bool" where
  "loop_ready \<equiv> stream_ready loop_live one_line_simulator loop_peer in_flight"

abbreviation loop_unread :: "loopback tcp \<Rightarrow> string list" where
  "loop_unread \<equiv> stream_lines in_flight"

definition new_loopback :: "nat \<Rightarrow> simulator \<Rightarrow> loopback" where
  "new_loopback n s = \<lparr>remote = new_server s, link_up = False, delivered = 0, segment = n\<rparr>"

lemma connect_loopback:
  assumes "one_line_simulator s"
  shows "\<exists>c. norma_connect (loop_asio lm) host port timeout (new_loopback n s) = Some (c, Inr ()) \<and>
    default_timeout c = timeout \<and> loop_ready (link c) \<and> loop_unread (link c) = [] \<and>
    loop_peer (socket (link c)) = s"
proof -
  let ?t = "set_connect_timeout timeout (new_tcp host port (new_loopback n s))"
  let ?k = "(new_loopback n s)\<lparr>link_up := True, remote := on_accept False (new_server s)\<rparr>"
  have "tcp_open (loop_asio lm) ?t = Some (?t\<lparr>socket := ?k\<rparr>, Inr ())"
    by (simp add: tcp_open_def set_connect_timeout_def new_tcp_def new_loopback_def on_socket_def loop_connect_def
        new_server_def accept_next_def finish_open_def io_simps)
  moreover have "loop_live ?k" "loop_peer ?k = s" "in_flight ?k = []"
    by (simp_all add: loop_live_def loop_peer_def in_flight_def new_loopback_def new_server_def accept_next_def
        on_accept_def read_next_def serving_def)
  ultimately show ?thesis
    using assms
    by (simp add: norma_connect_def client_open_def io_simps stream_ready_def stream_lines_def set_connect_timeout_def
        new_tcp_def)
qed

interpretation tcp_errors: error_device "tcp_transport (loop_asio lm)" loop_ready loop_unread
    "\<lambda>t. loop_peer (socket t)" "handle_line lm" "\<lambda>s. errors (st s)" without_errors for lm
  by unfold_locales (simp add: sim_errors.serve_error, metis sim_errors.serve_no_error)

end
