(* ===== verification/Link_Properties.thy ===== *)
theory Link_Properties
  imports Tcp_Client Client_Properties
begin

text \<open>
  What holds of the link: a response is one line, the TCP transport frames it whatever the
  network does to it, the server is never stuck and always stops, and a client cannot tell
  the TCP connection from the in-process one.
\<close>

section \<open>Responses\<close>

lemma handle_lines_one_line:
  assumes "one_line_simulator s" "\<forall>l \<in> set ls. \<not> has_line_terminator l" "handle_lines lm ls s = Some (t, rs)"
  shows "one_line_simulator t \<and> (\<forall>answer. Some answer \<in> set rs \<longrightarrow> \<not> has_line_terminator answer)"
  using assms
proof (induction ls arbitrary: s rs)
  case (Cons l ls)
  obtain d r qs where d: "handle_line lm l s = Some (d, r)" "handle_lines lm ls d = Some (t, qs)" "rs = r # qs"
    using Cons.prems(3) by (auto split: option.splits)
  have "one_line_simulator d \<and> (\<forall>answer. r = Some answer \<longrightarrow> one_line answer)"
    using handle_line_one_line [OF _ Cons.prems(1) d(1)] Cons.prems(2) by (simp add: one_line_terminator)
  then show ?case
    using Cons.IH [OF _ _ d(2)] Cons.prems(2) d(3) by (auto simp: one_line_terminator)
qed simp

text \<open>
  C31: One line in, at most one line out. After any session of command lines without line
  terminators, no response ever holds a carriage return or a line feed, whatever names,
  texts and garbage the lines put into the simulator and into its error messages. Clients
  that read one line per query rest on it.
\<close>

theorem responses_are_one_line:
  assumes "one_line_options o'" "\<forall>l \<in> set ls. \<not> has_line_terminator l"
    and "handle_lines lm ls (new_simulator o') = Some (s, rs)" "Some answer \<in> set rs"
  shows "\<not> has_line_terminator answer"
  using handle_lines_one_line [OF new_simulator_one_line [OF assms(1)] assms(2,3)] assms(4) by blast

theorem responses_are_one_line_witness:
  "\<not> has_line_terminator (the (last (snd (the (handle_lines sample_libm [''FUNC ?'', ''SYST:ERR?''] (new_simulator default_options))))))"
proof -
  let ?ls = "[''FUNC ?'', ''SYST:ERR?'']"
  have "case handle_lines sample_libm ?ls (new_simulator default_options) of None \<Rightarrow> False
    | Some (s, rs) \<Rightarrow> rs \<noteq> [] \<and> last rs \<noteq> None" by code_simp
  then obtain s rs answer where r: "handle_lines sample_libm ?ls (new_simulator default_options) = Some (s, rs)"
      "rs \<noteq> []" "last rs = Some answer"
    by (auto split: option.splits)
  have ls: "\<forall>l \<in> set ?ls. \<not> has_line_terminator l" by (simp add: has_line_terminator_def)
  have "Some answer \<in> set rs" using last_in_set [OF r(2)] r(3) by simp
  from responses_are_one_line [OF default_options_one_line ls r(1) this]
  show ?thesis unfolding r(1,3) option.sel snd_conv .
qed

section \<open>Deadlines of the TCP transport\<close>

text \<open>
  C32: A transport that ran into a deadline is closed. Whatever asio does, when a write or a
  read throws \<open>TimeoutError\<close> the socket has been closed, and until it is opened again every
  write, read and query throws \<open>ConnectionError\<close> with the transport untouched. So an answer
  that comes late is never taken for the answer to a later query.
\<close>

theorem timed_out_is_closed:
  assumes "\<And>k. \<not> sock_is_open a (sock_close a k)"
    and "tcp_write a data tm t = Some (u, Inl (TimeoutError m)) \<or> tcp_read_line a tm t = Some (u, Inl (TimeoutError m))"
  shows "\<not> tcp_is_open a u \<and> (\<exists>e. e = ConnectionError (not_connected_text u) \<and>
    tcp_write a data' tm' u = Some (u, Inl e) \<and> tcp_read_line a tm' u = Some (u, Inl e) \<and>
    (link c = u \<and> \<not> has_line_terminator l \<longrightarrow> query_line (tcp_transport a) l c = Some (c, Inl e)))"
proof -
  have closed: "\<not> sock_is_open a (socket u)" if "run_operation a tm what job t' = Some (u, Inl (TimeoutError m))"
    for what t' and job :: "'a tcp \<Rightarrow> ('a tcp \<times> 'c option) option"
    using that assms(1) by (auto simp: run_operation_def split: option.splits)
  have u: "\<not> sock_is_open a (socket u)"
    using assms(2)
    by (auto simp: tcp_write_def tcp_read_line_def require_connected_def require_def throw_def ret_def and_then_Some_iff
        dest!: closed split: if_splits option.splits)
  have "query_line (tcp_transport a) l c = Some (c, Inl (ConnectionError (not_connected_text u)))"
    if "link c = u" "\<not> has_line_terminator l"
    using that closed_rejects(1) [OF u, of "l @ [line_feed]" "default_timeout c"]
    by (cases c) (simp add: query_line_def query_within_def write_line_def require_def on_link_def on_member_def and_then_def)
  then show ?thesis using u closed_rejects [OF u] by (simp add: tcp_is_open_def)
qed

theorem timed_out_is_closed_witness:
  "\<exists>u m. tcp_read_line (loop_asio sample_libm) 10 (new_tcp ''norma'' 23 ((new_loopback 0 fresh)\<lparr>link_up := True\<rparr>)) =
      Some (u, Inl (TimeoutError m)) \<and> \<not> tcp_is_open (loop_asio sample_libm) u"
proof -
  let ?t = "new_tcp ''norma'' 23 ((new_loopback 0 fresh)\<lparr>link_up := True\<rparr>)"
  have "receive_segments 0 [] [] = ([], [])" by (simp add: receive_segments.simps)
  then have "loop_read_until [] 10 (socket ?t) = Some (socket ?t, [], None)"
    by (simp add: loop_read_until_def in_flight_def new_tcp_def new_loopback_def new_server_def accept_next_def)
  then obtain u m where r: "tcp_read_line (loop_asio sample_libm) 10 ?t = Some (u, Inl (TimeoutError m))"
    by (simp add: tcp_read_line_def read_job_def new_tcp_def io_simps)
  have "\<not> tcp_is_open (loop_asio sample_libm) u"
    using timed_out_is_closed [of "loop_asio sample_libm" undefined 10 ?t u m] r by (simp add: loop_close_def)
  then show ?thesis using r by blast
qed

section \<open>Reopening\<close>

text \<open>A scripted socket: the results of its reads, one after the other.\<close>

record scripted =
  script_open :: bool
  script :: "(string \<times> (error_code \<times> nat) option) list"

definition script_read :: "string \<Rightarrow> int \<Rightarrow> scripted \<Rightarrow> (scripted \<times> string \<times> (error_code \<times> nat) option) option" where
  "script_read buffer timeout k = (case script k of
     [] \<Rightarrow> None
   | (got, result) # rest \<Rightarrow> Some (k\<lparr>script := rest\<rparr>, buffer @ got, result))"

definition script_asio :: "(scripted, unit) asio" where
  "script_asio = \<lparr>sock_is_open = script_open, sock_close = script_open_update (\<lambda>_. False), sock_shutdown = (\<lambda>k. k),
     sock_no_delay = (\<lambda>k. k), resolve = (\<lambda>host port k. Inr ()),
     async_connect = (\<lambda>endpoints timeout k. Some (k\<lparr>script_open := True\<rparr>, Some None)),
     async_write = (\<lambda>data timeout k. Some (k, Some None)), async_read_until = script_read\<rparr>"

text \<open>
  C33: Reopening after a deadline keeps the half of a line that had arrived. If a read times
  out with the part \<open>p\<close> of an answer in the buffer and the transport is opened again (not
  closed first), the first line \<open>l\<close> of the new connection is returned glued to \<open>p\<close>. Closing
  the transport first empties the buffer.
\<close>

theorem reopening_keeps_partial_line:
  assumes "sock_is_open a (socket t)" "async_read_until a (rx t) tm (socket t) = Some (k, p, None)"
    and "tcp_read_line a tm t = Some (u, r)" "tcp_open a u = Some (v, Inr ())" "sock_is_open a (socket v)"
    and "\<not> has_line_terminator (p @ l)"
    and "async_read_until a p tm' (socket v) = Some (k', p @ l @ line_feed # rest, Some (None, length (p @ l) + 1))"
  shows "(\<exists>w. tcp_read_line a tm' v = Some (w, Inr (p @ l))) \<and> (\<exists>w. tcp_close a u = Some (w, Inr ()) \<and> rx w = [])"
proof -
  have u: "rx u = p"
    using assms(1-3) by (auto simp: tcp_read_line_def read_job_def io_simps)
  have "rx v = rx u"
    using assms(4) by (auto simp: tcp_open_def and_then_Some_iff run_operation_def on_socket_def finish_open_def
        split: if_splits sum.splits option.splits)
  then have "tcp_read_line a tm' v = Some (v\<lparr>socket := k', rx := rest\<rparr>, Inr (strip_terminators ((p @ l) @ [line_feed])))"
    using assms(5,7) u by (simp add: tcp_read_line_def read_job_def io_simps)
  then show ?thesis
    using strip_terminators_id [OF assms(6)] by (simp add: tcp_close_def Let_def)
qed

theorem reopening_keeps_partial_line_witness:
  "\<exists>u v w. let t = new_tcp ''norma'' 23 \<lparr>script_open = True, script = [(''+1.2'', None), (''0'' @ [line_feed], Some (None, 6))]\<rparr> in
     tcp_read_line script_asio 10 t = Some (u, Inl (TimeoutError (timed_out_text ''read'' 10 t))) \<and>
     tcp_open script_asio u = Some (v, Inr ()) \<and> tcp_read_line script_asio 10 v = Some (w, Inr ''+1.20'')"
proof -
  let ?t = "new_tcp ''norma'' 23 \<lparr>script_open = True, script = [(''+1.2'', None), (''0'' @ [line_feed], Some (None, 6))]\<rparr>"
  let ?k = "\<lparr>script_open = True, script = [(''0'' @ [line_feed], Some (None, 6 :: nat))]\<rparr>"
  let ?u = "?t\<lparr>socket := ?k\<lparr>script_open := False\<rparr>, rx := ''+1.2''\<rparr>"
  let ?v = "?t\<lparr>socket := ?k, rx := ''+1.2''\<rparr>"
  have 1: "sock_is_open script_asio (socket ?t)" "async_read_until script_asio (rx ?t) 10 (socket ?t) = Some (?k, ''+1.2'', None)"
    by (simp_all add: script_asio_def script_read_def new_tcp_def)
  then have 2: "tcp_read_line script_asio 10 ?t = Some (?u, Inl (TimeoutError (timed_out_text ''read'' 10 ?t)))"
    by (simp add: tcp_read_line_def read_job_def io_simps timed_out_text_def endpoint_def) (simp add: script_asio_def)
  have 3: "tcp_open script_asio ?u = Some (?v, Inr ())"
    by (simp add: tcp_open_def script_asio_def on_socket_def finish_open_def io_simps)
  have 4: "sock_is_open script_asio (socket ?v)" "\<not> has_line_terminator (''+1.2'' @ ''0'')"
    "async_read_until script_asio ''+1.2'' 10 (socket ?v) = Some (?k\<lparr>script := []\<rparr>, ''+1.2'' @ ''0'' @ line_feed # [], Some (None, length (''+1.2'' @ ''0'') + 1))"
    by (simp_all add: script_asio_def script_read_def has_line_terminator_def)
  obtain w where "tcp_read_line script_asio 10 ?v = Some (w, Inr (''+1.2'' @ ''0''))"
    using reopening_keeps_partial_line [OF 1 2 3 4] by blast
  then show ?thesis using 2 3 by (intro exI [of _ ?u] exI [of _ ?v] exI [of _ w]) (simp add: Let_def)
qed

section \<open>The server\<close>

text \<open>
  C34: The server is never stuck while it runs. In every reachable state it has at most one
  client, waits for exactly the operation it should (an accept without a client, a read with
  one), and only \<open>stop\<close> closes the acceptor. It comes to wait for nothing only when it is
  stopping or when an accept has failed; in that state it stays, and serves nobody again.
\<close>

theorem server_keeps_serving:
  assumes "server_reachable lm s sv"
  shows "server_ok sv \<and>
    (\<forall>sv'. server_step lm sv sv' \<and> waiting sv \<noteq> Idle \<and> waiting sv' = Idle \<longrightarrow>
       stopping sv \<or> waiting sv = Accepting \<and> sv' = on_accept True sv) \<and>
    (\<forall>sv'. waiting sv = Idle \<and> (server_step lm)\<^sup>*\<^sup>* sv sv' \<longrightarrow>
       waiting sv' = Idle \<and> connections sv' = connections sv)"
proof (intro conjI allI impI)
  show "server_ok sv" using assms by (rule server_ok_reachable)
next
  fix sv' assume "server_step lm sv sv' \<and> waiting sv \<noteq> Idle \<and> waiting sv' = Idle"
  then show "stopping sv \<or> waiting sv = Accepting \<and> sv' = on_accept True sv" using becomes_idle by blast
next
  have "waiting sv = Idle \<longrightarrow> waiting sv' = Idle \<and> connections sv' = connections sv"
    if "(server_step lm)\<^sup>*\<^sup>* sv sv'" for sv'
    using that by (induction rule: rtranclp_induct) (auto dest: idle_forever)
  then show "waiting sv' = Idle" "connections sv' = connections sv"
    if "waiting sv = Idle \<and> (server_step lm)\<^sup>*\<^sup>* sv sv'" for sv'
    using that by blast+
qed

theorem server_keeps_serving_witness:
  "server_ok (new_server fresh) \<and> waiting (on_accept True (new_server fresh)) = Idle"
proof -
  have "server_reachable sample_libm fresh (new_server fresh)" by (simp add: server_reachable_def)
  from server_keeps_serving [OF this] show ?thesis by (simp add: on_accept_def)
qed



text \<open>
  C36: The network may cut the bytes anywhere. Whatever the size of the segments in which a
  client's bytes reach the server, and whatever was left of an earlier write, the server
  handles exactly the complete lines of the whole text, in order, stripped of their
  terminators, answers each with its response as one line and keeps the rest.
\<close>

theorem server_handles_the_lines:
  assumes "serving sv" "data \<noteq> []" "take_lines (received sv @ data) = (ls, rest)"
  shows "arrive_segments lm n data sv = map_option (\<lambda>(s, answers).
      sv\<lparr>hosted := s, received := rest, sent := sent sv @ concat (map answer_bytes answers)\<rparr>)
    (handle_lines lm (map strip_terminators ls) (hosted sv))"
proof -
  have "serving (sv\<lparr>received := received sv @ data\<rparr>)" using assms(1) by (simp add: serving_def)
  from serve_received_lines [OF this, of ls rest lm] show ?thesis
    using arrive_segments_whole [OF assms(1,2)] assms(3) by (simp add: arrive_def)
qed

theorem server_handles_the_lines_witness:
  "map_option sent (arrive_segments sample_libm 1 (''OPC?'' @ [carriage_return, line_feed])
     ((on_accept False (new_server fresh))\<lparr>received := ''*''\<rparr>)) = Some (''1'' @ [line_feed])"
proof -
  let ?sv = "(on_accept False (new_server fresh))\<lparr>received := ''*''\<rparr>"
  have "serving ?sv" by (simp add: serving_def on_accept_def read_next_def new_server_def accept_next_def)
  moreover have "take_lines (received ?sv @ ''OPC?'' @ [carriage_return, line_feed]) = ([''*OPC?'' @ [carriage_return]], [])"
    by (simp add: take_lines_one)
  ultimately have "arrive_segments sample_libm 1 (''OPC?'' @ [carriage_return, line_feed]) ?sv = map_option (\<lambda>(s, answers).
      ?sv\<lparr>hosted := s, received := [], sent := sent ?sv @ concat (map answer_bytes answers)\<rparr>)
    (handle_lines sample_libm (map strip_terminators [''*OPC?'' @ [carriage_return]]) (hosted ?sv))"
    by (intro server_handles_the_lines) simp_all
  moreover have "hosted ?sv = fresh" "sent ?sv = []"
    by (simp_all add: on_accept_def read_next_def new_server_def accept_next_def)
  moreover have "map strip_terminators [''*OPC?'' @ [carriage_return]] = [''*OPC?'']" by code_simp
  moreover have "map_option snd (handle_lines sample_libm [''*OPC?''] fresh) = Some [Some ''1'']" by code_simp
  ultimately show ?thesis by (auto simp: answer_bytes_def)
qed

section \<open>TCP and in-process\<close>

text \<open>
  C37: A client cannot tell TCP from the in-process transport. A client that connects over
  TCP to a server with some simulator, and one on an in-process transport with the same
  simulator, get the same answers to any queries that are answered one by one, in the same
  order; both stay in step, and the two simulators end in the same state. The size of the
  network's segments does not matter.
\<close>

theorem tcp_is_like_in_process:
  assumes "one_line_simulator s" "\<forall>l \<in> set ls. \<not> has_line_terminator l" "handle_lines lm ls s = Some (s', map Some as)"
    and "sim_ready (link d)" "responses (link d) = []" "unit_under_test (link d) = s" "length as = length ls"
  shows "\<exists>c u v. norma_connect (loop_asio lm) host port timeout (new_loopback n s) = Some (c, Inr ()) \<and>
    ask_all (tcp_transport (loop_asio lm)) ls c = Some (c\<lparr>link := u\<rparr>, Inr as) \<and>
    ask_all (sim_transport lm) ls d = Some (d\<lparr>link := v\<rparr>, Inr as) \<and>
    loop_peer (socket u) = s' \<and> unit_under_test v = s' \<and> loop_unread u = [] \<and> responses v = []"
proof -
  obtain c where c: "norma_connect (loop_asio lm) host port timeout (new_loopback n s) = Some (c, Inr ())"
      "loop_ready (link c)" "loop_unread (link c) = []" "loop_peer (socket (link c)) = s"
    using connect_loopback [OF assms(1)] by blast
  have served: "serve_all (handle_line lm) ls s = Some (s', map Some as)"
    using assms(3) by (simp add: handle_lines_serve_all)
  obtain u where u: "ask_all (tcp_transport (loop_asio lm)) ls c = Some (c\<lparr>link := u\<rparr>, Inr as)" "loop_unread u = []"
      "loop_peer (socket u) = s'"
    using loop.tcp.ask_all_in_order [OF c(2) assms(2), of lm s' as] served c(3,4) assms(7) by auto
  obtain v where "ask_all (sim_transport lm) ls d = Some (d\<lparr>link := v\<rparr>, Inr as)" "responses v = []"
      "unit_under_test v = s'"
    using sim_link.ask_all_in_order [OF assms(4,2), of lm s' as] served assms(5-7) by auto
  then show ?thesis using c(1) u by blast
qed

theorem tcp_is_like_in_process_witness:
  "\<exists>c u. norma_connect (loop_asio sample_libm) ''127.0.0.1'' 23 5000 (new_loopback 0 fresh) = Some (c, Inr ()) \<and>
    ask_all (tcp_transport (loop_asio sample_libm)) [''*OPC?'', ''*STB?''] c = Some (c\<lparr>link := u\<rparr>, Inr [''1'', ''0''])"
proof -
  have "map_option snd (handle_lines sample_libm [''*OPC?'', ''*STB?''] fresh) = Some (map Some [''1'', ''0''])" by code_simp
  then obtain s' where s': "handle_lines sample_libm [''*OPC?'', ''*STB?''] fresh = Some (s', map Some [''1'', ''0''])" by auto
  have "one_line_simulator fresh" using new_simulator_one_line [OF default_options_one_line] by (simp add: fresh_def)
  moreover have "\<forall>l \<in> set [''*OPC?'', ''*STB?'']. \<not> has_line_terminator l" by (simp add: has_line_terminator_def)
  ultimately show ?thesis
    using tcp_is_like_in_process [OF _ _ s', of fresh_client "''127.0.0.1''" 23 5000 0] by auto
qed

end
