(* ===== verification/C_Abi.thy ===== *)
theory C_Abi
  imports Tcp_Client
begin

text \<open>
  The C interface (\<open>module/capi/src/fluke_norma_c.cpp\<close>): every call runs under \<open>guarded\<close>,
  which turns exceptions into status codes and remembers their text in the handle. A pointer
  is an option, \<open>None\<close> being \<open>NULL\<close>; a C string argument is the list of the characters before
  its NUL; a buffer is the list of its elements, so its length is the
  capacity the caller passes, and a call returns it with what it has been overwritten with.
\<close>

datatype c_status =
    NORMA_OK
  | NORMA_ERR_CONNECTION
  | NORMA_ERR_TIMEOUT
  | NORMA_ERR_SCPI
  | NORMA_ERR_PROTOCOL
  | NORMA_ERR_INVALID_ARGUMENT
  | NORMA_ERR_BUFFER_TOO_SMALL
  | NORMA_ERR_UNKNOWN

text \<open>Their values in the binary interface.\<close>

primrec status_code :: "c_status \<Rightarrow> int" where
  "status_code NORMA_OK = 0"
| "status_code NORMA_ERR_CONNECTION = 1"
| "status_code NORMA_ERR_TIMEOUT = 2"
| "status_code NORMA_ERR_SCPI = 3"
| "status_code NORMA_ERR_PROTOCOL = 4"
| "status_code NORMA_ERR_INVALID_ARGUMENT = 5"
| "status_code NORMA_ERR_BUFFER_TOO_SMALL = 6"
| "status_code NORMA_ERR_UNKNOWN = 7"

lemma status_code_inject: "status_code a = status_code b \<Longrightarrow> a = b"
  by (cases a; cases b) simp_all

record 't c_handle =
  c_instrument :: "'t client"
  last_error :: string
  last_scpi_code :: int

section \<open>Exceptions\<close>

text \<open>\<open>e.what()\<close>. The library throws \<open>ScpiError\<close> with one entry at least.\<close>

definition what :: "cxx_error \<Rightarrow> string" where
  "what e = (case e of
     ConnectionError m \<Rightarrow> m | TimeoutError m \<Rightarrow> m | ProtocolError m \<Rightarrow> m | InvalidArgument m \<Rightarrow> m
   | ScpiError es \<Rightarrow> scpi_error_format (scpi_error_code es) (scpi_error_message es) (length es))"

definition error_status :: "cxx_error \<Rightarrow> c_status" where
  "error_status e = (case e of
     TimeoutError m \<Rightarrow> NORMA_ERR_TIMEOUT
   | ScpiError es \<Rightarrow> NORMA_ERR_SCPI
   | ProtocolError m \<Rightarrow> NORMA_ERR_PROTOCOL
   | ConnectionError m \<Rightarrow> NORMA_ERR_CONNECTION
   | InvalidArgument m \<Rightarrow> NORMA_ERR_INVALID_ARGUMENT)"

definition record_error :: "cxx_error \<Rightarrow> 't c_handle \<Rightarrow> 't c_handle" where
  "record_error e h = h\<lparr>last_error := what e,
     last_scpi_code := (case e of ScpiError es \<Rightarrow> scpi_error_code es | _ \<Rightarrow> last_scpi_code h)\<rparr>"

text \<open>\<open>guarded\<close>, with the caller's memory \<open>out\<close> that the call may write.\<close>

definition guarded ::
  "('t c_handle \<times> 'o, c_status) io \<Rightarrow> 't c_handle option \<Rightarrow> 'o \<Rightarrow> ('t c_handle option \<times> 'o \<times> c_status) option" where
  "guarded fn handle out = (case handle of
     None \<Rightarrow> Some (None, out, NORMA_ERR_INVALID_ARGUMENT)
   | Some h \<Rightarrow> (case fn (h, out) of
       None \<Rightarrow> None
     | Some ((h', out'), Inr status) \<Rightarrow> Some (Some h', out', status)
     | Some ((h', out'), Inl e) \<Rightarrow> Some (Some (record_error e h'), out', error_status e)))"

text \<open>A call of the facade inside a guarded one, and the end of it.\<close>

definition on_instrument :: "('t client, 'r) io \<Rightarrow> ('t c_handle \<times> 'o, 'r) io" where
  "on_instrument m = on_member (\<lambda>(h, out). c_instrument h) (\<lambda>c (h, out). (h\<lparr>c_instrument := c\<rparr>, out)) m"

definition call :: "('t client, unit) io \<Rightarrow> ('t c_handle \<times> 'o, c_status) io" where
  "call m = and_then (on_instrument m) (\<lambda>_. ret NORMA_OK)"

definition rejected_call :: "'t c_handle option \<Rightarrow> 'o \<Rightarrow> ('t c_handle option \<times> 'o \<times> c_status) option" where
  "rejected_call handle out = Some (handle, out, NORMA_ERR_INVALID_ARGUMENT)"

section \<open>Buffers\<close>

abbreviation nul :: char where "nul \<equiv> CHR 0x00"

text \<open>\<open>copied = text.copy(buffer, N - 1); buffer[copied] = '\\0';\<close>\<close>

definition copied :: "string \<Rightarrow> string \<Rightarrow> nat" where
  "copied buffer txt = min (length txt) (length buffer - 1)"

definition copy_text :: "string \<Rightarrow> string \<Rightarrow> string" where
  "copy_text buffer txt = (let n = copied buffer txt in take n txt @ [nul] @ drop (n + 1) buffer)"

text \<open>The first \<open>n\<close> elements of an array are replaced.\<close>

definition overwrite :: "nat \<Rightarrow> 'v list \<Rightarrow> 'v list \<Rightarrow> 'v list" where
  "overwrite n source target = take n source @ drop n target"

definition truncated_text :: "string \<Rightarrow> string" where
  "truncated_text answer = ''response truncated ('' @ to_string (int (length answer + 1)) @ '' bytes needed)''"

definition too_small_text :: "nat \<Rightarrow> string \<Rightarrow> string" where
  "too_small_text n unit_name = ''value buffer too small ('' @ to_string (int n) @ '' '' @ unit_name @ '')''"

definition too_small :: "string \<Rightarrow> ('t c_handle \<times> 'o, c_status) io" where
  "too_small txt s = (case s of (h, out) \<Rightarrow> Some ((h\<lparr>last_error := txt\<rparr>, out), Inr NORMA_ERR_BUFFER_TOO_SMALL))"

definition put_out :: "'o \<Rightarrow> ('t c_handle \<times> 'o, unit) io" where
  "put_out out s = Some ((fst s, out), Inr ())"

section \<open>Connecting\<close>

text \<open>\<open>g_connect_error\<close> of the calling thread is passed through; \<open>has_out\<close> is \<open>out_instrument != NULL\<close>.\<close>

definition c_connect ::
  "('k, 'e) asio \<Rightarrow> string option \<Rightarrow> int \<Rightarrow> int \<Rightarrow> bool \<Rightarrow> string \<Rightarrow> 'k \<Rightarrow>
   ('k tcp c_handle option \<times> string \<times> c_status) option" where
  "c_connect a host port timeout has_out g k =
     (case host of
       None \<Rightarrow> Some (None, g, NORMA_ERR_INVALID_ARGUMENT)
     | Some name \<Rightarrow>
         if \<not> has_out then Some (None, g, NORMA_ERR_INVALID_ARGUMENT)
         else (case norma_connect a name (if port \<noteq> 0 then port else kDefaultPort)
                 (if timeout \<noteq> 0 then timeout else 5000) k of
             None \<Rightarrow> None
           | Some (c, Inr _) \<Rightarrow> Some (Some \<lparr>c_instrument = c, last_error = [], last_scpi_code = 0\<rparr>, g, NORMA_OK)
           | Some (c, Inl e) \<Rightarrow> Some (None, what e,
               case e of TimeoutError m \<Rightarrow> NORMA_ERR_TIMEOUT | _ \<Rightarrow> NORMA_ERR_CONNECTION)))"

definition c_disconnect :: "('k, 'e) asio \<Rightarrow> 'k tcp c_handle option \<Rightarrow> 'k option" where
  "c_disconnect a handle = map_option (\<lambda>h. socket (tcp_destroy a (link (c_instrument h)))) handle"

section \<open>Calls\<close>

definition c_close :: "'t transport \<Rightarrow> 't c_handle option \<Rightarrow> ('t c_handle option \<times> unit \<times> c_status) option" where
  "c_close tr handle = guarded (call (norma_close tr)) handle ()"

definition c_is_open :: "'t transport \<Rightarrow> 't c_handle option \<Rightarrow> int option \<Rightarrow> ('t c_handle option \<times> int option \<times> c_status) option" where
  "c_is_open tr handle out_open = (case out_open of
     None \<Rightarrow> rejected_call handle None
   | Some _ \<Rightarrow> guarded (\<lambda>(h, out). Some ((h, Some (if norma_is_open tr (c_instrument h) then 1 else 0)), Inr NORMA_OK))
       handle (Some 0))"

definition c_prepare :: "'t transport \<Rightarrow> 't c_handle option \<Rightarrow> ('t c_handle option \<times> unit \<times> c_status) option" where
  "c_prepare tr handle = guarded (call (norma_prepare tr)) handle ()"

text \<open>\<open>norma_identification\<close>: four arrays of 64 characters.\<close>

definition zeroed :: string where "zeroed = replicate 64 nul"

definition c_identify ::
  "'t transport \<Rightarrow> 't c_handle option \<Rightarrow> identification option \<Rightarrow> ('t c_handle option \<times> identification option \<times> c_status) option" where
  "c_identify tr handle out_identification = (case out_identification of
     None \<Rightarrow> rejected_call handle None
   | Some _ \<Rightarrow> guarded
       (and_then (on_instrument (norma_identify tr)) (\<lambda>ident.
        and_then (put_out (Some \<lparr>manufacturer = copy_text zeroed (manufacturer ident), model = copy_text zeroed (model ident),
          serial_number = copy_text zeroed (serial_number ident), firmware_version = copy_text zeroed (firmware_version ident)\<rparr>))
        (\<lambda>_. ret NORMA_OK)))
       handle (Some \<lparr>manufacturer = zeroed, model = zeroed, serial_number = zeroed, firmware_version = zeroed\<rparr>))"

definition c_set_functions ::
  "'t transport \<Rightarrow> 't c_handle option \<Rightarrow> string option list option \<Rightarrow> ('t c_handle option \<times> unit \<times> c_status) option" where
  "c_set_functions tr handle fns = (case fns of
     None \<Rightarrow> rejected_call handle ()
   | Some names \<Rightarrow>
       if names = [] \<or> None \<in> set names then rejected_call handle ()
       else guarded (call (norma_set_functions tr (map the names))) handle ())"

definition c_check_errors :: "'t transport \<Rightarrow> 't c_handle option \<Rightarrow> ('t c_handle option \<times> unit \<times> c_status) option" where
  "c_check_errors tr handle = guarded (call (norma_check_errors tr)) handle ()"

definition c_set_timeout :: "'t transport \<Rightarrow> 't c_handle option \<Rightarrow> int \<Rightarrow> ('t c_handle option \<times> unit \<times> c_status) option" where
  "c_set_timeout tr handle timeout = guarded (call (norma_set_timeout tr (if timeout \<noteq> 0 then timeout else 5000))) handle ()"

definition c_write :: "'t transport \<Rightarrow> 't c_handle option \<Rightarrow> string option \<Rightarrow> ('t c_handle option \<times> unit \<times> c_status) option" where
  "c_write tr handle command = (case command of
     None \<Rightarrow> rejected_call handle ()
   | Some scpi \<Rightarrow> guarded (call (norma_write tr scpi)) handle ())"

text \<open>A buffer that is \<open>NULL\<close> or of size 0 is rejected; of the rest the caller gets back every byte.\<close>

definition c_query ::
  "'t transport \<Rightarrow> 't c_handle option \<Rightarrow> string option \<Rightarrow> string option \<Rightarrow> ('t c_handle option \<times> string option \<times> c_status) option" where
  "c_query tr handle command buffer = (case (command, buffer) of
     (Some scpi, Some b) \<Rightarrow>
       if b = [] then rejected_call handle buffer
       else guarded
         (and_then (on_instrument (norma_query tr scpi)) (\<lambda>answer.
          and_then (put_out (Some (copy_text b answer)))
          (\<lambda>_. if copied b answer < length answer then too_small (truncated_text answer) else ret NORMA_OK)))
         handle buffer
   | _ \<Rightarrow> rejected_call handle buffer)"

text \<open>The two data calls: \<open>None\<close> where a pointer argument is \<open>NULL\<close>, and the count of values.\<close>

definition c_read_data ::
  "'t transport \<Rightarrow> 't c_handle option \<Rightarrow> (double list \<times> nat) option \<Rightarrow>
   ('t c_handle option \<times> (double list \<times> nat) option \<times> c_status) option" where
  "c_read_data tr handle out = (case out of
     None \<Rightarrow> rejected_call handle out
   | Some (vs, _) \<Rightarrow> guarded
       (and_then (on_instrument (norma_data tr [])) (\<lambda>data.
        and_then (put_out (Some (overwrite (min (length data) (length vs)) data vs, length data)))
        (\<lambda>_. if length vs < length data then too_small (too_small_text (length data) ''values'') else ret NORMA_OK)))
       handle (Some (vs, 0)))"

definition c_read_data_with_status ::
  "'t transport \<Rightarrow> 't c_handle option \<Rightarrow> (double list \<times> int list \<times> nat) option \<Rightarrow>
   ('t c_handle option \<times> (double list \<times> int list \<times> nat) option \<times> c_status) option" where
  "c_read_data_with_status tr handle out = (case out of
     None \<Rightarrow> rejected_call handle out
   | Some (vs, statuses, _) \<Rightarrow> guarded
       (and_then (on_instrument (norma_data_with_status tr [])) (\<lambda>r. let
          available = min (length (reading_values r)) (length (reading_status r)); n = min available (length vs) in
        and_then (put_out (Some (overwrite n (reading_values r) vs, overwrite n (reading_status r) statuses, available)))
        (\<lambda>_. if length vs < available then too_small (too_small_text available ''measurements'') else ret NORMA_OK)))
       handle (Some (vs, statuses, 0)))"

definition c_last_error :: "'t c_handle option \<Rightarrow> string \<Rightarrow> string" where
  "c_last_error handle g = (case handle of Some h \<Rightarrow> last_error h | None \<Rightarrow> g)"

definition c_last_scpi_code :: "'t c_handle option \<Rightarrow> int" where
  "c_last_scpi_code handle = (case handle of Some h \<Rightarrow> last_scpi_code h | None \<Rightarrow> 0)"

definition c_version :: string where "c_version = kVersionString"

section \<open>How guarded calls run\<close>

lemma on_instrument_run [io_simps]:
  "m (c_instrument h) = Some (c, r) \<Longrightarrow> on_instrument m (h, out) = Some ((h\<lparr>c_instrument := c\<rparr>, out), r)"
  "m (c_instrument h) = None \<Longrightarrow> on_instrument m (h, out) = None"
  by (simp_all add: on_instrument_def on_member_def)

lemma put_out_run [io_simps]: "put_out out' (h, out) = Some ((h, out'), Inr ())"
  by (simp add: put_out_def)

lemma too_small_run [io_simps]:
  "too_small txt (h, out) = Some ((h\<lparr>last_error := txt\<rparr>, out), Inr NORMA_ERR_BUFFER_TOO_SMALL)"
  by (simp add: too_small_def)

lemma guarded_NULL: "guarded fn None out = Some (None, out, NORMA_ERR_INVALID_ARGUMENT)"
  by (simp add: guarded_def)

lemma guarded_call:
  assumes "m (c_instrument h) = Some (c, r)"
  shows "guarded (call m) (Some h) out = Some (case r of
      Inl e \<Rightarrow> (Some (record_error e (h\<lparr>c_instrument := c\<rparr>)), out, error_status e)
    | Inr _ \<Rightarrow> (Some (h\<lparr>c_instrument := c\<rparr>), out, NORMA_OK))"
  using assms by (cases r) (simp_all add: guarded_def call_def io_simps)

lemma length_copy_text: "buffer \<noteq> [] \<Longrightarrow> length (copy_text buffer txt) = length buffer"
  by (cases buffer) (auto simp: copy_text_def copied_def Let_def)

lemma length_overwrite: "n \<le> length source \<Longrightarrow> n \<le> length target \<Longrightarrow> length (overwrite n source target) = length target"
  by (simp add: overwrite_def)

lemma filled_array:
  "take (length source) (overwrite (min (length source) (length target)) source target) = take (length target) source"
  "drop (length source) (overwrite (min (length source) (length target)) source target) = drop (length source) target"
  by (simp_all add: overwrite_def min_def)

lemma zip_overwrite:
  assumes "n \<le> length as" "n \<le> length bs" "length vs = length ws"
  shows "zip (overwrite n as vs) (overwrite n bs ws) = overwrite n (zip as bs) (zip vs ws)"
  using assms by (simp add: overwrite_def take_zip drop_zip)

text \<open>What the data calls return, once the call of the facade has.\<close>

lemma c_read_data_run:
  assumes "norma_data tr [] (c_instrument h) = Some (c, r)"
  shows "\<exists>h'. c_instrument h' = c \<and> c_read_data tr (Some h) (Some (vs, k)) = Some (case r of
      Inl e \<Rightarrow> (Some h', Some (vs, 0), error_status e)
    | Inr data \<Rightarrow> (Some h', Some (overwrite (min (length data) (length vs)) data vs, length data),
        if length data \<le> length vs then NORMA_OK else NORMA_ERR_BUFFER_TOO_SMALL))"
  using assms by (cases r) (auto simp: c_read_data_def guarded_def io_simps record_error_def)

lemma c_read_data_with_status_run:
  assumes "norma_data_with_status tr [] (c_instrument h) = Some (c, r)"
  shows "\<exists>h'. c_instrument h' = c \<and> c_read_data_with_status tr (Some h) (Some (vs, statuses, k)) = Some (case r of
      Inl e \<Rightarrow> (Some h', Some (vs, statuses, 0), error_status e)
    | Inr d \<Rightarrow> (let count = min (length (reading_values d)) (length (reading_status d)) in
        (Some h', Some (overwrite (min count (length vs)) (reading_values d) vs,
           overwrite (min count (length vs)) (reading_status d) statuses, count),
         if count \<le> length vs then NORMA_OK else NORMA_ERR_BUFFER_TOO_SMALL)))"
  using assms by (cases r) (auto simp: c_read_data_with_status_def guarded_def io_simps record_error_def Let_def)

end
