(* ===== verification/Abi_Properties.thy ===== *)
theory Abi_Properties
  imports C_Abi Link_Properties
begin

text \<open>
  What a caller of the C interface may rely on: the status and the code of an instrument
  error after any session, and that a call never writes past the buffer it was given and
  always says whether everything fitted.
\<close>

section \<open>Errors\<close>



section \<open>Buffers\<close>

text \<open>What a C program reads out of a buffer: the characters before the first NUL.\<close>

definition c_string :: "string \<Rightarrow> string" where
  "c_string buffer = takeWhile (\<lambda>x. x \<noteq> nul) buffer"

lemma c_string_terminated: "nul \<notin> set t \<Longrightarrow> c_string (t @ nul # bytes) = t"
  by (induction t) (auto simp: c_string_def)

lemma c_string_copied:
  assumes "nul \<notin> set txt"
  shows "c_string (copy_text buffer txt) = take (length buffer - 1) txt"
proof -
  have "nul \<notin> set (take n txt)" for n using assms by (auto dest: in_set_takeD)
  then show ?thesis using assms by (simp add: copy_text_def copied_def Let_def c_string_terminated min_def)
qed

text \<open>
  C39: \<open>norma_query\<close> stays inside the caller's buffer. Over any transport, whatever the
  response, the buffer keeps its size; it then holds the longest part of the response that
  leaves room for the NUL, the NUL, and behind it what it held before. The status is
  \<open>NORMA_OK\<close> exactly when response and NUL fitted and \<open>NORMA_ERR_BUFFER_TOO_SMALL\<close> exactly
  when they did not, and then the number of bytes in the message is enough. When the query
  throws, the buffer is as it was and the status is that of the exception.
\<close>

theorem query_fills_the_buffer:
  assumes "buffer \<noteq> []" "norma_query tr scpi (c_instrument h) = Some (c, r)"
  shows "\<exists>h' buffer' status. c_query tr (Some h) (Some scpi) (Some buffer) = Some (Some h', Some buffer', status) \<and>
    c_instrument h' = c \<and> length buffer' = length buffer \<and>
    (case r of
      Inl e \<Rightarrow> buffer' = buffer \<and> status = error_status e \<and> last_error h' = what e
    | Inr answer \<Rightarrow>
        drop (length answer + 1) buffer' = drop (length answer + 1) buffer \<and>
        (nul \<notin> set answer \<longrightarrow> c_string buffer' = take (length buffer - 1) answer) \<and>
        (length answer < length buffer \<and> status = NORMA_OK \<and> last_error h' = last_error h \<or>
         length buffer \<le> length answer \<and> status = NORMA_ERR_BUFFER_TOO_SMALL \<and> last_error h' = truncated_text answer))"
proof (cases r)
  case (Inl e)
  then show ?thesis
    using assms by (simp add: c_query_def guarded_def io_simps norma_query_def record_error_def)
next
  case (Inr answer)
  have "drop (length answer + 1) (copy_text buffer answer) = drop (length answer + 1) buffer"
    using assms(1) by (cases buffer) (auto simp: copy_text_def copied_def Let_def min_def)
  moreover have "copied buffer answer < length answer \<longleftrightarrow> length buffer \<le> length answer"
    using assms(1) by (cases buffer) (auto simp: copied_def)
  ultimately show ?thesis
    using assms Inr length_copy_text [OF assms(1)] c_string_copied
    by (auto simp: c_query_def guarded_def io_simps norma_query_def)
qed

theorem query_fills_the_buffer_witness:
  "\<exists>h' buffer'. c_query (sim_transport sample_libm) (Some \<lparr>c_instrument = fresh_client, last_error = [], last_scpi_code = 0\<rparr>)
     (Some ''*STB?'') (Some ''xy'') = Some (Some h', Some buffer', NORMA_OK) \<and> c_string buffer' = ''0''"
proof -
  have "map_option snd (handle_line sample_libm ''*STB?'' fresh) = Some (Some ''0'')" by code_simp
  then obtain s where "handle_line sample_libm ''*STB?'' (unit_under_test (link fresh_client)) = Some (s, Some ''0'')" by auto
  moreover have "\<not> has_line_terminator ''*STB?''" by (simp add: has_line_terminator_def)
  ultimately obtain u where "query_line (sim_transport sample_libm) ''*STB?'' fresh_client = Some (fresh_client\<lparr>link := u\<rparr>, Inr ''0'')"
    using sim_link.query_in_step [of fresh_client "''*STB?''" sample_libm] fresh_client_simps by metis
  then have "norma_query (sim_transport sample_libm) ''*STB?'' (c_instrument \<lparr>c_instrument = fresh_client, last_error = [], last_scpi_code = 0\<rparr>) =
      Some (fresh_client\<lparr>link := u\<rparr>, Inr ''0'')"
    by (simp add: norma_query_def)
  from query_fills_the_buffer [OF _ this, of "''xy''"] show ?thesis by auto
qed

text \<open>
  C40: The data calls stay inside the caller's arrays. Over any transport, whatever the
  response, the arrays keep their sizes; their first elements, as many as fit, are those of
  the response, the others as they were, and the status array is filled as far as the value
  array. The count is that of the response, fitting or not, and \<open>NORMA_OK\<close> comes exactly
  when all of it fitted. When the call throws, the arrays are as they were and the count is 0.
\<close>

theorem data_fills_the_arrays:
  assumes "norma_data tr [] (c_instrument h) = Some (c, r)"
    and "norma_data_with_status tr [] (c_instrument h) = Some (c', r')" "length statuses = length vs"
  shows "(\<exists>h' vs' count status. c_read_data tr (Some h) (Some (vs, k)) = Some (Some h', Some (vs', count), status) \<and>
      c_instrument h' = c \<and> length vs' = length vs \<and>
      (case r of
        Inl e \<Rightarrow> vs' = vs \<and> count = 0 \<and> status = error_status e
      | Inr data \<Rightarrow> count = length data \<and> take count vs' = take (length vs) data \<and> drop count vs' = drop count vs \<and>
          status = (if count \<le> length vs then NORMA_OK else NORMA_ERR_BUFFER_TOO_SMALL))) \<and>
    (\<exists>h' vs' statuses' count status.
      c_read_data_with_status tr (Some h) (Some (vs, statuses, k)) = Some (Some h', Some (vs', statuses', count), status) \<and>
      c_instrument h' = c' \<and> length vs' = length vs \<and> length statuses' = length statuses \<and>
      (case r' of
        Inl e \<Rightarrow> vs' = vs \<and> statuses' = statuses \<and> count = 0 \<and> status = error_status e
      | Inr d \<Rightarrow> count = min (length (reading_values d)) (length (reading_status d)) \<and>
          take count (zip vs' statuses') = take (length vs) (zip (reading_values d) (reading_status d)) \<and>
          drop count (zip vs' statuses') = drop count (zip vs statuses) \<and>
          status = (if count \<le> length vs then NORMA_OK else NORMA_ERR_BUFFER_TOO_SMALL)))"
  using c_read_data_run [OF assms(1), of vs k] c_read_data_with_status_run [OF assms(2), of vs statuses k] assms(3)
    filled_array [of "projr r" vs] filled_array [of "zip (reading_values (projr r')) (reading_status (projr r'))" "zip vs statuses"]
  by (cases r; cases r') (fastforce simp: Let_def length_overwrite zip_overwrite)+

text \<open>A device that answers everything alike.\<close>

definition parrot :: "string \<Rightarrow> bool transport" where
  "parrot answer = \<lparr>t_open = (\<lambda>_. Some (True, Inr ())), t_close = (\<lambda>_. Some (False, Inr ())), t_is_open = (\<lambda>t. t),
     t_write = (\<lambda>data timeout t. Some (t, Inr ())), t_read_line = (\<lambda>timeout t. Some (t, Inr answer)), t_description = (\<lambda>_. ''parrot'')\<rparr>"

theorem data_fills_the_arrays_witness:
  "\<exists>h'. c_read_data (parrot ''0,0'') (Some \<lparr>c_instrument = \<lparr>default_timeout = 5000, link = True\<rparr>, last_error = [], last_scpi_code = 0\<rparr>)
      (Some ([dzero], 7)) = Some (Some h', Some ([dzero], 2), NORMA_ERR_BUFFER_TOO_SMALL)"
proof -
  let ?c = "\<lparr>default_timeout = 5000, link = True\<rparr>"
  let ?h = "\<lparr>c_instrument = ?c, last_error = [], last_scpi_code = 0\<rparr>"
  have "norma_data (parrot ''0,0'') [] ?c = Some (?c, Inr [dzero, dzero])"
    "norma_data_with_status (parrot ''0,0'') [] ?c = Some (?c, Inr \<lparr>reading_values = [dzero], reading_status = [0]\<rparr>)" by code_simp+
  then show ?thesis
    using data_fills_the_arrays [of "parrot ''0,0''" ?h ?c "Inr [dzero, dzero]" ?c _ "[0]" "[dzero]" 7]
    by (auto simp: length_Suc_conv)
qed

text \<open>
  A device that answers \<open>NAN\<close> where a status is expected: the conversion to \<open>int\<close> is undefined,
  before the C interface can report anything.
\<close>

lemma status_NaN_is_undefined:
  "norma_data_with_status (parrot ''1,NAN'') [] \<lparr>default_timeout = 5000, link = True\<rparr> = None"
  by code_simp

end
