(* ===== verification/Sim_Main.thy ===== *)
theory Sim_Main
  imports Sim_Server
begin

text \<open>
  The executable \<open>norma_sim\<close> (\<open>module/simulator/src/main.cpp\<close>): its arguments, the start of the
  server with them, and the loop that reports counters until a signal comes. What the loop reads
  of the running server is given to it turn by turn.
\<close>

record main_options =
  main_host :: string
  main_port :: int
  main_verbose :: bool

text \<open>The process ends with a status before it serves, or goes on with its options.\<close>

datatype 'r main_start = Exit int | Run 'r

fun main_read_arguments :: "string list \<Rightarrow> main_options \<Rightarrow> main_options main_start" where
  "main_read_arguments [] mo = Run mo"
| "main_read_arguments (arg # rest) mo =
     (if arg \<in> {''--host'', ''-h''} \<and> rest \<noteq> [] then main_read_arguments (tl rest) (mo\<lparr>main_host := hd rest\<rparr>)
      else if arg \<in> {''--port'', ''-p''} \<and> rest \<noteq> [] then main_read_arguments (tl rest) (mo\<lparr>main_port := atoi (hd rest)\<rparr>)
      else if arg \<in> {''--verbose'', ''-v''} then main_read_arguments rest (mo\<lparr>main_verbose := True\<rparr>)
      else if arg = ''--help'' then Exit 0
      else Exit 2)"

definition main_arguments :: "string list \<Rightarrow> main_options main_start" where
  "main_arguments argv =
     (case main_read_arguments argv \<lparr>main_host = ''127.0.0.1'', main_port = 0, main_verbose = False\<rparr> of
       Exit n \<Rightarrow> Exit n
     | Run mo \<Rightarrow> if main_port mo < 0 \<or> 65535 < main_port mo then Exit 2 else Run mo)"

definition main_server :: "'a listening \<Rightarrow> string list \<Rightarrow> (server \<times> int) main_start" where
  "main_server a argv = (case main_arguments argv of
     Exit n \<Rightarrow> Exit n
   | Run mo \<Rightarrow>
       (case start_server a (new_simulator default_options) (main_port mo mod 2 ^ 16) (main_host mo) of
         Inl _ \<Rightarrow> Exit 1
       | Inr sv \<Rightarrow> Run sv))"

text \<open>The conversion to \<open>uint16_t\<close> keeps the port; the exit status tells usage errors from others.\<close>

lemma main_port_kept: "main_arguments argv = Run mo \<Longrightarrow> main_port mo mod 2 ^ 16 = main_port mo"
  by (auto simp: main_arguments_def split: main_start.splits if_splits)

lemma main_read_arguments_status: "main_read_arguments argv mo = Exit n \<Longrightarrow> n \<in> {0, 2}"
  by (induction argv mo rule: main_read_arguments.induct) (auto split: if_splits)

lemma main_server_status: "main_server a argv = Exit n \<Longrightarrow> n \<in> {0, 1, 2}"
  by (auto simp: main_server_def main_arguments_def split: main_start.splits if_splits sum.splits
      dest: main_read_arguments_status)

section \<open>Reporting\<close>

text \<open>
  What the two threads share in one turn of the loop: the number of connections at the comparison
  and again at the assignment, and the number of lines handled.
\<close>

record main_turn =
  seen_connections :: int
  kept_connections :: int
  seen_lines :: int

record main_counts =
  reported_connections :: int
  reported_lines :: int

definition connected_text :: "int \<Rightarrow> string" where
  "connected_text n = ''client connected ('' @ to_string n @ '' total)''"

definition handled_text :: "int \<Rightarrow> string" where
  "handled_text n = ''handled '' @ to_string n @ '' command lines''"

definition report_connections :: "main_turn \<Rightarrow> main_counts \<Rightarrow> main_counts \<times> string list" where
  "report_connections t c =
     (if seen_connections t \<noteq> reported_connections c
      then (c\<lparr>reported_connections := kept_connections t\<rparr>, [connected_text (kept_connections t)]) else (c, []))"

definition report_lines :: "main_turn \<Rightarrow> main_counts \<Rightarrow> main_counts \<times> string list" where
  "report_lines t c =
     (if seen_lines t \<noteq> reported_lines c
      then (c\<lparr>reported_lines := seen_lines t\<rparr>, [handled_text (seen_lines t)]) else (c, []))"

definition main_turn_report :: "bool \<Rightarrow> main_turn \<Rightarrow> main_counts \<Rightarrow> main_counts \<times> string list" where
  "main_turn_report verbose t c =
     (if \<not> verbose then (c, [])
      else case report_connections t c of (c1, out1) \<Rightarrow>
        (case report_lines t c1 of (c2, out2) \<Rightarrow> (c2, out1 @ out2)))"

fun main_watch :: "bool \<Rightarrow> main_turn list \<Rightarrow> main_counts \<Rightarrow> string list" where
  "main_watch verbose [] c = []"
| "main_watch verbose (t # ts) c =
     (case main_turn_report verbose t c of (c', out) \<Rightarrow> out @ main_watch verbose ts c')"

definition main_banner :: "simulator \<Rightarrow> string \<Rightarrow> int \<Rightarrow> string list" where
  "main_banner s host port = (let who = identification (opts s) in
     [''listening on '' @ host @ '':'' @ to_string port,
      ''identifies as '' @ manufacturer who @ '','' @ model who @ '','' @ serial_number who @ '','' @ firmware_version who])"

text \<open>The lines on the standard output, the last state of the server and the exit status.\<close>

definition main_serve :: "bool \<Rightarrow> string \<Rightarrow> server \<times> int \<Rightarrow> main_turn list \<Rightarrow> server \<Rightarrow> string list \<times> server \<times> int" where
  "main_serve verbose host started turns final =
     (main_banner (hosted (fst started)) host (snd started) @
      main_watch verbose turns \<lparr>reported_connections = 0, reported_lines = 0\<rparr> @ [''stopping''],
      close_down (request_stop final), 0)"

text \<open>
  The first line names the port; without \<open>--verbose\<close> nothing follows until the end. With it, the
  counters are printed whenever they have changed, and nothing else is, whatever the lines and
  their responses were.
\<close>

lemma quiet_run: "main_watch False ts c = []"
  by (induction ts arbitrary: c) (simp_all add: main_turn_report_def)

lemma verbose_prints_counters:
  "txt \<in> set (main_watch verbose ts c) \<Longrightarrow> \<exists>n. txt = connected_text n \<or> txt = handled_text n"
  by (induction ts arbitrary: c)
    (auto simp: main_turn_report_def report_connections_def report_lines_def split: if_splits prod.splits)

text \<open>Turns that read what was reported already print nothing, and the last report is current.\<close>

definition up_to_date :: "main_turn \<Rightarrow> main_counts \<Rightarrow> bool" where
  "up_to_date t c \<longleftrightarrow> reported_connections c = seen_connections t \<and> reported_lines c = seen_lines t"

lemma report_catches_up:
  "seen_connections t = kept_connections t \<Longrightarrow> main_turn_report True t c = (c', out) \<Longrightarrow>
   up_to_date t c' \<and> (out = [] \<longleftrightarrow> up_to_date t c)"
  by (auto simp: main_turn_report_def report_connections_def report_lines_def up_to_date_def split: if_splits)

lemma no_news_is_silent: "\<forall>t \<in> set ts. up_to_date t c \<Longrightarrow> main_watch verbose ts c = []"
  by (induction ts) (auto simp: main_turn_report_def report_connections_def report_lines_def up_to_date_def)

end
