(* ===== verification/Sim_Compound.thy ===== *)
theory Sim_Compound
  imports Sim_Behaviour
begin

text \<open>
  Lines of several commands. A command of a line is written with a header from the root of the
  command tree, a header relative to the command before it, or as a common command
  (\<open>*...\<close>). \<open>spelled_out\<close> writes every header from the root; \<open>in_turn\<close> runs commands one by
  one, each from the root, until one of them fails. \<open>handle_line\<close> is the second after the first.
\<close>

section \<open>Written commands\<close>

datatype written =
    Common string
  | Rooted "string list" bool string
  | Relative "string list" bool string

text \<open>A header's nodes, whether it is a query, and the parameters.\<close>

definition written_command :: "string \<Rightarrow> bool \<Rightarrow> string \<Rightarrow> string" where
  "written_command header q p = header @ (if q then ''?'' else []) @ (if p = [] then [] else CHR '' '' # p)"

fun written_text :: "written \<Rightarrow> string" where
  "written_text (Common t) = t"
| "written_text (Rooted nodes q p) = written_command (CHR '':'' # join_with '':'' nodes) q p"
| "written_text (Relative nodes q p) = written_command (join_with '':'' nodes) q p"

text \<open>Quotes are closed and the separator stands only inside them.\<close>

fun closed_field :: "char \<Rightarrow> string \<Rightarrow> char option \<Rightarrow> bool" where
  "closed_field sep [] q \<longleftrightarrow> q = None"
| "closed_field sep (c # cs) (Some q) \<longleftrightarrow> closed_field sep cs (if c = q then None else Some q)"
| "closed_field sep (c # cs) None \<longleftrightarrow>
     (if is_quote c then closed_field sep cs (Some c) else c \<noteq> sep \<and> closed_field sep cs None)"

definition node_char :: "char \<Rightarrow> bool" where
  "node_char c \<longleftrightarrow> \<not> is_space c \<and> \<not> is_quote c \<and> c \<notin> {CHR '':'', CHR '';'', CHR ''?'', CHR ''*''}"

definition nodes_ok :: "string list \<Rightarrow> bool" where
  "nodes_ok nodes \<longleftrightarrow> list_all (\<lambda>n. n \<noteq> [] \<and> list_all node_char n) nodes"

definition parameters_ok :: "string \<Rightarrow> bool" where
  "parameters_ok p \<longleftrightarrow> trimmed p \<and> closed_field (CHR '';'') p None"

fun written_ok :: "written \<Rightarrow> bool" where
  "written_ok (Common t) \<longleftrightarrow> t \<noteq> [] \<and> hd t = CHR ''*'' \<and> parameters_ok t"
| "written_ok (Rooted nodes q p) \<longleftrightarrow> nodes \<noteq> [] \<and> nodes_ok nodes \<and> parameters_ok p"
| "written_ok (Relative nodes q p) \<longleftrightarrow> nodes \<noteq> [] \<and> nodes_ok nodes \<and> parameters_ok p"

text \<open>Relative headers behind the nodes of the command before, its last one left out.\<close>

fun spelled_out :: "string list \<Rightarrow> written list \<Rightarrow> written list" where
  "spelled_out path [] = []"
| "spelled_out path (Common t # ws) = Common t # spelled_out path ws"
| "spelled_out path (Rooted nodes q p # ws) = Rooted nodes q p # spelled_out (butlast nodes) ws"
| "spelled_out path (Relative nodes q p # ws) =
     Rooted (path @ nodes) q p # spelled_out (butlast (path @ nodes)) ws"

text \<open>The simulator has a command under the header.\<close>

fun is_known :: "written \<Rightarrow> bool" where
  "is_known (Rooted nodes q p) \<longleftrightarrow> lookup_spec (map make_token nodes) \<noteq> None"
| "is_known w \<longleftrightarrow> True"

fun in_turn :: "libm \<Rightarrow> string list \<Rightarrow> simulator \<Rightarrow> (simulator \<times> string list) option" where
  "in_turn lm [] s = Some (s, [])"
| "in_turn lm (t # ts) s =
     (case run_piece lm [] t s of
       None \<Rightarrow> None
     | Some r \<Rightarrow>
         (let rs = (case pr_response r of None \<Rightarrow> [] | Some x \<Rightarrow> [x]) in
          if pr_continue r then map_option (\<lambda>(s', rs'). (s', rs @ rs')) (in_turn lm ts (pr_sim r))
          else Some (pr_sim r, rs)))"

section \<open>How a written command is read\<close>

lemma closed_field_scan:
  "closed_field sep s q \<Longrightarrow> split_scan sep (s @ t) cur q = split_scan sep t (cur @ s) None"
  by (induction sep s q arbitrary: cur rule: closed_field.induct) (auto split: if_splits)

lemma closed_field_ok: "closed_field sep s None \<Longrightarrow> field_ok sep s"
  by (simp add: field_ok_def closed_field_scan)

lemma join_chars: "set (join_with sep xs) \<subseteq> set sep \<union> \<Union> (set ` set xs)"
  by (induction sep xs rule: join_with.induct) auto

lemma join_not_Nil: "xs \<noteq> [] \<Longrightarrow> \<forall>x \<in> set xs. x \<noteq> [] \<Longrightarrow> join_with sep xs \<noteq> [] \<and> hd (join_with sep xs) = hd (hd xs)"
  by (induction sep xs rule: join_with.induct) auto

definition header_char :: "char \<Rightarrow> bool" where
  "header_char c \<longleftrightarrow> \<not> is_space c \<and> \<not> is_quote c \<and> c \<notin> {CHR '';'', CHR ''?'', CHR ''*''}"

lemma nodes_header:
  assumes "nodes_ok nodes" "nodes \<noteq> []"
  shows "join_with '':'' nodes \<noteq> []" "hd (join_with '':'' nodes) \<noteq> CHR '':''"
    and "c \<in> set (join_with '':'' nodes) \<Longrightarrow> header_char c"
    and "split_unquoted (join_with '':'' nodes) (CHR '':'') = nodes"
proof -
  have nodes: "\<forall>n \<in> set nodes. n \<noteq> []" "\<And>n c. n \<in> set nodes \<Longrightarrow> c \<in> set n \<Longrightarrow> node_char c"
    using assms(1) by (auto simp: nodes_ok_def list_all_iff)
  have first: "node_char (hd (hd nodes))" using nodes(2) [OF hd_in_set [OF assms(2)] hd_in_set] nodes(1) assms(2) by simp
  from join_not_Nil [OF assms(2) nodes(1), of "'':''"]
  show "join_with '':'' nodes \<noteq> []" "hd (join_with '':'' nodes) \<noteq> CHR '':''"
    using first by (auto simp: node_char_def)
  show "c \<in> set (join_with '':'' nodes) \<Longrightarrow> header_char c"
    using join_chars [of "'':''" nodes] nodes(2) by (fastforce simp: node_char_def header_char_def is_space_def is_quote_def)
  have "field_ok (CHR '':'') n" if "n \<in> set nodes" for n
    using nodes(2) [OF that] by (intro field_ok_plain) (auto simp: plain_def node_char_def)
  then show "split_unquoted (join_with '':'' nodes) (CHR '':'') = nodes"
    using assms(2) by (intro split_unquoted_join) (auto simp: is_quote_def)
qed

text \<open>The text of one command is a field of the line, and splits into what was written.\<close>

lemma written_command_read:
  assumes h: "h \<noteq> []" "\<forall>c \<in> set h. header_char c" and p: "parameters_ok p"
  shows "field_ok (CHR '';'') (written_command h q p)"
    and "trimmed (written_command h q p)"
    and "read_command (written_command h q p) = (h, empty_command\<lparr>query := q, args := read_arguments p\<rparr>)"
proof -
  define k where "k = h @ (if q then ''?'' else [])"
  have k: "k \<noteq> []" "\<forall>c \<in> set k. \<not> is_quote c \<and> \<not> is_space c \<and> c \<noteq> CHR '';''"
    using h by (auto simp: k_def header_char_def is_quote_def is_space_def split: if_splits)
  have w: "written_command h q p = k @ (if p = [] then [] else CHR '' '' # p)"
    by (simp add: written_command_def k_def)
  have "plain (CHR '';'') k" "plain (CHR '';'') (k @ [CHR '' ''])"
    using k(2) by (auto simp: plain_def is_quote_def)
  then have "field_ok (CHR '';'') k" "field_ok (CHR '';'') (k @ [CHR '' ''])" by auto
  moreover have "field_ok (CHR '';'') p" using p by (simp add: parameters_ok_def closed_field_ok)
  ultimately show "field_ok (CHR '';'') (written_command h q p)"
    using field_ok_append [of "CHR '';''" "k @ [CHR '' '']" p] by (simp add: w)
  show "trimmed (written_command h q p)"
    using k p by (auto simp: w trimmed_def parameters_ok_def)
  have "header_scan (written_command h q p) None = (k, if p = [] then None else Some p)"
    using header_scan_word [of k p] header_scan_alone [of k] k(2) by (simp add: w)
  moreover have "(last k = CHR ''?'') = q" "(if q then butlast k else k) = h"
    using h by (auto simp: k_def header_char_def butlast_append)
  ultimately show "read_command (written_command h q p) = (h, empty_command\<lparr>query := q, args := read_arguments p\<rparr>)"
    using k(1) p by (auto simp: read_command_def Let_def parameters_ok_def read_arguments_def split: if_splits)
qed

section \<open>Running it\<close>

text \<open>Under a known header, only the tokens matter; a common command leaves the path as it is.\<close>

lemma header_tokens_written:
  assumes "nodes_ok nodes" "nodes \<noteq> []"
  shows "header_tokens path (CHR '':'' # join_with '':'' nodes) = map make_token nodes"
    and "header_tokens path (join_with '':'' nodes) = path @ map make_token nodes"
  using nodes_header [OF assms] by (simp_all add: header_tokens_def is_absolute_def)

lemma run_rooted:
  assumes "nodes_ok nodes" "nodes \<noteq> []" "parameters_ok p"
  shows "run_piece lm path (written_text (Rooted nodes q p)) s =
    run_subsystem lm path (written_text (Rooted nodes q p)) (CHR '':'' # join_with '':'' nodes)
      (empty_command\<lparr>query := q, args := read_arguments p\<rparr>) s"
  using assms nodes_header(3) [OF assms(1,2)]
  by (simp add: run_piece_def written_command_read header_char_def is_space_def is_quote_def)

lemma run_relative:
  assumes "nodes_ok nodes" "nodes \<noteq> []" "parameters_ok p"
  shows "run_piece lm path (written_text (Relative nodes q p)) s =
    run_subsystem lm path (written_text (Relative nodes q p)) (join_with '':'' nodes)
      (empty_command\<lparr>query := q, args := read_arguments p\<rparr>) s"
proof -
  note header = nodes_header [OF assms(1,2)]
  have "header_char (hd (join_with '':'' nodes))" using header(1,3) by simp
  then have "hd (join_with '':'' nodes) \<noteq> CHR ''*''" by (auto simp: header_char_def)
  then show ?thesis using assms header(1,3) by (simp add: run_piece_def written_command_read)
qed

lemma relative_is_rooted:
  assumes "nodes_ok nodes" "nodes \<noteq> []" "nodes_ok prefix" "parameters_ok p"
    and "lookup_spec (map make_token (prefix @ nodes)) \<noteq> None"
  shows "run_piece lm (map make_token prefix) (written_text (Relative nodes q p)) s =
    run_piece lm [] (written_text (Rooted (prefix @ nodes) q p)) s"
proof -
  have all: "nodes_ok (prefix @ nodes)" "prefix @ nodes \<noteq> []" using assms by (auto simp: nodes_ok_def)
  show ?thesis
    using assms(5) unfolding run_relative [OF assms(1,2,4)] run_rooted [OF all assms(4)] run_subsystem_def
      header_tokens_written [OF assms(1,2)] header_tokens_written [OF all]
    by (auto simp: Let_def)
qed

lemma rooted_anywhere:
  assumes "nodes_ok nodes" "nodes \<noteq> []" "parameters_ok p"
  shows "run_piece lm path (written_text (Rooted nodes q p)) s = run_piece lm [] (written_text (Rooted nodes q p)) s"
  unfolding run_rooted [OF assms] run_subsystem_def header_tokens_written [OF assms(1,2)] ..

lemma common_anywhere:
  assumes "hd t = CHR ''*''" "t \<noteq> []"
  shows "run_piece lm path t s = map_option (\<lambda>r. r\<lparr>pr_path := path\<rparr>) (run_piece lm [] t s)"
proof -
  obtain cs where t: "t = CHR ''*'' # cs" using assms by (cases t) auto
  obtain h r where "header_scan cs None = (h, r)" by fastforce
  then have scan: "header_scan t None = (CHR ''*'' # h, r)" by (simp add: t is_quote_def is_space_def)
  have "fst (read_command t) \<noteq> [] \<and> hd (fst (read_command t)) = CHR ''*''"
    by (cases h) (auto simp: read_command_def scan Let_def)
  then show ?thesis
    by (auto simp: run_piece_def run_common_def Let_def finished_def rejected_def split: prod.splits outcome.splits)
qed

lemma run_subsystem_path:
  "run_subsystem lm path txt h c s = Some r \<Longrightarrow> pr_path r = butlast (header_tokens path h)"
  by (auto simp: run_subsystem_def Let_def rejected_def finished_def split: option.splits)

lemma rooted_path:
  assumes "nodes_ok nodes" "nodes \<noteq> []" "parameters_ok p"
    and "run_piece lm [] (written_text (Rooted nodes q p)) s = Some r"
  shows "pr_path r = map make_token (butlast nodes)"
  using run_subsystem_path [OF assms(4) [unfolded run_rooted [OF assms(1-3)]]]
  by (simp add: header_tokens_written [OF assms(1,2)] map_butlast)

lemma written_line:
  assumes "written_ok w"
  shows "trim (written_text w) = written_text w" "written_text w \<noteq> []" "field_ok (CHR '';'') (written_text w)"
proof -
  have "trimmed (written_text w) \<and> written_text w \<noteq> [] \<and> field_ok (CHR '';'') (written_text w)"
  proof (cases w)
    case (Common t)
    then show ?thesis using assms by (auto simp: parameters_ok_def closed_field_ok)
  next
    case (Rooted nodes q p)
    then have "\<forall>c \<in> set (CHR '':'' # join_with '':'' nodes). header_char c" "parameters_ok p"
      using assms nodes_header(3) [of nodes] by (auto simp: header_char_def is_space_def is_quote_def)
    from written_command_read(1,2) [OF _ this] show ?thesis by (simp add: Rooted) (simp add: written_command_def)
  next
    case (Relative nodes q p)
    then have "join_with '':'' nodes \<noteq> []" "\<forall>c \<in> set (join_with '':'' nodes). header_char c" "parameters_ok p"
      using assms nodes_header(1,3) [of nodes] by auto
    from this(1) written_command_read(1,2) [OF this] show ?thesis by (simp add: Relative) (simp add: written_command_def)
  qed
  then show "trim (written_text w) = written_text w" "written_text w \<noteq> []" "field_ok (CHR '';'') (written_text w)"
    by simp_all
qed

lemma run_pieces_step:
  assumes "written_ok w"
    and "run_piece lm path (written_text w) s = map_option f (run_piece lm [] t s)"
    and "\<And>r. run_piece lm [] t s = Some r \<Longrightarrow> pr_path (f r) = path' \<and> pr_sim (f r) = pr_sim r \<and>
      pr_response (f r) = pr_response r \<and> pr_continue (f r) = pr_continue r"
    and "\<And>s. run_pieces lm path' ls s = in_turn lm ts s"
  shows "run_pieces lm path (written_text w # ls) s = in_turn lm (t # ts) s"
  using assms(2,3) written_line [OF assms(1)] by (cases "run_piece lm [] t s") (simp_all add: Let_def assms(4))

lemma nodes_ok_append [simp]: "nodes_ok (xs @ ys) \<longleftrightarrow> nodes_ok xs \<and> nodes_ok ys"
  by (auto simp: nodes_ok_def)

lemma nodes_ok_butlast: "nodes_ok xs \<Longrightarrow> nodes_ok (butlast xs)"
  by (auto simp: nodes_ok_def list_all_iff dest: in_set_butlastD)

lemma pieces_in_turn:
  "\<forall>w \<in> set ws. written_ok w \<Longrightarrow> nodes_ok path \<Longrightarrow> \<forall>w \<in> set (spelled_out path ws). is_known w \<Longrightarrow>
   run_pieces lm (map make_token path) (map written_text ws) s = in_turn lm (map written_text (spelled_out path ws)) s"
proof (induction path ws arbitrary: s rule: spelled_out.induct)
  case (1 path)
  then show ?case by simp
next
  case (2 path t ws)
  show ?case unfolding list.map spelled_out.simps
    by (rule run_pieces_step [where f = "\<lambda>r. r\<lparr>pr_path := map make_token path\<rparr>" and path' = "map make_token path"])
      (use 2 common_anywhere [of t lm "map make_token path"] in simp_all)
next
  case (3 path nodes q p ws)
  then have ok: "nodes_ok nodes" "nodes \<noteq> []" "parameters_ok p" by auto
  show ?case unfolding list.map spelled_out.simps
    by (rule run_pieces_step [where f = "\<lambda>r. r" and path' = "map make_token (butlast nodes)"])
      (use 3 ok rooted_anywhere [OF ok, of lm "map make_token path"] rooted_path [OF ok] nodes_ok_butlast [OF ok(1)]
        in \<open>simp_all add: option.map_ident\<close>)
next
  case (4 path nodes q p ws)
  then have ok: "nodes_ok nodes" "nodes \<noteq> []" "nodes_ok path" "parameters_ok p"
    and all: "nodes_ok (path @ nodes)" "path @ nodes \<noteq> []"
    and known: "lookup_spec (map make_token (path @ nodes)) \<noteq> None" by auto
  show ?case unfolding list.map spelled_out.simps
    by (rule run_pieces_step [where f = "\<lambda>r. r" and path' = "map make_token (butlast (path @ nodes))"])
      (use 4 relative_is_rooted [OF ok known, of lm] rooted_path [OF all ok(4)] nodes_ok_butlast [OF all(1)] ok(2)
        in \<open>simp_all add: option.map_ident\<close>)
qed

text \<open>
  C25: A line of several commands is its commands in turn. The headers a command leaves out are
  those of the command before it: with every header written from the root, the commands run one
  by one until the first that fails, and their responses are joined by semicolons. Quotes may
  hold semicolons and colons; every header is one the simulator knows.
\<close>

theorem compound_line_is_its_commands:
  assumes "ws \<noteq> []" "\<forall>w \<in> set ws. written_ok w" "\<forall>w \<in> set (spelled_out [] ws). is_known w"
  shows "handle_line lm (join_with '';'' (map written_text ws)) s =
    map_option (\<lambda>(s', rs). (s', if rs = [] then None else Some (join_responses rs)))
      (in_turn lm (map written_text (spelled_out [] ws)) (counted s))"
proof -
  have "split_unquoted (join_with '';'' (map written_text ws)) (CHR '';'') = map written_text ws"
    using assms(1,2) written_line(3) by (intro split_unquoted_join) (auto simp: is_quote_def)
  then show ?thesis
    using pieces_in_turn [OF assms(2) _ assms(3), of lm "counted s"]
    by (simp add: handle_line_def counted_def nodes_ok_def)
qed

theorem compound_line_is_its_commands_witness:
  "handle_line sample_libm '':TRIG:START:SOUR IMM;SLOPE NEG;*OPC;SOUR?'' (new_simulator default_options) =
    map_option (\<lambda>(s', rs). (s', if rs = [] then None else Some (join_responses rs)))
      (in_turn sample_libm ['':TRIG:START:SOUR IMM'', '':TRIG:START:SLOPE NEG'', ''*OPC'', '':TRIG:START:SOUR?''] (counted (new_simulator default_options)))"
proof -
  let ?ws = "[Rooted [''TRIG'', ''START'', ''SOUR''] False ''IMM'', Relative [''SLOPE''] False ''NEG'', Common ''*OPC'',
    Relative [''SOUR''] True []]"
  have "?ws \<noteq> []" "\<forall>w \<in> set ?ws. written_ok w" "\<forall>w \<in> set (spelled_out [] ?ws). is_known w" by code_simp+
  from compound_line_is_its_commands [OF this, of sample_libm "new_simulator default_options"] show ?thesis
    by (simp add: written_command_def)
qed

end
