(* ===== verification/Python_Bindings.thy ===== *)
theory Python_Bindings
  imports Tcp_Client
begin

text \<open>
  The Python bindings (\<open>module/bindings/python/src/module.cpp\<close>): what they add to the facade
  they expose, that is the conversion of timeouts from and to seconds, the names of the
  enumeration values and the printed forms of the value types. The facade methods
  exposed as they are follow in \<open>Python_Methods\<close>.
\<close>

section \<open>Timeouts\<close>

text \<open>The conversion to \<open>long long\<close> is undefined (\<open>None\<close>) for a NaN or a number out of range.\<close>

definition to_ms :: "double \<Rightarrow> int option" where
  "to_ms seconds = cast_long_long (dmul seconds (double_of_int 1000))"

definition norma_timeout :: "'t client \<Rightarrow> int" where
  "norma_timeout c = default_timeout c"

definition py_connect ::
  "('k, 'e) asio \<Rightarrow> string \<Rightarrow> int \<Rightarrow> double \<Rightarrow> 'k \<Rightarrow> ('k tcp client \<times> (cxx_error + unit)) option" where
  "py_connect a host port timeout k = (case to_ms timeout of None \<Rightarrow> None | Some ms \<Rightarrow> norma_connect a host port ms k)"

text \<open>The context manager: entering hands out the object itself.\<close>

definition py_enter :: "'t client \<Rightarrow> 't client" where
  "py_enter c = c"

definition py_exit :: "'t transport \<Rightarrow> ('t client, bool) io" where
  "py_exit tr = and_then (norma_close tr) (\<lambda>_. ret False)"

definition py_wait_operation_complete :: "'t transport \<Rightarrow> double \<Rightarrow> ('t client, unit) io" where
  "py_wait_operation_complete tr timeout c =
     (case to_ms timeout of None \<Rightarrow> None | Some ms \<Rightarrow> norma_wait_operation_complete tr ms c)"

definition py_set_timeout :: "'t transport \<Rightarrow> double \<Rightarrow> ('t client, unit) io" where
  "py_set_timeout tr timeout c = (case to_ms timeout of None \<Rightarrow> None | Some ms \<Rightarrow> norma_set_timeout tr ms c)"

text \<open>\<open>duration<double>(ms).count()\<close>: the count over 1000.\<close>

definition py_timeout :: "'t client \<Rightarrow> double" where
  "py_timeout c = ddiv (double_of_int (norma_timeout c)) (double_of_int 1000)"

text \<open>
  Whole seconds arrive and read back as they are. \<open>to_ms\<close> truncates, so writing the timeout back
  that was just read can lose a millisecond: 1001 ms reads as 1.001 s, and 1.001 s sets 1000 ms.
\<close>

lemma five_seconds: "to_ms (lit 5 1) = Some 5000" "py_timeout \<lparr>default_timeout = 5000, link = x\<rparr> = lit 5 1"
proof -
  show "to_ms (lit 5 1) = Some 5000" by code_simp
  have "ddiv (double_of_int 5000) (double_of_int 1000) = lit 5 1" by code_simp
  then show "py_timeout \<lparr>default_timeout = 5000, link = x\<rparr> = lit 5 1" by (simp add: py_timeout_def norma_timeout_def)
qed

lemma timeout_loses_a_millisecond:
  "py_set_timeout tr (py_timeout \<lparr>default_timeout = 1001, link = x\<rparr>) \<lparr>default_timeout = 1001, link = x\<rparr> =
     Some (\<lparr>default_timeout = 1000, link = x\<rparr>, Inr ())"
proof -
  have "to_ms (ddiv (double_of_int 1001) (double_of_int 1000)) = Some 1000" by code_simp
  then show ?thesis by (simp add: py_set_timeout_def py_timeout_def norma_timeout_def norma_set_timeout_def set_default_timeout_def)
qed

section \<open>Printed forms\<close>

definition quoted :: "string \<Rightarrow> string" where "quoted s = squote # s @ [squote]"

definition identification_repr :: "identification \<Rightarrow> string" where
  "identification_repr ident = ''Identification(manufacturer='' @ quoted (manufacturer ident) @ '', model='' @ quoted (model ident) @
     '', serial_number='' @ quoted (serial_number ident) @ '', firmware_version='' @ quoted (firmware_version ident) @ '')''"

definition error_info_repr :: "scpi_error_info \<Rightarrow> string" where
  "error_info_repr e = ''ScpiErrorInfo(code='' @ to_string (code e) @ '', message='' @ quoted (message e) @ '')''"

definition reading_repr :: "reading \<Rightarrow> string" where
  "reading_repr r = ''Reading('' @ to_string (int (length (reading_values r))) @ '' values)''"

definition format_setting_repr :: "data_format_setting \<Rightarrow> string" where
  "format_setting_repr s = ''DataFormatSetting(length='' @ to_string (fmt_length s) @ '')''"

definition triple_repr :: "string \<Rightarrow> int \<Rightarrow> int \<Rightarrow> int \<Rightarrow> string" where
  "triple_repr type_name x y z = type_name @ ''('' @ to_string x @ '', '' @ to_string y @ '', '' @ to_string z @ '')''"

definition date_repr :: "date \<Rightarrow> string" where
  "date_repr d = triple_repr ''Date'' (date_year d) (date_month d) (date_day d)"

definition time_repr :: "time \<Rightarrow> string" where
  "time_repr t = triple_repr ''Time'' (time_hours t) (time_minutes t) (time_seconds t)"

definition preamble_repr :: "data_preamble \<Rightarrow> string" where
  "preamble_repr p = ''DataPreamble(count='' @ to_string (pre_count p) @ '', function_count='' @
     to_string (pre_function_count p) @ '')''"

section \<open>Names of the enumeration values\<close>

definition py_wiring_system :: "(string \<times> wiring_system) list" where
  "py_wiring_system = [(''THREE_WATTMETER'', ThreeWattmeter), (''TWO_WATTMETER'', TwoWattmeter)]"

definition py_coupling :: "(string \<times> coupling) list" where
  "py_coupling = [(''AC'', AC), (''DC'', DC)]"

definition py_shunt :: "(string \<times> shunt) list" where
  "py_shunt = [(''INTERNAL'', Internal), (''EXTERNAL'', External)]"

definition py_slope :: "(string \<times> slope) list" where
  "py_slope = [(''POSITIVE'', Positive), (''NEGATIVE'', Negative)]"

definition py_level_unit :: "(string \<times> level_unit) list" where
  "py_level_unit = [(''ABSOLUTE'', Absolute), (''PERCENT'', Percent)]"

definition py_data_format :: "(string \<times> data_format) list" where
  "py_data_format = [(''ASCII'', Ascii), (''INTEGER'', Integer), (''REAL'', Real)]"

definition py_byte_order :: "(string \<times> byte_order) list" where
  "py_byte_order = [(''NORMAL'', Normal), (''SWAPPED'', Swapped)]"

definition py_key_lock :: "(string \<times> key_lock) list" where
  "py_key_lock = [(''OFF'', KeyOff), (''ON'', KeyOn), (''REMOTE'', KeyRemote)]"

definition py_transform_mode :: "(string \<times> transform_mode) list" where
  "py_transform_mode = [(''FFT'', Fft), (''DFT'', Dft), (''STD'', Std)]"

definition py_harmonic_grouping :: "(string \<times> harmonic_grouping) list" where
  "py_harmonic_grouping = [(''COMPONENT'', Component), (''HARMONIC'', Harmonic), (''H_GROUP'', HGroup), (''HS_GROUP'', HSGroup), (''IS_GROUP'', ISGroup), (''S_GROUP'', SGroup)]"

definition py_power_correction :: "(string \<times> power_correction) list" where
  "py_power_correction = [(''STAR'', Star), (''DELTA'', Delta)]"

definition py_integral_start_source :: "(string \<times> integral_start_source) list" where
  "py_integral_start_source = [(''COMMAND'', StartCommand), (''TIME'', StartTime), (''MANUAL'', StartManual)]"

definition py_integral_stop_source :: "(string \<times> integral_stop_source) list" where
  "py_integral_stop_source = [(''COMMAND'', StopCommand), (''TIME'', StopTime), (''MANUAL'', StopManual), (''TIME_INTERVAL'', StopTimeInterval)]"

definition py_sweep_block :: "(string \<times> sweep_block) list" where
  "py_sweep_block = [(''BLOCK1'', Block1), (''BLOCK2'', Block2)]"

definition py_status_register :: "(string \<times> status_register) list" where
  "py_status_register = [(''OPERATION'', Operation), (''QUESTIONABLE'', Questionable), (''QUESTIONABLE_VOLTAGE'', QuestionableVoltage), (''QUESTIONABLE_CURRENT'', QuestionableCurrent)]"

definition py_register_part :: "(string \<times> register_part) list" where
  "py_register_part = [(''CONDITION'', Condition), (''EVENT'', Event), (''ENABLE'', Enable), (''POSITIVE_TRANSITION'', PositiveTransition), (''NEGATIVE_TRANSITION'', NegativeTransition)]"

text \<open>Every value has a name, no two the same.\<close>

definition exports :: "(string \<times> 'v) list \<Rightarrow> bool" where
  "exports table \<longleftrightarrow> distinct (map fst table) \<and> distinct (map snd table) \<and> (\<forall>v. v \<in> snd ` set table)"

lemma export_inverse:
  assumes "exports table"
  shows "\<exists>!n. map_of table n = Some v"
proof -
  obtain n where "(n, v) \<in> set table" using assms by (force simp: exports_def)
  then have n: "map_of table n = Some v" using assms by (simp add: exports_def)
  have "m = n" if "map_of table m = Some v" for m
    using assms map_of_SomeD [OF that] map_of_SomeD [OF n] by (fastforce simp: exports_def distinct_map inj_on_def)
  then show ?thesis using n by blast
qed

lemma exported_enumerations:
  "exports py_wiring_system"
  "exports py_coupling"
  "exports py_shunt"
  "exports py_slope"
  "exports py_level_unit"
  "exports py_data_format"
  "exports py_byte_order"
  "exports py_key_lock"
  "exports py_transform_mode"
  "exports py_harmonic_grouping"
  "exports py_power_correction"
  "exports py_integral_start_source"
  "exports py_integral_stop_source"
  "exports py_sweep_block"
  "exports py_status_register"
  "exports py_register_part"
  by (simp_all add: exports_def py_wiring_system_def py_coupling_def py_shunt_def py_slope_def py_level_unit_def py_data_format_def py_byte_order_def py_key_lock_def py_transform_mode_def py_harmonic_grouping_def py_power_correction_def py_integral_start_source_def py_integral_stop_source_def py_sweep_block_def py_status_register_def py_register_part_def
    wiring_system.nchotomy coupling.nchotomy shunt.nchotomy slope.nchotomy level_unit.nchotomy data_format.nchotomy byte_order.nchotomy key_lock.nchotomy transform_mode.nchotomy harmonic_grouping.nchotomy power_correction.nchotomy integral_start_source.nchotomy integral_stop_source.nchotomy sweep_block.nchotomy status_register.nchotomy register_part.nchotomy)

end
