(* ===== verification/Python_Values.thy ===== *)
theory Python_Values
  imports Python_Bindings
begin

text \<open>
  Calls from Python into the module. pybind11 converts the objects of a call to the C++ types of
  the parameters and the result back; \<open>py_value\<close> is a value between the two conversions, one
  constructor per C++ type. What is modelled here is what the module tells pybind11: the
  parameters of each function with their names and defaults, the members of the value types,
  the constants, the exceptions and the builders of function names.
\<close>

section \<open>Values\<close>

datatype py_value =
    PyNone
  | PyBool bool
  | PyInt int
  | PyFloat double
  | PyStr string
  | PyStrings "string list"
  | PyFloats "double list"
  | PyInts "int list"
  | PyWiringSystem wiring_system
  | PyCoupling coupling
  | PyShunt shunt
  | PySlope slope
  | PyLevelUnit level_unit
  | PyDataFormat data_format
  | PyByteOrder byte_order
  | PyKeyLock key_lock
  | PyTransformMode transform_mode
  | PyHarmonicGrouping harmonic_grouping
  | PyPowerCorrection power_correction
  | PyIntegralStartSource integral_start_source
  | PyIntegralStopSource integral_stop_source
  | PySweepBlock sweep_block
  | PyStatusRegister status_register
  | PyRegisterPart register_part
  | PyDate date
  | PyTime time
  | PyIdentification identification
  | PyErrors "scpi_error_info list"
  | PyReading reading
  | PyPreamble data_preamble
  | PyFormatSetting data_format_setting

definition as_bool :: "py_value \<Rightarrow> bool option" where
  "as_bool v = (case v of PyBool x \<Rightarrow> Some x | _ \<Rightarrow> None)"

definition as_int :: "py_value \<Rightarrow> int option" where
  "as_int v = (case v of PyInt x \<Rightarrow> Some x | _ \<Rightarrow> None)"

definition as_float :: "py_value \<Rightarrow> double option" where
  "as_float v = (case v of PyFloat x \<Rightarrow> Some x | _ \<Rightarrow> None)"

definition as_str :: "py_value \<Rightarrow> string option" where
  "as_str v = (case v of PyStr x \<Rightarrow> Some x | _ \<Rightarrow> None)"

definition as_strings :: "py_value \<Rightarrow> (string list) option" where
  "as_strings v = (case v of PyStrings x \<Rightarrow> Some x | _ \<Rightarrow> None)"

definition as_wiring_system :: "py_value \<Rightarrow> wiring_system option" where
  "as_wiring_system v = (case v of PyWiringSystem x \<Rightarrow> Some x | _ \<Rightarrow> None)"

definition as_coupling :: "py_value \<Rightarrow> coupling option" where
  "as_coupling v = (case v of PyCoupling x \<Rightarrow> Some x | _ \<Rightarrow> None)"

definition as_shunt :: "py_value \<Rightarrow> shunt option" where
  "as_shunt v = (case v of PyShunt x \<Rightarrow> Some x | _ \<Rightarrow> None)"

definition as_slope :: "py_value \<Rightarrow> slope option" where
  "as_slope v = (case v of PySlope x \<Rightarrow> Some x | _ \<Rightarrow> None)"

definition as_level_unit :: "py_value \<Rightarrow> level_unit option" where
  "as_level_unit v = (case v of PyLevelUnit x \<Rightarrow> Some x | _ \<Rightarrow> None)"

definition as_data_format :: "py_value \<Rightarrow> data_format option" where
  "as_data_format v = (case v of PyDataFormat x \<Rightarrow> Some x | _ \<Rightarrow> None)"

definition as_byte_order :: "py_value \<Rightarrow> byte_order option" where
  "as_byte_order v = (case v of PyByteOrder x \<Rightarrow> Some x | _ \<Rightarrow> None)"

definition as_key_lock :: "py_value \<Rightarrow> key_lock option" where
  "as_key_lock v = (case v of PyKeyLock x \<Rightarrow> Some x | _ \<Rightarrow> None)"

definition as_transform_mode :: "py_value \<Rightarrow> transform_mode option" where
  "as_transform_mode v = (case v of PyTransformMode x \<Rightarrow> Some x | _ \<Rightarrow> None)"

definition as_harmonic_grouping :: "py_value \<Rightarrow> harmonic_grouping option" where
  "as_harmonic_grouping v = (case v of PyHarmonicGrouping x \<Rightarrow> Some x | _ \<Rightarrow> None)"

definition as_power_correction :: "py_value \<Rightarrow> power_correction option" where
  "as_power_correction v = (case v of PyPowerCorrection x \<Rightarrow> Some x | _ \<Rightarrow> None)"

definition as_integral_start_source :: "py_value \<Rightarrow> integral_start_source option" where
  "as_integral_start_source v = (case v of PyIntegralStartSource x \<Rightarrow> Some x | _ \<Rightarrow> None)"

definition as_integral_stop_source :: "py_value \<Rightarrow> integral_stop_source option" where
  "as_integral_stop_source v = (case v of PyIntegralStopSource x \<Rightarrow> Some x | _ \<Rightarrow> None)"

definition as_sweep_block :: "py_value \<Rightarrow> sweep_block option" where
  "as_sweep_block v = (case v of PySweepBlock x \<Rightarrow> Some x | _ \<Rightarrow> None)"

definition as_status_register :: "py_value \<Rightarrow> status_register option" where
  "as_status_register v = (case v of PyStatusRegister x \<Rightarrow> Some x | _ \<Rightarrow> None)"

definition as_register_part :: "py_value \<Rightarrow> register_part option" where
  "as_register_part v = (case v of PyRegisterPart x \<Rightarrow> Some x | _ \<Rightarrow> None)"

definition as_date :: "py_value \<Rightarrow> date option" where
  "as_date v = (case v of PyDate x \<Rightarrow> Some x | _ \<Rightarrow> None)"

definition as_time :: "py_value \<Rightarrow> time option" where
  "as_time v = (case v of PyTime x \<Rightarrow> Some x | _ \<Rightarrow> None)"

section \<open>Parameters\<close>

text \<open>
  A parameter has a name and perhaps a default. Positional arguments are bound first, the others
  by name; a parameter given twice, one that is missing, or an argument too many is an error.
\<close>

type_synonym py_parameters = "(string \<times> py_value option) list"

datatype py_failure = AttributeError | TypeError

fun bind_arguments :: "py_parameters \<Rightarrow> py_value list \<Rightarrow> (string \<times> py_value) list \<Rightarrow> py_value list option" where
  "bind_arguments [] vs ks = (if vs = [] then Some [] else None)"
| "bind_arguments ((n, d) # ps) (v # vs) ks =
     (if n \<in> fst ` set ks then None else map_option (Cons v) (bind_arguments ps vs ks))"
| "bind_arguments ((n, d) # ps) [] ks =
     (case map_of ks n of
       Some v \<Rightarrow> map_option (Cons v) (bind_arguments ps [] ks)
     | None \<Rightarrow> (case d of None \<Rightarrow> None | Some v \<Rightarrow> map_option (Cons v) (bind_arguments ps [] ks)))"

definition bind_call :: "py_parameters \<Rightarrow> py_value list \<Rightarrow> (string \<times> py_value) list \<Rightarrow> py_value list option" where
  "bind_call ps vs ks = (if fst ` set ks \<subseteq> fst ` set ps then bind_arguments ps vs ks else None)"

text \<open>The C++ function behind a name takes the bound values one by one.\<close>

definition takes :: "(py_value \<Rightarrow> 'a option) \<Rightarrow> ('a \<Rightarrow> py_value list \<Rightarrow> 'r option) \<Rightarrow> py_value list \<Rightarrow> 'r option" where
  "takes as f vs = (case vs of [] \<Rightarrow> None | v # rest \<Rightarrow> (case as v of None \<Rightarrow> None | Some a \<Rightarrow> f a rest))"

definition gives :: "'r \<Rightarrow> py_value list \<Rightarrow> (cxx_error + 'r) option" where
  "gives r vs = (if vs = [] then Some (Inr r) else None)"

definition gives_result :: "('a \<Rightarrow> py_value) \<Rightarrow> cxx_error + 'a \<Rightarrow> py_value list \<Rightarrow> (cxx_error + py_value) option" where
  "gives_result out r vs = (if vs = [] then Some (map_result out r) else None)"

definition returns :: "('a \<Rightarrow> py_value) \<Rightarrow> ('s, 'a) io \<Rightarrow> py_value list \<Rightarrow> ('s, py_value) io option" where
  "returns out m vs = (if vs = [] then Some (parsed (\<lambda>a. Inr (out a)) m) else None)"

text \<open>The parameters of the constructor of \<open>Norma\<close>, which is \<open>py_connect\<close>.\<close>

definition py_connect_parameters :: py_parameters where
  "py_connect_parameters = [(''host'', None), (''port'', Some (PyInt kDefaultPort)), (''timeout'', Some (PyFloat (lit 5 1)))]"

section \<open>Exceptions\<close>

text \<open>The registered classes with their bases; \<open>std::invalid_argument\<close> is Python's \<open>ValueError\<close>.\<close>

definition py_exceptions :: "(string \<times> string option) list" where
  "py_exceptions = [(''NormaError'', None), (''ConnectionError'', Some ''NormaError''), (''TimeoutError'', Some ''NormaError''),
     (''ProtocolError'', Some ''NormaError''), (''ScpiError'', Some ''NormaError'')]"

definition py_exception :: "cxx_error \<Rightarrow> string" where
  "py_exception e = (case e of
     ConnectionError _ \<Rightarrow> ''ConnectionError'' | TimeoutError _ \<Rightarrow> ''TimeoutError'' | ProtocolError _ \<Rightarrow> ''ProtocolError''
   | ScpiError _ \<Rightarrow> ''ScpiError'' | InvalidArgument _ \<Rightarrow> ''ValueError'')"

section \<open>Members of the value types\<close>

definition identification_members :: "(string \<times> (identification \<Rightarrow> py_value)) list" where
  "identification_members = [(''manufacturer'', PyStr \<circ> manufacturer), (''model'', PyStr \<circ> model),
     (''serial_number'', PyStr \<circ> serial_number), (''firmware_version'', PyStr \<circ> firmware_version)]"

definition error_info_members :: "(string \<times> (scpi_error_info \<Rightarrow> py_value)) list" where
  "error_info_members = [(''code'', PyInt \<circ> code), (''message'', PyStr \<circ> message)]"

definition reading_members :: "(string \<times> (reading \<Rightarrow> py_value)) list" where
  "reading_members = [(''values'', PyFloats \<circ> reading_values), (''status'', PyInts \<circ> reading_status)]"

definition format_setting_members :: "(string \<times> (data_format_setting \<Rightarrow> py_value)) list" where
  "format_setting_members = [(''format'', PyDataFormat \<circ> fmt_format), (''length'', PyInt \<circ> fmt_length)]"

definition date_members :: "(string \<times> (date \<Rightarrow> py_value)) list" where
  "date_members = [(''year'', PyInt \<circ> date_year), (''month'', PyInt \<circ> date_month), (''day'', PyInt \<circ> date_day)]"

definition time_members :: "(string \<times> (time \<Rightarrow> py_value)) list" where
  "time_members = [(''hours'', PyInt \<circ> time_hours), (''minutes'', PyInt \<circ> time_minutes), (''seconds'', PyInt \<circ> time_seconds)]"

definition preamble_members :: "(string \<times> (data_preamble \<Rightarrow> py_value)) list" where
  "preamble_members = [(''count'', PyInt \<circ> pre_count), (''function_count'', PyInt \<circ> pre_function_count),
     (''interval'', PyFloat \<circ> pre_interval), (''start'', PyFloat \<circ> pre_start), (''functions'', PyStrings \<circ> pre_functions),
     (''raw'', PyStr \<circ> pre_raw)]"

text \<open>The constructors of \<open>Date\<close> and \<open>Time\<close>; \<open>Reading.is_valid\<close>, whose index is a \<open>std::size_t\<close>.\<close>

definition as_size :: "py_value \<Rightarrow> nat option" where
  "as_size v = (case v of PyInt i \<Rightarrow> if 0 \<le> i \<and> i < 2 ^ 64 then Some (nat i) else None | _ \<Rightarrow> None)"

definition py_new_date :: "py_parameters \<times> (py_value list \<Rightarrow> (cxx_error + py_value) option)" where
  "py_new_date = ([(''year'', None), (''month'', None), (''day'', None)],
     takes as_int (\<lambda>year. takes as_int (\<lambda>month. takes as_int (\<lambda>day.
       gives (PyDate \<lparr>date_year = year, date_month = month, date_day = day\<rparr>)))))"

definition py_new_time :: "py_parameters \<times> (py_value list \<Rightarrow> (cxx_error + py_value) option)" where
  "py_new_time = ([(''hours'', None), (''minutes'', None), (''seconds'', None)],
     takes as_int (\<lambda>hours. takes as_int (\<lambda>minutes. takes as_int (\<lambda>seconds.
       gives (PyTime \<lparr>time_hours = hours, time_minutes = minutes, time_seconds = seconds\<rparr>)))))"

definition py_reading_is_valid :: "reading \<Rightarrow> py_parameters \<times> (py_value list \<Rightarrow> (cxx_error + py_value) option)" where
  "py_reading_is_valid r = ([(''index'', None)], takes as_size (\<lambda>i. gives (PyBool (reading_is_valid r i))))"

section \<open>Constants\<close>

definition py_module_attributes :: "(string \<times> py_value) list" where
  "py_module_attributes = [(''__version__'', PyStr kVersionString), (''DEFAULT_PORT'', PyInt kDefaultPort), (''SCPI_NAN'', PyFloat kScpiNan),
     (''MIN_APERTURE'', PyFloat kMinAperture), (''MAX_APERTURE'', PyFloat kMaxAperture), (''MAX_PHASE'', PyInt kMaxPhase),
     (''MAX_INPUT_CHANNEL'', PyInt kMaxInputChannel)]"

definition py_measurement_status :: "(string \<times> int) list" where
  "py_measurement_status = [(''NORMAL'', kNormal),
    (''UNDERRANGE'', kUnderrange),
    (''OVERRANGE'', kOverrange),
    (''UNDEFINED'', kUndefined),
    (''NOT_AVAILABLE'', kNotAvailable),
    (''POWER_FACTOR_CAPACITIVE'', kPowerFactorCapacitive),
    (''INVALID_MASK'', kInvalidMask)]"

definition py_status_byte :: "(string \<times> int) list" where
  "py_status_byte = [(''ERROR_QUEUE_NOT_EMPTY'', kErrorQueueNotEmpty),
    (''QUESTIONABLE_SUMMARY'', kQuestionableSummary),
    (''MESSAGE_AVAILABLE'', kMessageAvailable),
    (''EVENT_STATUS_SUMMARY'', kEventStatusSummary),
    (''MASTER_STATUS_SUMMARY'', kMasterStatusSummary)]"

definition py_operation_status :: "(string \<times> int) list" where
  "py_operation_status = [(''RANGING'', kRanging),
    (''SWEEPING'', kSweeping),
    (''WAITING_FOR_TRIGGER'', kWaitingForTrigger),
    (''SYNCHRONIZED'', kSynchronized),
    (''SYNC_AVAILABLE'', kSyncAvailable),
    (''AVERAGING'', kAveraging),
    (''CALCULATING'', kCalculating)]"

definition py_questionable_status :: "(string \<times> int) list" where
  "py_questionable_status = [(''VOLTAGE_SUMMARY'', kVoltageSummary),
    (''CURRENT_SUMMARY'', kCurrentSummary),
    (''FREQUENCY'', kFrequency)]"

definition py_channel_status :: "(string \<times> int) list" where
  "py_channel_status = [(''OVERRANGE_MASK'', kOverrangeMask),
    (''UNDERRANGE_MASK'', kUnderrangeMask)]"

section \<open>Builders of function names\<close>

type_synonym py_function = "string \<times> py_parameters \<times> (py_value list \<Rightarrow> (cxx_error + py_value) option)"

definition py_suffix_functions :: "py_function list" where
  "py_suffix_functions = [
    (''is_phase'', [(''phase'', None)], takes as_int (\<lambda>x. gives (PyBool (is_phase x)))),
    (''is_phase_to_phase'', [(''phase'', None)], takes as_int (\<lambda>x. gives (PyBool (is_phase_to_phase x)))),
    (''is_aggregate'', [(''phase'', None)], takes as_int (\<lambda>x. gives (PyBool (is_aggregate x)))),
    (''is_average_phase_to_phase'', [(''phase'', None)], takes as_int (\<lambda>x. gives (PyBool (is_average_phase_to_phase x)))),
    (''is_valid_suffix'', [(''phase'', None)], takes as_int (\<lambda>x. gives (PyBool (is_valid_suffix x))))]"

definition py_voltage_functions :: "py_function list" where
  "py_voltage_functions = [
    (''voltage'', [(''phase'', Some (PyInt 0))], takes as_int (\<lambda>x. gives_result PyStr (fn_voltage x))),
    (''voltage_ac'', [(''phase'', Some (PyInt 0))], takes as_int (\<lambda>x. gives_result PyStr (fn_voltage_ac x))),
    (''voltage_mean'', [(''phase'', Some (PyInt 0))], takes as_int (\<lambda>x. gives_result PyStr (fn_voltage_mean x))),
    (''voltage_rectified_mean'', [(''phase'', Some (PyInt 0))], takes as_int (\<lambda>x. gives_result PyStr (fn_voltage_rectified_mean x))),
    (''voltage_rectified_mean_corrected'', [(''phase'', Some (PyInt 0))], takes as_int (\<lambda>x. gives_result PyStr (fn_voltage_rectified_mean_corrected x))),
    (''voltage_peak_to_peak'', [(''phase'', None)], takes as_int (\<lambda>x. gives_result PyStr (fn_voltage_peak_to_peak x))),
    (''voltage_peak_high'', [(''phase'', None)], takes as_int (\<lambda>x. gives_result PyStr (fn_voltage_peak_high x))),
    (''voltage_peak_low'', [(''phase'', None)], takes as_int (\<lambda>x. gives_result PyStr (fn_voltage_peak_low x))),
    (''voltage_crest_factor'', [(''phase'', None)], takes as_int (\<lambda>x. gives_result PyStr (fn_voltage_crest_factor x))),
    (''voltage_form_factor'', [(''phase'', None)], takes as_int (\<lambda>x. gives_result PyStr (fn_voltage_form_factor x))),
    (''voltage_harmonic_content'', [(''phase'', None)], takes as_int (\<lambda>x. gives_result PyStr (fn_voltage_harmonic_content x))),
    (''voltage_fundamental_content'', [(''phase'', None)], takes as_int (\<lambda>x. gives_result PyStr (fn_voltage_fundamental_content x))),
    (''voltage_thd'', [(''phase'', None)], takes as_int (\<lambda>x. gives_result PyStr (fn_voltage_thd x))),
    (''voltage_phase'', [(''phase'', None)], takes as_int (\<lambda>x. gives_result PyStr (fn_voltage_phase x))),
    (''voltage_line'', [(''phase'', None)], takes as_int (\<lambda>x. gives_result PyStr (fn_voltage_line x))),
    (''voltage_line_mean'', [(''phase'', None)], takes as_int (\<lambda>x. gives_result PyStr (fn_voltage_line_mean x))),
    (''voltage_line_rectified_mean'', [(''phase'', None)], takes as_int (\<lambda>x. gives_result PyStr (fn_voltage_line_rectified_mean x))),
    (''voltage_line_rectified_mean_corrected'', [(''phase'', None)], takes as_int (\<lambda>x. gives_result PyStr (fn_voltage_line_rectified_mean_corrected x))),
    (''voltage_line_form_factor'', [(''phase'', None)], takes as_int (\<lambda>x. gives_result PyStr (fn_voltage_line_form_factor x))),
    (''voltage_line_thd'', [(''phase'', None)], takes as_int (\<lambda>x. gives_result PyStr (fn_voltage_line_thd x))),
    (''voltage_line_harmonic_content'', [(''phase'', None)], takes as_int (\<lambda>x. gives_result PyStr (fn_voltage_line_harmonic_content x))),
    (''voltage_line_fundamental_content'', [(''phase'', None)], takes as_int (\<lambda>x. gives_result PyStr (fn_voltage_line_fundamental_content x))),
    (''voltage_line_phase'', [(''phase'', None)], takes as_int (\<lambda>x. gives_result PyStr (fn_voltage_line_phase x)))]"

definition py_current_functions :: "py_function list" where
  "py_current_functions = [
    (''current'', [(''phase'', Some (PyInt 0))], takes as_int (\<lambda>x. gives_result PyStr (fn_current x))),
    (''current_ac'', [(''phase'', Some (PyInt 0))], takes as_int (\<lambda>x. gives_result PyStr (fn_current_ac x))),
    (''current_mean'', [(''phase'', Some (PyInt 0))], takes as_int (\<lambda>x. gives_result PyStr (fn_current_mean x))),
    (''current_rectified_mean'', [(''phase'', Some (PyInt 0))], takes as_int (\<lambda>x. gives_result PyStr (fn_current_rectified_mean x))),
    (''current_rectified_mean_corrected'', [(''phase'', Some (PyInt 0))], takes as_int (\<lambda>x. gives_result PyStr (fn_current_rectified_mean_corrected x))),
    (''current_peak_to_peak'', [(''phase'', None)], takes as_int (\<lambda>x. gives_result PyStr (fn_current_peak_to_peak x))),
    (''current_peak_high'', [(''phase'', None)], takes as_int (\<lambda>x. gives_result PyStr (fn_current_peak_high x))),
    (''current_peak_low'', [(''phase'', None)], takes as_int (\<lambda>x. gives_result PyStr (fn_current_peak_low x))),
    (''current_crest_factor'', [(''phase'', None)], takes as_int (\<lambda>x. gives_result PyStr (fn_current_crest_factor x))),
    (''current_form_factor'', [(''phase'', None)], takes as_int (\<lambda>x. gives_result PyStr (fn_current_form_factor x))),
    (''current_harmonic_content'', [(''phase'', None)], takes as_int (\<lambda>x. gives_result PyStr (fn_current_harmonic_content x))),
    (''current_fundamental_content'', [(''phase'', None)], takes as_int (\<lambda>x. gives_result PyStr (fn_current_fundamental_content x))),
    (''current_thd'', [(''phase'', None)], takes as_int (\<lambda>x. gives_result PyStr (fn_current_thd x))),
    (''current_phase'', [(''phase'', None)], takes as_int (\<lambda>x. gives_result PyStr (fn_current_phase x)))]"

definition py_power_functions :: "py_function list" where
  "py_power_functions = [
    (''active_power'', [(''phase'', Some (PyInt 0))], takes as_int (\<lambda>x. gives_result PyStr (fn_active_power x))),
    (''apparent_power'', [(''phase'', Some (PyInt 0))], takes as_int (\<lambda>x. gives_result PyStr (fn_apparent_power x))),
    (''reactive_power'', [(''phase'', Some (PyInt 0))], takes as_int (\<lambda>x. gives_result PyStr (fn_reactive_power x))),
    (''power_factor'', [(''phase'', Some (PyInt 0))], takes as_int (\<lambda>x. gives_result PyStr (fn_power_factor x))),
    (''corrected_power'', [(''phase'', Some (PyInt 0))], takes as_int (\<lambda>x. gives_result PyStr (fn_corrected_power x))),
    (''efficiency'', [(''phase'', Some (PyInt 0))], takes as_int (\<lambda>x. gives_result PyStr (fn_efficiency x))),
    (''phase_angle'', [(''phase'', Some (PyInt 0))], takes as_int (\<lambda>x. gives_result PyStr (fn_phase_angle x))),
    (''apparent_impedance'', [(''phase'', Some (PyInt 0))], takes as_int (\<lambda>x. gives_result PyStr (fn_apparent_impedance x))),
    (''series_resistance'', [(''phase'', Some (PyInt 0))], takes as_int (\<lambda>x. gives_result PyStr (fn_series_resistance x))),
    (''parallel_resistance'', [(''phase'', Some (PyInt 0))], takes as_int (\<lambda>x. gives_result PyStr (fn_parallel_resistance x))),
    (''series_reactance'', [(''phase'', Some (PyInt 0))], takes as_int (\<lambda>x. gives_result PyStr (fn_series_reactance x))),
    (''parallel_reactance'', [(''phase'', Some (PyInt 0))], takes as_int (\<lambda>x. gives_result PyStr (fn_parallel_reactance x)))]"

definition py_qualifier_functions :: "py_function list" where
  "py_qualifier_functions = [
    (''frequency'', [], gives (PyStr fn_frequency)),
    (''time_interval'', [], gives (PyStr fn_time_interval)),
    (''time_relative'', [], gives (PyStr fn_time_relative)),
    (''harmonic'', [(''function'', None)], takes as_str (\<lambda>x. gives (PyStr (fn_harmonic x)))),
    (''minimum'', [(''function'', None)], takes as_str (\<lambda>x. gives (PyStr (fn_minimum x)))),
    (''maximum'', [(''function'', None)], takes as_str (\<lambda>x. gives (PyStr (fn_maximum x)))),
    (''integral'', [(''function'', None)], takes as_str (\<lambda>x. gives (PyStr (fn_integral x)))),
    (''integral_positive'', [(''function'', None)], takes as_str (\<lambda>x. gives (PyStr (fn_integral_positive x)))),
    (''integral_negative'', [(''function'', None)], takes as_str (\<lambda>x. gives (PyStr (fn_integral_negative x))))]"

definition py_fn_functions :: "py_function list" where
  "py_fn_functions = py_suffix_functions @ py_voltage_functions @ py_current_functions @ py_power_functions @ py_qualifier_functions"

end
