(* ===== verification/Python_Methods.thy ===== *)
theory Python_Methods
  imports Python_Values
begin

text \<open>
  The methods of the Python class \<open>Norma\<close>, group by group as the module declares them: the name,
  the parameters, and the member function of the facade behind it.
\<close>

type_synonym 't py_method = "string \<times> py_parameters \<times> (py_value list \<Rightarrow> ('t client, py_value) io option)"

section \<open>The methods\<close>

definition py_lifecycle_methods :: "'t transport \<Rightarrow> 't py_method list" where
  "py_lifecycle_methods tr = [
    (''close'', [],
      returns (\<lambda>_. PyNone) (norma_close tr)),
    (''prepare'', [],
      returns (\<lambda>_. PyNone) (norma_prepare tr))]"

definition py_raw_methods :: "'t transport \<Rightarrow> 't py_method list" where
  "py_raw_methods tr = [
    (''write'', [(''scpi'', None)],
      takes as_str (\<lambda>x. returns (\<lambda>_. PyNone) (norma_write tr x))),
    (''query'', [(''scpi'', None)],
      takes as_str (\<lambda>x. returns PyStr (norma_query tr x)))]"

definition py_common_methods :: "'t transport \<Rightarrow> 't py_method list" where
  "py_common_methods tr = [
    (''identify'', [],
      returns PyIdentification (norma_identify tr)),
    (''reset'', [],
      returns (\<lambda>_. PyNone) (norma_reset tr)),
    (''clear_status'', [],
      returns (\<lambda>_. PyNone) (norma_clear_status tr)),
    (''options'', [],
      returns PyStr (norma_options tr)),
    (''learn'', [],
      returns PyStr (norma_learn tr)),
    (''set_operation_complete_flag'', [],
      returns (\<lambda>_. PyNone) (norma_set_operation_complete_flag tr)),
    (''wait_pending_operations'', [],
      returns (\<lambda>_. PyNone) (norma_wait_pending_operations tr)),
    (''trigger'', [],
      returns (\<lambda>_. PyNone) (norma_trigger tr)),
    (''set_event_status_enable'', [(''mask'', None)],
      takes as_int (\<lambda>x. returns (\<lambda>_. PyNone) (norma_set_event_status_enable tr x))),
    (''event_status_enable'', [],
      returns PyInt (norma_event_status_enable tr)),
    (''event_status'', [],
      returns PyInt (norma_event_status tr)),
    (''set_service_request_enable'', [(''mask'', None)],
      takes as_int (\<lambda>x. returns (\<lambda>_. PyNone) (norma_set_service_request_enable tr x))),
    (''service_request_enable'', [],
      returns PyInt (norma_service_request_enable tr)),
    (''status_byte'', [],
      returns PyInt (norma_status_byte tr)),
    (''save_setup'', [(''slot'', None)],
      takes as_int (\<lambda>x. returns (\<lambda>_. PyNone) (norma_save_setup tr x))),
    (''recall_setup'', [(''slot'', None)],
      takes as_int (\<lambda>x. returns (\<lambda>_. PyNone) (norma_recall_setup tr x))),
    (''wait_operation_complete'', [(''timeout'', Some (PyFloat (lit 30 1)))],
      takes as_float (\<lambda>x. returns (\<lambda>_. PyNone) (py_wait_operation_complete tr x)))]"

definition py_route_methods :: "'t transport \<Rightarrow> 't py_method list" where
  "py_route_methods tr = [
    (''set_wiring_system'', [(''system'', None)],
      takes as_wiring_system (\<lambda>x. returns (\<lambda>_. PyNone) (norma_set_wiring_system tr x))),
    (''wiring_system'', [],
      returns PyWiringSystem (norma_wiring_system tr))]"

definition py_input_methods :: "'t transport \<Rightarrow> 't py_method list" where
  "py_input_methods tr = [
    (''set_input_coupling'', [(''channel'', None), (''coupling'', None)],
      takes as_int (\<lambda>x. takes as_coupling (\<lambda>y. returns (\<lambda>_. PyNone) (norma_set_input_coupling tr x y)))),
    (''input_coupling'', [(''channel'', None)],
      takes as_int (\<lambda>x. returns PyCoupling (norma_input_coupling tr x))),
    (''set_input_gain'', [(''channel'', None), (''gain'', None)],
      takes as_int (\<lambda>x. takes as_float (\<lambda>y. returns (\<lambda>_. PyNone) (norma_set_input_gain tr x y)))),
    (''input_gain'', [(''channel'', None)],
      takes as_int (\<lambda>x. returns PyFloat (norma_input_gain tr x))),
    (''set_input_filter'', [(''channel'', None), (''on'', Some (PyBool True))],
      takes as_int (\<lambda>x. takes as_bool (\<lambda>y. returns (\<lambda>_. PyNone) (norma_set_input_filter tr x y)))),
    (''input_filter'', [(''channel'', None)],
      takes as_int (\<lambda>x. returns PyBool (norma_input_filter tr x))),
    (''input_filter_frequency'', [(''channel'', None)],
      takes as_int (\<lambda>x. returns PyFloat (norma_input_filter_frequency tr x))),
    (''set_input_shunt'', [(''channel'', None), (''shunt'', None)],
      takes as_int (\<lambda>x. takes as_shunt (\<lambda>y. returns (\<lambda>_. PyNone) (norma_set_input_shunt tr x y)))),
    (''input_shunt'', [(''channel'', None)],
      takes as_int (\<lambda>x. returns PyShunt (norma_input_shunt tr x)))]"

definition py_ranging_methods :: "'t transport \<Rightarrow> 't py_method list" where
  "py_ranging_methods tr = [
    (''set_voltage_range'', [(''phase'', None), (''volts'', None)],
      takes as_int (\<lambda>x. takes as_float (\<lambda>y. returns (\<lambda>_. PyNone) (norma_set_voltage_range tr x y)))),
    (''voltage_range'', [(''phase'', None)],
      takes as_int (\<lambda>x. returns PyFloat (norma_voltage_range tr x))),
    (''set_voltage_autorange'', [(''phase'', None), (''on'', Some (PyBool True))],
      takes as_int (\<lambda>x. takes as_bool (\<lambda>y. returns (\<lambda>_. PyNone) (norma_set_voltage_autorange tr x y)))),
    (''voltage_autorange'', [(''phase'', None)],
      takes as_int (\<lambda>x. returns PyBool (norma_voltage_autorange tr x))),
    (''voltage_ranges'', [(''phase'', None)],
      takes as_int (\<lambda>x. returns PyFloats (norma_voltage_ranges tr x))),
    (''set_voltage_scale'', [(''phase'', None), (''ratio'', None)],
      takes as_int (\<lambda>x. takes as_float (\<lambda>y. returns (\<lambda>_. PyNone) (norma_set_voltage_scale tr x y)))),
    (''voltage_scale'', [(''phase'', None)],
      takes as_int (\<lambda>x. returns PyFloat (norma_voltage_scale tr x))),
    (''set_current_range'', [(''phase'', None), (''amps'', None)],
      takes as_int (\<lambda>x. takes as_float (\<lambda>y. returns (\<lambda>_. PyNone) (norma_set_current_range tr x y)))),
    (''current_range'', [(''phase'', None)],
      takes as_int (\<lambda>x. returns PyFloat (norma_current_range tr x))),
    (''set_current_autorange'', [(''phase'', None), (''on'', Some (PyBool True))],
      takes as_int (\<lambda>x. takes as_bool (\<lambda>y. returns (\<lambda>_. PyNone) (norma_set_current_autorange tr x y)))),
    (''current_autorange'', [(''phase'', None)],
      takes as_int (\<lambda>x. returns PyBool (norma_current_autorange tr x))),
    (''current_ranges'', [(''phase'', None)],
      takes as_int (\<lambda>x. returns PyFloats (norma_current_ranges tr x))),
    (''set_current_scale'', [(''phase'', None), (''ratio'', None)],
      takes as_int (\<lambda>x. takes as_float (\<lambda>y. returns (\<lambda>_. PyNone) (norma_set_current_scale tr x y)))),
    (''current_scale'', [(''phase'', None)],
      takes as_int (\<lambda>x. returns PyFloat (norma_current_scale tr x))),
    (''set_aperture'', [(''seconds'', None)],
      takes as_float (\<lambda>x. returns (\<lambda>_. PyNone) (norma_set_aperture tr x))),
    (''aperture'', [],
      returns PyFloat (norma_aperture tr)),
    (''sampling_frequency'', [],
      returns PyFloat (norma_sampling_frequency tr))]"

definition py_sync_methods :: "'t transport \<Rightarrow> 't py_method list" where
  "py_sync_methods tr = [
    (''set_sync_enabled'', [(''on'', Some (PyBool True))],
      takes as_bool (\<lambda>x. returns (\<lambda>_. PyNone) (norma_set_sync_enabled tr x))),
    (''sync_enabled'', [],
      returns PyBool (norma_sync_enabled tr)),
    (''set_sync_source'', [(''source'', None)],
      takes as_str (\<lambda>x. returns (\<lambda>_. PyNone) (norma_set_sync_source tr x))),
    (''sync_source'', [],
      returns PyStr (norma_sync_source tr)),
    (''sync_to_voltage'', [(''phase'', None)],
      takes as_int (\<lambda>x. returns (\<lambda>_. PyNone) (norma_sync_to_voltage tr x))),
    (''sync_to_current'', [(''phase'', None)],
      takes as_int (\<lambda>x. returns (\<lambda>_. PyNone) (norma_sync_to_current tr x))),
    (''sync_external'', [],
      returns (\<lambda>_. PyNone) (norma_sync_external tr)),
    (''set_sync_level'', [(''level'', None)],
      takes as_float (\<lambda>x. returns (\<lambda>_. PyNone) (norma_set_sync_level tr x))),
    (''sync_level'', [],
      returns PyFloat (norma_sync_level tr)),
    (''set_sync_level_unit'', [(''unit'', None)],
      takes as_level_unit (\<lambda>x. returns (\<lambda>_. PyNone) (norma_set_sync_level_unit tr x))),
    (''sync_level_unit'', [],
      returns PyLevelUnit (norma_sync_level_unit tr)),
    (''set_sync_slope'', [(''slope'', None)],
      takes as_slope (\<lambda>x. returns (\<lambda>_. PyNone) (norma_set_sync_slope tr x))),
    (''sync_slope'', [],
      returns PySlope (norma_sync_slope tr)),
    (''set_sync_filter'', [(''on'', Some (PyBool True))],
      takes as_bool (\<lambda>x. returns (\<lambda>_. PyNone) (norma_set_sync_filter tr x))),
    (''sync_filter'', [],
      returns PyBool (norma_sync_filter tr)),
    (''set_sync_filter_frequency'', [(''hertz'', None)],
      takes as_float (\<lambda>x. returns (\<lambda>_. PyNone) (norma_set_sync_filter_frequency tr x))),
    (''sync_filter_frequency'', [],
      returns PyFloat (norma_sync_filter_frequency tr)),
    (''set_sync_timeout'', [(''seconds'', None)],
      takes as_float (\<lambda>x. returns (\<lambda>_. PyNone) (norma_set_sync_timeout tr x))),
    (''sync_timeout'', [],
      returns PyFloat (norma_sync_timeout tr))]"

definition py_functions_methods :: "'t transport \<Rightarrow> 't py_method list" where
  "py_functions_methods tr = [
    (''set_functions'', [(''functions'', None)],
      takes as_strings (\<lambda>x. returns (\<lambda>_. PyNone) (norma_set_functions tr x))),
    (''functions'', [],
      returns PyStrings (norma_functions tr)),
    (''enable_all_functions'', [],
      returns (\<lambda>_. PyNone) (norma_enable_all_functions tr)),
    (''clear_functions'', [],
      returns (\<lambda>_. PyNone) (norma_clear_functions tr)),
    (''function_count'', [],
      returns PyInt (norma_function_count tr)),
    (''set_concurrent'', [(''on'', Some (PyBool True))],
      takes as_bool (\<lambda>x. returns (\<lambda>_. PyNone) (norma_set_concurrent tr x))),
    (''concurrent'', [],
      returns PyBool (norma_concurrent tr))]"

definition py_acquisition_methods :: "'t transport \<Rightarrow> 't py_method list" where
  "py_acquisition_methods tr = [
    (''set_continuous'', [(''on'', Some (PyBool True))],
      takes as_bool (\<lambda>x. returns (\<lambda>_. PyNone) (norma_set_continuous tr x))),
    (''continuous'', [],
      returns PyBool (norma_continuous tr)),
    (''initiate'', [],
      returns (\<lambda>_. PyNone) (norma_initiate tr)),
    (''initiate_sweep'', [(''block'', None)],
      takes as_sweep_block (\<lambda>x. returns (\<lambda>_. PyNone) (norma_initiate_sweep tr x))),
    (''abort'', [],
      returns (\<lambda>_. PyNone) (norma_abort tr))]"

definition py_trigger_methods :: "'t transport \<Rightarrow> 't py_method list" where
  "py_trigger_methods tr = [
    (''set_trigger_start_source'', [(''source'', None)],
      takes as_str (\<lambda>x. returns (\<lambda>_. PyNone) (norma_set_trigger_start_source tr x))),
    (''trigger_start_source'', [],
      returns PyStr (norma_trigger_start_source tr)),
    (''set_trigger_start_level'', [(''level'', None)],
      takes as_float (\<lambda>x. returns (\<lambda>_. PyNone) (norma_set_trigger_start_level tr x))),
    (''trigger_start_level'', [],
      returns PyFloat (norma_trigger_start_level tr)),
    (''set_trigger_start_slope'', [(''slope'', None)],
      takes as_slope (\<lambda>x. returns (\<lambda>_. PyNone) (norma_set_trigger_start_slope tr x))),
    (''trigger_start_slope'', [],
      returns PySlope (norma_trigger_start_slope tr)),
    (''set_trigger_start_time'', [(''date'', None), (''time'', None)],
      takes as_date (\<lambda>x. takes as_time (\<lambda>y. returns (\<lambda>_. PyNone) (norma_set_trigger_start_time tr x y)))),
    (''set_trigger_stop_source'', [(''source'', None)],
      takes as_str (\<lambda>x. returns (\<lambda>_. PyNone) (norma_set_trigger_stop_source tr x))),
    (''trigger_stop_source'', [],
      returns PyStr (norma_trigger_stop_source tr)),
    (''set_trigger_stop_level'', [(''level'', None)],
      takes as_float (\<lambda>x. returns (\<lambda>_. PyNone) (norma_set_trigger_stop_level tr x))),
    (''trigger_stop_level'', [],
      returns PyFloat (norma_trigger_stop_level tr)),
    (''set_trigger_stop_slope'', [(''slope'', None)],
      takes as_slope (\<lambda>x. returns (\<lambda>_. PyNone) (norma_set_trigger_stop_slope tr x))),
    (''trigger_stop_slope'', [],
      returns PySlope (norma_trigger_stop_slope tr)),
    (''set_trigger_stop_time'', [(''date'', None), (''time'', None)],
      takes as_date (\<lambda>x. takes as_time (\<lambda>y. returns (\<lambda>_. PyNone) (norma_set_trigger_stop_time tr x y))))]"

definition py_data_methods :: "'t transport \<Rightarrow> 't py_method list" where
  "py_data_methods tr = [
    (''data'', [(''functions'', Some (PyStrings []))],
      takes as_strings (\<lambda>x. returns PyFloats (norma_data tr x))),
    (''data_with_status'', [(''functions'', Some (PyStrings []))],
      takes as_strings (\<lambda>x. returns PyReading (norma_data_with_status tr x)))]"

definition py_spectrum_methods :: "'t transport \<Rightarrow> 't py_method list" where
  "py_spectrum_methods tr = [
    (''set_harmonic_order'', [(''order'', None)],
      takes as_int (\<lambda>x. returns (\<lambda>_. PyNone) (norma_set_harmonic_order tr x))),
    (''harmonic_order'', [],
      returns PyInt (norma_harmonic_order tr)),
    (''transform_once'', [],
      returns (\<lambda>_. PyNone) (norma_transform_once tr)),
    (''set_transform_mode'', [(''mode'', None)],
      takes as_transform_mode (\<lambda>x. returns (\<lambda>_. PyNone) (norma_set_transform_mode tr x))),
    (''transform_mode'', [],
      returns PyTransformMode (norma_transform_mode tr)),
    (''set_transform_functions'', [(''functions'', None)],
      takes as_strings (\<lambda>x. returns (\<lambda>_. PyNone) (norma_set_transform_functions tr x))),
    (''transform_functions'', [],
      returns PyStrings (norma_transform_functions tr)),
    (''set_transform_start'', [(''hertz'', None)],
      takes as_float (\<lambda>x. returns (\<lambda>_. PyNone) (norma_set_transform_start tr x))),
    (''transform_start'', [],
      returns PyFloat (norma_transform_start tr)),
    (''set_transform_stop'', [(''hertz'', None)],
      takes as_float (\<lambda>x. returns (\<lambda>_. PyNone) (norma_set_transform_stop tr x))),
    (''transform_stop'', [],
      returns PyFloat (norma_transform_stop tr)),
    (''set_transform_cycles'', [(''cycles'', None)],
      takes as_int (\<lambda>x. returns (\<lambda>_. PyNone) (norma_set_transform_cycles tr x))),
    (''transform_cycles'', [],
      returns PyInt (norma_transform_cycles tr)),
    (''set_transform_grouping'', [(''grouping'', None)],
      takes as_harmonic_grouping (\<lambda>x. returns (\<lambda>_. PyNone) (norma_set_transform_grouping tr x))),
    (''transform_grouping'', [],
      returns PyHarmonicGrouping (norma_transform_grouping tr)),
    (''transform_data'', [(''count'', Some (PyInt 0)), (''offset'', Some (PyInt 0))],
      takes as_int (\<lambda>x. takes as_int (\<lambda>y. returns PyFloats (norma_transform_data tr x y)))),
    (''transform_preamble'', [],
      returns PyPreamble (norma_transform_preamble tr)),
    (''transform_thd'', [],
      returns PyFloats (norma_transform_thd tr))]"

definition py_integration_methods :: "'t transport \<Rightarrow> 't py_method list" where
  "py_integration_methods tr = [
    (''set_integral_enabled'', [(''on'', Some (PyBool True))],
      takes as_bool (\<lambda>x. returns (\<lambda>_. PyNone) (norma_set_integral_enabled tr x))),
    (''integral_enabled'', [],
      returns PyBool (norma_integral_enabled tr)),
    (''set_integral_functions'', [(''functions'', None)],
      takes as_strings (\<lambda>x. returns (\<lambda>_. PyNone) (norma_set_integral_functions tr x))),
    (''integral_functions'', [],
      returns PyStrings (norma_integral_functions tr)),
    (''clear_integral'', [],
      returns (\<lambda>_. PyNone) (norma_clear_integral tr)),
    (''set_integral_auto_clear'', [(''on'', Some (PyBool True))],
      takes as_bool (\<lambda>x. returns (\<lambda>_. PyNone) (norma_set_integral_auto_clear tr x))),
    (''integral_auto_clear'', [],
      returns PyBool (norma_integral_auto_clear tr)),
    (''set_integral_start_source'', [(''source'', None)],
      takes as_integral_start_source (\<lambda>x. returns (\<lambda>_. PyNone) (norma_set_integral_start_source tr x))),
    (''integral_start_source'', [],
      returns PyIntegralStartSource (norma_integral_start_source tr)),
    (''start_integral'', [],
      returns (\<lambda>_. PyNone) (norma_start_integral tr)),
    (''set_integral_start_time'', [(''date'', None), (''time'', None)],
      takes as_date (\<lambda>x. takes as_time (\<lambda>y. returns (\<lambda>_. PyNone) (norma_set_integral_start_time tr x y)))),
    (''set_integral_stop_source'', [(''source'', None)],
      takes as_integral_stop_source (\<lambda>x. returns (\<lambda>_. PyNone) (norma_set_integral_stop_source tr x))),
    (''integral_stop_source'', [],
      returns PyIntegralStopSource (norma_integral_stop_source tr)),
    (''stop_integral'', [],
      returns (\<lambda>_. PyNone) (norma_stop_integral tr)),
    (''set_integral_stop_time'', [(''date'', None), (''time'', None)],
      takes as_date (\<lambda>x. takes as_time (\<lambda>y. returns (\<lambda>_. PyNone) (norma_set_integral_stop_time tr x y)))),
    (''set_integral_stop_interval'', [(''seconds'', None)],
      takes as_float (\<lambda>x. returns (\<lambda>_. PyNone) (norma_set_integral_stop_interval tr x))),
    (''integral_stop_interval'', [],
      returns PyFloat (norma_integral_stop_interval tr))]"

definition py_power_methods :: "'t transport \<Rightarrow> 't py_method list" where
  "py_power_methods tr = [
    (''set_power_correction'', [(''correction'', None)],
      takes as_power_correction (\<lambda>x. returns (\<lambda>_. PyNone) (norma_set_power_correction tr x))),
    (''power_correction'', [],
      returns PyPowerCorrection (norma_power_correction tr)),
    (''set_efficiency_reference'', [(''input'', None), (''output'', None), (''phase'', Some (PyInt 0))],
      takes as_str (\<lambda>x. takes as_str (\<lambda>y. takes as_int (\<lambda>z. returns (\<lambda>_. PyNone) (norma_set_efficiency_reference tr x y z)))))]"

definition py_recording_methods :: "'t transport \<Rightarrow> 't py_method list" where
  "py_recording_methods tr = [
    (''set_sweep_enabled'', [(''block'', None), (''on'', Some (PyBool True))],
      takes as_sweep_block (\<lambda>x. takes as_bool (\<lambda>y. returns (\<lambda>_. PyNone) (norma_set_sweep_enabled tr x y)))),
    (''sweep_enabled'', [(''block'', None)],
      takes as_sweep_block (\<lambda>x. returns PyBool (norma_sweep_enabled tr x))),
    (''set_sweep_time'', [(''block'', None), (''seconds'', None)],
      takes as_sweep_block (\<lambda>x. takes as_float (\<lambda>y. returns (\<lambda>_. PyNone) (norma_set_sweep_time tr x y)))),
    (''set_sweep_time_max'', [(''block'', None)],
      takes as_sweep_block (\<lambda>x. returns (\<lambda>_. PyNone) (norma_set_sweep_time_max tr x))),
    (''sweep_time'', [(''block'', None)],
      takes as_sweep_block (\<lambda>x. returns PyFloat (norma_sweep_time tr x))),
    (''set_sweep_offset_time'', [(''block'', None), (''seconds'', None)],
      takes as_sweep_block (\<lambda>x. takes as_float (\<lambda>y. returns (\<lambda>_. PyNone) (norma_set_sweep_offset_time tr x y)))),
    (''sweep_offset_time'', [(''block'', None)],
      takes as_sweep_block (\<lambda>x. returns PyFloat (norma_sweep_offset_time tr x))),
    (''sweep_points'', [(''block'', None)],
      takes as_sweep_block (\<lambda>x. returns PyInt (norma_sweep_points tr x))),
    (''sweep_offset_points'', [(''block'', None)],
      takes as_sweep_block (\<lambda>x. returns PyInt (norma_sweep_offset_points tr x))),
    (''set_sweep_count'', [(''block'', None), (''count'', None)],
      takes as_sweep_block (\<lambda>x. takes as_int (\<lambda>y. returns (\<lambda>_. PyNone) (norma_set_sweep_count tr x y)))),
    (''sweep_count'', [(''block'', None)],
      takes as_sweep_block (\<lambda>x. returns PyInt (norma_sweep_count tr x))),
    (''set_sweep_sparsing'', [(''block'', None), (''factor'', None)],
      takes as_sweep_block (\<lambda>x. takes as_int (\<lambda>y. returns (\<lambda>_. PyNone) (norma_set_sweep_sparsing tr x y)))),
    (''sweep_sparsing'', [(''block'', None)],
      takes as_sweep_block (\<lambda>x. returns PyInt (norma_sweep_sparsing tr x))),
    (''set_sweep_functions'', [(''block'', None), (''functions'', None)],
      takes as_sweep_block (\<lambda>x. takes as_strings (\<lambda>y. returns (\<lambda>_. PyNone) (norma_set_sweep_functions tr x y)))),
    (''sweep_functions'', [(''block'', None)],
      takes as_sweep_block (\<lambda>x. returns PyStrings (norma_sweep_functions tr x))),
    (''trace_preamble'', [(''block'', None)],
      takes as_sweep_block (\<lambda>x. returns PyPreamble (norma_trace_preamble tr x))),
    (''trace_data'', [(''block'', None), (''count'', Some (PyInt 0)), (''offset'', Some (PyInt 0)), (''sparsing'', Some (PyInt 0))],
      takes as_sweep_block (\<lambda>x. takes as_int (\<lambda>y. takes as_int (\<lambda>z. takes as_int (\<lambda>w. returns PyFloats (norma_trace_data tr x y z w)))))),
    (''trace_status'', [(''block'', None), (''count'', Some (PyInt 0)), (''offset'', Some (PyInt 0)), (''sparsing'', Some (PyInt 0))],
      takes as_sweep_block (\<lambda>x. takes as_int (\<lambda>y. takes as_int (\<lambda>z. takes as_int (\<lambda>w. returns PyInts (norma_trace_status tr x y z w)))))),
    (''trace_free'', [],
      returns PyInt (norma_trace_free tr)),
    (''trace_length'', [],
      returns PyInt (norma_trace_length tr)),
    (''delete_traces'', [],
      returns (\<lambda>_. PyNone) (norma_delete_traces tr))]"

definition py_format_methods :: "'t transport \<Rightarrow> 't py_method list" where
  "py_format_methods tr = [
    (''set_data_format'', [(''format'', None), (''length'', Some (PyInt 0))],
      takes as_data_format (\<lambda>x. takes as_int (\<lambda>y. returns (\<lambda>_. PyNone) (norma_set_data_format tr x y)))),
    (''data_format'', [],
      returns PyFormatSetting (norma_data_format tr)),
    (''set_status_format'', [(''format'', None), (''length'', Some (PyInt 0))],
      takes as_data_format (\<lambda>x. takes as_int (\<lambda>y. returns (\<lambda>_. PyNone) (norma_set_status_format tr x y)))),
    (''status_format'', [],
      returns PyFormatSetting (norma_status_format tr)),
    (''set_byte_order'', [(''order'', None)],
      takes as_byte_order (\<lambda>x. returns (\<lambda>_. PyNone) (norma_set_byte_order tr x))),
    (''byte_order'', [],
      returns PyByteOrder (norma_byte_order tr)),
    (''set_transpose'', [(''on'', Some (PyBool True))],
      takes as_bool (\<lambda>x. returns (\<lambda>_. PyNone) (norma_set_transpose tr x))),
    (''transpose'', [],
      returns PyBool (norma_transpose tr))]"

definition py_display_methods :: "'t transport \<Rightarrow> 't py_method list" where
  "py_display_methods tr = [
    (''set_display_enabled'', [(''on'', Some (PyBool True))],
      takes as_bool (\<lambda>x. returns (\<lambda>_. PyNone) (norma_set_display_enabled tr x))),
    (''display_enabled'', [],
      returns PyBool (norma_display_enabled tr)),
    (''set_display_functions'', [(''functions'', None)],
      takes as_strings (\<lambda>x. returns (\<lambda>_. PyNone) (norma_set_display_functions tr x))),
    (''display_functions'', [],
      returns PyStrings (norma_display_functions tr)),
    (''set_output_enabled'', [(''on'', Some (PyBool True))],
      takes as_bool (\<lambda>x. returns (\<lambda>_. PyNone) (norma_set_output_enabled tr x))),
    (''output_enabled'', [],
      returns PyBool (norma_output_enabled tr))]"

definition py_system_methods :: "'t transport \<Rightarrow> 't py_method list" where
  "py_system_methods tr = [
    (''scpi_version'', [],
      returns PyStr (norma_scpi_version tr)),
    (''set_key_lock'', [(''lock'', None)],
      takes as_key_lock (\<lambda>x. returns (\<lambda>_. PyNone) (norma_set_key_lock tr x))),
    (''key_lock'', [],
      returns PyKeyLock (norma_key_lock tr)),
    (''set_date'', [(''date'', None)],
      takes as_date (\<lambda>x. returns (\<lambda>_. PyNone) (norma_set_date tr x))),
    (''date'', [],
      returns PyDate (norma_date tr)),
    (''set_time'', [(''time'', None)],
      takes as_time (\<lambda>x. returns (\<lambda>_. PyNone) (norma_set_time tr x))),
    (''time_of_day'', [],
      returns PyTime (norma_time_of_day tr)),
    (''set_gpib_address'', [(''address'', None)],
      takes as_int (\<lambda>x. returns (\<lambda>_. PyNone) (norma_set_gpib_address tr x))),
    (''gpib_address'', [],
      returns PyInt (norma_gpib_address tr)),
    (''set_serial_baud'', [(''baud'', None)],
      takes as_int (\<lambda>x. returns (\<lambda>_. PyNone) (norma_set_serial_baud tr x))),
    (''serial_baud'', [],
      returns PyInt (norma_serial_baud tr)),
    (''set_language'', [(''language'', None)],
      takes as_str (\<lambda>x. returns (\<lambda>_. PyNone) (norma_set_language tr x))),
    (''language'', [],
      returns PyStr (norma_language tr))]"

definition py_timer_methods :: "'t transport \<Rightarrow> 't py_method list" where
  "py_timer_methods tr = [
    (''reset_timer'', [],
      returns (\<lambda>_. PyNone) (norma_reset_timer tr)),
    (''timer_reset_time'', [],
      returns PyFloat (norma_timer_reset_time tr))]"

definition py_status_methods :: "'t transport \<Rightarrow> 't py_method list" where
  "py_status_methods tr = [
    (''status'', [(''register'', None), (''part'', None)],
      takes as_status_register (\<lambda>x. takes as_register_part (\<lambda>y. returns PyInt (norma_status tr x y)))),
    (''set_status'', [(''register'', None), (''part'', None), (''mask'', None)],
      takes as_status_register (\<lambda>x. takes as_register_part (\<lambda>y. takes as_int (\<lambda>z. returns (\<lambda>_. PyNone) (norma_set_status tr x y z))))),
    (''status_operation_condition'', [],
      returns PyInt (norma_status_operation_condition tr))]"

definition py_errors_methods :: "'t transport \<Rightarrow> 't py_method list" where
  "py_errors_methods tr = [
    (''read_errors'', [],
      returns PyErrors (norma_read_errors tr)),
    (''read_errors_at_once'', [],
      returns PyErrors (norma_read_errors_at_once tr)),
    (''check_errors'', [],
      returns (\<lambda>_. PyNone) (norma_check_errors tr))]"

definition py_plumbing_methods :: "'t transport \<Rightarrow> 't py_method list" where
  "py_plumbing_methods tr = [
    (''set_timeout'', [(''timeout'', None)],
      takes as_float (\<lambda>x. returns (\<lambda>_. PyNone) (py_set_timeout tr x)))]"

definition py_methods :: "'t transport \<Rightarrow> 't py_method list" where
  "py_methods tr = py_lifecycle_methods tr @
     py_raw_methods tr @
     py_common_methods tr @
     py_route_methods tr @
     py_input_methods tr @
     py_ranging_methods tr @
     py_sync_methods tr @
     py_functions_methods tr @
     py_acquisition_methods tr @
     py_trigger_methods tr @
     py_data_methods tr @
     py_spectrum_methods tr @
     py_integration_methods tr @
     py_power_methods tr @
     py_recording_methods tr @
     py_format_methods tr @
     py_display_methods tr @
     py_system_methods tr @
     py_timer_methods tr @
     py_status_methods tr @
     py_errors_methods tr @
     py_plumbing_methods tr"

section \<open>Calls\<close>

text \<open>A call by name, with positional and keyword arguments; a failure is raised before anything is sent.\<close>

definition py_call ::
  "'t transport \<Rightarrow> string \<Rightarrow> py_value list \<Rightarrow> (string \<times> py_value) list \<Rightarrow> py_failure + ('t client, py_value) io" where
  "py_call tr name vs ks = (case map_of (py_methods tr) name of
     None \<Rightarrow> Inl AttributeError
   | Some (ps, f) \<Rightarrow>
       (case bind_call ps vs ks of
         None \<Rightarrow> Inl TypeError
       | Some bound \<Rightarrow> (case f bound of None \<Rightarrow> Inl TypeError | Some m \<Rightarrow> Inr m)))"

end
