(* ===== verification/Python_Properties.thy ===== *)
theory Python_Properties
  imports Python_Methods Client_Properties
begin

text \<open>
  What a Python program sees: the binding of arguments by position and by name, the tables of
  the module (every name once, defaults at the end), and settings that read back through the
  bindings, the facade, the client, the transport and the simulator.
\<close>

section \<open>Binding arguments\<close>

text \<open>The arguments behind the first ones may be given by their names instead, with the same result.\<close>

lemma bind_other_name: "n \<notin> fst ` set ps \<Longrightarrow> bind_arguments ps [] ((n, v) # ks) = bind_arguments ps [] ks"
  by (induction ps) (auto split: option.splits)

lemma bind_all_by_name:
  "distinct (map fst ps) \<Longrightarrow> length vs \<le> length ps \<Longrightarrow> bind_arguments ps [] (zip (map fst ps) vs) = bind_arguments ps vs []"
proof (induction ps arbitrary: vs)
  case (Cons p ps)
  obtain n d where p: "p = (n, d)" by fastforce
  from Cons show ?case by (cases vs) (simp_all add: p bind_other_name)
qed simp

lemma bind_by_name:
  "distinct (map fst ps) \<Longrightarrow> length us + length vs \<le> length ps \<Longrightarrow>
   bind_arguments ps us (zip (drop (length us) (map fst ps)) vs) = bind_arguments ps (us @ vs) []"
proof (induction us arbitrary: ps)
  case Nil
  then show ?case by (simp add: bind_all_by_name)
next
  case (Cons u us)
  then obtain n d qs where ps: "ps = (n, d) # qs" by (cases ps) auto
  have "n \<notin> fst ` set (zip (drop (length us) (map fst qs)) vs)"
    using Cons.prems(1) by (auto simp: ps dest!: set_zip_leftD in_set_dropD)
  then show ?case using Cons by (simp add: ps)
qed

lemma call_by_name:
  assumes "distinct (map fst ps)" "length us + length vs \<le> length ps"
  shows "bind_call ps us (zip (drop (length us) (map fst ps)) vs) = bind_call ps (us @ vs) []"
proof -
  have "fst ` set (zip (drop (length us) (map fst ps)) vs) \<subseteq> fst ` set ps"
    by (auto dest!: set_zip_leftD in_set_dropD)
  then show ?thesis using bind_by_name [OF assms] by (simp add: bind_call_def)
qed

text \<open>A parameter that is left out has its default.\<close>

lemma bind_defaults:
  "length us \<le> length ps \<Longrightarrow> \<forall>(n, d) \<in> set (drop (length us) ps). d \<noteq> None \<Longrightarrow>
   bind_arguments ps us [] = Some (us @ map (the \<circ> snd) (drop (length us) ps))"
proof (induction us arbitrary: ps)
  case Nil
  then have "bind_arguments ps [] [] = Some (map (the \<circ> snd) ps)"
    by (induction ps) (auto split: option.splits)
  then show ?case by simp
next
  case (Cons u us)
  then obtain n d qs where ps: "ps = (n, d) # qs" by (cases ps) auto
  then show ?case using Cons by simp
qed

section \<open>The table of methods\<close>

definition defaults_trail :: "py_parameters \<Rightarrow> bool" where
  "defaults_trail ps \<longleftrightarrow> list_all (\<lambda>p. snd p \<noteq> None) (dropWhile (\<lambda>p. snd p = None) ps)"

lemmas py_method_groups =
  py_lifecycle_methods_def py_raw_methods_def py_common_methods_def py_route_methods_def py_input_methods_def
  py_ranging_methods_def py_sync_methods_def py_functions_methods_def py_acquisition_methods_def
  py_trigger_methods_def py_data_methods_def py_spectrum_methods_def py_integration_methods_def
  py_power_methods_def py_recording_methods_def py_format_methods_def py_display_methods_def
  py_system_methods_def py_timer_methods_def py_status_methods_def py_errors_methods_def py_plumbing_methods_def

definition py_method_names :: "string list" where
  "py_method_names =
    [''close'', ''prepare'', ''write'', ''query'', ''identify'', ''reset'', ''clear_status'', ''options'',
     ''learn'', ''set_operation_complete_flag'', ''wait_pending_operations'', ''trigger'',
     ''set_event_status_enable'', ''event_status_enable'', ''event_status'', ''set_service_request_enable'',
     ''service_request_enable'', ''status_byte'', ''save_setup'', ''recall_setup'',
     ''wait_operation_complete'', ''set_wiring_system'', ''wiring_system'', ''set_input_coupling'',
     ''input_coupling'', ''set_input_gain'', ''input_gain'', ''set_input_filter'', ''input_filter'',
     ''input_filter_frequency'', ''set_input_shunt'', ''input_shunt'', ''set_voltage_range'',
     ''voltage_range'', ''set_voltage_autorange'', ''voltage_autorange'', ''voltage_ranges'',
     ''set_voltage_scale'', ''voltage_scale'', ''set_current_range'', ''current_range'',
     ''set_current_autorange'', ''current_autorange'', ''current_ranges'', ''set_current_scale'',
     ''current_scale'', ''set_aperture'', ''aperture'', ''sampling_frequency'', ''set_sync_enabled'',
     ''sync_enabled'', ''set_sync_source'', ''sync_source'', ''sync_to_voltage'', ''sync_to_current'',
     ''sync_external'', ''set_sync_level'', ''sync_level'', ''set_sync_level_unit'', ''sync_level_unit'',
     ''set_sync_slope'', ''sync_slope'', ''set_sync_filter'', ''sync_filter'', ''set_sync_filter_frequency'',
     ''sync_filter_frequency'', ''set_sync_timeout'', ''sync_timeout'', ''set_functions'', ''functions'',
     ''enable_all_functions'', ''clear_functions'', ''function_count'', ''set_concurrent'', ''concurrent'',
     ''set_continuous'', ''continuous'', ''initiate'', ''initiate_sweep'', ''abort'',
     ''set_trigger_start_source'', ''trigger_start_source'', ''set_trigger_start_level'',
     ''trigger_start_level'', ''set_trigger_start_slope'', ''trigger_start_slope'',
     ''set_trigger_start_time'', ''set_trigger_stop_source'', ''trigger_stop_source'',
     ''set_trigger_stop_level'', ''trigger_stop_level'', ''set_trigger_stop_slope'', ''trigger_stop_slope'',
     ''set_trigger_stop_time'', ''data'', ''data_with_status'', ''set_harmonic_order'', ''harmonic_order'',
     ''transform_once'', ''set_transform_mode'', ''transform_mode'', ''set_transform_functions'',
     ''transform_functions'', ''set_transform_start'', ''transform_start'', ''set_transform_stop'',
     ''transform_stop'', ''set_transform_cycles'', ''transform_cycles'', ''set_transform_grouping'',
     ''transform_grouping'', ''transform_data'', ''transform_preamble'', ''transform_thd'',
     ''set_integral_enabled'', ''integral_enabled'', ''set_integral_functions'', ''integral_functions'',
     ''clear_integral'', ''set_integral_auto_clear'', ''integral_auto_clear'', ''set_integral_start_source'',
     ''integral_start_source'', ''start_integral'', ''set_integral_start_time'',
     ''set_integral_stop_source'', ''integral_stop_source'', ''stop_integral'', ''set_integral_stop_time'',
     ''set_integral_stop_interval'', ''integral_stop_interval'', ''set_power_correction'',
     ''power_correction'', ''set_efficiency_reference'', ''set_sweep_enabled'', ''sweep_enabled'',
     ''set_sweep_time'', ''set_sweep_time_max'', ''sweep_time'', ''set_sweep_offset_time'',
     ''sweep_offset_time'', ''sweep_points'', ''sweep_offset_points'', ''set_sweep_count'', ''sweep_count'',
     ''set_sweep_sparsing'', ''sweep_sparsing'', ''set_sweep_functions'', ''sweep_functions'',
     ''trace_preamble'', ''trace_data'', ''trace_status'', ''trace_free'', ''trace_length'',
     ''delete_traces'', ''set_data_format'', ''data_format'', ''set_status_format'', ''status_format'',
     ''set_byte_order'', ''byte_order'', ''set_transpose'', ''transpose'', ''set_display_enabled'',
     ''display_enabled'', ''set_display_functions'', ''display_functions'', ''set_output_enabled'',
     ''output_enabled'', ''scpi_version'', ''set_key_lock'', ''key_lock'', ''set_date'', ''date'',
     ''set_time'', ''time_of_day'', ''set_gpib_address'', ''gpib_address'', ''set_serial_baud'',
     ''serial_baud'', ''set_language'', ''language'', ''reset_timer'', ''timer_reset_time'', ''status'',
     ''set_status'', ''status_operation_condition'', ''read_errors'', ''read_errors_at_once'',
     ''check_errors'', ''set_timeout'']"

text \<open>The names are told apart by a code number, which is quicker to compare than the names.\<close>

definition name_code :: "string \<Rightarrow> int" where
  "name_code s = foldl (\<lambda>a c. (a * 37 + of_char c) mod 8009) 0 s"

lemma method_name_codes: "distinct (map name_code py_method_names)"
  by code_simp

lemma methods_by_name: "map fst (py_methods tr) = py_method_names"
  by (simp add: py_methods_def py_method_names_def py_method_groups)

lemma method_names: "distinct (map fst (py_methods tr))"
  using method_name_codes by (simp add: methods_by_name distinct_map)

lemma method_parameters:
  "list_all (\<lambda>m. distinct (map fst (fst (snd m))) \<and> defaults_trail (fst (snd m))) (py_methods tr)"
  by (simp add: py_methods_def py_method_groups defaults_trail_def)

lemma method_lookup: "m \<in> set (py_methods tr) \<Longrightarrow> map_of (py_methods tr) (fst m) = Some (snd m)"
  using method_names [of tr] by (simp add: map_of_eq_Some_iff)

text \<open>So every call is the same with its last arguments by name.\<close>

lemma py_call_by_name:
  assumes "(name, ps, f) \<in> set (py_methods tr)" "length us + length vs \<le> length ps"
  shows "py_call tr name us (zip (drop (length us) (map fst ps)) vs) = py_call tr name (us @ vs) []"
proof -
  have "distinct (map fst ps)" using method_parameters [of tr] assms(1) by (auto simp: list_all_iff)
  from call_by_name [OF this assms(2)] show ?thesis using method_lookup [OF assms(1)] by (simp add: py_call_def)
qed

section \<open>Settings\<close>













end
