(* ===== verification/Spec2Isabelle.thy ===== *)
theory Spec2Isabelle
  imports Data_Properties Element_Properties Link_Properties Abi_Properties Sim_Main Sim_Compound Python_Properties
begin

text \<open>
  A verification library for NORMAlizer, the C++ client library and the simulator for the
  Fluke NORMA 4000/5000 power analyzers. All paths are below \<open>src/module\<close> of the repository.

  \<^bold>\<open>The program.\<close> A client calls \<open>NormaInstrument\<close> (directly, or through the C interface or the
  Python module). The facade writes SCPI command lines and parses the responses with
  \<open>ScpiClient\<close>, which talks to a \<open>Transport\<close>: a TCP connection, or in-process to the simulator.
  \<open>NormaSimulator\<close> is the instrument's counterpart: it splits a line into commands, looks each up
  in a table of header patterns, executes it on its state, and answers with one line at most.
  \<open>SimulatorServer\<close> serves it on a socket. Errors of commands go into a queue that the client
  drains with \<open>SYST:ERR?\<close>.

  \<^bold>\<open>The theories.\<close> In the order of the code, each importing what it calls:

  \<^item> \<open>Prelude\<close>, \<open>Binary64\<close>, \<open>Number_Text\<close>, \<open>Number_Chars\<close>: character classes and the text helpers the
    components share; \<open>double\<close> as IEEE binary64 with one rounding per operation; the functions of
    the C library between numbers and text (\<open>strtod\<close>, \<open>strtol\<close>, \<open>atoi\<close>, \<open>%.9g\<close>, \<open>%+.*E\<close>) and the
    characters they print.
  \<^item> \<open>Types\<close>, \<open>Cxx_Errors\<close>, \<open>Function_Names\<close>: \<open>types.hpp\<close> and \<open>error.hpp\<close>. An exception is a value of
    \<open>cxx_error\<close>; a function that may throw returns \<open>cxx_error + 'a\<close>; an operation of an object is an
    \<open>io\<close>, from the object's state to \<open>None\<close> (C++ defines no behaviour) or the state it leaves with
    the exception or the value.
  \<^item> \<open>Sim_State\<close>, \<open>Sim_Support\<close>, \<open>Sim_Specs\<close>, \<open>Sim_Measure\<close>, \<open>Sim_Handlers\<close>, \<open>Sim_Calculate\<close>,
    \<open>Simulator\<close>: the simulator, file by file. Its state is the record \<open>simulator\<close> (the members of
    \<open>SimulatorState\<close>, the options and the signal); a handler is a function on the pair of simulator
    and parsed command that an \<open>Access\<close> holds references to; \<open>handle_line\<close> is the whole input unit.
  \<^item> \<open>Scpi_Text\<close>, \<open>Transport\<close>, \<open>Scpi_Client\<close>, \<open>Keywords\<close>: the client (\<open>src/scpi_client.cpp\<close>,
    \<open>src/scpi_keywords.cpp\<close>) over any transport, a record of operations.
  \<^item> \<open>Sim_Transport\<close>: the in-process transport. \<open>Tcp_Transport\<close>: \<open>src/tcp_transport.cpp\<close> over asio.
    \<open>Sim_Server\<close>, \<open>Sim_Main\<close>: \<open>simulator_server.cpp\<close> as a state machine; \<open>norma_sim\<close> with its
    arguments, its start and its reports.
    \<open>Loopback\<close>: the connection between the two, a concrete asio.
  \<^item> \<open>Instrument\<close>, \<open>Instrument_Config\<close>, \<open>Instrument_Data\<close>, \<open>Tcp_Client\<close>: the facade, \<open>norma_x\<close> being the
    member function \<open>x\<close>, with \<open>connect\<close> in the last one.
  \<^item> \<open>C_Abi\<close>: the C interface.
  \<^item> \<open>Python_Bindings\<close>, \<open>Python_Values\<close>, \<open>Python_Methods\<close>: the Python module, that is what it adds to the
    facade, its values, constants, exceptions and builders of names, and the table of the methods of
    \<open>Norma\<close> with the parameters, defaults and the member function behind each; \<open>py_call\<close> is a call by
    name.

  \<^bold>\<open>Interfaces.\<close> Where one part relies on another the contract is a locale, its consequences are
  proved once in it, and the code's models are its interpretations: \<open>state_field\<close> and
  \<open>lens_field\<close> (what a C++ reference into the state is), \<open>machine_invariant\<close> (invariants of the abstract
  machine become invariants of the simulator), \<open>keyword_codec\<close> and \<open>access_codec\<close> (client and
  simulator agree on the text of a value), \<open>line_transport\<close>, \<open>lasting_transport\<close> and
  \<open>error_device\<close> (what the client relies on, at the in-process and at the TCP transport),
  \<open>line_device\<close> and \<open>byte_stream\<close> (what the TCP transport relies on), \<open>remote_member\<close> and
  \<open>remote_setting\<close> (a setter and a getter of the facade over the simulator).

  \<^bold>\<open>What is proved.\<close>

  \<^item> \<open>Sim_Fields\<close>, \<open>Sim_Steps\<close>, \<open>Sim_Refine\<close>, \<open>Sim_Invariants\<close>: every handler refines an abstract
    machine of a few kinds of transition (\<open>sim_step\<close>), so the configuration stays well formed and
    the error queue bounded through any session (C1 to C3).
  \<^item> \<open>Sim_Atomic\<close>, \<open>Sim_Queue\<close>, \<open>Sim_Matching\<close>, \<open>Sim_Measure_Facts\<close>, \<open>Sim_Lines\<close>, \<open>Sim_Properties\<close>: a
    rejected command changes nothing but the queue, a query no setting; table lookup with its
    backtracking is declarative matching and no two entries overlap; when a measurement ends and
    what status it has; the registers, windows and ranges (C4 to C12).
  \<^item> \<open>Sim_Behaviour\<close>, \<open>Sim_Findings\<close>: the error queue, resets and settings on whole command lines
    (C13, C15), and concrete runs where the code departs from its documentation.
  \<^item> \<open>Sim_Compound\<close>: a line of several commands, with headers relative to the one before, is those
    commands in turn with every header written out (C25).
  \<^item> \<open>Client_Session\<close>, \<open>Access_Codec\<close>, \<open>Remote_Settings\<close>, \<open>Remote_Elements\<close>, \<open>Client_Properties\<close>,
    \<open>Element_Properties\<close>, \<open>Data_Properties\<close>: client and simulator together: answers in order, one call
    one line, errors read to the end, settings of members and of array elements and data read back
    as they were written (C14, C16 to C22, C24, C26 to C30).
  \<^item> \<open>Python_Properties\<close>: arguments by position and by name, the tables of the module, and settings read
    back through everything from Python down to the simulator (C23).
  \<^item> \<open>Sim_One_Line\<close>, \<open>Link_Properties\<close>: a response is one line; deadlines and reopening of the TCP
    transport; the server is never stuck and always stops; TCP is like in-process (C31 to C37).
  \<^item> \<open>Abi_Properties\<close>: the status and the buffers of the C interface (C38 to C40).

  \<^bold>\<open>Bounds and loops.\<close> No function runs on fuel chosen for the proof. The client drains at most
  \<open>kMaxErrorQueueDrain\<close> = 64 errors, the code's own bound, and the simulator queues at most 32, so
  the drain is complete (C20). \<open>measure_fn\<close> is a \<open>partial_function\<close>, because the recursion over the
  efficiency references need not end; C7 says exactly when it does. Integers of the code that can
  overflow are wrapped or \<open>None\<close> as C++ has it; a long is 64 bits, an int 32.

  \<^bold>\<open>Parameters.\<close> \<open>cos\<close>, \<open>sin\<close> and \<open>acos\<close> of the C library are the record \<open>libm\<close>, about which nothing is
  assumed. asio is the record \<open>asio\<close> (client side) and \<open>listening\<close> (bind and listen): results of
  its operations are arbitrary but where a theorem names what it relies on, as C32 does (a closed
  socket is not open). On the server side they are the nondeterminism of \<open>server_step\<close>: any
  operation may fail, a read completes with a line or an error, and an accept succeeds only
  while the acceptor is open. \<open>Loopback\<close> instantiates \<open>asio\<close> with the server itself; bytes are
  neither lost nor reordered there, and a line that has not come is not coming.

  \<^bold>\<open>Not modelled.\<close> Threads other than as interleaved steps (the mutex makes the handlers and the
  callers' accesses atomic); when the signal that ends \<open>norma_sim\<close> comes, and its usage text;
  running out of memory, and the catch-all branches for exceptions the library does not throw;
  how pybind11 converts Python objects (a call from Python has values of the C++ types);
  constructors, moves and accessors that only hand an object on; the C# application, examples and tests.
\<close>

end
